(* ===== verification/Raya_Prelude.thy ===== *)
theory Raya_Prelude
  imports "HOL-Library.Word" "HOL-Library.Char_ord" "HOL-Library.Monad_Syntax" "HOL-Library.Sublist"
begin

text \<open>
  Shared ground of the development: the C scalar types the compiler uses, the outcomes that end a
  C execution (abort, failed assertion, undefined behaviour) as values, decimal output as
  printf's percent-u and percent-d formats produce it, and the list lemmas and lemma collections
  that several components use.
\<close>

unbundle bit_operations_syntax

named_theorems arena_simps \<open>unfolding and inversion rules of the arena operations\<close>
named_theorems lexer_frame \<open>what the lexer's operations leave unchanged\<close>
named_theorems parser_frame \<open>what the parser's operations leave unchanged\<close>

section \<open>C types and abnormal outcomes\<close>

type_synonym size_t = "64 word"
type_synonym u32 = "32 word"
type_synonym u64 = "64 word"

text \<open>
  A C function that may not return normally has the result type \<open>abort + 'a\<close>. The
  constructors are the ways the compiler's own code stops: \<open>Out_Of_Memory\<close>,
  \<open>Invalid_Alignment\<close> and \<open>Size_Overflow\<close> are explicit calls of \<open>abort()\<close>,
  \<open>Assertion_Failed\<close> is a failed \<open>assert\<close> and \<open>Undefined_Behaviour\<close> stands for an
  execution the C standard gives no meaning to.
\<close>

datatype abort =
    Out_Of_Memory
  | Invalid_Alignment
  | Size_Overflow
  | Assertion_Failed
  | Undefined_Behaviour

definition size_max :: size_t where
  "size_max = - 1"

lemma unat_size_max: "unat size_max = 2 ^ 64 - 1"
  by (simp add: size_max_def unsigned_minus_1_eq_mask mask_eq_exp_minus_1)

text \<open>Subtraction of \<^verbatim>\<open>size_t\<close> values kept as natural numbers below \<open>2 ^ 64\<close>.\<close>

definition size_sub :: "nat \<Rightarrow> nat \<Rightarrow> nat" where
  "size_sub a b = (if b \<le> a then a - b else 2 ^ 64 + a - b)"

lemma size_sub_le [simp]: "b \<le> a \<Longrightarrow> size_sub a b = a - b"
  by (simp add: size_sub_def)

section \<open>Control characters\<close>

definition NUL :: char where
  "NUL = CHR 0x00"

definition TAB :: char where
  "TAB = CHR 0x09"

definition NL :: char where
  "NL = CHR 0x0A"

definition VT :: char where
  "VT = CHR 0x0B"

definition FF :: char where
  "FF = CHR 0x0C"

definition CR :: char where
  "CR = CHR 0x0D"

definition ESC :: char where
  "ESC = CHR 0x1B"

lemmas control_chars = NUL_def TAB_def NL_def VT_def FF_def CR_def ESC_def

text \<open>
  What \<^verbatim>\<open>printf\<close> writes for \<^verbatim>\<open>%.*s\<close> with the precision \<^verbatim>\<open>(int)n\<close> and a string that goes on as \<open>s\<close>: it
  stops at a zero byte, and a precision the cast makes negative counts as none.
\<close>

definition printf_prec :: "nat \<Rightarrow> string \<Rightarrow> string" where
  "printf_prec n s = takeWhile (\<lambda>c. c \<noteq> NUL)
     (let prec = n mod 2 ^ 32 in if prec < 2 ^ 31 then take prec s else s)"

section \<open>Decimal digits\<close>

definition is_dec :: "char \<Rightarrow> bool" where
  "is_dec c \<longleftrightarrow> CHR ''0'' \<le> c \<and> c \<le> CHR ''9''"

definition digit_char :: "nat \<Rightarrow> char" where
  "digit_char d = char_of (48 + d)"

definition digit_val :: "char \<Rightarrow> nat" where
  "digit_val c = of_char c - 48"

fun show_nat :: "nat \<Rightarrow> string" where
  "show_nat n = (if n < 10 then [digit_char n] else show_nat (n div 10) @ [digit_char (n mod 10)])"

declare show_nat.simps [simp del]

definition show_int :: "int \<Rightarrow> string" where
  "show_int i = (if i < 0 then CHR ''-'' # show_nat (nat (- i)) else show_nat (nat i))"

text \<open>The value of a digit string, most significant digit first.\<close>

definition digits_val :: "nat \<Rightarrow> nat list \<Rightarrow> nat" where
  "digits_val b ds = foldl (\<lambda>v d. v * b + d) 0 ds"

lemma digits_val_Nil [simp]: "digits_val b [] = 0"
  by (simp add: digits_val_def)

lemma digits_val_snoc [simp]: "digits_val b (ds @ [d]) = digits_val b ds * b + d"
  by (simp add: digits_val_def)

lemma digit_val_char [simp]: "d < 10 \<Longrightarrow> digit_val (digit_char d) = d"
  by (simp add: digit_val_def digit_char_def)

lemma is_dec_digit_char [simp]: "d < 10 \<Longrightarrow> is_dec (digit_char d)"
  by (simp add: is_dec_def digit_char_def less_eq_char_def)

lemma digit_val_less: "is_dec c \<Longrightarrow> digit_val c < 10"
  unfolding is_dec_def digit_val_def less_eq_char_def by (simp, arith)

lemma show_nat_nonempty [simp]: "show_nat n \<noteq> []"
  by (subst show_nat.simps) simp

lemma show_nat_digits: "\<forall>c \<in> set (show_nat n). is_dec c"
proof (induction n rule: show_nat.induct)
  case (1 n)
  then show ?case by (subst show_nat.simps) auto
qed

text \<open>Decimal output is read back to the number it was printed from.\<close>

lemma digits_val_show_nat: "digits_val 10 (map digit_val (show_nat n)) = n"
proof (induction n rule: show_nat.induct)
  case (1 n)
  then show ?case by (subst show_nat.simps) (auto simp: digits_val_def)
qed

end
