(* ===== verification/Arena.thy ===== *)
theory Arena
  imports Raya_Prelude
begin

text \<open>
  The bump allocator of \<^verbatim>\<open>src/arena.c\<close>: a chain of chunks, the first of which is the
  \<^verbatim>\<open>Arena\<close> object itself, each with a block of memory obtained from \<^verbatim>\<open>malloc\<close>.

  A chunk's \<^verbatim>\<open>next\<close> pointer is the position in the list \<open>chunks\<close>; a pointer into the arena
  is a chunk position and an offset from that chunk's \<^verbatim>\<open>base\<close>. Sizes are 64-bit words, so that
  every addition wraps as \<^verbatim>\<open>size_t\<close> does. \<^verbatim>\<open>malloc\<close> is the parameter \<open>mal\<close>: the bytes
  of the block the n-th call for a given size returns, or \<open>None\<close> for a null pointer.
\<close>

section \<open>State\<close>

record chunk =
  mem :: "char list"
  used :: size_t
  capacity :: size_t

record arena =
  chunks :: "chunk list"
  mallocs :: nat

datatype ptr = Ptr (ptr_blk: nat) (ptr_off: nat)

type_synonym malloc_fun = "nat \<Rightarrow> size_t \<Rightarrow> char list option"

definition arena_default_capacity :: size_t where
  "arena_default_capacity = 1024 * 1024"

definition sizeof_arena :: size_t where
  "sizeof_arena = 32"

section \<open>Operations\<close>

definition arena_set :: "arena \<Rightarrow> arena" where
  "arena_set a = (case chunks a of
     [] \<Rightarrow> a
   | c # cs \<Rightarrow> a\<lparr>chunks := c\<lparr>used := 0\<rparr> # cs\<rparr>)"

definition is_power_of_two :: "size_t \<Rightarrow> bool" where
  "is_power_of_two x \<longleftrightarrow> x \<noteq> 0 \<and> (x AND (x - 1)) = 0"

definition align_up :: "size_t \<Rightarrow> size_t \<Rightarrow> abort + size_t" where
  "align_up v algn =
     (if \<not> is_power_of_two algn then Inl Assertion_Failed
      else let msk = algn - 1 in
        if v > size_max - msk then Inl Size_Overflow
        else Inr ((v + msk) AND NOT msk))"


text \<open>The chunk header and its block are two calls of \<^verbatim>\<open>malloc\<close>; either may fail.\<close>

definition arena_new_chunk :: "malloc_fun \<Rightarrow> nat \<Rightarrow> size_t \<Rightarrow> abort + chunk" where
  "arena_new_chunk mal n min_size =
     (let cap = (if min_size > arena_default_capacity then min_size else arena_default_capacity) in
      case mal n sizeof_arena of
        None \<Rightarrow> Inl Out_Of_Memory
      | Some _ \<Rightarrow>
          (case mal (Suc n) cap of
             None \<Rightarrow> Inl Out_Of_Memory
           | Some blk \<Rightarrow> Inr \<lparr>mem = blk, used = 0, capacity = cap\<rparr>))"

text \<open>
  The search along the chain: the first chunk whose rounded-up position leaves room serves the
  request. The addition \<open>aligned + size\<close> is not checked for wrap-around, as in the source.
\<close>

definition aligned_pos :: "size_t \<Rightarrow> size_t \<Rightarrow> size_t" where
  "aligned_pos u algn = (u + algn - 1) AND NOT (algn - 1)"

fun chunk_scan :: "size_t \<Rightarrow> size_t \<Rightarrow> nat \<Rightarrow> chunk list \<Rightarrow> (ptr \<times> chunk list) option" where
  "chunk_scan sz algn k [] = None"
| "chunk_scan sz algn k (c # cs) =
     (let aligned = aligned_pos (used c) algn in
      if aligned + sz \<le> capacity c
      then Some (Ptr k (unat aligned), c\<lparr>used := aligned + sz\<rparr> # cs)
      else (case chunk_scan sz algn (Suc k) cs of
              None \<Rightarrow> None
            | Some (p, cs') \<Rightarrow> Some (p, c # cs')))"

definition arena_alloc_aligned ::
    "malloc_fun \<Rightarrow> arena \<Rightarrow> size_t \<Rightarrow> size_t \<Rightarrow> abort + (ptr \<times> arena)" where
  "arena_alloc_aligned mal a sz algn =
     (if algn = 0 \<or> \<not> is_power_of_two algn then Inl Invalid_Alignment
      else case chunk_scan sz algn 0 (chunks a) of
        Some (p, cs) \<Rightarrow> Inr (p, a\<lparr>chunks := cs\<rparr>)
      | None \<Rightarrow>
          if sz > size_max - algn then Inl Size_Overflow
          else (case arena_new_chunk mal (mallocs a) (sz + algn) of
                  Inl e \<Rightarrow> Inl e
                | Inr nc \<Rightarrow>
                    (case align_up 0 algn of
                       Inl e \<Rightarrow> Inl e
                     | Inr aligned \<Rightarrow>
                         Inr (Ptr (length (chunks a)) (unat aligned),
                              a\<lparr>chunks := chunks a @ [nc\<lparr>used := aligned + sz\<rparr>],
                                mallocs := mallocs a + 2\<rparr>))))"

definition arena_alloc :: "malloc_fun \<Rightarrow> arena \<Rightarrow> size_t \<Rightarrow> abort + (ptr \<times> arena)" where
  "arena_alloc mal a sz = arena_alloc_aligned mal a sz 8"

text \<open>
  Reading and writing arena memory; \<open>None\<close> when the access leaves the block. A copy whose
  source and destination overlap is undefined in C and therefore fails as well.
\<close>

fun mem_read :: "arena \<Rightarrow> ptr \<Rightarrow> nat \<Rightarrow> string option" where
  "mem_read a (Ptr k p) n =
     (if k < length (chunks a) \<and> p + n \<le> length (mem (chunks a ! k))
      then Some (take n (drop p (mem (chunks a ! k)))) else None)"

fun mem_write :: "arena \<Rightarrow> ptr \<Rightarrow> string \<Rightarrow> arena option" where
  "mem_write a (Ptr k p) bs =
     (if k < length (chunks a) \<and> p + length bs \<le> length (mem (chunks a ! k))
      then let c = chunks a ! k; m = mem c in
        Some (a\<lparr>chunks := (chunks a)[k := c\<lparr>mem := take p m @ bs @ drop (p + length bs) m\<rparr>]\<rparr>)
      else None)"

fun disjoint_regions :: "ptr \<times> nat \<Rightarrow> ptr \<times> nat \<Rightarrow> bool" where
  "disjoint_regions (Ptr k p, n) (Ptr l q, m) \<longleftrightarrow> k \<noteq> l \<or> p + n \<le> q \<or> q + m \<le> p"

definition mem_copy :: "arena \<Rightarrow> ptr \<Rightarrow> ptr \<Rightarrow> nat \<Rightarrow> abort + arena" where
  "mem_copy a dst src n =
     (if \<not> disjoint_regions (dst, n) (src, n) then Inl Undefined_Behaviour
      else case mem_read a src n of
        None \<Rightarrow> Inl Undefined_Behaviour
      | Some bs \<Rightarrow> (case mem_write a dst bs of
                      None \<Rightarrow> Inl Undefined_Behaviour
                    | Some a' \<Rightarrow> Inr a'))"

definition arena_realloc ::
    "malloc_fun \<Rightarrow> arena \<Rightarrow> ptr option \<Rightarrow> size_t \<Rightarrow> size_t \<Rightarrow> abort + (ptr \<times> arena)" where
  "arena_realloc mal a old_ptr old_size new_size =
     (case arena_alloc mal a new_size of
        Inl e \<Rightarrow> Inl e
      | Inr (new_ptr, a1) \<Rightarrow>
          (case old_ptr of
             None \<Rightarrow> Inr (new_ptr, a1)
           | Some q \<Rightarrow>
               if old_size > 0
               then map_sum id (\<lambda>a2. (new_ptr, a2))
                      (mem_copy a1 new_ptr q (unat (if old_size < new_size then old_size else new_size)))
               else Inr (new_ptr, a1)))"

text \<open>
  The string to be duplicated lives outside the arena: it is the list of the bytes that may be
  read through the pointer, \<open>None\<close> for a null pointer. \<^verbatim>\<open>strlen\<close> needs a NUL among them.
\<close>

definition c_strlen :: "string \<Rightarrow> nat option" where
  "c_strlen bs = (if NUL \<in> set bs then Some (length (takeWhile (\<lambda>c. c \<noteq> NUL) bs)) else None)"

definition arena_strdup ::
    "malloc_fun \<Rightarrow> arena \<Rightarrow> string option \<Rightarrow> abort + (ptr option \<times> arena)" where
  "arena_strdup mal a s =
     (case s of
        None \<Rightarrow> Inr (None, a)
      | Some bs \<Rightarrow>
          (case c_strlen bs of
             None \<Rightarrow> Inl Undefined_Behaviour
           | Some len \<Rightarrow>
               (case arena_alloc mal a (of_nat len + 1) of
                  Inl e \<Rightarrow> Inl e
                | Inr (copy, a1) \<Rightarrow>
                    (case mem_write a1 copy (take (len + 1) bs) of
                       None \<Rightarrow> Inl Undefined_Behaviour
                     | Some a2 \<Rightarrow> Inr (Some copy, a2)))))"

definition arena_strndup ::
    "malloc_fun \<Rightarrow> arena \<Rightarrow> string option \<Rightarrow> size_t \<Rightarrow> abort + (ptr option \<times> arena)" where
  "arena_strndup mal a s n =
     (case s of
        None \<Rightarrow> Inr (None, a)
      | Some bs \<Rightarrow>
          (case arena_alloc mal a (n + 1) of
             Inl e \<Rightarrow> Inl e
           | Inr (copy, a1) \<Rightarrow>
               if length bs < unat n then Inl Undefined_Behaviour
               else (case mem_write a1 copy (take (unat n) bs) of
                       None \<Rightarrow> Inl Undefined_Behaviour
                     | Some a2 \<Rightarrow>
                         (case mem_write a2 (Ptr (ptr_blk copy) (ptr_off copy + unat n)) [NUL] of
                            None \<Rightarrow> Inl Undefined_Behaviour
                          | Some a3 \<Rightarrow> Inr (Some copy, a3)))))"

definition arena_reset :: "arena \<Rightarrow> arena" where
  "arena_reset a = a\<lparr>chunks := map (\<lambda>c. c\<lparr>used := 0\<rparr>) (chunks a)\<rparr>"

text \<open>Every block is freed and the chain is cut; only the \<^verbatim>\<open>Arena\<close> object itself remains.\<close>

definition arena_free_all :: "arena \<Rightarrow> arena" where
  "arena_free_all a = a\<lparr>chunks := [\<lparr>mem = [], used = 0, capacity = 0\<rparr>]\<rparr>"

section \<open>Alignment arithmetic\<close>

lemma power_of_two_exponent:
  assumes "is_power_of_two x"
  shows "\<exists>k<64. x = 2 ^ k"
proof -
  define n where "n = unat x"
  have npos: "0 < n" and and0: "n AND (n - 1) = 0"
  proof -
    from assms have "x \<noteq> 0" and "x AND (x - 1) = 0" by (auto simp: is_power_of_two_def)
    then show "0 < n" by (simp add: n_def unat_gt_0)
    have "unat (x - 1) = n - 1" using \<open>x \<noteq> 0\<close> by (simp add: n_def unat_minus_one)
    moreover have "unat (x AND (x - 1)) = 0" using \<open>x AND (x - 1) = 0\<close> by simp
    ultimately show "n AND (n - 1) = 0" by (simp add: n_def unsigned_and_eq)
  qed
  obtain k where k: "2 ^ k \<le> n" "n < 2 ^ Suc k"
    using npos ex_power_ivl1 [of 2 n] by auto
  have bit_k: "bit m k" if "2 ^ k \<le> m" "m < 2 ^ Suc k" for m :: nat
  proof -
    from that have "m div 2 ^ k = 1" by (simp add: div_nat_eqI)
    then show ?thesis by (simp add: bit_iff_odd)
  qed
  have "n = 2 ^ k"
  proof (rule ccontr)
    assume "n \<noteq> 2 ^ k"
    with k have "2 ^ k \<le> n - 1" "n - 1 < 2 ^ Suc k" by auto
    with k have "bit (n AND (n - 1)) k" by (simp add: bit_and_iff bit_k)
    with and0 show False by simp
  qed
  moreover have "k < 64"
  proof -
    have "n < 2 ^ 64" using unsigned_less [of x] by (simp add: n_def)
    with \<open>n = 2 ^ k\<close> show ?thesis using power_less_imp_less_exp [of 2 k 64] by simp
  qed
  moreover have "x = 2 ^ k"
    using arg_cong [OF \<open>n = 2 ^ k\<close>, of "of_nat :: nat \<Rightarrow> size_t"] by (simp add: n_def)
  ultimately show ?thesis by blast
qed

lemma power_of_two_8: "is_power_of_two 8"
  by (simp add: is_power_of_two_def)

lemma and_not_mask_bounds:
  fixes v m :: size_t
  shows "v AND NOT m \<le> v" and "m \<le> v \<Longrightarrow> v - m \<le> v AND NOT m"
proof -
  show "v AND NOT m \<le> v" by (rule word_and_le2)
  assume "m \<le> v"
  have "v - (v AND m) = v AND NOT (v AND m)"
    by (rule disjunctive_diff_eq_and_not) (simp add: bit_eq_iff bit_simps)
  also have "v AND NOT (v AND m) = v AND NOT m"
    by (auto simp: bit_eq_iff bit_simps)
  finally have "v AND NOT m = v - (v AND m)" by simp
  moreover have "v AND m \<le> m" by (rule word_and_le1)
  ultimately show "v - m \<le> v AND NOT m"
    using \<open>m \<le> v\<close> by (auto simp: word_le_nat_alt unat_sub word_and_le2)
qed

text \<open>
  The rounding of the allocator, on natural numbers: as long as the sum does not wrap, the result
  is a multiple of the alignment between the current position and the next multiple.
\<close>

lemma aligned_pos_nat:
  assumes pow: "is_power_of_two algn" and nowrap: "unat u + unat algn < 2 ^ 64"
  shows "unat u \<le> unat (aligned_pos u algn)"
    and "unat (aligned_pos u algn) < unat u + unat algn"
    and "unat algn dvd unat (aligned_pos u algn)"
proof -
  obtain k where k: "k < 64" "algn = 2 ^ k" using power_of_two_exponent [OF pow] by blast
  have mask_eq: "algn - 1 = mask k" by (simp add: k mask_eq_exp_minus_1)
  have algn_nat: "unat algn = 2 ^ k" 
  proof -
    have "(2::nat) ^ k < 2 ^ 64" using k(1) by (rule power_strict_increasing) simp
    then have "unat (word_of_nat (2 ^ k) :: size_t) = 2 ^ k" by (simp only: unat_of_nat) simp
    then show ?thesis by (simp add: k(2))
  qed
  have pos: "0 < unat algn" by (simp add: algn_nat)
  define v where "v = u + (algn - 1)"
  have unat_m: "unat (algn - 1) = unat algn - 1"
    using pos by (metis unat_minus_one unat_0 less_irrefl)
  have v: "unat v = unat u + (unat algn - 1)"
    using nowrap pos by (simp add: v_def unat_m unat_word_ariths)
  have al: "aligned_pos u algn = v AND NOT (algn - 1)"
    by (simp add: aligned_pos_def v_def algebra_simps)
  have mv: "algn - 1 \<le> v" using v by (simp add: word_le_nat_alt unat_m)
  have "unat (v - (algn - 1)) = unat u"
    using mv by (simp add: v_def)
  with and_not_mask_bounds(2) [OF mv] show "unat u \<le> unat (aligned_pos u algn)"
    by (simp add: al word_le_nat_alt)
  have "unat (aligned_pos u algn) \<le> unat v"
    using and_not_mask_bounds(1) [of v "algn - 1"] by (simp add: al word_le_nat_alt)
  with v pos show "unat (aligned_pos u algn) < unat u + unat algn" by simp
  have "take_bit k (aligned_pos u algn) = 0"
    by (auto simp: al mask_eq bit_eq_iff bit_simps)
  then have "take_bit k (unat (aligned_pos u algn)) = 0"
    by (metis unsigned_take_bit_eq unsigned_0)
  then show "unat algn dvd unat (aligned_pos u algn)"
    by (simp add: algn_nat take_bit_eq_mod mod_eq_0_iff_dvd)
qed

lemma align_up_zero: "is_power_of_two algn \<Longrightarrow> align_up 0 algn = Inr 0"
  by (simp add: align_up_def Let_def word_le_minus_mono_left size_max_def)

section \<open>The allocator invariant\<close>

text \<open>
  \<open>arena_ok\<close>: the chain is not empty and no chunk has handed out more than it holds.
  \<open>arena_small\<close> bounds the capacities and \<open>small_request\<close> the requests, by amounts far
  above any real one, so that the unchecked sum \<open>aligned + size\<close> cannot wrap.
\<close>

definition chunk_ok :: "chunk \<Rightarrow> bool" where
  "chunk_ok c \<longleftrightarrow> used c \<le> capacity c"

definition arena_ok :: "arena \<Rightarrow> bool" where
  "arena_ok a \<longleftrightarrow> chunks a \<noteq> [] \<and> (\<forall>c \<in> set (chunks a). chunk_ok c)"

definition mem_ok :: "arena \<Rightarrow> bool" where
  "mem_ok a \<longleftrightarrow> (\<forall>c \<in> set (chunks a). length (mem c) = unat (capacity c))"

definition malloc_ok :: "malloc_fun \<Rightarrow> bool" where
  "malloc_ok mal \<longleftrightarrow> (\<forall>n sz b. mal n sz = Some b \<longrightarrow> length b = unat sz)"

definition arena_small :: "arena \<Rightarrow> bool" where
  "arena_small a \<longleftrightarrow> (\<forall>c \<in> set (chunks a). unat (capacity c) \<le> 2 ^ 62)"

definition small_request :: "size_t \<times> size_t \<Rightarrow> bool" where
  "small_request r \<longleftrightarrow> unat (fst r) \<le> 2 ^ 61 \<and> unat (snd r) \<le> 2 ^ 61"

fun in_used :: "arena \<Rightarrow> ptr \<times> nat \<Rightarrow> bool" where
  "in_used a (Ptr k p, n) \<longleftrightarrow> k < length (chunks a) \<and> p + n \<le> unat (used (chunks a ! k))"

lemma disjoint_regions_sym: "disjoint_regions r s \<Longrightarrow> disjoint_regions s r"
  by (cases "(r, s)" rule: disjoint_regions.cases) auto

lemma chunk_scan_spec:
  assumes "chunk_scan sz algn k cs = Some (p, cs')" "is_power_of_two algn"
    and "\<forall>c \<in> set cs. chunk_ok c \<and> unat (capacity c) + unat algn + unat sz < 2 ^ 64"
  shows "\<exists>i q. i < length cs \<and> p = Ptr (k + i) (unat q)
    \<and> unat (used (cs ! i)) \<le> unat q \<and> unat algn dvd unat q
    \<and> unat (q + sz) = unat q + unat sz \<and> q + sz \<le> capacity (cs ! i)
    \<and> cs' = cs[i := (cs ! i)\<lparr>used := q + sz\<rparr>]"
  using assms
proof (induction cs arbitrary: k p cs')
  case Nil
  then show ?case by simp
next
  case (Cons c cs)
  let ?q = "aligned_pos (used c) algn"
  show ?case
  proof (cases "?q + sz \<le> capacity c")
    case True
    have ok: "unat (used c) \<le> unat (capacity c)"
      and fit: "unat (capacity c) + unat algn + unat sz < 2 ^ 64"
      using Cons.prems(3) by (auto simp: chunk_ok_def word_le_nat_alt)
    then have nowrap: "unat (used c) + unat algn < 2 ^ 64" by linarith
    note al = aligned_pos_nat [OF Cons.prems(2) nowrap]
    have "unat (?q + sz) = unat ?q + unat sz"
      using al(2) ok fit by (subst unat_add_lem [THEN iffD1]) auto
    with True al Cons.prems(1) show ?thesis
      by (intro exI [of _ 0] exI [of _ ?q]) (auto simp: Let_def)
  next
    case False
    with Cons.prems(1) obtain cs'' where
      rec: "chunk_scan sz algn (Suc k) cs = Some (p, cs'')" and cs': "cs' = c # cs''"
      by (auto simp: Let_def split: option.splits)
    from Cons.IH [OF rec Cons.prems(2)] Cons.prems(3)
    obtain i q where "i < length cs" "p = Ptr (Suc k + i) (unat q)"
      "unat (used (cs ! i)) \<le> unat q" "unat algn dvd unat q"
      "unat (q + sz) = unat q + unat sz" "q + sz \<le> capacity (cs ! i)"
      "cs'' = cs[i := (cs ! i)\<lparr>used := q + sz\<rparr>]"
      by auto
    with cs' show ?thesis by (intro exI [of _ "Suc i"] exI [of _ q]) auto
  qed
qed

lemma new_chunk_spec:
  assumes "arena_new_chunk mal n sz = Inr nc"
  shows "used nc = 0" and "sz \<le> capacity nc"
    and "capacity nc = (if sz > arena_default_capacity then sz else arena_default_capacity)"
    and "malloc_ok mal \<Longrightarrow> length (mem nc) = unat (capacity nc)"
  using assms
  by (auto simp: arena_new_chunk_def Let_def malloc_ok_def split: option.splits if_splits)

text \<open>A request is served by a chunk of the chain or by one fresh chunk at its end.\<close>

lemma alloc_cases:
  assumes "arena_alloc_aligned mal a sz algn = Inr (p, a')"
    and "arena_ok a" "arena_small a" "small_request (sz, algn)"
  obtains
    (old) i q where "i < length (chunks a)" "p = Ptr i (unat q)"
      "unat (used (chunks a ! i)) \<le> unat q" "unat algn dvd unat q"
      "unat (q + sz) = unat q + unat sz" "q + sz \<le> capacity (chunks a ! i)"
      "a' = a\<lparr>chunks := (chunks a)[i := (chunks a ! i)\<lparr>used := q + sz\<rparr>]\<rparr>"
  | (new) nc where "p = Ptr (length (chunks a)) 0"
      "arena_new_chunk mal (mallocs a) (sz + algn) = Inr nc"
      "unat (sz + algn) = unat sz + unat algn"
      "a' = a\<lparr>chunks := chunks a @ [nc\<lparr>used := sz\<rparr>], mallocs := mallocs a + 2\<rparr>"
proof -
  from assms(1) have pow: "is_power_of_two algn"
    by (auto simp: arena_alloc_aligned_def split: if_splits)
  have sum: "unat (sz + algn) = unat sz + unat algn"
    using assms(4) by (intro unat_add_lem [THEN iffD1]) (simp add: small_request_def)
  show thesis
  proof (cases "chunk_scan sz algn 0 (chunks a)")
    case None
    with assms(1) pow obtain nc where "arena_new_chunk mal (mallocs a) (sz + algn) = Inr nc"
      "p = Ptr (length (chunks a)) 0"
      "a' = a\<lparr>chunks := chunks a @ [nc\<lparr>used := sz\<rparr>], mallocs := mallocs a + 2\<rparr>"
      by (auto simp: arena_alloc_aligned_def align_up_zero split: sum.splits if_splits)
    with sum show thesis by (intro new)
  next
    case (Some r)
    then obtain p' cs where r: "chunk_scan sz algn 0 (chunks a) = Some (p', cs)" by (cases r) auto
    with assms(1) pow have eqs: "p' = p" "a' = a\<lparr>chunks := cs\<rparr>"
      by (auto simp: arena_alloc_aligned_def split: if_splits)
    have "\<forall>c \<in> set (chunks a). chunk_ok c \<and> unat (capacity c) + unat algn + unat sz < 2 ^ 64"
      using assms(2-4) by (fastforce simp: arena_ok_def arena_small_def small_request_def)
    from chunk_scan_spec [OF r pow this] obtain i q where "i < length (chunks a)"
      "p' = Ptr (0 + i) (unat q)" "unat (used (chunks a ! i)) \<le> unat q" "unat algn dvd unat q"
      "unat (q + sz) = unat q + unat sz" "q + sz \<le> capacity (chunks a ! i)"
      "cs = (chunks a)[i := (chunks a ! i)\<lparr>used := q + sz\<rparr>]"
      by blast
    with eqs show thesis by (intro old [of i q]) auto
  qed
qed

lemma alloc_keeps_ok:
  assumes "arena_alloc_aligned mal a sz algn = Inr (p, a')"
    and ok: "arena_ok a" and small: "arena_small a" and req: "small_request (sz, algn)"
  shows "arena_ok a'" and "arena_small a'"
proof -
  have "arena_ok a' \<and> arena_small a'"
    using assms(1) ok small req
  proof (cases rule: alloc_cases)
    case (old i q)
    have "chunk_ok (chunks a ! i) \<and> unat (capacity (chunks a ! i)) \<le> 2 ^ 62"
      using ok small old(1) by (auto simp: arena_ok_def arena_small_def)
    with old ok small show ?thesis
      by (auto simp: arena_ok_def arena_small_def chunk_ok_def
          dest!: set_update_subset_insert [THEN subsetD])
  next
    case (new nc)
    have "sz \<le> capacity nc" "unat (capacity nc) \<le> 2 ^ 62"
    proof -
      have "sz \<le> sz + algn" using new(3) by (simp add: word_le_nat_alt)
      then show "sz \<le> capacity nc" using new_chunk_spec(2) [OF new(2)] by (rule order_trans)
      show "unat (capacity nc) \<le> 2 ^ 62"
        using new_chunk_spec(3) [OF new(2)] new(3) req
        by (auto simp: small_request_def arena_default_capacity_def split: if_splits)
    qed
    with new ok small show ?thesis
      by (auto simp: arena_ok_def arena_small_def chunk_ok_def)
  qed
  then show "arena_ok a'" "arena_small a'" by auto
qed

lemma alloc_region:
  assumes "arena_alloc_aligned mal a sz algn = Inr (p, a')"
    and ok: "arena_ok a" and small: "arena_small a" and req: "small_request (sz, algn)"
  shows "in_used a' (p, unat sz)" and "unat algn dvd ptr_off p"
    and "in_used a r \<Longrightarrow> in_used a' r \<and> disjoint_regions (p, unat sz) r"
proof -
  obtain k q n where r: "r = (Ptr k q, n)" by (metis prod.exhaust ptr.exhaust)
  have "in_used a' (p, unat sz) \<and> unat algn dvd ptr_off p
    \<and> (in_used a r \<longrightarrow> in_used a' r \<and> disjoint_regions (p, unat sz) r)"
    using assms(1) ok small req
  proof (cases rule: alloc_cases)
    case (old i q')
    then show ?thesis by (auto simp: r nth_list_update)
  next
    case (new nc)
    then show ?thesis by (auto simp: r nth_append)
  qed
  then show "in_used a' (p, unat sz)" "unat algn dvd ptr_off p"
    "in_used a r \<Longrightarrow> in_used a' r \<and> disjoint_regions (p, unat sz) r" by auto
qed

lemma mem_ok_nth:
  "mem_ok a \<longleftrightarrow> (\<forall>i < length (chunks a). length (mem (chunks a ! i)) = unat (capacity (chunks a ! i)))"
  by (auto simp: mem_ok_def all_set_conv_all_nth)

lemma alloc_mem:
  assumes "arena_alloc_aligned mal a sz algn = Inr (p, a')"
    and ok: "arena_ok a" and small: "arena_small a" and req: "small_request (sz, algn)"
  shows "mem_read a q n = Some bs \<Longrightarrow> mem_read a' q n = Some bs"
    and "malloc_ok mal \<Longrightarrow> mem_ok a \<Longrightarrow> mem_ok a'"
proof -
  have "(mem_read a q n = Some bs \<longrightarrow> mem_read a' q n = Some bs)
    \<and> (malloc_ok mal \<longrightarrow> mem_ok a \<longrightarrow> mem_ok a')"
    using assms(1) ok small req
  proof (cases rule: alloc_cases)
    case (old i q')
    then show ?thesis
      by (cases q) (auto simp: nth_list_update mem_ok_nth split: if_splits)
  next
    case (new nc)
    then show ?thesis
      by (cases q) (auto simp: nth_append mem_ok_def new_chunk_spec(4) split: if_splits)
  qed
  then show "mem_read a q n = Some bs \<Longrightarrow> mem_read a' q n = Some bs"
    and "malloc_ok mal \<Longrightarrow> mem_ok a \<Longrightarrow> mem_ok a'" by auto
qed

section \<open>The interface of a region allocator\<close>












section \<open>Contents of arena memory\<close>

lemma in_used_writable:
  assumes "in_used a (p, n)" "arena_ok a" "mem_ok a" "length bs \<le> n"
  obtains a' where "mem_write a p bs = Some a'" "mem_read a' p (length bs) = Some bs"
    "arena_ok a'" "mem_ok a'" "length (chunks a') = length (chunks a)"
    "\<And>r. in_used a' r = in_used a r"
proof -
  obtain k q where p: "p = Ptr k q" by (cases p)
  define c where "c = chunks a ! k"
  define c' where "c' = c\<lparr>mem := take q (mem c) @ bs @ drop (q + length bs) (mem c)\<rparr>"
  have k: "k < length (chunks a)" and le: "q + length bs \<le> length (mem c)"
  proof -
    show "k < length (chunks a)" using assms(1) p by simp
    then have "used c \<le> capacity c \<and> length (mem c) = unat (capacity c)"
      using assms(2,3) by (auto simp: arena_ok_def chunk_ok_def mem_ok_def c_def)
    with assms(1,4) p show "q + length bs \<le> length (mem c)"
      by (auto simp: c_def word_le_nat_alt)
  qed
  have len: "length (mem c') = length (mem c)" using le by (simp add: c'_def)
  let ?a = "a\<lparr>chunks := (chunks a)[k := c']\<rparr>"
  show thesis
  proof (rule that)
    show "mem_write a p bs = Some ?a" using k le by (simp add: p c_def c'_def Let_def)
    show "mem_read ?a p (length bs) = Some bs" using k le by (simp add: p len) (simp add: c'_def)
    have mem: "c \<in> set (chunks a)" using k by (simp add: c_def)
    show "arena_ok ?a"
      using assms(2) mem k by (auto simp: arena_ok_def chunk_ok_def c'_def
          dest!: set_update_subset_insert [THEN subsetD])
    show "mem_ok ?a"
      using assms(3) mem k len by (auto simp: mem_ok_def c'_def
          dest!: set_update_subset_insert [THEN subsetD])
    show "in_used ?a r = in_used a r" for r
      using k by (cases "(a, r)" rule: in_used.cases) (auto simp: nth_list_update c'_def c_def)
  qed simp
qed

lemma take_drop_overwrite:
  assumes "q + n \<le> length m"
  shows "take (n + length ys) (drop q (take (q + n) m @ ys @ zs)) = take n (drop q m) @ ys"
  using assms by (simp add: drop_take)

lemma mem_write_after_read:
  assumes "mem_read a (Ptr k q) n = Some xs" "mem_write a (Ptr k (q + n)) ys = Some a'"
  shows "mem_read a' (Ptr k q) (n + length ys) = Some (xs @ ys)"
proof -
  from assms have k: "k < length (chunks a)" and le: "q + n + length ys \<le> length (mem (chunks a ! k))"
    and a': "mem (chunks a' ! k) = take (q + n) (mem (chunks a ! k)) @ ys @ drop (q + n + length ys) (mem (chunks a ! k))"
    "length (chunks a') = length (chunks a)" and xs: "xs = take n (drop q (mem (chunks a ! k)))"
    by (auto simp: Let_def split: if_splits)
  have "length (mem (chunks a' ! k)) = length (mem (chunks a ! k))"
    using le by (simp add: a'(1))
  with k le show ?thesis
    by (simp add: a'(2)) (simp add: a'(1) xs drop_take)
qed

text \<open>
  C32. \<^verbatim>\<open>arena_strndup\<close> returns a NUL-terminated copy of the first \<open>n\<close> bytes in memory that
  no earlier allocation owns, whenever the allocation itself succeeds.
\<close>

theorem arena_strndup_copies:
  assumes "arena_ok a" "arena_small a" "mem_ok a" "malloc_ok mal"
    and "unat n < 2 ^ 61" "unat n \<le> length bs"
    and alloc: "arena_alloc mal a (n + 1) = Inr (p, a1)"
  shows "\<exists>a'. arena_strndup mal a (Some bs) n = Inr (Some p, a')
    \<and> mem_read a' p (unat n + 1) = Some (take (unat n) bs @ [NUL])
    \<and> (\<forall>r. in_used a r \<longrightarrow> disjoint_regions (p, unat n + 1) r)"
proof -
  have n1: "unat (n + 1) = unat n + 1"
    using assms(5) by (subst unat_add_lem [THEN iffD1]) auto
  have req: "small_request (n + 1, 8)" using assms(5) n1 by (simp add: small_request_def)
  note al = alloc [unfolded arena_alloc_def]
  have a1: "arena_ok a1" "mem_ok a1" "in_used a1 (p, unat n + 1)"
    using alloc_keeps_ok [OF al assms(1,2) req] alloc_mem(2) [OF al assms(1,2) req assms(4,3)]
      alloc_region(1) [OF al assms(1,2) req] n1 by auto
  define cs where "cs = take (unat n) bs"
  have len: "length cs = unat n" using assms(6) by (simp add: cs_def)
  obtain a2 where a2: "mem_write a1 p cs = Some a2"
    "mem_read a2 p (unat n) = Some cs" "arena_ok a2" "mem_ok a2"
    "\<And>r. in_used a2 r = in_used a1 r"
    by (rule in_used_writable [OF a1(3,1,2), of cs]) (auto simp: len simp del: in_used.simps)
  obtain k q where p: "p = Ptr k q" by (cases p)
  have "in_used a2 (Ptr k (q + unat n), 1)" using a1(3) a2(5) [of "(p, unat n + 1)"] p
    a2(5) [of "(Ptr k (q + unat n), 1)"] by simp
  then obtain a3 where a3: "mem_write a2 (Ptr k (q + unat n)) [NUL] = Some a3"
    by (rule in_used_writable [OF _ a2(3,4), of _ _ "[NUL]"]) auto
  have "mem_read a3 p (unat n + 1) = Some (cs @ [NUL])"
    using mem_write_after_read [OF a2(2) [unfolded p] a3] by (simp add: p)
  moreover have "arena_strndup mal a (Some bs) n = Inr (Some p, a3)"
    using alloc a2(1) a3 assms(6) unfolding arena_strndup_def cs_def p by simp
  moreover have "in_used a r \<longrightarrow> disjoint_regions (p, unat n + 1) r" for r
    using alloc_region(3) [OF al assms(1,2) req, of r] n1 by simp
  ultimately show ?thesis unfolding cs_def by blast
qed

lemma in_used_readable:
  assumes "in_used a (q, n)" "arena_ok a" "mem_ok a" "m \<le> n"
  shows "\<exists>bs. mem_read a q m = Some bs \<and> length bs = m"
proof -
  obtain k o' where q: "q = Ptr k o'" by (cases q)
  have "chunks a ! k \<in> set (chunks a)" using assms(1) q by simp
  then have "used (chunks a ! k) \<le> capacity (chunks a ! k)"
    "length (mem (chunks a ! k)) = unat (capacity (chunks a ! k))"
    using assms(2,3) by (auto simp: arena_ok_def chunk_ok_def mem_ok_def)
  with assms(1,4) q show ?thesis by (auto simp: word_le_nat_alt)
qed

lemma disjoint_regions_shrink:
  "disjoint_regions (p, n) (q, m) \<Longrightarrow> n' \<le> n \<Longrightarrow> m' \<le> m \<Longrightarrow> disjoint_regions (p, n') (q, m')"
  by (cases p; cases q) auto

text \<open>
  C33. \<^verbatim>\<open>arena_realloc\<close> of an owned region never copies between overlapping objects and the new
  region starts with the old contents, up to the smaller of the two sizes.
\<close>

theorem arena_realloc_keeps_prefix:
  assumes "arena_ok a" "arena_small a" "mem_ok a" "malloc_ok mal"
    and req: "small_request (new_size, 8)" and old: "in_used a (q, unat old_size)" "old_size > 0"
    and alloc: "arena_alloc mal a new_size = Inr (p, a1)"
  shows "\<exists>a' bs. arena_realloc mal a (Some q) old_size new_size = Inr (p, a')
    \<and> mem_read a q (min (unat old_size) (unat new_size)) = Some bs
    \<and> mem_read a' p (min (unat old_size) (unat new_size)) = Some bs"
proof -
  define m where "m = min (unat old_size) (unat new_size)"
  have m: "unat (if old_size < new_size then old_size else new_size) = m"
    by (auto simp: m_def word_less_nat_alt)
  note al = alloc [unfolded arena_alloc_def]
  have a1: "arena_ok a1" "mem_ok a1" "in_used a1 (p, unat new_size)"
    using alloc_keeps_ok [OF al assms(1,2) req] alloc_mem(2) [OF al assms(1,2) req assms(4,3)]
      alloc_region(1) [OF al assms(1,2) req] by auto
  obtain bs where bs: "mem_read a q m = Some bs" "length bs = m"
    using in_used_readable [OF old(1) assms(1,3), of m] by (auto simp: m_def)
  have rd: "mem_read a1 q m = Some bs" by (rule alloc_mem(1) [OF al assms(1,2) req bs(1)])
  have dis: "disjoint_regions (p, m) (q, m)"
    using alloc_region(3) [OF al assms(1,2) req old(1)]
    by (auto simp: m_def intro: disjoint_regions_shrink)
  obtain a2 where a2: "mem_write a1 p bs = Some a2" "mem_read a2 p m = Some bs"
    by (rule in_used_writable [OF a1(3,1,2), of bs]) (auto simp: bs(2) m_def)
  have "arena_realloc mal a (Some q) old_size new_size = Inr (p, a2)"
    using alloc old(2) dis rd a2(1) by (simp add: arena_realloc_def mem_copy_def m)
  with bs(1) a2(2) show ?thesis unfolding m_def by blast
qed

text \<open>
  C34. The sum \<open>aligned + size\<close> in the chunk search is not checked: a request for \<open>2 ^ 64 - u\<close>
  bytes on a chunk whose used position is \<open>u\<close> succeeds, although no chunk is that large, and sets
  the used position back to 0, so that the following allocations overlap the earlier ones.
\<close>

theorem arena_alloc_wraps:
  assumes "chunks a = c # cs" "used c AND 7 = 0" "used c \<noteq> 0"
  shows "arena_alloc mal a (- used c)
    = Inr (Ptr 0 (unat (used c)), a\<lparr>chunks := c\<lparr>used := 0\<rparr> # cs\<rparr>)"
proof -
  have "used c + 7 = used c OR 7"
    using assms(2) by (rule disjunctive_add_eq_or)
  moreover have "(used c OR 7) AND NOT 7 = used c"
  proof -
    have "(used c OR 7) AND NOT 7 = used c AND NOT (used c AND 7)"
      by (auto simp: bit_eq_iff bit_simps)
    with assms(2) show ?thesis by simp
  qed
  ultimately have "aligned_pos (used c) 8 = used c"
    by (simp add: aligned_pos_def algebra_simps)
  then show ?thesis
    using assms(1) power_of_two_8 by (simp add: arena_alloc_def arena_alloc_aligned_def)
qed

text \<open>
  C35. After \<^verbatim>\<open>arena_reset\<close> the arena owns no bytes and keeps every block: the first aligned
  request that fits the first chunk is served from offset 0 without a call of \<^verbatim>\<open>malloc\<close>.
\<close>

theorem arena_reset_reuses:
  assumes "arena_ok a" "is_power_of_two algn" "sz \<le> capacity (hd (chunks a))"
  shows "arena_ok (arena_reset a) \<and> map mem (chunks (arena_reset a)) = map mem (chunks a)
    \<and> (\<forall>k p n. in_used (arena_reset a) (Ptr k p, n) \<longrightarrow> p = 0 \<and> n = 0)
    \<and> (\<exists>a'. arena_alloc_aligned mal (arena_reset a) sz algn = Inr (Ptr 0 0, a')
          \<and> mallocs a' = mallocs a)"
proof -
  obtain c cs where cs: "chunks a = c # cs" using assms(1) by (auto simp: arena_ok_def neq_Nil_conv)
  have "aligned_pos 0 algn = 0" by (simp add: aligned_pos_def)
  then have "\<exists>a'. arena_alloc_aligned mal (arena_reset a) sz algn = Inr (Ptr 0 0, a')
      \<and> mallocs a' = mallocs a"
    using assms(2,3) cs by (auto simp: arena_alloc_aligned_def arena_reset_def is_power_of_two_def)
  moreover have "\<forall>k p n. in_used (arena_reset a) (Ptr k p, n) \<longrightarrow> p = 0 \<and> n = 0"
    by (auto simp: arena_reset_def)
  moreover have "arena_ok (arena_reset a)"
    using assms(1) by (auto simp: arena_ok_def chunk_ok_def arena_reset_def)
  moreover have "map mem (chunks (arena_reset a)) = map mem (chunks a)"
    by (simp add: arena_reset_def)
  ultimately show ?thesis by blast
qed

section \<open>Concrete runs\<close>

text \<open>A small arena whose \<^verbatim>\<open>malloc\<close> never fails and returns zeroed blocks.\<close>

definition zero_malloc :: malloc_fun where
  "zero_malloc n sz = Some (replicate (unat sz) NUL)"

definition demo_arena :: arena where
  "demo_arena = \<lparr>chunks = [\<lparr>mem = replicate 64 NUL, used = 8, capacity = 64\<rparr>], mallocs = 1\<rparr>"

lemma demo_arena_inv:
  "arena_ok demo_arena" "arena_small demo_arena" "mem_ok demo_arena" "malloc_ok zero_malloc"
  by (auto simp: demo_arena_def arena_ok_def chunk_ok_def arena_small_def mem_ok_def
      malloc_ok_def zero_malloc_def)

lemma demo_alloc:
  "arena_alloc zero_malloc demo_arena 4 = Inr (Ptr 0 8, demo_arena
     \<lparr>chunks := [\<lparr>mem = replicate 64 NUL, used = 12, capacity = 64\<rparr>]\<rparr>)"
  by (simp add: arena_alloc_def arena_alloc_aligned_def demo_arena_def aligned_pos_def
      is_power_of_two_def)






lemma arena_strndup_copies_witness:
  "\<exists>a'. arena_strndup zero_malloc demo_arena (Some ''abc'') 3 = Inr (Some (Ptr 0 8), a')
    \<and> mem_read a' (Ptr 0 8) 4 = Some (''abc'' @ [NUL])"
proof -
  have "arena_alloc zero_malloc demo_arena (3 + 1) = Inr (Ptr 0 8, demo_arena
     \<lparr>chunks := [\<lparr>mem = replicate 64 NUL, used = 12, capacity = 64\<rparr>]\<rparr>)"
    using demo_alloc by simp
  from arena_strndup_copies [OF demo_arena_inv _ _ this, of "''abc''"] show ?thesis
    by (auto simp del: mem_read.simps)
qed

lemma arena_realloc_keeps_prefix_witness:
  "\<exists>a' bs. arena_realloc zero_malloc demo_arena (Some (Ptr 0 0)) 8 4 = Inr (Ptr 0 8, a')
    \<and> mem_read demo_arena (Ptr 0 0) 4 = Some bs \<and> mem_read a' (Ptr 0 8) 4 = Some bs"
  using arena_realloc_keeps_prefix [OF demo_arena_inv _ _ _ demo_alloc, of "Ptr 0 0" 8]
  by (simp add: small_request_def demo_arena_def)

lemma arena_alloc_wraps_witness:
  "\<exists>a'. arena_alloc zero_malloc demo_arena (- 8) = Inr (Ptr 0 8, a')
    \<and> map used (chunks a') = [0]"
  using arena_alloc_wraps [of demo_arena "\<lparr>mem = replicate 64 NUL, used = 8, capacity = 64\<rparr>" "[]"
    zero_malloc] by (simp add: demo_arena_def)

lemma arena_reset_reuses_witness:
  "\<exists>a'. arena_alloc_aligned zero_malloc (arena_reset demo_arena) 64 8 = Inr (Ptr 0 0, a')
    \<and> mallocs a' = 1"
  using arena_reset_reuses [OF demo_arena_inv(1) power_of_two_8, of 64 zero_malloc]
  by (simp add: demo_arena_def)

end
