(* ===== verification/String_View.thy ===== *)
theory String_View
  imports Raya_Prelude
begin

text \<open>
  The string views of \<^verbatim>\<open>src/string_view.h\<close>. A view is the list of the bytes it shows; its
  \<^verbatim>\<open>data\<close> pointer matters to the compiler only through these bytes. Indices are natural
  numbers, as a view never exceeds the address space. \<^verbatim>\<open>sv_to_int\<close> accumulates in a C
  \<^verbatim>\<open>int\<close>: a signed overflow is undefined behaviour and is a value of its own.
\<close>

type_synonym string_view = string

definition int_max :: int where
  "int_max = 2 ^ 31 - 1"

definition sv_from_cstr :: "string option \<Rightarrow> string_view" where
  "sv_from_cstr s = (case s of None \<Rightarrow> [] | Some cs \<Rightarrow> cs)"

definition sv_eq :: "string_view \<Rightarrow> string_view \<Rightarrow> bool" where
  "sv_eq a b = (if length a \<noteq> length b then False
     else list_all2 (\<lambda>x y. x = y) a b)"

definition sv_eq_cstr :: "string_view \<Rightarrow> string \<Rightarrow> bool" where
  "sv_eq_cstr a b = (let blen = length b in
     if length a \<noteq> blen then False else list_all2 (\<lambda>x y. x = y) a b)"

definition sv_slice :: "string_view \<Rightarrow> nat \<Rightarrow> nat \<Rightarrow> string_view" where
  "sv_slice s start stop =
     (let start1 = (if start > length s then length s else start);
          stop1 = (if stop > length s then length s else stop);
          (start2, stop2) = (if start1 > stop1 then (stop1, start1) else (start1, stop1))
      in take (stop2 - start2) (drop start2 s))"

text \<open>One iteration per character; \<open>-1\<close> reports a character that is not a digit.\<close>

fun sv_to_int_loop :: "int \<Rightarrow> string \<Rightarrow> abort + int" where
  "sv_to_int_loop val [] = Inr val"
| "sv_to_int_loop val (c # cs) =
     (if c < CHR ''0'' \<or> c > CHR ''9'' then Inr (- 1)
      else let val' = val * 10 + int (digit_val c) in
        if val' > int_max then Inl Undefined_Behaviour else sv_to_int_loop val' cs)"

definition sv_to_int :: "string_view \<Rightarrow> abort + int" where
  "sv_to_int sv = (if length sv = 0 then Inr (- 1) else sv_to_int_loop 0 sv)"

lemma sv_eq_iff [simp]: "sv_eq a b \<longleftrightarrow> a = b"
  by (auto simp: sv_eq_def list.rel_eq)

lemma sv_eq_cstr_iff [simp]: "sv_eq_cstr a b \<longleftrightarrow> a = b"
  by (auto simp: sv_eq_cstr_def list.rel_eq Let_def)

lemma sv_slice_tail [simp]: "sv_slice (c # s) 1 (length (c # s)) = s"
  by (simp add: sv_slice_def)

lemma sv_slice_swap: "sv_slice s i j = sv_slice s j i"
  by (auto simp: sv_slice_def Let_def)

lemma sv_slice_in_order:
  "i \<le> j \<Longrightarrow> j \<le> length s \<Longrightarrow> sv_slice s i j = take (j - i) (drop i s)"
  by (auto simp: sv_slice_def Let_def)

lemma digits_val_Cons_le: "digits_val 10 (map digit_val xs) \<le> digits_val 10 (map digit_val (xs @ ys))"
proof (induction ys rule: rev_induct)
  case Nil
  then show ?case by simp
next
  case (snoc y ys)
  then show ?case by (simp add: append_assoc [symmetric] del: append_assoc)
qed

lemma sv_to_int_loop_digits:
  assumes "\<forall>c \<in> set cs. is_dec c"
    and "val = int (digits_val 10 (map digit_val pre))"
    and "int (digits_val 10 (map digit_val (pre @ cs))) \<le> int_max"
  shows "sv_to_int_loop val cs = Inr (int (digits_val 10 (map digit_val (pre @ cs))))"
  using assms
proof (induction cs arbitrary: val pre)
  case Nil
  then show ?case by simp
next
  case (Cons c cs)
  have step: "val * 10 + int (digit_val c) = int (digits_val 10 (map digit_val (pre @ [c])))"
    using Cons.prems(2) by simp
  have "val * 10 + int (digit_val c) \<le> int_max"
    using digits_val_Cons_le [of "pre @ [c]" cs] Cons.prems(3) unfolding step by simp
  with Cons.IH [OF _ step] Cons.prems(1,3) show ?case
    by (auto simp: is_dec_def Let_def)
qed

text \<open>
  C36. \<^verbatim>\<open>sv_to_int\<close> reads back the decimal notation of every number that fits a C
  \<^verbatim>\<open>int\<close>, has undefined behaviour on the decimal notation of every larger number, and
  rejects the empty view and every view that starts with a character other than a digit.
\<close>

theorem sv_to_int_decimal:
  "(int n \<le> int_max \<longrightarrow> sv_to_int (show_nat n) = Inr (int n))
    \<and> (int n > int_max \<longrightarrow> sv_to_int (show_nat n) = Inl Undefined_Behaviour)
    \<and> sv_to_int [] = Inr (- 1)
    \<and> (\<not> is_dec c \<longrightarrow> sv_to_int (c # cs) = Inr (- 1))"
proof -
  have over: "sv_to_int_loop val ds = Inl Undefined_Behaviour"
    if "\<forall>d \<in> set ds. is_dec d" "val = int (digits_val 10 (map digit_val pre))" "val \<le> int_max"
      "int (digits_val 10 (map digit_val (pre @ ds))) > int_max" for ds val pre
    using that
  proof (induction ds arbitrary: val pre)
    case Nil
    then show ?case by simp
  next
    case (Cons d ds)
    have step: "val * 10 + int (digit_val d) = int (digits_val 10 (map digit_val (pre @ [d])))"
      using Cons.prems(2) by simp
    from Cons.IH [OF _ step] Cons.prems show ?case
      by (auto simp: is_dec_def Let_def)
  qed
  have "int n \<le> int_max \<longrightarrow> sv_to_int (show_nat n) = Inr (int n)"
    using sv_to_int_loop_digits [of "show_nat n" 0 "[]"] show_nat_digits [of n]
    by (simp add: sv_to_int_def digits_val_show_nat)
  moreover have "int n > int_max \<longrightarrow> sv_to_int (show_nat n) = Inl Undefined_Behaviour"
    using over [of "show_nat n" 0 "[]"] show_nat_digits [of n]
    by (simp add: sv_to_int_def digits_val_show_nat int_max_def)
  ultimately show ?thesis
    by (auto simp: sv_to_int_def is_dec_def)
qed

lemma sv_to_int_decimal_witness:
  "sv_to_int (show_nat 42) = Inr 42 \<and> sv_to_int (show_nat 3000000000) = Inl Undefined_Behaviour
   \<and> sv_to_int ''x'' = Inr (- 1)"
  using sv_to_int_decimal [of 42 "CHR ''x''" "[]"] sv_to_int_decimal [of 3000000000]
  by (simp add: int_max_def is_dec_def less_eq_char_def)

end
