(* ===== verification/Diag.thy ===== *)
theory Diag
  imports String_View
begin

text \<open>
  Source locations (\<^verbatim>\<open>src/source_loc.h\<close>) and the diagnostic engine of
  \<^verbatim>\<open>src/diag.c\<close>: the growing array of diagnostics with its counters, and the report it
  prints. The array is the list of its live items next to the allocated capacity; what goes to
  \<^verbatim>\<open>stderr\<close> is the returned string. Whether \<^verbatim>\<open>stderr\<close> is a terminal is the
  parameter \<open>tty\<close>.
\<close>

section \<open>Source locations\<close>

record source_location =
  filename :: string
  line :: nat
  column :: nat
  offset :: nat

definition loc_make :: "string \<Rightarrow> nat \<Rightarrow> nat \<Rightarrow> nat \<Rightarrow> source_location" where
  "loc_make f l c o' = \<lparr>filename = f, line = l, column = c, offset = o'\<rparr>"

lemma loc_make_simps [simp]:
  "filename (loc_make f l c q) = f" "line (loc_make f l c q) = l"
  "column (loc_make f l c q) = c" "offset (loc_make f l c q) = q"
  by (simp_all add: loc_make_def)

section \<open>The engine\<close>

datatype diag_kind = DIAG_ERROR | DIAG_WARNING | DIAG_NOTE

record diagnostic =
  dg_kind :: diag_kind
  dg_loc :: source_location
  dg_message :: string_view

record diag_engine =
  items :: "diagnostic list"
  diag_capacity :: nat
  error_count :: nat
  warning_count :: nat
  use_color :: bool
  has_errors :: bool

definition diag_init :: "bool \<Rightarrow> diag_engine" where
  "diag_init tty = \<lparr>items = [], diag_capacity = 0, error_count = 0, warning_count = 0,
     use_color = tty, has_errors = False\<rparr>"

definition diag_free :: "diag_engine \<Rightarrow> diag_engine" where
  "diag_free d = d\<lparr>items := [], diag_capacity := 0\<rparr>"

text \<open>
  \<^verbatim>\<open>vsnprintf\<close> into the 1024-byte buffer keeps the first 1023 bytes of the formatted
  message, and \<^verbatim>\<open>strdup\<close> those before a NUL. The array doubles when it is full, from 16.
\<close>

definition diag_emit ::
    "diag_engine \<Rightarrow> diag_kind \<Rightarrow> source_location \<Rightarrow> string \<Rightarrow> diag_engine" where
  "diag_emit d kind loc msg =
     (let cap = (if length (items d) \<ge> diag_capacity d
                 then (if diag_capacity d \<noteq> 0 then diag_capacity d * 2 else 16)
                 else diag_capacity d);
          dg = \<lparr>dg_kind = kind, dg_loc = loc, dg_message = takeWhile (\<lambda>c. c \<noteq> NUL) (take 1023 msg)\<rparr>;
          d1 = d\<lparr>items := items d @ [dg], diag_capacity := cap\<rparr>
      in case kind of
           DIAG_ERROR \<Rightarrow> d1\<lparr>error_count := error_count d1 + 1, has_errors := True\<rparr>
         | DIAG_WARNING \<Rightarrow> d1\<lparr>warning_count := warning_count d1 + 1\<rparr>
         | DIAG_NOTE \<Rightarrow> d1)"

definition diag_error :: "diag_engine \<Rightarrow> source_location \<Rightarrow> string \<Rightarrow> diag_engine" where
  "diag_error d loc msg = diag_emit d DIAG_ERROR loc msg"

section \<open>The report\<close>

definition color_red :: "bool \<Rightarrow> string" where
  "color_red tty = (if tty then ESC # ''[1;31m'' else [])"

definition color_yellow :: "bool \<Rightarrow> string" where
  "color_yellow tty = (if tty then ESC # ''[1;33m'' else [])"

definition color_blue :: "bool \<Rightarrow> string" where
  "color_blue tty = (if tty then ESC # ''[1;34m'' else [])"

definition color_reset :: "bool \<Rightarrow> string" where
  "color_reset tty = (if tty then ESC # ''[0m'' else [])"

definition color_bold :: "bool \<Rightarrow> string" where
  "color_bold tty = (if tty then ESC # ''[1m'' else [])"

text \<open>\<^verbatim>\<open>%4lu\<close>: right-aligned in four columns.\<close>

definition show_nat_4 :: "nat \<Rightarrow> string" where
  "show_nat_4 n = replicate (4 - length (show_nat n)) CHR '' '' @ show_nat n"

text \<open>The first loop of \<^verbatim>\<open>print_context_line\<close>: the text from the start of the target line.\<close>

fun seek_line :: "nat \<Rightarrow> nat \<Rightarrow> string \<Rightarrow> nat \<times> string" where
  "seek_line current target [] = (current, [])"
| "seek_line current target (c # cs) =
     (if current < target then seek_line (if c = NL then Suc current else current) target cs
      else (current, c # cs))"

definition print_context_line :: "string \<Rightarrow> nat \<Rightarrow> nat \<Rightarrow> string" where
  "print_context_line src line_num target =
     (let (current, rest) = seek_line 1 target src in
      if current \<noteq> target then []
      else '' '' @ show_nat_4 line_num @ '' | ''
           @ printf_prec (length (takeWhile (\<lambda>c. c \<noteq> NL \<and> c \<noteq> CR) rest)) rest @ [NL])"

text \<open>
  The loop over the context lines. The caret line is printed under the line of the diagnostic;
  its bound \<open>column - 1\<close> is a \<^verbatim>\<open>size_t\<close>, so that column 0 would print \<open>2 ^ 64 - 1\<close> blanks.
\<close>

definition caret_blanks :: "nat \<Rightarrow> nat" where
  "caret_blanks col = size_sub col 1"

definition print_context_at :: "bool \<Rightarrow> source_location \<Rightarrow> string \<Rightarrow> nat \<Rightarrow> string" where
  "print_context_at tty loc src ln =
     print_context_line src ln ln @
     (if ln = line loc
      then '' '' @ color_blue tty @ '' |'' @ color_reset tty @ '' ''
           @ replicate (caret_blanks (column loc)) CHR '' ''
           @ color_red tty @ ''^'' @ color_reset tty
           @ color_red tty @ ''~~~~'' @ color_reset tty @ [NL]
      else [])"

definition print_diagnostic :: "bool \<Rightarrow> string \<Rightarrow> diagnostic \<Rightarrow> string" where
  "print_diagnostic tty src dg =
     (let loc = dg_loc dg;
          (kind_str, kind_color, code) =
            (case dg_kind dg of
               DIAG_ERROR \<Rightarrow> (''error'', color_red tty, ''E0001'')
             | DIAG_WARNING \<Rightarrow> (''warning'', color_yellow tty, ''W0001'')
             | DIAG_NOTE \<Rightarrow> (''note'', color_blue tty, []));
          ctx_start = (if line loc > 1 then line loc - 1 else 1)
      in kind_color @ color_bold tty @ kind_str @ ''['' @ code @ '']'' @ color_reset tty @ '': ''
           @ dg_message dg @ [NL]
         @ '' '' @ color_blue tty @ ''--> '' @ filename loc @ '':'' @ show_nat (line loc) @ '':''
           @ show_nat (column loc) @ color_reset tty @ [NL]
         @ '' '' @ color_blue tty @ '' |'' @ color_reset tty @ [NL]
         @ concat (map (print_context_at tty loc src) [ctx_start ..< Suc (line loc + 1)])
         @ [NL])"

definition diag_print_all :: "bool \<Rightarrow> diag_engine \<Rightarrow> string \<Rightarrow> string" where
  "diag_print_all tty d src = concat (map (print_diagnostic tty src) (items d))"

definition diag_print_summary :: "bool \<Rightarrow> diag_engine \<Rightarrow> string" where
  "diag_print_summary tty d =
     (if error_count d > 0
      then color_red tty @ ''error'' @ color_reset tty @ '': could not compile due to ''
           @ show_nat (error_count d) @ '' previous error''
           @ (if error_count d = 1 then [] else ''s'') @ [NL]
      else [])"

section \<open>Invariant\<close>

text \<open>The counters agree with the items, and the array never holds more than its capacity.\<close>

definition is_error :: "diagnostic \<Rightarrow> bool" where
  "is_error dg \<longleftrightarrow> dg_kind dg = DIAG_ERROR"

definition diag_ok :: "diag_engine \<Rightarrow> bool" where
  "diag_ok d \<longleftrightarrow>
     error_count d = length (filter is_error (items d))
     \<and> warning_count d = length (filter (\<lambda>dg. dg_kind dg = DIAG_WARNING) (items d))
     \<and> has_errors d = (error_count d > 0)
     \<and> length (items d) \<le> diag_capacity d
     \<and> (diag_capacity d = 0 \<or> (\<exists>k. diag_capacity d = 16 * 2 ^ k))"

lemma diag_ok_init [simp]: "diag_ok (diag_init tty)"
  by (simp add: diag_ok_def diag_init_def)

lemma diag_emit_items [simp]:
  "items (diag_emit d k loc msg)
     = items d @ [\<lparr>dg_kind = k, dg_loc = loc, dg_message = takeWhile (\<lambda>c. c \<noteq> NUL) (take 1023 msg)\<rparr>]"
  by (simp add: diag_emit_def Let_def split: diag_kind.split)

lemma diag_emit_counts [simp]:
  "error_count (diag_emit d k loc msg) = error_count d + (if k = DIAG_ERROR then 1 else 0)"
  "warning_count (diag_emit d k loc msg) = warning_count d + (if k = DIAG_WARNING then 1 else 0)"
  "has_errors (diag_emit d k loc msg) = (has_errors d \<or> k = DIAG_ERROR)"
  by (auto simp: diag_emit_def Let_def split: diag_kind.split)

lemma diag_emit_capacity:
  "diag_capacity (diag_emit d k loc msg) =
     (if length (items d) < diag_capacity d then diag_capacity d
      else if diag_capacity d = 0 then 16 else 2 * diag_capacity d)"
  by (auto simp: diag_emit_def Let_def split: diag_kind.split)

lemma diag_ok_emit:
  assumes "diag_ok d"
  shows "diag_ok (diag_emit d kind loc msg)"
proof -
  have "\<exists>k. 2 * diag_capacity d = 16 * 2 ^ k" if "diag_capacity d \<noteq> 0"
  proof -
    from assms that obtain k where "diag_capacity d = 16 * 2 ^ k" by (auto simp: diag_ok_def)
    then have "2 * diag_capacity d = 16 * 2 ^ Suc k" by simp
    then show ?thesis by blast
  qed
  moreover have "\<exists>k. (16::nat) = 16 * 2 ^ k" by (rule exI [of _ 0]) simp
  ultimately show ?thesis
    using assms by (auto simp: diag_ok_def diag_emit_capacity is_error_def)
qed

text \<open>
  C37. \<^verbatim>\<open>diag_emit\<close> keeps the engine consistent: the error and warning counters count the
  recorded diagnostics, \<^verbatim>\<open>has_errors\<close> says whether there is an error, the items fit the
  array, whose capacity is 0 or 16 times a power of two, and the new diagnostic is recorded last.
\<close>

theorem diag_emit_ok:
  assumes "diag_ok d"
  shows "diag_ok (diag_emit d kind loc msg)
    \<and> butlast (items (diag_emit d kind loc msg)) = items d
    \<and> dg_message (last (items (diag_emit d kind loc msg)))
        = takeWhile (\<lambda>c. c \<noteq> NUL) (take 1023 msg)"
  using diag_ok_emit [OF assms] by simp

lemma diag_emit_ok_witness:
  "diag_ok (diag_emit (diag_init False) DIAG_ERROR (loc_make ''a.raya'' 1 1 0) ''bad token'')"
  using diag_emit_ok [OF diag_ok_init, of False] by blast

section \<open>The context lines of the report\<close>

text \<open>The lines of a text, as separated by line feeds.\<close>

fun src_lines :: "string \<Rightarrow> string list" where
  "src_lines [] = [[]]"
| "src_lines (c # cs) =
     (if c = NL then [] # src_lines cs
      else (c # hd (src_lines cs)) # tl (src_lines cs))"

lemma src_lines_nonempty [simp]: "src_lines s \<noteq> []"
  by (induction s) auto

lemma hd_src_lines: "hd (src_lines s) = takeWhile (\<lambda>c. c \<noteq> NL) s"
  by (induction s) auto

lemma takeWhile_two: "takeWhile (\<lambda>c. P c \<and> Q c) xs = takeWhile Q (takeWhile P xs)"
  by (induction xs) auto

lemma seek_line_spec:
  assumes "cur \<le> target"
  shows "if target - cur < length (src_lines s)
    then fst (seek_line cur target s) = target
      \<and> takeWhile (\<lambda>c. c \<noteq> NL) (snd (seek_line cur target s)) = src_lines s ! (target - cur)
    else fst (seek_line cur target s) < target"
  using assms
proof (induction cur target s rule: seek_line.induct)
  case (1 cur target)
  then show ?case by auto
next
  case (2 cur target c cs)
  show ?case
  proof (cases "cur < target")
    case True
    then obtain k where k: "target - cur = Suc k" "target - Suc cur = k"
      by (metis Suc_diff_Suc)
    show ?thesis
    proof (cases "c = NL")
      case True
      with 2 \<open>cur < target\<close> k show ?thesis by (auto simp: Suc_le_eq split: if_splits)
    next
      case False
      with 2 \<open>cur < target\<close> k show ?thesis
        by (cases "src_lines cs") (auto split: if_splits)
    qed
  next
    case False
    with 2 have "cur = target" by simp
    then show ?thesis by (cases "src_lines cs") (auto simp: hd_src_lines [of cs, symmetric])
  qed
qed

lemma seek_line_length: "length (snd (seek_line cur target s)) \<le> length s"
  by (induction cur target s rule: seek_line.induct) auto

text \<open>
  C38. For a line number from 1 on, \<^verbatim>\<open>print_context_line\<close> prints exactly that line of the
  source, numbered and cut at the first carriage return or zero byte, and prints nothing past the
  last line. The source is shorter than 2 GB, so that the cast of the length to \<^verbatim>\<open>int\<close> keeps it.
\<close>

theorem print_context_line_prints_line:
  assumes "1 \<le> n" "length src < 2 ^ 31"
  shows "print_context_line src num n =
    (if n \<le> length (src_lines src)
     then '' '' @ show_nat_4 num @ '' | ''
       @ takeWhile (\<lambda>c. c \<noteq> CR \<and> c \<noteq> NUL) (src_lines src ! (n - 1)) @ [NL]
     else [])"
proof (cases "seek_line 1 n src")
  case (Pair cur rest)
  let ?w = "takeWhile (\<lambda>c. c \<noteq> NL \<and> c \<noteq> CR) rest"
  have "length ?w < 2 ^ 31"
    using seek_line_length [of 1 n src] Pair assms(2) length_takeWhile_le [of "\<lambda>c. c \<noteq> NL \<and> c \<noteq> CR" rest]
    by simp
  then have "printf_prec (length ?w) rest = takeWhile (\<lambda>c. c \<noteq> NUL) ?w"
    by (simp add: printf_prec_def takeWhile_eq_take [symmetric])
  then have out: "printf_prec (length ?w) rest = takeWhile (\<lambda>c. c \<noteq> CR \<and> c \<noteq> NUL) (takeWhile (\<lambda>c. c \<noteq> NL) rest)"
    by (simp add: takeWhile_two)
  have "(n - 1 < length (src_lines src)) = (n \<le> length (src_lines src))" using assms by linarith
  with seek_line_spec [OF assms(1), of src] Pair out show ?thesis
    by (auto simp: print_context_line_def split: if_splits)
qed

lemma print_context_line_prints_line_witness:
  "print_context_line (''ab'' @ [NL] @ ''cd'') 2 2 = ''    2 | cd'' @ [NL]"
proof -
  have "(1::nat) \<le> 2" "length (''ab'' @ [NL] @ ''cd'') < 2 ^ 31" by simp_all
  from print_context_line_prints_line [OF this, of 2]
  show ?thesis
    by (rule trans) code_simp
qed

end
