(* ===== verification/Token.thy ===== *)
theory Token
  imports Diag
begin

text \<open>
  The tokens of \<^verbatim>\<open>src/lexer.h\<close>: the kinds, in the order of the C enumeration, the table
  of their printed names, and the token record. The union of a token is the value of
  its literal: the 64-bit result of \<^verbatim>\<open>strtoll\<close> or the text whose \<^verbatim>\<open>strtod\<close> is the
  floating-point value.
\<close>

datatype (plugins only: code size) token_kind =
    TOK_MODULE | TOK_IMPORT | TOK_FN | TOK_PUB | TOK_CONST | TOK_VAR | TOK_COMPTIME |
    TOK_DEFER | TOK_ERRDEFER | TOK_TEST | TOK_RETURN | TOK_IF | TOK_ELSE | TOK_WHILE |
    TOK_FOR | TOK_TRY | TOK_BREAK | TOK_CONTINUE | TOK_UNION | TOK_STRUCT | TOK_UNSAFE |
    TOK_NORETURN | TOK_IN | TOK_TYPE | TOK_TRAITS | TOK_EXTEND | TOK_MATCH | TOK_ENUM |
    TOK_AS | TOK_WITH | TOK_UNDEFINED | TOK_SELF | TOK_CAP_SELF | TOK_INT_LITERAL |
    TOK_FLOAT_LITERAL | TOK_STRING_LITERAL | TOK_CHAR_LITERAL | TOK_TRUE | TOK_FALSE |
    TOK_NULL | TOK_IDENTIFIER | TOK_PLUS | TOK_MINUS | TOK_STAR | TOK_SLASH | TOK_PERCENT |
    TOK_EQ | TOK_NE | TOK_LT | TOK_GT | TOK_LE | TOK_GE | TOK_UNDERSCORE | TOK_ASSIGN |
    TOK_PLUS_ASSIGN | TOK_MINUS_ASSIGN | TOK_STAR_ASSIGN | TOK_SLASH_ASSIGN |
    TOK_PERCENT_ASSIGN | TOK_AND_ASSIGN | TOK_OR_ASSIGN | TOK_XOR_ASSIGN | TOK_SHL_ASSIGN |
    TOK_SHR_ASSIGN | TOK_AMPERSAND | TOK_PIPE | TOK_CARET | TOK_SHL | TOK_SHR |
    TOK_AND_AND | TOK_OR_OR | TOK_BANG | TOK_TILDE | TOK_DOT | TOK_DOT_DOT | TOK_ARROW |
    TOK_FAT_ARROW | TOK_COLON_COLON | TOK_HASH | TOK_LPAREN | TOK_RPAREN | TOK_LBRACKET |
    TOK_RBRACKET | TOK_LBRACE | TOK_RBRACE | TOK_COMMA | TOK_SEMICOLON | TOK_COLON |
    TOK_QUESTION | TOK_EOF | TOK_ERROR

definition all_token_kinds :: "token_kind list" where
  "all_token_kinds =
   [TOK_MODULE, TOK_IMPORT, TOK_FN, TOK_PUB, TOK_CONST, TOK_VAR, TOK_COMPTIME, TOK_DEFER,
    TOK_ERRDEFER, TOK_TEST, TOK_RETURN, TOK_IF, TOK_ELSE, TOK_WHILE, TOK_FOR, TOK_TRY,
    TOK_BREAK, TOK_CONTINUE, TOK_UNION, TOK_STRUCT, TOK_UNSAFE, TOK_NORETURN, TOK_IN,
    TOK_TYPE, TOK_TRAITS, TOK_EXTEND, TOK_MATCH, TOK_ENUM, TOK_AS, TOK_WITH, TOK_UNDEFINED,
    TOK_SELF, TOK_CAP_SELF, TOK_INT_LITERAL, TOK_FLOAT_LITERAL, TOK_STRING_LITERAL,
    TOK_CHAR_LITERAL, TOK_TRUE, TOK_FALSE, TOK_NULL, TOK_IDENTIFIER, TOK_PLUS, TOK_MINUS,
    TOK_STAR, TOK_SLASH, TOK_PERCENT, TOK_EQ, TOK_NE, TOK_LT, TOK_GT, TOK_LE, TOK_GE,
    TOK_UNDERSCORE, TOK_ASSIGN, TOK_PLUS_ASSIGN, TOK_MINUS_ASSIGN, TOK_STAR_ASSIGN,
    TOK_SLASH_ASSIGN, TOK_PERCENT_ASSIGN, TOK_AND_ASSIGN, TOK_OR_ASSIGN, TOK_XOR_ASSIGN,
    TOK_SHL_ASSIGN, TOK_SHR_ASSIGN, TOK_AMPERSAND, TOK_PIPE, TOK_CARET, TOK_SHL, TOK_SHR,
    TOK_AND_AND, TOK_OR_OR, TOK_BANG, TOK_TILDE, TOK_DOT, TOK_DOT_DOT, TOK_ARROW,
    TOK_FAT_ARROW, TOK_COLON_COLON, TOK_HASH, TOK_LPAREN, TOK_RPAREN, TOK_LBRACKET,
    TOK_RBRACKET, TOK_LBRACE, TOK_RBRACE, TOK_COMMA, TOK_SEMICOLON, TOK_COLON,
    TOK_QUESTION, TOK_EOF, TOK_ERROR]"

text \<open>The numeric value of an enumerator is its position.\<close>

definition tok_ord :: "token_kind \<Rightarrow> nat" where
  "tok_ord k = length (takeWhile (\<lambda>x. x \<noteq> k) all_token_kinds)"

definition token_kind_names :: "string list" where
  "token_kind_names =
   [''module'', ''import'', ''fn'', ''pub'', ''const'', ''var'', ''comptime'', ''defer'',
    ''errdefer'', ''test'', ''return'', ''if'', ''else'', ''while'', ''for'', ''try'',
    ''break'', ''continue'', ''union'', ''struct'', ''unsafe'', ''noreturn'', ''in'',
    ''type'', ''traits'', ''extend'', ''match'', ''enum'', ''as'', ''with'', ''undefined'',
    ''self'', ''Self'', ''ident'', ''int_literal'', ''float_literal'', ''string_literal'',
    ''char_literal'', ''bool_literal'', ''null_literal'', ''+'', ''-'', ''*'', ''/'',
    ''%'', ''=='', ''!='', ''<'', ''>'', ''<='', ''>='', ''='', ''+='', ''-='', ''*='',
    ''/='', ''%='', ''&='', ''|='', ''^='', ''<<='', ''>>='', ''&'', ''|'', ''^'', ''<<'',
    ''>>'', ''&&'', ''||'', ''!'', ''~'', ''.'', ''..'', ''->'', ''=>'', '':'', ''::'',
    ''('', '')'', ''['', '']'', ''{'', ''}'', '','', '';'', ''?'', ''#'', ''error'']"

definition token_kind_name :: "token_kind \<Rightarrow> string" where
  "token_kind_name k =
     (if k = TOK_EOF then ''eof''
      else if tok_ord k \<ge> length token_kind_names then ''???''
      else token_kind_names ! tok_ord k)"

datatype lit_value = Int_Value "64 word" | Float_Value string

record token =
  tok_kind :: token_kind
  tok_text :: string_view
  tok_loc :: source_location
  tok_value :: lit_value

end
