(* ===== verification/Ast.thy ===== *)
theory Ast
  imports Token
begin

text \<open>
  The syntax tree of \<^verbatim>\<open>src/ast.h\<close> and \<^verbatim>\<open>src/ast.c\<close>: nodes, type expressions,
  patterns and attributes, the functions that create and extend them, and the growing arrays the
  lists are kept in. A pointer that may be null is an \<open>option\<close>. The tree owns its children, so a
  pointer to a child is the child itself. The union of an \<^verbatim>\<open>AstNode\<close> together with its
  \<^verbatim>\<open>kind\<close> is the datatype \<open>node_body\<close>: one constructor per kind, in the groups
  declarations, statements and expressions. Every node is allocated once from the arena; its
  identity (its address, by which later phases annotate it) is the number \<open>n_id\<close> of nodes allocated
  before it. A zeroed string view is the empty list.
\<close>

section \<open>Nodes, types, patterns\<close>

datatype (plugins only: code size)
  node = Node (n_id: nat) (n_loc: source_location) (n_body: node_body)
and node_body = Decl decl_body | Stmt stmt_body | Expr expr_body
and decl_body =
    AST_COMPILATION_UNIT (unit_module_name: string_view) (unit_imports: "node list")
      (unit_decls: "node list")
  | AST_MODULE_DECL string_view
  | AST_IMPORT_DECL (import_parts: "string_view list") (import_alias: string_view)
  | AST_FN_DECL (fn_name: string_view) (fn_is_pub: bool) (fn_is_comptime: bool)
      (fn_is_unsafe: bool) (fn_is_extern: bool) (fn_extern_abi: string_view)
      (fn_generic_params: "node list") (fn_params: "node list")
      (fn_ret_type: "type_expr option") (fn_body: "node option") (fn_attrs: "attribute list")
  | AST_STRUCT_DECL (sd_name: string_view) (sd_is_pub: bool)
      (sd_generic_params: "node list") (sd_fields: "node list") (sd_attrs: "attribute list")
  | AST_UNION_DECL (sd_name: string_view) (sd_is_pub: bool)
      (sd_generic_params: "node list") (sd_fields: "node list") (sd_attrs: "attribute list")
  | AST_ENUM_DECL (enum_name: string_view) (enum_is_pub: bool) (enum_variants: "node list")
      (enum_attrs: "attribute list")
  | AST_TRAITS_DECL (traits_name: string_view) (traits_is_pub: bool) (traits_methods: "node list")
      (traits_attrs: "attribute list")
  | AST_EXTEND_DECL (ext_target_name: string_view) (ext_generic_params: "node list")
      (ext_trait_names: "string_view list") (ext_methods: "node list")
      (ext_attrs: "attribute list")
  | AST_TYPE_ALIAS (alias_name: string_view) (alias_is_pub: bool) (alias_type: "type_expr option")
      (alias_attrs: "attribute list")
  | AST_CONST_DECL (var_name: string_view) (var_is_pub: bool) (var_is_comptime: bool)
      (var_type: "type_expr option") (var_init: "node option") (var_attrs: "attribute list")
  | AST_VAR_DECL (var_name: string_view) (var_is_pub: bool) (var_is_comptime: bool)
      (var_type: "type_expr option") (var_init: "node option") (var_attrs: "attribute list")
  | AST_TEST_DECL (test_name: string_view) (test_body: "node option")
      (test_attrs: "attribute list")
  | AST_FIELD_DECL (fd_name: string_view) (fd_is_pub: bool) (fd_type: "type_expr option")
      (fd_default_value: "node option") (fd_attrs: "attribute list")
  | AST_VARIANT_DECL (vd_name: string_view) (vd_payload_type: "type_expr option")
      (vd_discriminant: "node option")
  | AST_TRAIT_METHOD_DECL (tm_name: string_view) (tm_is_pub: bool) (tm_params: "node list")
      (tm_ret_type: "type_expr option")
  | AST_PARAM_DECL (pd_name: string_view) (pd_type: "type_expr option")
      (pd_default_value: "node option") (pd_is_comptime: bool) (pd_is_self: bool)
  | AST_GENERIC_PARAM_DECL (gp_name: string_view) (gp_trait_constraints: "string_view list")
and stmt_body =
    AST_BLOCK (block_stmts: "node list") (block_trailing_expr: "node option")
  | AST_EXPR_STMT "node option"
  | AST_RETURN_STMT (return_value: "node option") (is_error_return: bool)
  | AST_IF_STMT "node option" "node option" "node option"
  | AST_WHILE_STMT "node option" "node option"
  | AST_FOR_STMT string_view "type_expr option" "node option" "node option"
  | AST_DEFER_STMT "node option"
  | AST_ERRDEFER_STMT "node option"
  | AST_BREAK_STMT
  | AST_CONTINUE_STMT
  | AST_MATCH_STMT "node option" (match_arms: "node list")
  | AST_ASSIGN_STMT token_kind "node option" "node option"
and expr_body =
    AST_INT_LITERAL "64 word"
  | AST_FLOAT_LITERAL string
  | AST_STRING_LITERAL string_view
  | AST_CHAR_LITERAL string_view
  | AST_BOOL_LITERAL bool
  | AST_NULL_LITERAL
  | AST_UNDEFINED_LITERAL
  | AST_IDENTIFIER string_view
  | AST_BINARY_EXPR token_kind "node option" "node option"
  | AST_UNARY_EXPR token_kind "node option"
  | AST_CALL_EXPR "node option" (call_args: "node list")
  | AST_METHOD_CALL_EXPR "node option" string_view (call_args: "node list")
  | AST_FIELD_ACCESS_EXPR "node option" string_view
  | AST_INDEX_EXPR "node option" "node option"
  | AST_SLICE_EXPR "node option" "node option" "node option"
  | AST_CAST_EXPR "node option" "type_expr option"
  | AST_TRY_EXPR "node option"
  | AST_ERROR_CAPTURE_EXPR "node option" string_view "node option"
  | AST_UNSAFE_BLOCK_EXPR "node option"
  | AST_ARRAY_LITERAL (arr_explicit_type: "type_expr option") (arr_length: "node option")
      (arr_elements: "node list") (arr_sentinel: bool)
  | AST_STRUCT_LITERAL (lit_type: "type_expr option") (lit_fields: "node list")
  | AST_ARG_LIST "node list"
  | AST_MATCH_ARM "pattern option" "node option"
and type_expr =
    TYPE_NAMED (t_loc: source_location) string_view "type_expr option list"
  | TYPE_REFERENCE (t_loc: source_location) "type_expr option" bool
  | TYPE_POINTER (t_loc: source_location) "type_expr option" bool
  | TYPE_SLICE (t_loc: source_location) "type_expr option" bool
  | TYPE_ARRAY (t_loc: source_location) "node option" "type_expr option"
  | TYPE_OPTIONAL (t_loc: source_location) "type_expr option"
  | TYPE_ERROR_UNION (t_loc: source_location) "type_expr option" "type_expr option"
  | TYPE_FUNCTION (t_loc: source_location) "type_expr option list" "type_expr option"
and pattern =
    PATTERN_WILDCARD (pat_loc: source_location)
  | PATTERN_LITERAL (pat_loc: source_location) "node option"
  | PATTERN_IDENTIFIER (pat_loc: source_location) string_view
  | PATTERN_ENUM_VARIANT (pat_loc: source_location) string_view "pattern option"
  | PATTERN_STRUCT_FIELD (pat_loc: source_location) "string_view list" "pattern list"
and attribute =
    Attribute (attr_name: string_view) (attr_args: "node list") (attr_loc: source_location)

end
