(* ===== verification/Ast_List.thy ===== *)
theory Ast_List
  imports Raya_Prelude
begin

text \<open>
  The five list types of \<^verbatim>\<open>ast.h\<close> have the same \<^verbatim>\<open>init\<close> and \<^verbatim>\<open>push\<close>. The array
  is its cells, as many as the capacity says; a cell that was never written is \<open>None\<close>.
  The syntax tree holds what \<open>vec_items\<close> reads from such an array.
\<close>

record 'a vec =
  vec_cells :: "'a option list"
  vec_count :: nat
  vec_capacity :: nat

definition grow_array :: "'a option list \<Rightarrow> nat \<Rightarrow> nat \<Rightarrow> 'a option list" where
  "grow_array old old_cap new_cap =
     (let new_ptr = replicate new_cap None in
      if old \<noteq> [] \<and> old_cap > 0 then take old_cap old @ drop old_cap new_ptr else new_ptr)"

definition ast_node_list_init :: "'a vec" where
  "ast_node_list_init = \<lparr>vec_cells = [], vec_count = 0, vec_capacity = 0\<rparr>"

definition ast_node_list_push :: "'a vec \<Rightarrow> 'a \<Rightarrow> 'a vec" where
  "ast_node_list_push l node =
     (let l1 = (if vec_count l \<ge> vec_capacity l
                then let new_cap = (if vec_capacity l \<noteq> 0 then vec_capacity l * 2 else 4)
                     in l\<lparr>vec_cells := grow_array (vec_cells l) (vec_capacity l) new_cap,
                          vec_capacity := new_cap\<rparr>
                else l)
      in l1\<lparr>vec_cells := (vec_cells l1)[vec_count l1 := Some node], vec_count := vec_count l1 + 1\<rparr>)"

text \<open>The other four are the same code for another type of element.\<close>

definition type_expr_list_init :: "'a vec" where
  "type_expr_list_init = ast_node_list_init"

definition type_expr_list_push :: "'a vec \<Rightarrow> 'a \<Rightarrow> 'a vec" where
  "type_expr_list_push l ty = ast_node_list_push l ty"

definition string_view_list_init :: "'a vec" where
  "string_view_list_init = ast_node_list_init"

definition string_view_list_push :: "'a vec \<Rightarrow> 'a \<Rightarrow> 'a vec" where
  "string_view_list_push l sv = ast_node_list_push l sv"

definition pattern_list_init :: "'a vec" where
  "pattern_list_init = ast_node_list_init"

definition pattern_list_push :: "'a vec \<Rightarrow> 'a \<Rightarrow> 'a vec" where
  "pattern_list_push l pat = ast_node_list_push l pat"

definition attribute_list_init :: "'a vec" where
  "attribute_list_init = ast_node_list_init"

definition attribute_list_push :: "'a vec \<Rightarrow> 'a \<Rightarrow> 'a vec" where
  "attribute_list_push l attr = ast_node_list_push l attr"

definition vec_items :: "'a vec \<Rightarrow> 'a list" where
  "vec_items l = map the (take (vec_count l) (vec_cells l))"

definition vec_ok :: "'a vec \<Rightarrow> bool" where
  "vec_ok l \<longleftrightarrow> length (vec_cells l) = vec_capacity l \<and> vec_count l \<le> vec_capacity l
     \<and> (\<forall>i < vec_count l. vec_cells l ! i \<noteq> None)
     \<and> (vec_capacity l = 0 \<or> (\<exists>k. vec_capacity l = 4 * 2 ^ k))
     \<and> vec_capacity l \<le> max 4 (2 * vec_count l)"

lemma vec_ok_init: "vec_ok ast_node_list_init" "vec_items ast_node_list_init = []"
  by (simp_all add: vec_ok_def vec_items_def ast_node_list_init_def)

lemma grow_array_length [simp]:
  "length old = old_cap \<Longrightarrow> old_cap \<le> new_cap \<Longrightarrow> length (grow_array old old_cap new_cap) = new_cap"
  by (auto simp: grow_array_def Let_def)

lemma grow_array_nth:
  "length old = old_cap \<Longrightarrow> i < old_cap \<Longrightarrow> old_cap \<le> new_cap \<Longrightarrow>
     grow_array old old_cap new_cap ! i = old ! i"
  by (auto simp: grow_array_def Let_def nth_append)

lemma capacity_doubles:
  "\<exists>k. c = 4 * 2 ^ k \<Longrightarrow> \<exists>k. c * 2 = 4 * (2::nat) ^ k"
  by (metis mult.commute mult.left_commute power_Suc)

lemma push_room:
  assumes "vec_ok l"
  obtains cells cap where
    "ast_node_list_push l x = \<lparr>vec_cells = cells[vec_count l := Some x],
       vec_count = vec_count l + 1, vec_capacity = cap\<rparr>"
    "length cells = cap" "vec_count l < cap" "\<forall>i < vec_count l. cells ! i = vec_cells l ! i"
    "\<exists>k. cap = 4 * 2 ^ k" "cap \<le> max 4 (2 * (vec_count l + 1))"
proof (cases "vec_count l \<ge> vec_capacity l")
  case True
  let ?cap = "if vec_capacity l \<noteq> 0 then vec_capacity l * 2 else 4"
  have eq: "vec_count l = vec_capacity l" using assms True by (simp add: vec_ok_def)
  have "\<exists>k. ?cap = 4 * 2 ^ k"
    using assms capacity_doubles [of "vec_capacity l"] by (auto simp: vec_ok_def intro: exI [of _ 0])
  then show ?thesis
    using assms eq
    by (intro that [of "grow_array (vec_cells l) (vec_capacity l) ?cap" ?cap])
      (auto simp: ast_node_list_push_def Let_def vec_ok_def grow_array_nth)
next
  case False
  then show ?thesis
    using assms by (intro that [of "vec_cells l" "vec_capacity l"])
      (auto simp: ast_node_list_push_def Let_def vec_ok_def)
qed

text \<open>
  C23. The growing arrays implement lists. A push appends its element: what the array held before
  survives the move to the bigger block, every cell below the count has been written, the capacity
  is 4 times a power of two and never more than twice the count (4 for short lists).
\<close>

theorem ast_node_list_push_refines:
  assumes "vec_ok l"
  shows "vec_ok (ast_node_list_push l x) \<and> vec_items (ast_node_list_push l x) = vec_items l @ [x]"
proof -
  obtain cells cap where p: "ast_node_list_push l x = \<lparr>vec_cells = cells[vec_count l := Some x],
       vec_count = vec_count l + 1, vec_capacity = cap\<rparr>"
    and c: "length cells = cap" "vec_count l < cap" "\<forall>i < vec_count l. cells ! i = vec_cells l ! i"
      "\<exists>k. cap = 4 * 2 ^ k" "cap \<le> max 4 (2 * (vec_count l + 1))"
    using push_room [OF assms] by blast
  have "take (vec_count l) cells = take (vec_count l) (vec_cells l)"
    using c assms by (intro nth_take_lemma) (auto simp: vec_ok_def)
  then have "vec_items (ast_node_list_push l x) = vec_items l @ [x]"
    using p c by (simp add: vec_items_def take_Suc_conv_app_nth)
  moreover have "vec_ok (ast_node_list_push l x)"
    using p c assms by (auto simp: vec_ok_def nth_list_update less_Suc_eq)
  ultimately show ?thesis by blast
qed

theorem ast_node_list_push_refines_witness:
  "vec_items (ast_node_list_push ast_node_list_init (7 :: nat)) = [7]"
  using ast_node_list_push_refines [OF vec_ok_init(1), of "7 :: nat"] by (simp add: vec_ok_init)

end
