(* ===== verification/Ast_Build.thy ===== *)
theory Ast_Build
  imports Ast Ast_List
begin

text \<open>
  The functions of \<^verbatim>\<open>src/ast.c\<close> that create and extend the syntax tree. A creating function
  takes the number of nodes allocated so far, which names the new node, and returns it increased;
  it fills the node in as \<^verbatim>\<open>memset\<close> and the assignments of the code do.
\<close>

section \<open>Creating nodes\<close>

definition new_node :: "node_body \<Rightarrow> source_location \<Rightarrow> nat \<Rightarrow> node \<times> nat" where
  "new_node body loc k = (Node k loc body, k + 1)"

subsection \<open>Declarations\<close>

definition ast_new_compilation_unit :: "source_location \<Rightarrow> nat \<Rightarrow> node \<times> nat" where
  "ast_new_compilation_unit loc = new_node (Decl (AST_COMPILATION_UNIT [] [] [])) loc"

definition ast_new_module_decl :: "string_view \<Rightarrow> source_location \<Rightarrow> nat \<Rightarrow> node \<times> nat" where
  "ast_new_module_decl name loc = new_node (Decl (AST_MODULE_DECL name)) loc"

definition ast_new_import_decl :: "string_view \<Rightarrow> source_location \<Rightarrow> nat \<Rightarrow> node \<times> nat" where
  "ast_new_import_decl first loc = new_node (Decl (AST_IMPORT_DECL [first] [])) loc"

definition ast_new_fn_decl :: "string_view \<Rightarrow> source_location \<Rightarrow> nat \<Rightarrow> node \<times> nat" where
  "ast_new_fn_decl name loc = new_node (Decl (AST_FN_DECL name False False False False [] [] [] None None [])) loc"

definition ast_new_struct_decl :: "string_view \<Rightarrow> source_location \<Rightarrow> nat \<Rightarrow> node \<times> nat" where
  "ast_new_struct_decl name loc = new_node (Decl (AST_STRUCT_DECL name False [] [] [])) loc"

definition ast_new_union_decl :: "string_view \<Rightarrow> source_location \<Rightarrow> nat \<Rightarrow> node \<times> nat" where
  "ast_new_union_decl name loc = new_node (Decl (AST_UNION_DECL name False [] [] [])) loc"

definition ast_new_enum_decl :: "string_view \<Rightarrow> source_location \<Rightarrow> nat \<Rightarrow> node \<times> nat" where
  "ast_new_enum_decl name loc = new_node (Decl (AST_ENUM_DECL name False [] [])) loc"

definition ast_new_traits_decl :: "string_view \<Rightarrow> source_location \<Rightarrow> nat \<Rightarrow> node \<times> nat" where
  "ast_new_traits_decl name loc = new_node (Decl (AST_TRAITS_DECL name False [] [])) loc"

definition ast_new_extend_decl :: "string_view \<Rightarrow> source_location \<Rightarrow> nat \<Rightarrow> node \<times> nat" where
  "ast_new_extend_decl target loc = new_node (Decl (AST_EXTEND_DECL target [] [] [] [])) loc"

definition ast_new_type_alias :: "string_view \<Rightarrow> source_location \<Rightarrow> nat \<Rightarrow> node \<times> nat" where
  "ast_new_type_alias name loc = new_node (Decl (AST_TYPE_ALIAS name False None [])) loc"

definition ast_new_const_decl :: "string_view \<Rightarrow> source_location \<Rightarrow> nat \<Rightarrow> node \<times> nat" where
  "ast_new_const_decl name loc = new_node (Decl (AST_CONST_DECL name False False None None [])) loc"

definition ast_new_var_decl :: "string_view \<Rightarrow> source_location \<Rightarrow> nat \<Rightarrow> node \<times> nat" where
  "ast_new_var_decl name loc = new_node (Decl (AST_VAR_DECL name False False None None [])) loc"

definition ast_new_test_decl :: "string_view \<Rightarrow> source_location \<Rightarrow> nat \<Rightarrow> node \<times> nat" where
  "ast_new_test_decl name loc = new_node (Decl (AST_TEST_DECL name None [])) loc"

definition ast_new_field_decl :: "string_view \<Rightarrow> source_location \<Rightarrow> nat \<Rightarrow> node \<times> nat" where
  "ast_new_field_decl name loc = new_node (Decl (AST_FIELD_DECL name False None None [])) loc"

definition ast_new_variant_decl :: "string_view \<Rightarrow> source_location \<Rightarrow> nat \<Rightarrow> node \<times> nat" where
  "ast_new_variant_decl name loc = new_node (Decl (AST_VARIANT_DECL name None None)) loc"

definition ast_new_trait_method_decl :: "string_view \<Rightarrow> source_location \<Rightarrow> nat \<Rightarrow> node \<times> nat" where
  "ast_new_trait_method_decl name loc = new_node (Decl (AST_TRAIT_METHOD_DECL name False [] None)) loc"

definition ast_new_param_decl :: "string_view \<Rightarrow> source_location \<Rightarrow> nat \<Rightarrow> node \<times> nat" where
  "ast_new_param_decl name loc = new_node (Decl (AST_PARAM_DECL name None None False False)) loc"

definition ast_new_generic_param_decl :: "string_view \<Rightarrow> source_location \<Rightarrow> nat \<Rightarrow> node \<times> nat" where
  "ast_new_generic_param_decl name loc = new_node (Decl (AST_GENERIC_PARAM_DECL name [])) loc"

subsection \<open>Statements\<close>

definition ast_new_block :: "source_location \<Rightarrow> nat \<Rightarrow> node \<times> nat" where
  "ast_new_block loc = new_node (Stmt (AST_BLOCK [] None)) loc"

definition ast_new_expr_stmt :: "node option \<Rightarrow> source_location \<Rightarrow> nat \<Rightarrow> node \<times> nat" where
  "ast_new_expr_stmt expr loc = new_node (Stmt (AST_EXPR_STMT expr)) loc"

definition ast_new_return :: "node option \<Rightarrow> source_location \<Rightarrow> nat \<Rightarrow> node \<times> nat" where
  "ast_new_return val loc = new_node (Stmt (AST_RETURN_STMT val False)) loc"

definition ast_new_if :: "node option \<Rightarrow> node option \<Rightarrow> node option \<Rightarrow> source_location \<Rightarrow> nat \<Rightarrow> node \<times> nat" where
  "ast_new_if cond then_block else_block loc = new_node (Stmt (AST_IF_STMT cond then_block else_block)) loc"

definition ast_new_while :: "node option \<Rightarrow> node option \<Rightarrow> source_location \<Rightarrow> nat \<Rightarrow> node \<times> nat" where
  "ast_new_while cond body loc = new_node (Stmt (AST_WHILE_STMT cond body)) loc"

definition ast_new_for :: "string_view \<Rightarrow> type_expr option \<Rightarrow> node option \<Rightarrow> node option \<Rightarrow> source_location \<Rightarrow> nat \<Rightarrow> node \<times> nat" where
  "ast_new_for var ty iterable body loc = new_node (Stmt (AST_FOR_STMT var ty iterable body)) loc"

definition ast_new_defer :: "node option \<Rightarrow> source_location \<Rightarrow> nat \<Rightarrow> node \<times> nat" where
  "ast_new_defer expr loc = new_node (Stmt (AST_DEFER_STMT expr)) loc"

definition ast_new_errdefer :: "node option \<Rightarrow> source_location \<Rightarrow> nat \<Rightarrow> node \<times> nat" where
  "ast_new_errdefer body loc = new_node (Stmt (AST_ERRDEFER_STMT body)) loc"

definition ast_new_break :: "source_location \<Rightarrow> nat \<Rightarrow> node \<times> nat" where
  "ast_new_break loc = new_node (Stmt AST_BREAK_STMT) loc"

definition ast_new_continue :: "source_location \<Rightarrow> nat \<Rightarrow> node \<times> nat" where
  "ast_new_continue loc = new_node (Stmt AST_CONTINUE_STMT) loc"

definition ast_new_match :: "node option \<Rightarrow> source_location \<Rightarrow> nat \<Rightarrow> node \<times> nat" where
  "ast_new_match expr loc = new_node (Stmt (AST_MATCH_STMT expr [])) loc"

definition ast_new_match_arm :: "pattern option \<Rightarrow> node option \<Rightarrow> source_location \<Rightarrow> nat \<Rightarrow> node \<times> nat" where
  "ast_new_match_arm pat expr loc = new_node (Expr (AST_MATCH_ARM pat expr)) loc"

definition ast_new_assign :: "token_kind \<Rightarrow> node option \<Rightarrow> node option \<Rightarrow> source_location \<Rightarrow> nat \<Rightarrow> node \<times> nat" where
  "ast_new_assign op lhs rhs loc = new_node (Stmt (AST_ASSIGN_STMT op lhs rhs)) loc"

subsection \<open>Expressions\<close>

definition ast_new_int_literal :: "64 word \<Rightarrow> source_location \<Rightarrow> nat \<Rightarrow> node \<times> nat" where
  "ast_new_int_literal val loc = new_node (Expr (AST_INT_LITERAL val)) loc"

definition ast_new_float_literal :: "string \<Rightarrow> source_location \<Rightarrow> nat \<Rightarrow> node \<times> nat" where
  "ast_new_float_literal val loc = new_node (Expr (AST_FLOAT_LITERAL val)) loc"

definition ast_new_string_literal :: "string_view \<Rightarrow> source_location \<Rightarrow> nat \<Rightarrow> node \<times> nat" where
  "ast_new_string_literal val loc = new_node (Expr (AST_STRING_LITERAL val)) loc"

definition ast_new_char_literal :: "string_view \<Rightarrow> source_location \<Rightarrow> nat \<Rightarrow> node \<times> nat" where
  "ast_new_char_literal val loc = new_node (Expr (AST_CHAR_LITERAL val)) loc"

definition ast_new_bool_literal :: "bool \<Rightarrow> source_location \<Rightarrow> nat \<Rightarrow> node \<times> nat" where
  "ast_new_bool_literal val loc = new_node (Expr (AST_BOOL_LITERAL val)) loc"

definition ast_new_null_literal :: "source_location \<Rightarrow> nat \<Rightarrow> node \<times> nat" where
  "ast_new_null_literal loc = new_node (Expr AST_NULL_LITERAL) loc"

definition ast_new_undefined_literal :: "source_location \<Rightarrow> nat \<Rightarrow> node \<times> nat" where
  "ast_new_undefined_literal loc = new_node (Expr AST_UNDEFINED_LITERAL) loc"

definition ast_new_identifier :: "string_view \<Rightarrow> source_location \<Rightarrow> nat \<Rightarrow> node \<times> nat" where
  "ast_new_identifier name loc = new_node (Expr (AST_IDENTIFIER name)) loc"

definition ast_new_binary :: "token_kind \<Rightarrow> node option \<Rightarrow> node option \<Rightarrow> source_location \<Rightarrow> nat \<Rightarrow> node \<times> nat" where
  "ast_new_binary op left right loc = new_node (Expr (AST_BINARY_EXPR op left right)) loc"

definition ast_new_unary :: "token_kind \<Rightarrow> node option \<Rightarrow> source_location \<Rightarrow> nat \<Rightarrow> node \<times> nat" where
  "ast_new_unary op operand loc = new_node (Expr (AST_UNARY_EXPR op operand)) loc"

definition ast_new_call :: "node option \<Rightarrow> source_location \<Rightarrow> nat \<Rightarrow> node \<times> nat" where
  "ast_new_call callee loc = new_node (Expr (AST_CALL_EXPR callee [])) loc"

definition ast_new_method_call :: "node option \<Rightarrow> string_view \<Rightarrow> source_location \<Rightarrow> nat \<Rightarrow> node \<times> nat" where
  "ast_new_method_call receiver meth loc = new_node (Expr (AST_METHOD_CALL_EXPR receiver meth [])) loc"

definition ast_new_field_access :: "node option \<Rightarrow> string_view \<Rightarrow> source_location \<Rightarrow> nat \<Rightarrow> node \<times> nat" where
  "ast_new_field_access obj field loc = new_node (Expr (AST_FIELD_ACCESS_EXPR obj field)) loc"

definition ast_new_index :: "node option \<Rightarrow> node option \<Rightarrow> source_location \<Rightarrow> nat \<Rightarrow> node \<times> nat" where
  "ast_new_index obj idx loc = new_node (Expr (AST_INDEX_EXPR obj idx)) loc"

definition ast_new_slice :: "node option \<Rightarrow> node option \<Rightarrow> node option \<Rightarrow> source_location \<Rightarrow> nat \<Rightarrow> node \<times> nat" where
  "ast_new_slice obj lo hi loc = new_node (Expr (AST_SLICE_EXPR obj lo hi)) loc"

definition ast_new_cast :: "node option \<Rightarrow> type_expr option \<Rightarrow> source_location \<Rightarrow> nat \<Rightarrow> node \<times> nat" where
  "ast_new_cast expr ty loc = new_node (Expr (AST_CAST_EXPR expr ty)) loc"

definition ast_new_try :: "node option \<Rightarrow> source_location \<Rightarrow> nat \<Rightarrow> node \<times> nat" where
  "ast_new_try expr loc = new_node (Expr (AST_TRY_EXPR expr)) loc"

definition ast_new_error_capture :: "node option \<Rightarrow> string_view \<Rightarrow> node option \<Rightarrow> source_location \<Rightarrow> nat \<Rightarrow> node \<times> nat" where
  "ast_new_error_capture expr err_name fallback loc = new_node (Expr (AST_ERROR_CAPTURE_EXPR expr err_name fallback)) loc"

definition ast_new_unsafe_block :: "node option \<Rightarrow> source_location \<Rightarrow> nat \<Rightarrow> node \<times> nat" where
  "ast_new_unsafe_block body loc = new_node (Expr (AST_UNSAFE_BLOCK_EXPR body)) loc"

definition ast_new_array_literal :: "source_location \<Rightarrow> nat \<Rightarrow> node \<times> nat" where
  "ast_new_array_literal loc = new_node (Expr (AST_ARRAY_LITERAL None None [] False)) loc"

definition ast_new_struct_literal :: "type_expr option \<Rightarrow> source_location \<Rightarrow> nat \<Rightarrow> node \<times> nat" where
  "ast_new_struct_literal ty loc = new_node (Expr (AST_STRUCT_LITERAL ty [])) loc"

section \<open>Extending nodes\<close>

text \<open>
  The functions that fill in a node under construction; each is applied to the kind of node it is
  made for only. For any other kind, where the code would write to a foreign member of the union,
  the node stays as it is here.
\<close>

definition with_decl :: "node \<Rightarrow> (decl_body \<Rightarrow> decl_body) \<Rightarrow> node" where
  "with_decl n f = Node (n_id n) (n_loc n) (case n_body n of Decl d \<Rightarrow> Decl (f d) | b \<Rightarrow> b)"

definition with_stmt :: "node \<Rightarrow> (stmt_body \<Rightarrow> stmt_body) \<Rightarrow> node" where
  "with_stmt n f = Node (n_id n) (n_loc n) (case n_body n of Stmt s \<Rightarrow> Stmt (f s) | b \<Rightarrow> b)"

definition with_expr :: "node \<Rightarrow> (expr_body \<Rightarrow> expr_body) \<Rightarrow> node" where
  "with_expr n f = Node (n_id n) (n_loc n) (case n_body n of Expr e \<Rightarrow> Expr (f e) | b \<Rightarrow> b)"

definition ast_import_add_part :: "node \<Rightarrow> string_view \<Rightarrow> node" where
  "ast_import_add_part n part = with_decl n (\<lambda>b. case b of
     AST_IMPORT_DECL parts alias \<Rightarrow> AST_IMPORT_DECL (parts @ [part]) alias
   | _ \<Rightarrow> b)"

definition ast_import_set_alias :: "node \<Rightarrow> string_view \<Rightarrow> node" where
  "ast_import_set_alias n alias = with_decl n (\<lambda>b. case b of
     AST_IMPORT_DECL parts old \<Rightarrow> AST_IMPORT_DECL parts alias
   | _ \<Rightarrow> b)"

definition ast_set_module :: "node \<Rightarrow> string_view \<Rightarrow> node" where
  "ast_set_module n name = with_decl n (\<lambda>b. case b of
     AST_COMPILATION_UNIT old imports decls \<Rightarrow> AST_COMPILATION_UNIT name imports decls
   | _ \<Rightarrow> b)"

definition ast_add_import :: "node \<Rightarrow> node \<Rightarrow> node" where
  "ast_add_import n imp = with_decl n (\<lambda>b. case b of
     AST_COMPILATION_UNIT name imports decls \<Rightarrow> AST_COMPILATION_UNIT name (imports @ [imp]) decls
   | _ \<Rightarrow> b)"

definition ast_add_decl :: "node \<Rightarrow> node \<Rightarrow> node" where
  "ast_add_decl n d = with_decl n (\<lambda>b. case b of
     AST_COMPILATION_UNIT name imports decls \<Rightarrow> AST_COMPILATION_UNIT name imports (decls @ [d])
   | _ \<Rightarrow> b)"

definition ast_block_add_stmt :: "node \<Rightarrow> node \<Rightarrow> node" where
  "ast_block_add_stmt n s = with_stmt n (\<lambda>b. case b of
     AST_BLOCK stmts trailing \<Rightarrow> AST_BLOCK (stmts @ [s]) trailing
   | _ \<Rightarrow> b)"

definition ast_block_set_trailing :: "node \<Rightarrow> node \<Rightarrow> node" where
  "ast_block_set_trailing n expr = with_stmt n (\<lambda>b. case b of
     AST_BLOCK stmts trailing \<Rightarrow> AST_BLOCK stmts (Some expr)
   | _ \<Rightarrow> b)"

definition ast_fn_add_param :: "node \<Rightarrow> node \<Rightarrow> node" where
  "ast_fn_add_param n param = with_decl n (\<lambda>b. case b of
     AST_FN_DECL name pub ct us ext abi gps params ret body attrs \<Rightarrow> AST_FN_DECL name pub ct us ext abi gps (params @ [param]) ret body attrs
   | _ \<Rightarrow> b)"

definition ast_struct_add_field :: "node \<Rightarrow> node \<Rightarrow> node" where
  "ast_struct_add_field n field = with_decl n (\<lambda>b. case b of
     AST_STRUCT_DECL name pub gps fds attrs \<Rightarrow> AST_STRUCT_DECL name pub gps (fds @ [field]) attrs
   | AST_UNION_DECL name pub gps fds attrs \<Rightarrow> AST_UNION_DECL name pub gps (fds @ [field]) attrs
   | _ \<Rightarrow> b)"

definition ast_enum_add_variant :: "node \<Rightarrow> node \<Rightarrow> node" where
  "ast_enum_add_variant n v = with_decl n (\<lambda>b. case b of
     AST_ENUM_DECL name pub variants attrs \<Rightarrow> AST_ENUM_DECL name pub (variants @ [v]) attrs
   | _ \<Rightarrow> b)"

definition ast_traits_add_method :: "node \<Rightarrow> node \<Rightarrow> node" where
  "ast_traits_add_method n m = with_decl n (\<lambda>b. case b of
     AST_TRAITS_DECL name pub methods attrs \<Rightarrow> AST_TRAITS_DECL name pub (methods @ [m]) attrs
   | _ \<Rightarrow> b)"

definition ast_extend_add_method :: "node \<Rightarrow> node \<Rightarrow> node" where
  "ast_extend_add_method n m = with_decl n (\<lambda>b. case b of
     AST_EXTEND_DECL target gps traits methods attrs \<Rightarrow> AST_EXTEND_DECL target gps traits (methods @ [m]) attrs
   | _ \<Rightarrow> b)"

definition ast_extend_add_trait :: "node \<Rightarrow> string_view \<Rightarrow> node" where
  "ast_extend_add_trait n trait = with_decl n (\<lambda>b. case b of
     AST_EXTEND_DECL target gps traits methods attrs \<Rightarrow> AST_EXTEND_DECL target gps (traits @ [trait]) methods attrs
   | _ \<Rightarrow> b)"

definition ast_call_add_arg :: "node \<Rightarrow> node \<Rightarrow> node" where
  "ast_call_add_arg n arg = with_expr n (\<lambda>b. case b of
     AST_METHOD_CALL_EXPR receiver meth args \<Rightarrow> AST_METHOD_CALL_EXPR receiver meth (args @ [arg])
   | AST_CALL_EXPR callee args \<Rightarrow> AST_CALL_EXPR callee (args @ [arg])
   | _ \<Rightarrow> b)"

definition ast_array_add_elem :: "node \<Rightarrow> node \<Rightarrow> node" where
  "ast_array_add_elem n elem = with_expr n (\<lambda>b. case b of
     AST_ARRAY_LITERAL ty len elems sent \<Rightarrow> AST_ARRAY_LITERAL ty len (elems @ [elem]) sent
   | _ \<Rightarrow> b)"

definition ast_struct_add_field_init :: "node \<Rightarrow> node \<Rightarrow> node" where
  "ast_struct_add_field_init n ini = with_expr n (\<lambda>b. case b of
     AST_STRUCT_LITERAL ty fds \<Rightarrow> AST_STRUCT_LITERAL ty (fds @ [ini])
   | _ \<Rightarrow> b)"

definition ast_match_add_arm :: "node \<Rightarrow> node \<Rightarrow> node" where
  "ast_match_add_arm n arm = with_stmt n (\<lambda>b. case b of
     AST_MATCH_STMT expr arms \<Rightarrow> AST_MATCH_STMT expr (arms @ [arm])
   | _ \<Rightarrow> b)"

section \<open>Types and patterns\<close>

definition type_new_named :: "string_view \<Rightarrow> source_location \<Rightarrow> type_expr" where
  "type_new_named name loc = TYPE_NAMED loc name []"

definition type_new_reference :: "type_expr option \<Rightarrow> bool \<Rightarrow> source_location \<Rightarrow> type_expr" where
  "type_new_reference child is_const loc = TYPE_REFERENCE loc child is_const"

definition type_new_pointer :: "type_expr option \<Rightarrow> bool \<Rightarrow> source_location \<Rightarrow> type_expr" where
  "type_new_pointer child is_const loc = TYPE_POINTER loc child is_const"

definition type_new_slice :: "type_expr option \<Rightarrow> bool \<Rightarrow> source_location \<Rightarrow> type_expr" where
  "type_new_slice child is_const loc = TYPE_SLICE loc child is_const"

definition type_new_array :: "node option \<Rightarrow> type_expr option \<Rightarrow> source_location \<Rightarrow> type_expr" where
  "type_new_array len elem loc = TYPE_ARRAY loc len elem"

definition type_new_optional :: "type_expr option \<Rightarrow> source_location \<Rightarrow> type_expr" where
  "type_new_optional child loc = TYPE_OPTIONAL loc child"

definition type_new_error_union ::
    "type_expr option \<Rightarrow> type_expr option \<Rightarrow> source_location \<Rightarrow> type_expr" where
  "type_new_error_union err success loc = TYPE_ERROR_UNION loc err success"

definition type_new_function :: "source_location \<Rightarrow> type_expr" where
  "type_new_function loc = TYPE_FUNCTION loc [] None"

definition type_add_generic_arg :: "type_expr \<Rightarrow> type_expr option \<Rightarrow> type_expr" where
  "type_add_generic_arg t arg = (case t of
     TYPE_NAMED loc name args \<Rightarrow> TYPE_NAMED loc name (args @ [arg])
   | _ \<Rightarrow> t)"

definition type_func_add_param :: "type_expr \<Rightarrow> type_expr option \<Rightarrow> type_expr" where
  "type_func_add_param t param = (case t of
     TYPE_FUNCTION loc params ret \<Rightarrow> TYPE_FUNCTION loc (params @ [param]) ret
   | _ \<Rightarrow> t)"

definition type_func_set_ret :: "type_expr \<Rightarrow> type_expr option \<Rightarrow> type_expr" where
  "type_func_set_ret t ret = (case t of
     TYPE_FUNCTION loc params old \<Rightarrow> TYPE_FUNCTION loc params ret
   | _ \<Rightarrow> t)"

definition pattern_new_wildcard :: "source_location \<Rightarrow> pattern" where
  "pattern_new_wildcard loc = PATTERN_WILDCARD loc"

definition pattern_new_literal :: "node option \<Rightarrow> source_location \<Rightarrow> pattern" where
  "pattern_new_literal lit loc = PATTERN_LITERAL loc lit"

definition pattern_new_identifier :: "string_view \<Rightarrow> source_location \<Rightarrow> pattern" where
  "pattern_new_identifier name loc = PATTERN_IDENTIFIER loc name"

definition pattern_new_enum_variant ::
    "string_view \<Rightarrow> pattern option \<Rightarrow> source_location \<Rightarrow> pattern" where
  "pattern_new_enum_variant name inner loc = PATTERN_ENUM_VARIANT loc name inner"

definition pattern_new_struct_field :: "source_location \<Rightarrow> pattern" where
  "pattern_new_struct_field loc = PATTERN_STRUCT_FIELD loc [] []"

definition pattern_struct_add_field :: "pattern \<Rightarrow> string_view \<Rightarrow> pattern \<Rightarrow> pattern" where
  "pattern_struct_add_field p name field_pat = (case p of
     PATTERN_STRUCT_FIELD loc fds pats \<Rightarrow>
       PATTERN_STRUCT_FIELD loc (fds @ [name]) (pats @ [field_pat])
   | _ \<Rightarrow> p)"

section \<open>Classification\<close>

definition primitives :: "string list" where
  "primitives =
   [''void'', ''bool'', ''noreturn'', ''i8'', ''i16'', ''i32'', ''i64'', ''i128'', ''isize'',
    ''u8'', ''u16'', ''u32'', ''u64'', ''u128'', ''usize'', ''f32'', ''f64'']"

definition sv_is_primitive_type :: "string_view \<Rightarrow> bool" where
  "sv_is_primitive_type sv = list_ex (\<lambda>p. sv_eq_cstr sv p) primitives"

definition token_is_assignment_op :: "token_kind \<Rightarrow> bool" where
  "token_is_assignment_op kind \<longleftrightarrow>
     kind = TOK_ASSIGN \<or> kind = TOK_PLUS_ASSIGN \<or> kind = TOK_MINUS_ASSIGN
     \<or> kind = TOK_STAR_ASSIGN \<or> kind = TOK_SLASH_ASSIGN \<or> kind = TOK_PERCENT_ASSIGN
     \<or> kind = TOK_AND_ASSIGN \<or> kind = TOK_OR_ASSIGN \<or> kind = TOK_XOR_ASSIGN
     \<or> kind = TOK_SHL_ASSIGN \<or> kind = TOK_SHR_ASSIGN"

end
