(* ===== verification/Parse_Messages.thy ===== *)
theory Parse_Messages
  imports Raya_Prelude
begin

text \<open>The messages the parser of \<^verbatim>\<open>src/parser.c\<close> reports, in the order of the file.\<close>

definition m_hash :: string where
  "m_hash = ''expected '#'' @ [CHR 0x27]"

definition m_lbracket_after_hash :: string where
  "m_lbracket_after_hash = ''expected '[' after '#'' @ [CHR 0x27]"

definition m_attribute_name :: string where
  "m_attribute_name = ''expected attribute name''"

definition m_rparen_after_attribute_args :: string where
  "m_rparen_after_attribute_args = ''expected ')' after attribute args''"

definition m_rbracket_after_attribute :: string where
  "m_rbracket_after_attribute = ''expected ']' after attribute''"

definition m_lbrace_in_struct_literal :: string where
  "m_lbrace_in_struct_literal = ''expected '{' in struct literal''"

definition m_field_name :: string where
  "m_field_name = ''expected field name''"

definition m_colon_after_field_name :: string where
  "m_colon_after_field_name = ''expected ':' after field name''"

definition m_rbrace_in_struct_literal :: string where
  "m_rbrace_in_struct_literal = ''expected '}' in struct literal''"

definition m_rparen_after_expression :: string where
  "m_rparen_after_expression = ''expected ')' after expression''"

definition m_rbracket_in_array_literal :: string where
  "m_rbracket_in_array_literal = ''expected ']' in array literal''"

definition m_lbrace_in_array_literal :: string where
  "m_lbrace_in_array_literal = ''expected '{' in array literal''"

definition m_rbrace_in_array_literal :: string where
  "m_rbrace_in_array_literal = ''expected '}' in array literal''"

definition m_expression :: string where
  "m_expression = ''expected expression''"

definition m_pipe_after_else_in_try_capture :: string where
  "m_pipe_after_else_in_try_capture = ''expected '|' after 'else' in try capture''"

definition m_error_variable_name :: string where
  "m_error_variable_name = ''expected error variable name''"

definition m_pipe_after_error_variable_name :: string where
  "m_pipe_after_error_variable_name = ''expected '|' after error variable name''"

definition m_identifier_after_dot :: string where
  "m_identifier_after_dot = ''expected identifier after '.'' @ [CHR 0x27]"

definition m_rparen_after_arguments :: string where
  "m_rparen_after_arguments = ''expected ')' after arguments''"

definition m_rbracket_after_slice :: string where
  "m_rbracket_after_slice = ''expected ']' after slice''"

definition m_rbracket_after_index :: string where
  "m_rbracket_after_index = ''expected ']' after index''"

definition m_lbrace :: string where
  "m_lbrace = ''expected '{'' @ [CHR 0x27]"

definition m_semicolon_after_assignment :: string where
  "m_semicolon_after_assignment = ''expected ';' after assignment''"

definition m_semicolon_or_rbrace_after_expression :: string where
  "m_semicolon_or_rbrace_after_expression = ''expected ';' or '}' after expression''"

definition m_rbrace :: string where
  "m_rbrace = ''expected '}'' @ [CHR 0x27]"

definition m_identifier :: string where
  "m_identifier = ''expected identifier''"

definition m_assign_in_declaration :: string where
  "m_assign_in_declaration = ''expected '=' in declaration''"

definition m_semicolon_after_declaration :: string where
  "m_semicolon_after_declaration = ''expected ';' after declaration''"

definition m_semicolon_after_return :: string where
  "m_semicolon_after_return = ''expected ';' after return''"

definition m_identifier_after_for :: string where
  "m_identifier_after_for = ''expected identifier after 'for'' @ [CHR 0x27]"

definition m_colon_after_for_variable :: string where
  "m_colon_after_for_variable = ''expected ':' after for variable''"

definition m_in_after_for_variable_type :: string where
  "m_in_after_for_variable_type = ''expected 'in' after for variable type''"

definition m_semicolon_after_break :: string where
  "m_semicolon_after_break = ''expected ';' after break''"

definition m_semicolon_after_continue :: string where
  "m_semicolon_after_continue = ''expected ';' after continue''"

definition m_semicolon_after_defer :: string where
  "m_semicolon_after_defer = ''expected ';' after defer''"

definition m_lbrace_after_match_expression :: string where
  "m_lbrace_after_match_expression = ''expected '{' after match expression''"

definition m_fat_arrow_in_match_arm :: string where
  "m_fat_arrow_in_match_arm = ''expected '=>' in match arm''"

definition m_rbrace_after_match_arms :: string where
  "m_rbrace_after_match_arms = ''expected '}' after match arms''"

definition m_semicolon_after_expression :: string where
  "m_semicolon_after_expression = ''expected ';' after expression''"

definition m_colon :: string where
  "m_colon = ''expected ':'' @ [CHR 0x27]"

definition m_variant_name_after_dot :: string where
  "m_variant_name_after_dot = ''expected variant name after '.'' @ [CHR 0x27]"

definition m_rparen_after_variant_pattern :: string where
  "m_rparen_after_variant_pattern = ''expected ')' after variant pattern''"

definition m_pattern :: string where
  "m_pattern = ''expected pattern''"

definition m_rbracket_in_array_type :: string where
  "m_rbracket_in_array_type = ''expected ']' in array type''"

definition m_lparen_in_function_type :: string where
  "m_lparen_in_function_type = ''expected '(' in function type''"

definition m_rparen :: string where
  "m_rparen = ''expected ')'' @ [CHR 0x27]"

definition m_rparen_after_generic_arguments :: string where
  "m_rparen_after_generic_arguments = ''expected ')' after generic arguments''"

definition m_type :: string where
  "m_type = ''expected type''"

definition m_self :: string where
  "m_self = ''expected 'self'' @ [CHR 0x27]"

definition m_parameter_name :: string where
  "m_parameter_name = ''expected parameter name''"

definition m_colon_after_parameter_name :: string where
  "m_colon_after_parameter_name = ''expected ':' after parameter name''"

definition m_lparen :: string where
  "m_lparen = ''expected '('' @ [CHR 0x27]"

definition m_generic_parameter_name :: string where
  "m_generic_parameter_name = ''expected generic parameter name''"

definition m_type_keyword :: string where
  "m_type_keyword = ''expected 'type'' @ [CHR 0x27]"

definition m_trait_name :: string where
  "m_trait_name = ''expected trait name''"

definition m_fn :: string where
  "m_fn = ''expected 'fn'' @ [CHR 0x27]"

definition m_function_name :: string where
  "m_function_name = ''expected function name''"

definition m_struct :: string where
  "m_struct = ''expected 'struct'' @ [CHR 0x27]"

definition m_struct_name :: string where
  "m_struct_name = ''expected struct name''"

definition m_union :: string where
  "m_union = ''expected 'union'' @ [CHR 0x27]"

definition m_union_name :: string where
  "m_union_name = ''expected union name''"

definition m_enum :: string where
  "m_enum = ''expected 'enum'' @ [CHR 0x27]"

definition m_enum_name :: string where
  "m_enum_name = ''expected enum name''"

definition m_variant_name :: string where
  "m_variant_name = ''expected variant name''"

definition m_rparen_after_variant_payload :: string where
  "m_rparen_after_variant_payload = ''expected ')' after variant payload''"

definition m_traits :: string where
  "m_traits = ''expected 'traits'' @ [CHR 0x27]"

definition m_fn_in_trait_method :: string where
  "m_fn_in_trait_method = ''expected 'fn' in trait method''"

definition m_method_name :: string where
  "m_method_name = ''expected method name''"

definition m_semicolon_after_trait_method :: string where
  "m_semicolon_after_trait_method = ''expected ';' after trait method''"

definition m_extend :: string where
  "m_extend = ''expected 'extend'' @ [CHR 0x27]"

definition m_type_name_after_extend :: string where
  "m_type_name_after_extend = ''expected type name after 'extend'' @ [CHR 0x27]"

definition m_type_alias_name :: string where
  "m_type_alias_name = ''expected type alias name''"

definition m_assign :: string where
  "m_assign = ''expected '='' @ [CHR 0x27]"

definition m_semicolon_after_type_alias :: string where
  "m_semicolon_after_type_alias = ''expected ';' after type alias''"

definition m_test :: string where
  "m_test = ''expected 'test'' @ [CHR 0x27]"

definition m_test_name_string :: string where
  "m_test_name_string = ''expected test name string''"

definition m_semicolon :: string where
  "m_semicolon = ''expected ';'' @ [CHR 0x27]"

definition m_top_level_declaration :: string where
  "m_top_level_declaration = ''expected top-level declaration''"

definition m_module_name :: string where
  "m_module_name = ''expected module name''"

definition m_semicolon_after_module_declaration :: string where
  "m_semicolon_after_module_declaration = ''expected ';' after module declaration''"

definition m_module_name_after_import :: string where
  "m_module_name_after_import = ''expected module name after import''"

definition m_identifier_after_as :: string where
  "m_identifier_after_as = ''expected identifier after 'as'' @ [CHR 0x27]"

definition m_semicolon_after_import :: string where
  "m_semicolon_after_import = ''expected ';' after import''"

end
