(* ===== verification/Parser.thy ===== *)
theory Parser
  imports Ast_Build Parse_Messages
begin

text \<open>
  The expression, statement, pattern and type parser of \<^verbatim>\<open>src/parser.c\<close>. The state is the
  token array with the cursor, the number of nodes allocated in the arena, the error flag and what
  went to \<^verbatim>\<open>stderr\<close>. A parsing function returns \<open>None\<close> only when its fuel is used
  up. The functions that call each other recursively reach one another through the record
  \<open>parsers\<close>; \<open>parsers_at n\<close> ties the knot \<open>n\<close> levels deep. A loop takes its own fuel, the number of
  iterations left.
\<close>

section \<open>State and token navigation\<close>

record parser =
  p_tokens :: "token list"
  p_pos :: nat
  p_nodes :: nat
  p_had_error :: bool
  p_stderr :: string

type_synonym 'a parse = "parser \<Rightarrow> ('a \<times> parser) option"

abbreviation p_count :: "parser \<Rightarrow> nat" where
  "p_count p \<equiv> length (p_tokens p)"

definition parser_init :: "token list \<Rightarrow> nat \<Rightarrow> parser" where
  "parser_init tokens nodes =
     \<lparr>p_tokens = tokens, p_pos = 0, p_nodes = nodes, p_had_error = False, p_stderr = []\<rparr>"

definition parser_current :: "parser \<Rightarrow> token" where
  "parser_current p =
     (if p_pos p \<ge> p_count p then p_tokens p ! (p_count p - 1) else p_tokens p ! p_pos p)"

definition parser_peek :: "parser \<Rightarrow> nat \<Rightarrow> token" where
  "parser_peek p ahead =
     (if p_pos p + ahead \<ge> p_count p then p_tokens p ! (p_count p - 1)
      else p_tokens p ! (p_pos p + ahead))"

definition parser_at_end :: "parser \<Rightarrow> bool" where
  "parser_at_end p \<longleftrightarrow> tok_kind (parser_current p) = TOK_EOF"

definition parser_check :: "token_kind \<Rightarrow> parser \<Rightarrow> bool" where
  "parser_check kind p \<longleftrightarrow> tok_kind (parser_current p) = kind"

text \<open>The statement \<^verbatim>\<open>p->pos++\<close>.\<close>

definition skip_token :: "parser \<Rightarrow> parser" where
  "skip_token p = p\<lparr>p_pos := p_pos p + 1\<rparr>"

definition parser_match :: "token_kind \<Rightarrow> parser \<Rightarrow> bool \<times> parser" where
  "parser_match kind p = (if parser_check kind p then (True, skip_token p) else (False, p))"

definition parser_error :: "token \<Rightarrow> string \<Rightarrow> parser \<Rightarrow> parser" where
  "parser_error tok message p =
     p\<lparr>p_had_error := True,
       p_stderr := p_stderr p @ ''parser error at '' @ filename (tok_loc tok) @ '':''
         @ show_nat (line (tok_loc tok)) @ '':'' @ show_nat (column (tok_loc tok)) @ '': ''
         @ message @ [NL]\<rparr>"

definition parser_expect :: "token_kind \<Rightarrow> string \<Rightarrow> parser \<Rightarrow> bool \<times> parser" where
  "parser_expect kind message p =
     (let (matched, p) = parser_match kind p in
      if matched then (True, p) else (False, parser_error (parser_current p) message p))"

text \<open>A call of a function that creates a node, with the arena of the parser.\<close>

definition alloc :: "(nat \<Rightarrow> node \<times> nat) \<Rightarrow> parser \<Rightarrow> node \<times> parser" where
  "alloc new p = (let (n, k) = new (p_nodes p) in (n, p\<lparr>p_nodes := k\<rparr>))"

section \<open>Binding powers\<close>

definition infix_binding_power :: "token_kind \<Rightarrow> (int \<times> int) option" where
  "infix_binding_power k =
    (if k = TOK_OR_OR then Some (10, 11)
     else if k = TOK_AND_AND then Some (20, 21)
     else if k = TOK_EQ \<or> k = TOK_NE then Some (30, 31)
     else if k = TOK_LT \<or> k = TOK_GT \<or> k = TOK_LE \<or> k = TOK_GE then Some (40, 41)
     else if k = TOK_PIPE then Some (50, 51)
     else if k = TOK_CARET then Some (60, 61)
     else if k = TOK_AMPERSAND then Some (70, 71)
     else if k = TOK_SHL \<or> k = TOK_SHR then Some (80, 81)
     else if k = TOK_PLUS \<or> k = TOK_MINUS then Some (90, 91)
     else if k = TOK_STAR \<or> k = TOK_SLASH \<or> k = TOK_PERCENT then Some (100, 101)
     else if k = TOK_DOT_DOT then Some (45, 46)
     else None)"

section \<open>The recursive functions\<close>

record parsers =
  ps_expr_bp :: "int \<Rightarrow> node option parse"
  ps_block :: "node option parse"
  ps_stmt :: "node option parse"
  ps_pattern :: "pattern parse"
  ps_type :: "type_expr option parse"

definition parser_parse_expr :: "parsers \<Rightarrow> node option parse" where
  "parser_parse_expr P p = ps_expr_bp P 0 p"

subsection \<open>Primary expressions\<close>

primrec struct_literal_loop :: "nat \<Rightarrow> parsers \<Rightarrow> node \<Rightarrow> node parse" where
  "struct_literal_loop 0 P lit p = None"
| "struct_literal_loop (Suc n) P lit p =
     (if \<not> parser_check TOK_RBRACE p \<and> \<not> parser_at_end p
      then do {
        let field = parser_current p;
        let (_, p) = parser_expect TOK_IDENTIFIER m_field_name p;
        let (_, p) = parser_expect TOK_COLON m_colon_after_field_name p;
        (val, p) \<leftarrow> parser_parse_expr P p;
        let (ident, p) = alloc (ast_new_identifier (tok_text field) (tok_loc field)) p;
        let (ini, p) = alloc (ast_new_assign TOK_ASSIGN (Some ident) val (tok_loc field)) p;
        let lit = ast_struct_add_field_init lit ini;
        let (more, p) = parser_match TOK_COMMA p;
        if more then struct_literal_loop n P lit p else Some (lit, p)
      } else Some (lit, p))"

definition parser_parse_struct_literal ::
    "nat \<Rightarrow> parsers \<Rightarrow> type_expr \<Rightarrow> node option parse" where
  "parser_parse_struct_literal n P ty p = do {
     let loc = tok_loc (parser_current p);
     let (_, p) = parser_expect TOK_LBRACE m_lbrace_in_struct_literal p;
     let (lit, p) = alloc (ast_new_struct_literal (Some ty) loc) p;
     (lit, p) \<leftarrow> struct_literal_loop n P lit p;
     let (_, p) = parser_expect TOK_RBRACE m_rbrace_in_struct_literal p;
     Some (Some lit, p)
   }"

text \<open>The assignments to members of an array literal under construction.\<close>

definition array_set_length :: "node option \<Rightarrow> node \<Rightarrow> node" where
  "array_set_length len n = with_expr n (\<lambda>b. case b of
     AST_ARRAY_LITERAL ty old elems sent \<Rightarrow> AST_ARRAY_LITERAL ty len elems sent
   | _ \<Rightarrow> b)"

definition array_set_type :: "type_expr option \<Rightarrow> node \<Rightarrow> node" where
  "array_set_type ty n = with_expr n (\<lambda>b. case b of
     AST_ARRAY_LITERAL old len elems sent \<Rightarrow> AST_ARRAY_LITERAL ty len elems sent
   | _ \<Rightarrow> b)"

definition array_set_sentinel :: "node \<Rightarrow> node" where
  "array_set_sentinel n = with_expr n (\<lambda>b. case b of
     AST_ARRAY_LITERAL ty len elems sent \<Rightarrow> AST_ARRAY_LITERAL ty len elems True
   | _ \<Rightarrow> b)"

primrec array_literal_loop :: "nat \<Rightarrow> parsers \<Rightarrow> node \<Rightarrow> node parse" where
  "array_literal_loop 0 P lit p = None"
| "array_literal_loop (Suc n) P lit p =
     (if \<not> parser_check TOK_RBRACE p \<and> \<not> parser_at_end p
      then do {
        (elem, p) \<leftarrow> parser_parse_expr P p;
        let lit = (case elem of Some e \<Rightarrow> ast_array_add_elem lit e | None \<Rightarrow> lit);
        let (more, p) = parser_match TOK_COMMA p;
        if more
        then if parser_check TOK_RBRACE p then Some (array_set_sentinel lit, p)
             else array_literal_loop n P lit p
        else Some (lit, p)
      } else Some (lit, p))"

definition parser_parse_array_literal :: "nat \<Rightarrow> parsers \<Rightarrow> token \<Rightarrow> node option parse" where
  "parser_parse_array_literal n P tok p = do {
     let p = skip_token p;
     let (lit, p) = alloc (ast_new_array_literal (tok_loc tok)) p;
     let (empty, p) = parser_match TOK_RBRACKET p;
     (lit, p) \<leftarrow>
       (if empty then do {
          (ty, p) \<leftarrow> ps_type P p;
          Some (array_set_type ty lit, p)
        } else do {
          (len, p) \<leftarrow> parser_parse_expr P p;
          let (_, p) = parser_expect TOK_RBRACKET m_rbracket_in_array_literal p;
          (ty, p) \<leftarrow> ps_type P p;
          Some (array_set_type ty (array_set_length len lit), p)
        });
     let (_, p) = parser_expect TOK_LBRACE m_lbrace_in_array_literal p;
     (lit, p) \<leftarrow> array_literal_loop n P lit p;
     let (_, p) = parser_expect TOK_RBRACE m_rbrace_in_array_literal p;
     Some (Some lit, p)
   }"

definition int_value :: "token \<Rightarrow> 64 word" where
  "int_value t = (case tok_value t of Int_Value v \<Rightarrow> v | Float_Value s \<Rightarrow> 0)"

definition float_value :: "token \<Rightarrow> string" where
  "float_value t = (case tok_value t of Float_Value s \<Rightarrow> s | Int_Value v \<Rightarrow> [])"

text \<open>The cases of the switch that consume one token and return a node made from it.\<close>

definition leaf :: "(nat \<Rightarrow> node \<times> nat) \<Rightarrow> node option parse" where
  "leaf new p = (let (n, p) = alloc new (skip_token p) in Some (Some n, p))"

definition starts_upper :: "string_view \<Rightarrow> bool" where
  "starts_upper s \<longleftrightarrow> length s > 0 \<and> s ! 0 \<ge> CHR ''A'' \<and> s ! 0 \<le> CHR ''Z''"

definition parser_parse_primary :: "nat \<Rightarrow> parsers \<Rightarrow> node option parse" where
  "parser_parse_primary n P p =
    (let tok = parser_current p; k = tok_kind tok in
     if k = TOK_INT_LITERAL then leaf (ast_new_int_literal (int_value tok) (tok_loc tok)) p
     else if k = TOK_FLOAT_LITERAL
     then leaf (ast_new_float_literal (float_value tok) (tok_loc tok)) p
     else if k = TOK_STRING_LITERAL
     then leaf (ast_new_string_literal (tok_text tok) (tok_loc tok)) p
     else if k = TOK_CHAR_LITERAL then leaf (ast_new_char_literal (tok_text tok) (tok_loc tok)) p
     else if k = TOK_TRUE then leaf (ast_new_bool_literal True (tok_loc tok)) p
     else if k = TOK_FALSE then leaf (ast_new_bool_literal False (tok_loc tok)) p
     else if k = TOK_NULL then leaf (ast_new_null_literal (tok_loc tok)) p
     else if k = TOK_UNDEFINED then leaf (ast_new_undefined_literal (tok_loc tok)) p
     else if k = TOK_SELF then leaf (ast_new_identifier ''self'' (tok_loc tok)) p
     else if k = TOK_IDENTIFIER
     then (let (node, p) = alloc (ast_new_identifier (tok_text tok) (tok_loc tok)) (skip_token p) in
       if parser_check TOK_LBRACE p \<and> starts_upper (tok_text tok)
       then parser_parse_struct_literal n P (type_new_named (tok_text tok) (tok_loc tok)) p
       else Some (Some node, p))
     else if k = TOK_LPAREN
     then do {
       (expr, p) \<leftarrow> parser_parse_expr P (skip_token p);
       let (_, p) = parser_expect TOK_RPAREN m_rparen_after_expression p;
       Some (expr, p)
     }
     else if k = TOK_LBRACKET then parser_parse_array_literal n P tok p
     else Some (None, parser_error tok m_expression p))"

subsection \<open>Prefix expressions\<close>

definition parse_unary :: "parsers \<Rightarrow> token_kind \<Rightarrow> token \<Rightarrow> node option parse" where
  "parse_unary P op tok p = do {
     (operand, p) \<leftarrow> ps_expr_bp P 110 p;
     let (n, p) = alloc (ast_new_unary op operand (tok_loc tok)) p;
     Some (Some n, p)
   }"

definition parse_try :: "parsers \<Rightarrow> token \<Rightarrow> node option parse" where
  "parse_try P tok p = do {
     (operand, p) \<leftarrow> ps_expr_bp P 1 p;
     let (node, p) = alloc (ast_new_try operand (tok_loc tok)) p;
     let (has_else, p) = parser_match TOK_ELSE p;
     if has_else then do {
       let (_, p) = parser_expect TOK_PIPE m_pipe_after_else_in_try_capture p;
       let err_name = parser_current p;
       let (_, p) = parser_expect TOK_IDENTIFIER m_error_variable_name p;
       let (_, p) = parser_expect TOK_PIPE m_pipe_after_error_variable_name p;
       (fallback, p) \<leftarrow> ps_block P p;
       let (node, p) =
         alloc (ast_new_error_capture (Some node) (tok_text err_name) fallback (tok_loc tok)) p;
       Some (Some node, p)
     } else Some (Some node, p)
   }"

definition parser_parse_prefix :: "nat \<Rightarrow> parsers \<Rightarrow> node option parse" where
  "parser_parse_prefix n P p =
    (let tok = parser_current p; k = tok_kind tok in
     if k = TOK_AMPERSAND
     then (let (is_const, p) = parser_match TOK_CONST (skip_token p)
           in parse_unary P TOK_AMPERSAND tok p)
     else if k = TOK_STAR then parse_unary P TOK_STAR tok (skip_token p)
     else if k = TOK_MINUS then parse_unary P TOK_MINUS tok (skip_token p)
     else if k = TOK_BANG then parse_unary P TOK_BANG tok (skip_token p)
     else if k = TOK_TILDE then parse_unary P TOK_TILDE tok (skip_token p)
     else if k = TOK_TRY then parse_try P tok (skip_token p)
     else if k = TOK_UNSAFE
     then do {
       (body, p) \<leftarrow> ps_block P (skip_token p);
       let (n, p) = alloc (ast_new_unsafe_block body (tok_loc tok)) p;
       Some (Some n, p)
     }
     else parser_parse_primary n P p)"

subsection \<open>Postfix expressions\<close>

text \<open>The loop \<^verbatim>\<open>do { ... } while (parser_match(p, TOK_COMMA))\<close> over call arguments.\<close>

primrec call_args_loop :: "nat \<Rightarrow> parsers \<Rightarrow> node \<Rightarrow> node parse" where
  "call_args_loop 0 P call p = None"
| "call_args_loop (Suc n) P call p = do {
     (arg, p) \<leftarrow> parser_parse_expr P p;
     let call = (case arg of Some a \<Rightarrow> ast_call_add_arg call a | None \<Rightarrow> call);
     let (more, p) = parser_match TOK_COMMA p;
     if more then call_args_loop n P call p else Some (call, p)
   }"

definition parse_call_rest :: "nat \<Rightarrow> parsers \<Rightarrow> node \<Rightarrow> node parse" where
  "parse_call_rest n P call p = do {
     (call, p) \<leftarrow>
       (if \<not> parser_check TOK_RPAREN p then call_args_loop n P call p else Some (call, p));
     let (_, p) = parser_expect TOK_RPAREN m_rparen_after_arguments p;
     Some (call, p)
   }"

text \<open>
  One iteration of the loop over postfix operators. The flag says whether the loop goes on.
\<close>

definition postfix_step :: "nat \<Rightarrow> parsers \<Rightarrow> node \<Rightarrow> (bool \<times> node) parse" where
  "postfix_step n P left p =
    (if parser_check TOK_DOT p
     then do {
       let p = skip_token p;
       let name = parser_current p;
       let (ok, p) = parser_expect TOK_IDENTIFIER m_identifier_after_dot p;
       if \<not> ok then Some ((False, left), p)
       else do {
         let (paren, p) = parser_match TOK_LPAREN p;
         if paren then do {
           let (call, p) = alloc (ast_new_method_call (Some left) (tok_text name) (tok_loc name)) p;
           (call, p) \<leftarrow> parse_call_rest n P call p;
           Some ((True, call), p)
         } else do {
           let (node, p) = alloc (ast_new_field_access (Some left) (tok_text name) (tok_loc name)) p;
           Some ((True, node), p)
         }
       }
     }
     else if parser_check TOK_LPAREN p
     then do {
       let (call, p) = alloc (ast_new_call (Some left) (n_loc left)) (skip_token p);
       (call, p) \<leftarrow> parse_call_rest n P call p;
       Some ((True, call), p)
     }
     else if parser_check TOK_LBRACKET p
     then do {
       (first, p) \<leftarrow> parser_parse_expr P (skip_token p);
       let (range, p) = parser_match TOK_DOT_DOT p;
       if range then do {
         (hi, p) \<leftarrow> parser_parse_expr P p;
         let (_, p) = parser_expect TOK_RBRACKET m_rbracket_after_slice p;
         let (node, p) = alloc (ast_new_slice (Some left) first hi (n_loc left)) p;
         Some ((True, node), p)
       } else do {
         let (_, p) = parser_expect TOK_RBRACKET m_rbracket_after_index p;
         let (node, p) = alloc (ast_new_index (Some left) first (n_loc left)) p;
         Some ((True, node), p)
       }
     }
     else Some ((False, left), p))"

primrec parser_parse_postfix :: "nat \<Rightarrow> parsers \<Rightarrow> node \<Rightarrow> node parse" where
  "parser_parse_postfix 0 P left p = None"
| "parser_parse_postfix (Suc n) P left p = do {
     ((more, left), p) \<leftarrow> postfix_step n P left p;
     if more then parser_parse_postfix n P left p else Some (left, p)
   }"

subsection \<open>Operator precedence\<close>

text \<open>
  The loop over infix operators. The flag is true when the function returns from inside the loop,
  because an operand is missing.
\<close>

primrec infix_loop :: "nat \<Rightarrow> parsers \<Rightarrow> int \<Rightarrow> node \<Rightarrow> (bool \<times> node) parse" where
  "infix_loop 0 P min_bp left p = None"
| "infix_loop (Suc n) P min_bp left p =
    (let op = tok_kind (parser_current p) in
     case infix_binding_power op of
       None \<Rightarrow> Some ((False, left), p)
     | Some (bp_left, bp_right) \<Rightarrow>
         if bp_left < min_bp then Some ((False, left), p)
         else do {
           (right, p) \<leftarrow> ps_expr_bp P bp_right (skip_token p);
           case right of
             None \<Rightarrow> Some ((True, left), p)
           | Some r \<Rightarrow> (
               let (node, p) = alloc (ast_new_binary op (Some left) (Some r) (n_loc left)) p
               in infix_loop n P min_bp node p)
         })"

definition parser_parse_expr_bp :: "nat \<Rightarrow> parsers \<Rightarrow> int \<Rightarrow> node option parse" where
  "parser_parse_expr_bp n P min_bp p = do {
     (left, p) \<leftarrow> parser_parse_prefix n P p;
     case left of
       None \<Rightarrow> Some (None, p)
     | Some left \<Rightarrow> do {
         (left, p) \<leftarrow> parser_parse_postfix n P left p;
         ((returned, left), p) \<leftarrow> infix_loop n P min_bp left p;
         if returned then Some (Some left, p)
         else do {
           let (cast, p) = parser_match TOK_AS p;
           if cast then do {
             (ty, p) \<leftarrow> ps_type P p;
             let (node, p) = alloc (ast_new_cast (Some left) ty (n_loc left)) p;
             Some (Some node, p)
           } else Some (Some left, p)
         }
       }
   }"

subsection \<open>Blocks\<close>

text \<open>One iteration of the loop over the statements of a block.\<close>

definition block_step :: "parsers \<Rightarrow> node \<Rightarrow> (bool \<times> node) parse" where
  "block_step P block p =
    (let k = tok_kind (parser_current p) in
     if k = TOK_IF \<or> k = TOK_WHILE \<or> k = TOK_FOR \<or> k = TOK_MATCH \<or> k = TOK_ERRDEFER
        \<or> k = TOK_LBRACE \<or> k = TOK_RETURN \<or> k = TOK_BREAK \<or> k = TOK_CONTINUE \<or> k = TOK_DEFER
        \<or> k = TOK_CONST \<or> k = TOK_VAR
     then do {
       (stmt, p) \<leftarrow> ps_stmt P p;
       case stmt of
         Some s \<Rightarrow> Some ((True, ast_block_add_stmt block s), p)
       | None \<Rightarrow> Some ((False, block), p)
     }
     else do {
       (expr, p) \<leftarrow> parser_parse_expr P p;
       case expr of
         None \<Rightarrow> Some ((False, block), p)
       | Some e \<Rightarrow> do {
           let op = tok_kind (parser_current p);
           if token_is_assignment_op op then do {
             (rhs, p) \<leftarrow> parser_parse_expr P (skip_token p);
             let (_, p) = parser_expect TOK_SEMICOLON m_semicolon_after_assignment p;
             let (s, p) = alloc (ast_new_assign op (Some e) rhs (n_loc e)) p;
             Some ((True, ast_block_add_stmt block s), p)
           } else do {
             let (semi, p) = parser_match TOK_SEMICOLON p;
             if semi then do {
               let (s, p) = alloc (ast_new_expr_stmt (Some e) (n_loc e)) p;
               Some ((True, ast_block_add_stmt block s), p)
             }
             else if parser_check TOK_RBRACE p then Some ((False, ast_block_set_trailing block e), p)
             else Some ((False, block),
               parser_error (parser_current p) m_semicolon_or_rbrace_after_expression p)
           }
         }
     })"

primrec block_loop :: "nat \<Rightarrow> parsers \<Rightarrow> node \<Rightarrow> node parse" where
  "block_loop 0 P block p = None"
| "block_loop (Suc n) P block p =
     (if \<not> parser_check TOK_RBRACE p \<and> \<not> parser_at_end p
      then do {
        ((more, block), p) \<leftarrow> block_step P block p;
        if more then block_loop n P block p else Some (block, p)
      } else Some (block, p))"

definition parser_parse_block :: "nat \<Rightarrow> parsers \<Rightarrow> node option parse" where
  "parser_parse_block n P p = do {
     let loc = tok_loc (parser_current p);
     let (ok, p) = parser_expect TOK_LBRACE m_lbrace p;
     if \<not> ok then Some (None, p)
     else do {
       let (block, p) = alloc (ast_new_block loc) p;
       (block, p) \<leftarrow> block_loop n P block p;
       let (_, p) = parser_expect TOK_RBRACE m_rbrace p;
       Some (Some block, p)
     }
   }"

subsection \<open>Statements\<close>

text \<open>The assignments to the members of a constant or variable declaration.\<close>

definition set_var_decl ::
    "bool \<Rightarrow> type_expr option \<Rightarrow> node option \<Rightarrow> attribute list \<Rightarrow> node \<Rightarrow> node" where
  "set_var_decl pub ty ini attrs n = with_decl n (\<lambda>b. case b of
     AST_CONST_DECL name old_pub ct old_ty old_init old_attrs \<Rightarrow>
       AST_CONST_DECL name pub ct ty ini attrs
   | AST_VAR_DECL name old_pub ct old_ty old_init old_attrs \<Rightarrow>
       AST_VAR_DECL name pub ct ty ini attrs
   | _ \<Rightarrow> b)"

text \<open>
  The common part of declarations in blocks and at top level, from the keyword on; the messages
  differ.
\<close>

definition parse_var_decl ::
    "parsers \<Rightarrow> bool \<Rightarrow> string \<Rightarrow> string \<Rightarrow> bool \<Rightarrow> attribute list \<Rightarrow> node option parse" where
  "parse_var_decl P is_const assign_msg semi_msg pub attrs p = do {
     let p = skip_token p;
     let name = parser_current p;
     let (_, p) = parser_expect TOK_IDENTIFIER m_identifier p;
     let (typed, p) = parser_match TOK_COLON p;
     (ty, p) \<leftarrow> (if typed then ps_type P p else Some (None, p));
     let (_, p) = parser_expect TOK_ASSIGN assign_msg p;
     (ini, p) \<leftarrow> parser_parse_expr P p;
     let (_, p) = parser_expect TOK_SEMICOLON semi_msg p;
     let (decl, p) = alloc (if is_const then ast_new_const_decl (tok_text name) (tok_loc name)
                            else ast_new_var_decl (tok_text name) (tok_loc name)) p;
     Some (Some (set_var_decl pub ty ini attrs decl), p)
   }"

definition parse_return :: "parsers \<Rightarrow> token \<Rightarrow> node option parse" where
  "parse_return P tok p = do {
     let (semi, p) = parser_match TOK_SEMICOLON p;
     if semi then do {
       let (n, p) = alloc (ast_new_return None (tok_loc tok)) p;
       Some (Some n, p)
     } else do {
       (val, p) \<leftarrow> parser_parse_expr P p;
       let (_, p) = parser_expect TOK_SEMICOLON m_semicolon_after_return p;
       let (n, p) = alloc (ast_new_return val (tok_loc tok)) p;
       Some (Some n, p)
     }
   }"

definition parse_if :: "parsers \<Rightarrow> token \<Rightarrow> node option parse" where
  "parse_if P tok p = do {
     (condition, p) \<leftarrow> parser_parse_expr P p;
     (then_block, p) \<leftarrow> ps_block P p;
     let (has_else, p) = parser_match TOK_ELSE p;
     (else_block, p) \<leftarrow>
       (if has_else then if parser_check TOK_IF p then ps_stmt P p else ps_block P p
        else Some (None, p));
     let (n, p) = alloc (ast_new_if condition then_block else_block (tok_loc tok)) p;
     Some (Some n, p)
   }"

definition parse_while :: "parsers \<Rightarrow> token \<Rightarrow> node option parse" where
  "parse_while P tok p = do {
     (condition, p) \<leftarrow> parser_parse_expr P p;
     (body, p) \<leftarrow> ps_block P p;
     let (n, p) = alloc (ast_new_while condition body (tok_loc tok)) p;
     Some (Some n, p)
   }"

definition parse_for :: "parsers \<Rightarrow> token \<Rightarrow> node option parse" where
  "parse_for P tok p = do {
     let var = parser_current p;
     let (_, p) = parser_expect TOK_IDENTIFIER m_identifier_after_for p;
     let (_, p) = parser_expect TOK_COLON m_colon_after_for_variable p;
     (var_type, p) \<leftarrow> ps_type P p;
     let (_, p) = parser_expect TOK_IN m_in_after_for_variable_type p;
     (iterable, p) \<leftarrow> parser_parse_expr P p;
     (body, p) \<leftarrow> ps_block P p;
     let (n, p) = alloc (ast_new_for (tok_text var) var_type iterable body (tok_loc tok)) p;
     Some (Some n, p)
   }"

definition parse_defer :: "parsers \<Rightarrow> token \<Rightarrow> node option parse" where
  "parse_defer P tok p = do {
     (expr, p) \<leftarrow> parser_parse_expr P p;
     let (_, p) = parser_expect TOK_SEMICOLON m_semicolon_after_defer p;
     let (n, p) = alloc (ast_new_defer expr (tok_loc tok)) p;
     Some (Some n, p)
   }"

text \<open>The loop over the arms of a match. Nothing in its body needs to consume a token.\<close>

primrec match_arms_loop :: "nat \<Rightarrow> parsers \<Rightarrow> node \<Rightarrow> node parse" where
  "match_arms_loop 0 P mat p = None"
| "match_arms_loop (Suc n) P mat p =
     (if \<not> parser_check TOK_RBRACE p \<and> \<not> parser_at_end p
      then do {
        (pat, p) \<leftarrow> ps_pattern P p;
        let (_, p) = parser_expect TOK_FAT_ARROW m_fat_arrow_in_match_arm p;
        (arm_expr, p) \<leftarrow> parser_parse_expr P p;
        let (arm, p) = alloc (ast_new_match_arm (Some pat) arm_expr (pat_loc pat)) p;
        let (_, p) = parser_match TOK_COMMA p;
        match_arms_loop n P (ast_match_add_arm mat arm) p
      } else Some (mat, p))"

definition parse_match :: "nat \<Rightarrow> parsers \<Rightarrow> token \<Rightarrow> node option parse" where
  "parse_match n P tok p = do {
     (expr, p) \<leftarrow> parser_parse_expr P p;
     let (mat, p) = alloc (ast_new_match expr (tok_loc tok)) p;
     let (_, p) = parser_expect TOK_LBRACE m_lbrace_after_match_expression p;
     (mat, p) \<leftarrow> match_arms_loop n P mat p;
     let (_, p) = parser_expect TOK_RBRACE m_rbrace_after_match_arms p;
     Some (Some mat, p)
   }"

definition parse_expr_stmt :: "parsers \<Rightarrow> node option parse" where
  "parse_expr_stmt P p = do {
     (lhs, p) \<leftarrow> parser_parse_expr P p;
     case lhs of
       None \<Rightarrow> Some (None, p)
     | Some l \<Rightarrow> do {
         let op = tok_kind (parser_current p);
         if token_is_assignment_op op then do {
           (rhs, p) \<leftarrow> parser_parse_expr P (skip_token p);
           let (_, p) = parser_expect TOK_SEMICOLON m_semicolon_after_assignment p;
           let (s, p) = alloc (ast_new_assign op (Some l) rhs (n_loc l)) p;
           Some (Some s, p)
         } else do {
           let (_, p) = parser_expect TOK_SEMICOLON m_semicolon_after_expression p;
           let (s, p) = alloc (ast_new_expr_stmt (Some l) (n_loc l)) p;
           Some (Some s, p)
         }
       }
   }"

definition parser_parse_stmt :: "nat \<Rightarrow> parsers \<Rightarrow> node option parse" where
  "parser_parse_stmt n P p =
    (let tok = parser_current p; k = tok_kind tok in
     if k = TOK_CONST \<or> k = TOK_VAR
     then parse_var_decl P (k = TOK_CONST) m_assign_in_declaration m_semicolon_after_declaration
            False [] p
     else if k = TOK_RETURN then parse_return P tok (skip_token p)
     else if k = TOK_IF then parse_if P tok (skip_token p)
     else if k = TOK_WHILE then parse_while P tok (skip_token p)
     else if k = TOK_FOR then parse_for P tok (skip_token p)
     else if k = TOK_BREAK
     then (let (_, p) = parser_expect TOK_SEMICOLON m_semicolon_after_break (skip_token p);
               (n, p) = alloc (ast_new_break (tok_loc tok)) p
           in Some (Some n, p))
     else if k = TOK_CONTINUE
     then (let (_, p) = parser_expect TOK_SEMICOLON m_semicolon_after_continue (skip_token p);
               (n, p) = alloc (ast_new_continue (tok_loc tok)) p
           in Some (Some n, p))
     else if k = TOK_DEFER then parse_defer P tok (skip_token p)
     else if k = TOK_ERRDEFER
     then do {
       (body, p) \<leftarrow> ps_block P (skip_token p);
       let (n, p) = alloc (ast_new_errdefer body (tok_loc tok)) p;
       Some (Some n, p)
     }
     else if k = TOK_MATCH then parse_match n P tok (skip_token p)
     else if k = TOK_LBRACE then ps_block P p
     else parse_expr_stmt P p)"

subsection \<open>Patterns\<close>

primrec struct_pattern_loop :: "nat \<Rightarrow> parsers \<Rightarrow> pattern \<Rightarrow> pattern parse" where
  "struct_pattern_loop 0 P pat p = None"
| "struct_pattern_loop (Suc n) P pat p =
     (if \<not> parser_check TOK_RBRACE p \<and> \<not> parser_at_end p
      then do {
        let field = parser_current p;
        let (_, p) = parser_expect TOK_IDENTIFIER m_field_name p;
        let (_, p) = parser_expect TOK_COLON m_colon p;
        (field_pat, p) \<leftarrow> ps_pattern P p;
        let pat = pattern_struct_add_field pat (tok_text field) field_pat;
        let (more, p) = parser_match TOK_COMMA p;
        if more then struct_pattern_loop n P pat p else Some (pat, p)
      } else Some (pat, p))"

definition is_literal_kind :: "token_kind \<Rightarrow> bool" where
  "is_literal_kind k \<longleftrightarrow>
     k = TOK_INT_LITERAL \<or> k = TOK_FLOAT_LITERAL \<or> k = TOK_STRING_LITERAL \<or> k = TOK_CHAR_LITERAL
     \<or> k = TOK_TRUE \<or> k = TOK_FALSE \<or> k = TOK_NULL"

definition parse_struct_pattern :: "nat \<Rightarrow> parsers \<Rightarrow> source_location \<Rightarrow> pattern parse" where
  "parse_struct_pattern n P loc p = do {
     let p = skip_token p;
     let (_, p) = parser_expect TOK_LBRACE m_lbrace p;
     (pat, p) \<leftarrow> struct_pattern_loop n P (pattern_new_struct_field loc) p;
     let (_, p) = parser_expect TOK_RBRACE m_rbrace p;
     Some (pat, p)
   }"

definition parse_variant_pattern :: "parsers \<Rightarrow> source_location \<Rightarrow> pattern parse" where
  "parse_variant_pattern P loc p = do {
     let p = skip_token p;
     let name = parser_current p;
     let (_, p) = parser_expect TOK_IDENTIFIER m_variant_name_after_dot p;
     let (paren, p) = parser_match TOK_LPAREN p;
     (inner, p) \<leftarrow>
       (if paren then do {
          (pat, p) \<leftarrow> ps_pattern P p;
          let (_, p) = parser_expect TOK_RPAREN m_rparen_after_variant_pattern p;
          Some (Some pat, p)
        } else Some (None, p));
     Some (pattern_new_enum_variant (tok_text name) inner loc, p)
   }"

definition parser_parse_pattern :: "nat \<Rightarrow> parsers \<Rightarrow> pattern parse" where
  "parser_parse_pattern n P p =
    (let tok = parser_current p; k = tok_kind tok; loc = tok_loc tok in
     if parser_check TOK_UNDERSCORE p then Some (pattern_new_wildcard loc, skip_token p)
     else if is_literal_kind k
     then do {
       (lit, p) \<leftarrow> parser_parse_primary n P p;
       Some (pattern_new_literal lit loc, p)
     }
     else if parser_check TOK_DOT p
     then if tok_kind (parser_peek p 1) = TOK_LBRACE then parse_struct_pattern n P loc p
          else parse_variant_pattern P loc p
     else if parser_check TOK_IDENTIFIER p
     then Some (pattern_new_identifier (tok_text tok) loc, skip_token p)
     else Some (pattern_new_wildcard loc, parser_error tok m_pattern p))"

subsection \<open>Types\<close>

primrec fn_type_params_loop :: "nat \<Rightarrow> parsers \<Rightarrow> type_expr \<Rightarrow> type_expr parse" where
  "fn_type_params_loop 0 P ty p = None"
| "fn_type_params_loop (Suc n) P ty p = do {
     (param, p) \<leftarrow> ps_type P p;
     let ty = type_func_add_param ty param;
     let (more, p) = parser_match TOK_COMMA p;
     if more then fn_type_params_loop n P ty p else Some (ty, p)
   }"

primrec generic_args_loop :: "nat \<Rightarrow> parsers \<Rightarrow> type_expr \<Rightarrow> type_expr parse" where
  "generic_args_loop 0 P ty p = None"
| "generic_args_loop (Suc n) P ty p =
     (if \<not> parser_check TOK_RPAREN p \<and> \<not> parser_at_end p
      then do {
        (arg, p) \<leftarrow> ps_type P p;
        let ty = type_add_generic_arg ty arg;
        let (more, p) = parser_match TOK_COMMA p;
        if more then generic_args_loop n P ty p else Some (ty, p)
      } else Some (ty, p))"

definition parse_pointer_type :: "parsers
    \<Rightarrow> (type_expr option \<Rightarrow> bool \<Rightarrow> source_location \<Rightarrow> type_expr) \<Rightarrow> source_location \<Rightarrow> type_expr parse"
where
  "parse_pointer_type P new loc p = do {
     let (is_const, p) = parser_match TOK_CONST p;
     (child, p) \<leftarrow> ps_type P p;
     Some (new child is_const loc, p)
   }"

definition parse_array_type :: "parsers \<Rightarrow> source_location \<Rightarrow> type_expr parse" where
  "parse_array_type P loc p = do {
     let (empty, p) = parser_match TOK_RBRACKET p;
     if empty then parse_pointer_type P type_new_slice loc p
     else do {
       (len, p) \<leftarrow> parser_parse_expr P p;
       let (_, p) = parser_expect TOK_RBRACKET m_rbracket_in_array_type p;
       (child, p) \<leftarrow> ps_type P p;
       Some (type_new_array len child loc, p)
     }
   }"

definition parse_fn_type :: "nat \<Rightarrow> parsers \<Rightarrow> source_location \<Rightarrow> type_expr parse" where
  "parse_fn_type n P loc p = do {
     let ty = type_new_function loc;
     let (_, p) = parser_expect TOK_LPAREN m_lparen_in_function_type p;
     (ty, p) \<leftarrow>
       (if \<not> parser_check TOK_RPAREN p then fn_type_params_loop n P ty p else Some (ty, p));
     let (_, p) = parser_expect TOK_RPAREN m_rparen p;
     let (arrow, p) = parser_match TOK_ARROW p;
     if arrow then do {
       (ret, p) \<leftarrow> ps_type P p;
       Some (type_func_set_ret ty ret, p)
     } else Some (ty, p)
   }"

definition parse_named_type :: "nat \<Rightarrow> parsers \<Rightarrow> token \<Rightarrow> type_expr parse" where
  "parse_named_type n P tok p = do {
     let ty = type_new_named (tok_text tok) (tok_loc tok);
     let (paren, p) = parser_match TOK_LPAREN p;
     if paren then do {
       (ty, p) \<leftarrow> generic_args_loop n P ty p;
       let (_, p) = parser_expect TOK_RPAREN m_rparen_after_generic_arguments p;
       Some (ty, p)
     } else Some (ty, p)
   }"

definition parse_primary_type :: "nat \<Rightarrow> parsers \<Rightarrow> type_expr option parse" where
  "parse_primary_type n P p =
    (let tok = parser_current p; k = tok_kind tok; loc = tok_loc tok;
         some = (\<lambda>r. do { (ty, p) \<leftarrow> r; Some (Some ty, p) })
     in
     if k = TOK_AMPERSAND then some (parse_pointer_type P type_new_reference loc (skip_token p))
     else if k = TOK_STAR then some (parse_pointer_type P type_new_pointer loc (skip_token p))
     else if k = TOK_LBRACKET then some (parse_array_type P loc (skip_token p))
     else if k = TOK_FN then some (parse_fn_type n P loc (skip_token p))
     else if k = TOK_TYPE then Some (Some (type_new_named ''type'' loc), skip_token p)
     else if k = TOK_SELF then Some (Some (type_new_named ''Self'' loc), skip_token p)
     else if k = TOK_IDENTIFIER \<and> sv_eq_cstr (tok_text tok) ''Self''
     then Some (Some (type_new_named ''Self'' loc), skip_token p)
     else if k = TOK_IDENTIFIER then some (parse_named_type n P tok (skip_token p))
     else Some (None, parser_error tok m_type p))"

definition parser_parse_type :: "nat \<Rightarrow> parsers \<Rightarrow> type_expr option parse" where
  "parser_parse_type n P p = do {
     let loc = tok_loc (parser_current p);
     (primary, p) \<leftarrow> parse_primary_type n P p;
     case primary of
       None \<Rightarrow> Some (None, p)
     | Some primary \<Rightarrow> do {
         let (question, p) = parser_match TOK_QUESTION p;
         if question
         then Some (Some (type_new_optional (Some primary) (tok_loc (parser_current p))), p)
         else do {
           let (bang, p) = parser_match TOK_BANG p;
           if bang then do {
             (success, p) \<leftarrow> ps_type P p;
             Some (Some (type_new_error_union (Some primary) success loc), p)
           } else Some (Some primary, p)
         }
       }
   }"

section \<open>Tying the knot\<close>

primrec parsers_at :: "nat \<Rightarrow> parsers" where
  "parsers_at 0 = \<lparr>ps_expr_bp = (\<lambda>_ _. None), ps_block = (\<lambda>_. None), ps_stmt = (\<lambda>_. None),
     ps_pattern = (\<lambda>_. None), ps_type = (\<lambda>_. None)\<rparr>"
| "parsers_at (Suc n) =
     (let P = parsers_at n in
      \<lparr>ps_expr_bp = parser_parse_expr_bp n P, ps_block = parser_parse_block n P,
       ps_stmt = parser_parse_stmt n P, ps_pattern = parser_parse_pattern n P,
       ps_type = parser_parse_type n P\<rparr>)"

end
