(* ===== verification/Parse_Decl.thy ===== *)
theory Parse_Decl
  imports Parser
begin

text \<open>
  The declaration parser of \<^verbatim>\<open>src/parser.c\<close> and its entry point, over the expression and
  statement parser. Every function takes the fuel for its loops and the recursive functions
  it calls; \<open>parser_parse n\<close> runs the whole parser with fuel \<open>n\<close>.
\<close>

section \<open>Assignments to the members of declarations\<close>

definition set_fn_head :: "bool \<Rightarrow> bool \<Rightarrow> bool \<Rightarrow> attribute list \<Rightarrow> node \<Rightarrow> node" where
  "set_fn_head pub ct us attrs n = with_decl n (\<lambda>b. case b of
     AST_FN_DECL name _ _ _ ext abi gps params ret body _ \<Rightarrow>
       AST_FN_DECL name pub ct us ext abi gps params ret body attrs
   | _ \<Rightarrow> b)"

definition set_fn_ret :: "type_expr option \<Rightarrow> node \<Rightarrow> node" where
  "set_fn_ret ret n = with_decl n (\<lambda>b. case b of
     AST_FN_DECL name pub ct us ext abi gps params _ body attrs \<Rightarrow>
       AST_FN_DECL name pub ct us ext abi gps params ret body attrs
   | _ \<Rightarrow> b)"

definition set_fn_body :: "node option \<Rightarrow> node \<Rightarrow> node" where
  "set_fn_body body n = with_decl n (\<lambda>b. case b of
     AST_FN_DECL name pub ct us ext abi gps params ret _ attrs \<Rightarrow>
       AST_FN_DECL name pub ct us ext abi gps params ret body attrs
   | _ \<Rightarrow> b)"

text \<open>The list of generic parameters that \<^verbatim>\<open>parser_parse_generic_params\<close> pushes to.\<close>

definition set_generic_params :: "node list \<Rightarrow> node \<Rightarrow> node" where
  "set_generic_params gps n = with_decl n (\<lambda>b. case b of
     AST_FN_DECL name pub ct us ext abi _ params ret body attrs \<Rightarrow>
       AST_FN_DECL name pub ct us ext abi gps params ret body attrs
   | AST_STRUCT_DECL name pub _ fds attrs \<Rightarrow> AST_STRUCT_DECL name pub gps fds attrs
   | AST_UNION_DECL name pub _ fds attrs \<Rightarrow> AST_UNION_DECL name pub gps fds attrs
   | AST_EXTEND_DECL target _ traits methods attrs \<Rightarrow>
       AST_EXTEND_DECL target gps traits methods attrs
   | _ \<Rightarrow> b)"

definition set_pub_attrs :: "bool \<Rightarrow> attribute list \<Rightarrow> node \<Rightarrow> node" where
  "set_pub_attrs pub attrs n = with_decl n (\<lambda>b. case b of
     AST_STRUCT_DECL name _ gps fds _ \<Rightarrow> AST_STRUCT_DECL name pub gps fds attrs
   | AST_UNION_DECL name _ gps fds _ \<Rightarrow> AST_UNION_DECL name pub gps fds attrs
   | AST_ENUM_DECL name _ variants _ \<Rightarrow> AST_ENUM_DECL name pub variants attrs
   | AST_TRAITS_DECL name _ methods _ \<Rightarrow> AST_TRAITS_DECL name pub methods attrs
   | AST_EXTEND_DECL target gps traits methods _ \<Rightarrow>
       AST_EXTEND_DECL target gps traits methods attrs
   | _ \<Rightarrow> b)"

definition set_field ::
    "bool \<Rightarrow> type_expr option \<Rightarrow> node option \<Rightarrow> attribute list \<Rightarrow> node \<Rightarrow> node" where
  "set_field pub ty val attrs n = with_decl n (\<lambda>b. case b of
     AST_FIELD_DECL name _ _ _ _ \<Rightarrow> AST_FIELD_DECL name pub ty val attrs
   | _ \<Rightarrow> b)"

definition set_variant :: "type_expr option \<Rightarrow> node option \<Rightarrow> node \<Rightarrow> node" where
  "set_variant payload discriminant n = with_decl n (\<lambda>b. case b of
     AST_VARIANT_DECL name _ _ \<Rightarrow> AST_VARIANT_DECL name payload discriminant
   | _ \<Rightarrow> b)"

definition set_trait_method :: "bool \<Rightarrow> node list \<Rightarrow> type_expr option \<Rightarrow> node \<Rightarrow> node" where
  "set_trait_method pub params ret n = with_decl n (\<lambda>b. case b of
     AST_TRAIT_METHOD_DECL name _ _ _ \<Rightarrow> AST_TRAIT_METHOD_DECL name pub params ret
   | _ \<Rightarrow> b)"

definition set_param :: "type_expr option \<Rightarrow> node option \<Rightarrow> bool \<Rightarrow> node \<Rightarrow> node" where
  "set_param ty val self n = with_decl n (\<lambda>b. case b of
     AST_PARAM_DECL name _ _ ct _ \<Rightarrow> AST_PARAM_DECL name ty val ct self
   | _ \<Rightarrow> b)"

definition set_constraints :: "string_view list \<Rightarrow> node \<Rightarrow> node" where
  "set_constraints traits n = with_decl n (\<lambda>b. case b of
     AST_GENERIC_PARAM_DECL name _ \<Rightarrow> AST_GENERIC_PARAM_DECL name traits
   | _ \<Rightarrow> b)"

definition set_alias :: "bool \<Rightarrow> type_expr option \<Rightarrow> attribute list \<Rightarrow> node \<Rightarrow> node" where
  "set_alias pub ty attrs n = with_decl n (\<lambda>b. case b of
     AST_TYPE_ALIAS name _ _ _ \<Rightarrow> AST_TYPE_ALIAS name pub ty attrs
   | _ \<Rightarrow> b)"

definition set_test :: "node option \<Rightarrow> attribute list \<Rightarrow> node \<Rightarrow> node" where
  "set_test body attrs n = with_decl n (\<lambda>b. case b of
     AST_TEST_DECL name _ _ \<Rightarrow> AST_TEST_DECL name body attrs
   | _ \<Rightarrow> b)"

section \<open>Attributes\<close>

primrec attr_args_loop :: "nat \<Rightarrow> parsers \<Rightarrow> node list \<Rightarrow> node list parse" where
  "attr_args_loop 0 P args p = None"
| "attr_args_loop (Suc n) P args p = do {
     (arg, p) \<leftarrow> parser_parse_expr P p;
     let args = (case arg of Some a \<Rightarrow> args @ [a] | None \<Rightarrow> args);
     let (more, p) = parser_match TOK_COMMA p;
     if more then attr_args_loop n P args p else Some (args, p)
   }"

definition parser_parse_attribute :: "nat \<Rightarrow> parsers \<Rightarrow> attribute parse" where
  "parser_parse_attribute n P p = do {
     let loc = tok_loc (parser_current p);
     let (_, p) = parser_expect TOK_HASH m_hash p;
     let (_, p) = parser_expect TOK_LBRACKET m_lbracket_after_hash p;
     let name = parser_current p;
     let (_, p) = parser_expect TOK_IDENTIFIER m_attribute_name p;
     let (paren, p) = parser_match TOK_LPAREN p;
     (args, p) \<leftarrow>
       (if paren then do {
          (args, p) \<leftarrow> attr_args_loop n P [] p;
          let (_, p) = parser_expect TOK_RPAREN m_rparen_after_attribute_args p;
          Some (args, p)
        } else Some ([], p));
     let (_, p) = parser_expect TOK_RBRACKET m_rbracket_after_attribute p;
     Some (Attribute (tok_text name) args loc, p)
   }"

primrec attrs_loop :: "nat \<Rightarrow> parsers \<Rightarrow> attribute list \<Rightarrow> attribute list parse" where
  "attrs_loop 0 P attrs p = None"
| "attrs_loop (Suc n) P attrs p =
     (if parser_check TOK_HASH p
      then do {
        (attr, p) \<leftarrow> parser_parse_attribute n P p;
        attrs_loop n P (attrs @ [attr]) p
      } else Some (attrs, p))"

definition parser_parse_attrs :: "nat \<Rightarrow> parsers \<Rightarrow> attribute list parse" where
  "parser_parse_attrs n P p = attrs_loop n P [] p"

section \<open>Parameters\<close>

definition parse_default_value :: "parsers \<Rightarrow> node option parse" where
  "parse_default_value P p = do {
     let (assign, p) = parser_match TOK_ASSIGN p;
     if assign then parser_parse_expr P p else Some (None, p)
   }"

definition parse_self_param :: "parsers \<Rightarrow> node parse" where
  "parse_self_param P p = do {
     let (is_ref, p) = parser_match TOK_AMPERSAND p;
     let (is_const, p) = (if is_ref then parser_match TOK_CONST p else (False, p));
     let self_tok = parser_current p;
     let (_, p) = parser_expect TOK_SELF m_self p;
     let (typed, p) = parser_match TOK_COLON p;
     (ty, p) \<leftarrow>
       (if typed then ps_type P p
        else if is_ref
        then Some (Some (type_new_reference (Some (type_new_named ''Self'' (tok_loc self_tok)))
                     is_const (tok_loc self_tok)), p)
        else Some (Some (type_new_named ''Self'' (tok_loc self_tok)), p));
     let (param, p) = alloc (ast_new_param_decl ''self'' (tok_loc self_tok)) p;
     (val, p) \<leftarrow> parse_default_value P p;
     Some (set_param ty val True param, p)
   }"

definition parse_named_param :: "parsers \<Rightarrow> node parse" where
  "parse_named_param P p = do {
     let name = parser_current p;
     let (_, p) = parser_expect TOK_IDENTIFIER m_parameter_name p;
     let (_, p) = parser_expect TOK_COLON m_colon_after_parameter_name p;
     (ty, p) \<leftarrow> ps_type P p;
     let (param, p) = alloc (ast_new_param_decl (tok_text name) (tok_loc name)) p;
     (val, p) \<leftarrow> parse_default_value P p;
     Some (set_param ty val False param, p)
   }"

definition parser_parse_param :: "parsers \<Rightarrow> node parse" where
  "parser_parse_param P p =
    (let k = tok_kind (parser_current p) in
     if k = TOK_AMPERSAND \<or> k = TOK_SELF then parse_self_param P p else parse_named_param P p)"

text \<open>
  The loop over parameters, which are pushed to a function or, in \<open>trait_params_loop\<close>, to a list.
\<close>

primrec params_loop :: "nat \<Rightarrow> parsers \<Rightarrow> node \<Rightarrow> node parse" where
  "params_loop 0 P fn p = None"
| "params_loop (Suc n) P fn p = do {
     (param, p) \<leftarrow> parser_parse_param P p;
     let fn = ast_fn_add_param fn param;
     let (more, p) = parser_match TOK_COMMA p;
     if more then params_loop n P fn p else Some (fn, p)
   }"

primrec trait_params_loop :: "nat \<Rightarrow> parsers \<Rightarrow> node list \<Rightarrow> node list parse" where
  "trait_params_loop 0 P params p = None"
| "trait_params_loop (Suc n) P params p = do {
     (param, p) \<leftarrow> parser_parse_param P p;
     let (more, p) = parser_match TOK_COMMA p;
     if more then trait_params_loop n P (params @ [param]) p else Some (params @ [param], p)
   }"

primrec trait_names_loop :: "nat \<Rightarrow> string_view list \<Rightarrow> string_view list parse" where
  "trait_names_loop 0 traits p = None"
| "trait_names_loop (Suc n) traits p = do {
     let trait = parser_current p;
     let (_, p) = parser_expect TOK_IDENTIFIER m_trait_name p;
     let (more, p) = parser_match TOK_COMMA p;
     if more then trait_names_loop n (traits @ [tok_text trait]) p
     else Some (traits @ [tok_text trait], p)
   }"

primrec generic_params_loop :: "nat \<Rightarrow> node list \<Rightarrow> node list parse" where
  "generic_params_loop 0 out p = None"
| "generic_params_loop (Suc n) out p = do {
     let gp_name = parser_current p;
     let (_, p) = parser_expect TOK_IDENTIFIER m_generic_parameter_name p;
     let (_, p) = parser_expect TOK_COLON m_colon p;
     let (_, p) = parser_expect TOK_TYPE m_type_keyword p;
     let (gp, p) = alloc (ast_new_generic_param_decl (tok_text gp_name) (tok_loc gp_name)) p;
     let (with_traits, p) = parser_match TOK_WITH p;
     (traits, p) \<leftarrow> (if with_traits then trait_names_loop n [] p else Some ([], p));
     let out = out @ [set_constraints traits gp];
     let (more, p) = parser_match TOK_COMMA p;
     if more then generic_params_loop n out p else Some (out, p)
   }"

definition parser_parse_generic_params :: "nat \<Rightarrow> node list parse" where
  "parser_parse_generic_params n p =
    (if \<not> parser_check TOK_LPAREN p then Some ([], p)
     else if tok_kind (parser_peek p 1) \<noteq> TOK_IDENTIFIER then Some ([], p)
     else if tok_kind (parser_peek p 2) \<noteq> TOK_COLON then Some ([], p)
     else if tok_kind (parser_peek p 3) \<noteq> TOK_TYPE then Some ([], p)
     else do {
       let (_, p) = parser_expect TOK_LPAREN m_lparen p;
       (out, p) \<leftarrow> generic_params_loop n [] p;
       let (_, p) = parser_expect TOK_RPAREN m_rparen p;
       Some (out, p)
     })"

section \<open>Functions\<close>

text \<open>
  From the generic parameters to the body: the same statements in \<^verbatim>\<open>parser_parse_fn_decl\<close> and
  in the loop of \<^verbatim>\<open>parser_parse_extend_decl\<close>.
\<close>

definition parse_fn_rest :: "nat \<Rightarrow> parsers \<Rightarrow> node \<Rightarrow> node parse" where
  "parse_fn_rest n P fn p = do {
     (gps, p) \<leftarrow> parser_parse_generic_params n p;
     let fn = set_generic_params gps fn;
     let (_, p) = parser_expect TOK_LPAREN m_lparen p;
     (fn, p) \<leftarrow> (if \<not> parser_check TOK_RPAREN p then params_loop n P fn p else Some (fn, p));
     let (_, p) = parser_expect TOK_RPAREN m_rparen p;
     let (arrow, p) = parser_match TOK_ARROW p;
     (fn, p) \<leftarrow>
       (if arrow then do { (ret, p) \<leftarrow> ps_type P p; Some (set_fn_ret ret fn, p) }
        else Some (fn, p));
     let (semi, p) = parser_match TOK_SEMICOLON p;
     if semi then Some (set_fn_body None fn, p)
     else do {
       (body, p) \<leftarrow> ps_block P p;
       Some (set_fn_body body fn, p)
     }
   }"

definition parser_parse_fn_decl ::
    "nat \<Rightarrow> parsers \<Rightarrow> bool \<Rightarrow> attribute list \<Rightarrow> node parse" where
  "parser_parse_fn_decl n P is_pub attrs p = do {
     let (is_comptime, p) = parser_match TOK_COMPTIME p;
     let (is_unsafe, p) = parser_match TOK_UNSAFE p;
     let (_, p) = parser_expect TOK_FN m_fn p;
     let name = parser_current p;
     let (_, p) = parser_expect TOK_IDENTIFIER m_function_name p;
     let (fn, p) = alloc (ast_new_fn_decl (tok_text name) (tok_loc name)) p;
     parse_fn_rest n P (set_fn_head is_pub is_comptime is_unsafe attrs fn) p
   }"

section \<open>Structures, unions, enumerations\<close>

text \<open>The loop over fields, the same in the struct and the union parser.\<close>

primrec fields_loop :: "nat \<Rightarrow> parsers \<Rightarrow> node \<Rightarrow> node parse" where
  "fields_loop 0 P s p = None"
| "fields_loop (Suc n) P s p =
     (if \<not> parser_check TOK_RBRACE p \<and> \<not> parser_at_end p
      then do {
        (field_attrs, p) \<leftarrow> parser_parse_attrs n P p;
        let (field_pub, p) = parser_match TOK_PUB p;
        let field_name = parser_current p;
        let (_, p) = parser_expect TOK_IDENTIFIER m_field_name p;
        let (_, p) = parser_expect TOK_COLON m_colon_after_field_name p;
        (field_type, p) \<leftarrow> ps_type P p;
        let (field, p) = alloc (ast_new_field_decl (tok_text field_name) (tok_loc field_name)) p;
        (val, p) \<leftarrow> parse_default_value P p;
        let s = ast_struct_add_field s (set_field field_pub field_type val field_attrs field);
        let (more, p) = parser_match TOK_COMMA p;
        if more then fields_loop n P s p else Some (s, p)
      } else Some (s, p))"

definition parser_parse_struct_decl ::
    "nat \<Rightarrow> parsers \<Rightarrow> bool \<Rightarrow> attribute list \<Rightarrow> node parse" where
  "parser_parse_struct_decl n P is_pub attrs p = do {
     let (_, p) = parser_expect TOK_STRUCT m_struct p;
     let name = parser_current p;
     let (_, p) = parser_expect TOK_IDENTIFIER m_struct_name p;
     let (s, p) = alloc (ast_new_struct_decl (tok_text name) (tok_loc name)) p;
     let s = set_pub_attrs is_pub attrs s;
     (gps, p) \<leftarrow> parser_parse_generic_params n p;
     let s = set_generic_params gps s;
     let (_, p) = parser_expect TOK_LBRACE m_lbrace p;
     (s, p) \<leftarrow> fields_loop n P s p;
     let (_, p) = parser_expect TOK_RBRACE m_rbrace p;
     Some (s, p)
   }"

definition parser_parse_union_decl ::
    "nat \<Rightarrow> parsers \<Rightarrow> bool \<Rightarrow> attribute list \<Rightarrow> node parse" where
  "parser_parse_union_decl n P is_pub attrs p = do {
     let (_, p) = parser_expect TOK_UNION m_union p;
     let name = parser_current p;
     let (_, p) = parser_expect TOK_IDENTIFIER m_union_name p;
     let (u, p) = alloc (ast_new_union_decl (tok_text name) (tok_loc name)) p;
     let u = set_pub_attrs is_pub attrs u;
     (gps, p) \<leftarrow> parser_parse_generic_params n p;
     let u = set_generic_params gps u;
     let (_, p) = parser_expect TOK_LBRACE m_lbrace p;
     (u, p) \<leftarrow> fields_loop n P u p;
     let (_, p) = parser_expect TOK_RBRACE m_rbrace p;
     Some (u, p)
   }"

primrec variants_loop :: "nat \<Rightarrow> parsers \<Rightarrow> node \<Rightarrow> node parse" where
  "variants_loop 0 P e p = None"
| "variants_loop (Suc n) P e p =
     (if \<not> parser_check TOK_RBRACE p \<and> \<not> parser_at_end p
      then do {
        let var_name = parser_current p;
        let (_, p) = parser_expect TOK_IDENTIFIER m_variant_name p;
        let (variant, p) = alloc (ast_new_variant_decl (tok_text var_name) (tok_loc var_name)) p;
        let (paren, p) = parser_match TOK_LPAREN p;
        (payload, p) \<leftarrow>
          (if paren then do {
             (ty, p) \<leftarrow> ps_type P p;
             let (_, p) = parser_expect TOK_RPAREN m_rparen_after_variant_payload p;
             Some (ty, p)
           } else Some (None, p));
        (discriminant, p) \<leftarrow> parse_default_value P p;
        let e = ast_enum_add_variant e (set_variant payload discriminant variant);
        let (more, p) = parser_match TOK_COMMA p;
        if more then variants_loop n P e p else Some (e, p)
      } else Some (e, p))"

definition parser_parse_enum_decl ::
    "nat \<Rightarrow> parsers \<Rightarrow> bool \<Rightarrow> attribute list \<Rightarrow> node parse" where
  "parser_parse_enum_decl n P is_pub attrs p = do {
     let (_, p) = parser_expect TOK_ENUM m_enum p;
     let name = parser_current p;
     let (_, p) = parser_expect TOK_IDENTIFIER m_enum_name p;
     let (e, p) = alloc (ast_new_enum_decl (tok_text name) (tok_loc name)) p;
     let (_, p) = parser_expect TOK_LBRACE m_lbrace p;
     (e, p) \<leftarrow> variants_loop n P (set_pub_attrs is_pub attrs e) p;
     let (_, p) = parser_expect TOK_RBRACE m_rbrace p;
     Some (e, p)
   }"

section \<open>Traits and extensions\<close>

text \<open>One iteration of the loop over trait methods; a token that starts no method is skipped.\<close>

definition trait_method_step :: "nat \<Rightarrow> parsers \<Rightarrow> node \<Rightarrow> node parse" where
  "trait_method_step n P traits p = do {
     let (method_pub, p) = parser_match TOK_PUB p;
     let (ok, p) = parser_expect TOK_FN m_fn_in_trait_method p;
     if \<not> ok then Some (traits, if \<not> parser_at_end p then skip_token p else p)
     else do {
       let method_name = parser_current p;
       let (_, p) = parser_expect TOK_IDENTIFIER m_method_name p;
       let (meth, p) =
         alloc (ast_new_trait_method_decl (tok_text method_name) (tok_loc method_name)) p;
       let (_, p) = parser_expect TOK_LPAREN m_lparen p;
       (params, p) \<leftarrow>
         (if \<not> parser_check TOK_RPAREN p then trait_params_loop n P [] p else Some ([], p));
       let (_, p) = parser_expect TOK_RPAREN m_rparen p;
       let (arrow, p) = parser_match TOK_ARROW p;
       (ret, p) \<leftarrow> (if arrow then ps_type P p else Some (None, p));
       let (_, p) = parser_expect TOK_SEMICOLON m_semicolon_after_trait_method p;
       Some (ast_traits_add_method traits (set_trait_method method_pub params ret meth), p)
     }
   }"

primrec trait_methods_loop :: "nat \<Rightarrow> parsers \<Rightarrow> node \<Rightarrow> node parse" where
  "trait_methods_loop 0 P traits p = None"
| "trait_methods_loop (Suc n) P traits p =
     (if \<not> parser_check TOK_RBRACE p \<and> \<not> parser_at_end p
      then do {
        (traits, p) \<leftarrow> trait_method_step n P traits p;
        trait_methods_loop n P traits p
      } else Some (traits, p))"

definition parser_parse_traits_decl ::
    "nat \<Rightarrow> parsers \<Rightarrow> bool \<Rightarrow> attribute list \<Rightarrow> node parse" where
  "parser_parse_traits_decl n P is_pub attrs p = do {
     let (_, p) = parser_expect TOK_TRAITS m_traits p;
     let name = parser_current p;
     let (_, p) = parser_expect TOK_IDENTIFIER m_trait_name p;
     let (traits, p) = alloc (ast_new_traits_decl (tok_text name) (tok_loc name)) p;
     let (_, p) = parser_expect TOK_LBRACE m_lbrace p;
     (traits, p) \<leftarrow> trait_methods_loop n P (set_pub_attrs is_pub attrs traits) p;
     let (_, p) = parser_expect TOK_RBRACE m_rbrace p;
     Some (traits, p)
   }"

definition extend_step :: "nat \<Rightarrow> parsers \<Rightarrow> node \<Rightarrow> node parse" where
  "extend_step n P ext p = do {
     (fn_attrs, p) \<leftarrow> parser_parse_attrs n P p;
     let (fn_pub, p) = parser_match TOK_PUB p;
     let (fn_comptime, p) = parser_match TOK_COMPTIME p;
     let (fn_unsafe, p) = parser_match TOK_UNSAFE p;
     let (ok, p) = parser_expect TOK_FN m_fn p;
     if \<not> ok then Some (ext, if \<not> parser_at_end p then skip_token p else p)
     else do {
       let fn_name = parser_current p;
       let (_, p) = parser_expect TOK_IDENTIFIER m_function_name p;
       let (fn, p) = alloc (ast_new_fn_decl (tok_text fn_name) (tok_loc fn_name)) p;
       (fn, p) \<leftarrow> parse_fn_rest n P (set_fn_head fn_pub fn_comptime fn_unsafe fn_attrs fn) p;
       Some (ast_extend_add_method ext fn, p)
     }
   }"

primrec extend_loop :: "nat \<Rightarrow> parsers \<Rightarrow> node \<Rightarrow> node parse" where
  "extend_loop 0 P ext p = None"
| "extend_loop (Suc n) P ext p =
     (if \<not> parser_check TOK_RBRACE p \<and> \<not> parser_at_end p
      then do {
        (ext, p) \<leftarrow> extend_step n P ext p;
        extend_loop n P ext p
      } else Some (ext, p))"

primrec extend_traits_loop :: "nat \<Rightarrow> node \<Rightarrow> node parse" where
  "extend_traits_loop 0 ext p = None"
| "extend_traits_loop (Suc n) ext p = do {
     let trait = parser_current p;
     let (_, p) = parser_expect TOK_IDENTIFIER m_trait_name p;
     let ext = ast_extend_add_trait ext (tok_text trait);
     let (more, p) = parser_match TOK_COMMA p;
     if more then extend_traits_loop n ext p else Some (ext, p)
   }"

definition parser_parse_extend_decl ::
    "nat \<Rightarrow> parsers \<Rightarrow> bool \<Rightarrow> attribute list \<Rightarrow> node parse" where
  "parser_parse_extend_decl n P is_pub attrs p = do {
     let (_, p) = parser_expect TOK_EXTEND m_extend p;
     let target = parser_current p;
     let (_, p) = parser_expect TOK_IDENTIFIER m_type_name_after_extend p;
     let (ext, p) = alloc (ast_new_extend_decl (tok_text target) (tok_loc target)) p;
     let ext = set_pub_attrs is_pub attrs ext;
     (gps, p) \<leftarrow> parser_parse_generic_params n p;
     let ext = set_generic_params gps ext;
     let (with_traits, p) = parser_match TOK_WITH p;
     (ext, p) \<leftarrow> (if with_traits then extend_traits_loop n ext p else Some (ext, p));
     let (_, p) = parser_expect TOK_LBRACE m_lbrace p;
     (ext, p) \<leftarrow> extend_loop n P ext p;
     let (_, p) = parser_expect TOK_RBRACE m_rbrace p;
     Some (ext, p)
   }"

section \<open>Aliases, tests and the compilation unit\<close>

definition parser_parse_type_alias ::
    "parsers \<Rightarrow> bool \<Rightarrow> attribute list \<Rightarrow> node parse" where
  "parser_parse_type_alias P is_pub attrs p = do {
     let (_, p) = parser_expect TOK_TYPE m_type_keyword p;
     let name = parser_current p;
     let (_, p) = parser_expect TOK_IDENTIFIER m_type_alias_name p;
     let (_, p) = parser_expect TOK_ASSIGN m_assign p;
     (ty, p) \<leftarrow> ps_type P p;
     let (_, p) = parser_expect TOK_SEMICOLON m_semicolon_after_type_alias p;
     let (al, p) = alloc (ast_new_type_alias (tok_text name) (tok_loc name)) p;
     Some (set_alias is_pub ty attrs al, p)
   }"

definition parser_parse_test_decl :: "parsers \<Rightarrow> attribute list \<Rightarrow> node parse" where
  "parser_parse_test_decl P attrs p = do {
     let (_, p) = parser_expect TOK_TEST m_test p;
     let name = parser_current p;
     let (_, p) = parser_expect TOK_STRING_LITERAL m_test_name_string p;
     (body, p) \<leftarrow> ps_block P p;
     let (test, p) = alloc (ast_new_test_decl (tok_text name) (tok_loc name)) p;
     Some (set_test body attrs test, p)
   }"

definition parser_parse_top_level_decl :: "nat \<Rightarrow> parsers \<Rightarrow> node option parse" where
  "parser_parse_top_level_decl n P p = do {
     (attrs, p) \<leftarrow> parser_parse_attrs n P p;
     let (is_pub, p) = parser_match TOK_PUB p;
     let k = tok_kind (parser_current p);
     let some = (\<lambda>r. do { (decl, p) \<leftarrow> r; Some (Some decl, p) });
     if k = TOK_UNSAFE \<and> tok_kind (parser_peek p 1) = TOK_FN
     then some (parser_parse_fn_decl n P is_pub attrs p)
     else if k = TOK_FN then some (parser_parse_fn_decl n P is_pub attrs p)
     else if k = TOK_STRUCT then some (parser_parse_struct_decl n P is_pub attrs p)
     else if k = TOK_UNION then some (parser_parse_union_decl n P is_pub attrs p)
     else if k = TOK_ENUM then some (parser_parse_enum_decl n P is_pub attrs p)
     else if k = TOK_TRAITS then some (parser_parse_traits_decl n P is_pub attrs p)
     else if k = TOK_EXTEND then some (parser_parse_extend_decl n P is_pub attrs p)
     else if k = TOK_TYPE then some (parser_parse_type_alias P is_pub attrs p)
     else if k = TOK_TEST then some (parser_parse_test_decl P attrs p)
     else if k = TOK_CONST \<or> k = TOK_VAR
     then parse_var_decl P (k = TOK_CONST) m_assign m_semicolon is_pub attrs p
     else Some (None, parser_error (parser_current p) m_top_level_declaration p)
   }"

primrec import_parts_loop :: "nat \<Rightarrow> node \<Rightarrow> node parse" where
  "import_parts_loop 0 imp p = None"
| "import_parts_loop (Suc n) imp p = do {
     let (dot, p) = parser_match TOK_DOT p;
     if dot then do {
       let part = parser_current p;
       let (_, p) = parser_expect TOK_IDENTIFIER m_identifier_after_dot p;
       import_parts_loop n (ast_import_add_part imp (tok_text part)) p
     } else Some (imp, p)
   }"

definition parse_import :: "nat \<Rightarrow> node parse" where
  "parse_import n p = do {
     let first = parser_current p;
     let (_, p) = parser_expect TOK_IDENTIFIER m_module_name_after_import p;
     let (imp, p) = alloc (ast_new_import_decl (tok_text first) (tok_loc first)) p;
     (imp, p) \<leftarrow> import_parts_loop n imp p;
     let (has_alias, p) = parser_match TOK_AS p;
     let (imp, p) =
       (if has_alias then
          let al = parser_current p; (_, p) = parser_expect TOK_IDENTIFIER m_identifier_after_as p
          in (ast_import_set_alias imp (tok_text al), p)
        else (imp, p));
     let (_, p) = parser_expect TOK_SEMICOLON m_semicolon_after_import p;
     Some (imp, p)
   }"

primrec imports_loop :: "nat \<Rightarrow> node \<Rightarrow> node parse" where
  "imports_loop 0 root p = None"
| "imports_loop (Suc n) root p = do {
     let (more, p) = parser_match TOK_IMPORT p;
     if more then do {
       (imp, p) \<leftarrow> parse_import n p;
       imports_loop n (ast_add_import root imp) p
     } else Some (root, p)
   }"

definition decl_step :: "nat \<Rightarrow> parsers \<Rightarrow> node \<Rightarrow> node parse" where
  "decl_step n P root p = do {
     (decl, p) \<leftarrow> parser_parse_top_level_decl n P p;
     case decl of
       None \<Rightarrow> Some (root, if \<not> parser_at_end p then skip_token p else p)
     | Some d \<Rightarrow> Some (ast_add_decl root d, p)
   }"

primrec decls_loop :: "nat \<Rightarrow> parsers \<Rightarrow> node \<Rightarrow> node parse" where
  "decls_loop 0 P root p = None"
| "decls_loop (Suc n) P root p =
     (if \<not> parser_at_end p
      then do {
        (root, p) \<leftarrow> decl_step n P root p;
        decls_loop n P root p
      } else Some (root, p))"

definition parse_module :: "node \<Rightarrow> parser \<Rightarrow> node \<times> parser" where
  "parse_module root p =
    (let (has_module, p) = parser_match TOK_MODULE p in
     if has_module then
       let name = parser_current p;
           (_, p) = parser_expect TOK_IDENTIFIER m_module_name p;
           (_, p) = parser_expect TOK_SEMICOLON m_semicolon_after_module_declaration p
       in (ast_set_module root (tok_text name), p)
     else (root, p))"

definition parser_parse :: "nat \<Rightarrow> node parse" where
  "parser_parse n p = do {
     let (root, p) = alloc (ast_new_compilation_unit (tok_loc (parser_current p))) p;
     let (root, p) = parse_module root p;
     (root, p) \<leftarrow> imports_loop n root p;
     decls_loop n (parsers_at n) root p
   }"

end
