(* ===== verification/Parser_Frame.thy ===== *)
theory Parser_Frame
  imports Parser_Facts
begin

text \<open>
  The rules every run of the parser respects, as an interface: a relation between states that
  allows what a parsing function may do to the state (step over a token that is not the end of
  the input, report an error, allocate a node), and that composes. Every function of the parser
  is proved once to stay inside any such relation.
\<close>

section \<open>The interface\<close>

definition runs :: "(parser \<Rightarrow> parser \<Rightarrow> bool) \<Rightarrow> parser \<Rightarrow> ('a \<times> parser) option \<Rightarrow> bool" where
  "runs R p m \<longleftrightarrow> (\<forall>r q. m = Some (r, q) \<longrightarrow> R p q)"

definition parsers_run :: "(parser \<Rightarrow> parser \<Rightarrow> bool) \<Rightarrow> parsers \<Rightarrow> bool" where
  "parsers_run R P \<longleftrightarrow>
     (\<forall>p q. R p q \<longrightarrow> (\<forall>bp. runs R p (ps_expr_bp P bp q)) \<and> runs R p (ps_block P q)
        \<and> runs R p (ps_stmt P q) \<and> runs R p (ps_pattern P q) \<and> runs R p (ps_type P q))"

definition creates :: "(nat \<Rightarrow> node \<times> nat) \<Rightarrow> bool" where
  "creates new \<longleftrightarrow> (\<forall>k. snd (new k) = Suc k)"

lemma creates_new_node [simp]: "creates (new_node b loc)"
  by (simp add: creates_def new_node_def)

lemmas node_makers =
  ast_new_compilation_unit_def ast_new_module_decl_def ast_new_import_decl_def ast_new_fn_decl_def
  ast_new_struct_decl_def ast_new_union_decl_def ast_new_enum_decl_def ast_new_traits_decl_def
  ast_new_extend_decl_def ast_new_type_alias_def ast_new_const_decl_def ast_new_var_decl_def
  ast_new_test_decl_def ast_new_field_decl_def ast_new_variant_decl_def
  ast_new_trait_method_decl_def ast_new_param_decl_def ast_new_generic_param_decl_def
  ast_new_block_def ast_new_expr_stmt_def ast_new_return_def ast_new_if_def ast_new_while_def
  ast_new_for_def ast_new_defer_def ast_new_errdefer_def ast_new_break_def ast_new_continue_def
  ast_new_match_def ast_new_match_arm_def ast_new_assign_def ast_new_int_literal_def
  ast_new_float_literal_def ast_new_string_literal_def ast_new_char_literal_def
  ast_new_bool_literal_def ast_new_null_literal_def ast_new_undefined_literal_def
  ast_new_identifier_def ast_new_binary_def ast_new_unary_def ast_new_call_def
  ast_new_method_call_def ast_new_field_access_def ast_new_index_def ast_new_slice_def
  ast_new_cast_def ast_new_try_def ast_new_error_capture_def ast_new_unsafe_block_def
  ast_new_array_literal_def ast_new_struct_literal_def

lemma creates_maker [simp]:
  "creates (ast_new_compilation_unit a0)" "creates (ast_new_module_decl a1 b1)"
  "creates (ast_new_import_decl a2 b2)" "creates (ast_new_fn_decl a3 b3)"
  "creates (ast_new_struct_decl a4 b4)" "creates (ast_new_union_decl a5 b5)"
  "creates (ast_new_enum_decl a6 b6)" "creates (ast_new_traits_decl a7 b7)"
  "creates (ast_new_extend_decl a8 b8)" "creates (ast_new_type_alias a9 b9)"
  "creates (ast_new_const_decl a10 b10)" "creates (ast_new_var_decl a11 b11)"
  "creates (ast_new_test_decl a12 b12)" "creates (ast_new_field_decl a13 b13)"
  "creates (ast_new_variant_decl a14 b14)" "creates (ast_new_trait_method_decl a15 b15)"
  "creates (ast_new_param_decl a16 b16)" "creates (ast_new_generic_param_decl a17 b17)"
  "creates (ast_new_block a18)" "creates (ast_new_expr_stmt a19 b19)"
  "creates (ast_new_return a20 b20)" "creates (ast_new_if a21 b21 c21 d21)"
  "creates (ast_new_while a22 b22 c22)" "creates (ast_new_for a23 b23 c23 d23 e23)"
  "creates (ast_new_defer a24 b24)" "creates (ast_new_errdefer a25 b25)"
  "creates (ast_new_break a26)" "creates (ast_new_continue a27)" "creates (ast_new_match a28 b28)"
  "creates (ast_new_match_arm a29 b29 c29)" "creates (ast_new_assign a30 b30 c30 d30)"
  "creates (ast_new_int_literal a31 b31)" "creates (ast_new_float_literal a32 b32)"
  "creates (ast_new_string_literal a33 b33)" "creates (ast_new_char_literal a34 b34)"
  "creates (ast_new_bool_literal a35 b35)" "creates (ast_new_null_literal a36)"
  "creates (ast_new_undefined_literal a37)" "creates (ast_new_identifier a38 b38)"
  "creates (ast_new_binary a39 b39 c39 d39)" "creates (ast_new_unary a40 b40 c40)"
  "creates (ast_new_call a41 b41)" "creates (ast_new_method_call a42 b42 c42)"
  "creates (ast_new_field_access a43 b43 c43)" "creates (ast_new_index a44 b44 c44)"
  "creates (ast_new_slice a45 b45 c45 d45)" "creates (ast_new_cast a46 b46 c46)"
  "creates (ast_new_try a47 b47)" "creates (ast_new_error_capture a48 b48 c48 d48)"
  "creates (ast_new_unsafe_block a49 b49)" "creates (ast_new_array_literal a50)"
  "creates (ast_new_struct_literal a51 b51)"
  by (simp_all add: node_makers creates_def new_node_def)

lemma assignment_not_eof [simp]: "\<not> token_is_assignment_op TOK_EOF"
  by (simp add: token_is_assignment_op_def)

lemma infix_not_eof [simp]: "infix_binding_power TOK_EOF = None"
  by (simp add: infix_binding_power_def)

lemma assignment_kind: "token_is_assignment_op k \<Longrightarrow> k \<noteq> TOK_EOF"
  by auto

lemma infix_kind: "infix_binding_power k = Some x \<Longrightarrow> k \<noteq> TOK_EOF"
  by auto

lemma literal_kind: "is_literal_kind k \<Longrightarrow> k \<noteq> TOK_EOF"
  by (auto simp: is_literal_kind_def)

lemmas state_facts = parser_check_def parser_at_end_def assignment_kind infix_kind

named_theorems run_rules \<open>rules of the state relation\<close>

locale parser_rules =
  fixes R :: "parser \<Rightarrow> parser \<Rightarrow> bool"
  assumes R_refl: "R p p"
    and R_trans: "R p q \<Longrightarrow> R q r \<Longrightarrow> R p r"
    and R_skip: "tok_kind (parser_current p) \<noteq> TOK_EOF \<Longrightarrow> R p (skip_token p)"
    and R_report: "R p (parser_error tok msg p)"
    and R_alloc: "R p (p\<lparr>p_nodes := Suc (p_nodes p)\<rparr>)"
begin

lemma runs_Some [run_rules]: "R p q \<Longrightarrow> runs R p (Some (r, q))"
  by (simp add: runs_def)

lemma runs_None [run_rules]: "runs R p None"
  by (simp add: runs_def)

lemma runs_bind [run_rules]:
  "runs R p m \<Longrightarrow> (\<And>r q. m = Some (r, q) \<Longrightarrow> R p q \<Longrightarrow> runs R p (k (r, q))) \<Longrightarrow>
     runs R p (Option.bind m k)"
  by (cases m) (auto simp: runs_def)

lemma runs_pair [run_rules]: "runs R p (f a b) \<Longrightarrow> runs R p (case (a, b) of (x, y) \<Rightarrow> f x y)"
  by simp

lemma runs_pair_app [run_rules]:
  "(\<And>a b. x = (a, b) \<Longrightarrow> runs R p (f a b q)) \<Longrightarrow> runs R p (case_prod f x q)"
  by (cases x) simp

lemma runs_if [run_rules]:
  "(b \<Longrightarrow> runs R p x) \<Longrightarrow> (\<not> b \<Longrightarrow> runs R p y) \<Longrightarrow> runs R p (if b then x else y)"
  by simp

lemma runs_int_pair [run_rules]:
  fixes x :: "int \<times> int"
  shows "(\<And>a b. x = (a, b) \<Longrightarrow> runs R p (f a b)) \<Longrightarrow> runs R p (case x of (a, b) \<Rightarrow> f a b)"
  by (cases x) simp

lemma runs_nested [run_rules]:
  "runs R p (case x of (a, q) \<Rightarrow> (case f a q of (b, q') \<Rightarrow> g b q')) \<Longrightarrow>
     runs R p (case (case x of (a, q) \<Rightarrow> f a q) of (b, q') \<Rightarrow> g b q')"
  by (simp add: case_prod_beta)

lemma runs_prod_if [run_rules]:
  "(b \<Longrightarrow> runs R p (case x of (a, q) \<Rightarrow> f a q)) \<Longrightarrow>
   (\<not> b \<Longrightarrow> runs R p (case y of (a, q) \<Rightarrow> f a q)) \<Longrightarrow>
     runs R p (case (if b then x else y) of (a, q) \<Rightarrow> f a q)"
  by simp

lemma runs_option [run_rules]:
  "(x = None \<Longrightarrow> runs R p y) \<Longrightarrow> (\<And>a. x = Some a \<Longrightarrow> runs R p (f a)) \<Longrightarrow>
     runs R p (case x of None \<Rightarrow> y | Some a \<Rightarrow> f a)"
  by (simp split: option.split)

lemma R_skip_after [run_rules]:
  "R p q \<Longrightarrow> tok_kind (parser_current q) \<noteq> TOK_EOF \<Longrightarrow> R p (skip_token q)"
  using R_skip R_trans by blast

lemma R_report_after [run_rules]: "R p q \<Longrightarrow> R p (parser_error tok msg q)"
  using R_report R_trans by blast

lemma R_if [run_rules]: "(b \<Longrightarrow> R p x) \<Longrightarrow> (\<not> b \<Longrightarrow> R p y) \<Longrightarrow> R p (if b then x else y)"
  by simp

lemma R_match: "parser_match k q = (ok, q') \<Longrightarrow> k \<noteq> TOK_EOF \<Longrightarrow> R p q \<Longrightarrow> R p q'"
  using R_skip_after [of p q]
  by (auto simp: parser_match_def parser_check_def split: if_splits)

lemma R_expect: "parser_expect k msg q = (ok, q') \<Longrightarrow> k \<noteq> TOK_EOF \<Longrightarrow> R p q \<Longrightarrow> R p q'"
  using R_match [of k q _ _ p] R_report_after [of p]
  by (auto simp: parser_expect_def Let_def split: prod.splits if_splits)

lemma runs_match [run_rules]:
  "R p q \<Longrightarrow> k \<noteq> TOK_EOF \<Longrightarrow>
   (\<And>ok q'. parser_match k q = (ok, q') \<Longrightarrow> R p q' \<Longrightarrow> runs R p (f ok q')) \<Longrightarrow>
     runs R p (case parser_match k q of (ok, q') \<Rightarrow> f ok q')"
  using R_match by (auto split: prod.split)

lemma runs_expect [run_rules]:
  "R p q \<Longrightarrow> k \<noteq> TOK_EOF \<Longrightarrow> (\<And>ok q'. R p q' \<Longrightarrow> runs R p (f ok q')) \<Longrightarrow>
     runs R p (case parser_expect k msg q of (ok, q') \<Rightarrow> f ok q')"
  using R_expect by (auto split: prod.split)

lemma runs_alloc [run_rules]:
  "R p q \<Longrightarrow> creates new \<Longrightarrow> (\<And>n q'. R p q' \<Longrightarrow> runs R p (f n q')) \<Longrightarrow>
     runs R p (case alloc new q of (n, q') \<Rightarrow> f n q')"
proof (simp add: alloc_def creates_def split: prod.split, clarify)
  fix n k
  assume a: "R p q" "\<forall>k. snd (new k) = Suc k" "\<And>n q'. R p q' \<Longrightarrow> runs R p (f n q')"
    "new (p_nodes q) = (n, k)"
  then have "k = Suc (p_nodes q)" by (metis snd_conv)
  then show "runs R p (f n (q\<lparr>p_nodes := k\<rparr>))" using a R_alloc R_trans by blast
qed

lemma runs_calls [run_rules]:
  "parsers_run R P \<Longrightarrow> R p q \<Longrightarrow> runs R p (ps_expr_bp P bp q)"
  "parsers_run R P \<Longrightarrow> R p q \<Longrightarrow> runs R p (ps_block P q)"
  "parsers_run R P \<Longrightarrow> R p q \<Longrightarrow> runs R p (ps_stmt P q)"
  "parsers_run R P \<Longrightarrow> R p q \<Longrightarrow> runs R p (ps_pattern P q)"
  "parsers_run R P \<Longrightarrow> R p q \<Longrightarrow> runs R p (ps_type P q)"
  by (simp_all add: parsers_run_def)

lemma runs_expr [run_rules]:
  "parsers_run R P \<Longrightarrow> R p q \<Longrightarrow> runs R p (parser_parse_expr P q)"
  unfolding parser_parse_expr_def by (rule runs_calls)

lemma runs_leaf [run_rules]:
  "creates new \<Longrightarrow> tok_kind (parser_current q) \<noteq> TOK_EOF \<Longrightarrow> R p q \<Longrightarrow> runs R p (leaf new q)"
  unfolding leaf_def Let_def by (intro run_rules)

lemma runs_struct_literal_loop [run_rules]:
  "parsers_run R P \<Longrightarrow> R p q \<Longrightarrow> runs R p (struct_literal_loop n P lit q)"
proof (induction n arbitrary: lit q)
  case (Suc n)
  then show ?case unfolding struct_literal_loop.simps Let_def
    by (intro run_rules) (simp_all add: state_facts)
qed (simp add: run_rules)

lemma runs_parser_parse_struct_literal [run_rules]:
  "parsers_run R P \<Longrightarrow> R p q \<Longrightarrow> runs R p (parser_parse_struct_literal n P ty q)"
  unfolding parser_parse_struct_literal_def Let_def by (intro run_rules) (simp_all add: state_facts)

lemma runs_array_literal_loop [run_rules]:
  "parsers_run R P \<Longrightarrow> R p q \<Longrightarrow> runs R p (array_literal_loop n P lit q)"
proof (induction n arbitrary: lit q)
  case (Suc n)
  then show ?case unfolding array_literal_loop.simps Let_def
    by (intro run_rules) (simp_all add: state_facts)
qed (simp add: run_rules)

lemma runs_parser_parse_array_literal [run_rules]:
  "parsers_run R P \<Longrightarrow> tok_kind (parser_current q) \<noteq> TOK_EOF \<Longrightarrow> R p q \<Longrightarrow> runs R p (parser_parse_array_literal n P tok q)"
  unfolding parser_parse_array_literal_def Let_def by (intro run_rules) (simp_all add: state_facts)

lemma runs_parser_parse_primary [run_rules]:
  "parsers_run R P \<Longrightarrow> R p q \<Longrightarrow> runs R p (parser_parse_primary n P q)"
  unfolding parser_parse_primary_def Let_def by (intro run_rules) (simp_all add: state_facts)

lemma runs_parse_unary [run_rules]:
  "parsers_run R P \<Longrightarrow> R p q \<Longrightarrow> runs R p (parse_unary P op tok q)"
  unfolding parse_unary_def Let_def by (intro run_rules) (simp_all add: state_facts)

lemma runs_parse_try [run_rules]:
  "parsers_run R P \<Longrightarrow> R p q \<Longrightarrow> runs R p (parse_try P tok q)"
  unfolding parse_try_def Let_def by (intro run_rules) (simp_all add: state_facts)

lemma runs_parser_parse_prefix [run_rules]:
  "parsers_run R P \<Longrightarrow> R p q \<Longrightarrow> runs R p (parser_parse_prefix n P q)"
  unfolding parser_parse_prefix_def Let_def by (intro run_rules) (simp_all add: state_facts)

lemma runs_call_args_loop [run_rules]:
  "parsers_run R P \<Longrightarrow> R p q \<Longrightarrow> runs R p (call_args_loop n P call q)"
proof (induction n arbitrary: call q)
  case (Suc n)
  then show ?case unfolding call_args_loop.simps Let_def
    by (intro run_rules) (simp_all add: state_facts)
qed (simp add: run_rules)

lemma runs_parse_call_rest [run_rules]:
  "parsers_run R P \<Longrightarrow> R p q \<Longrightarrow> runs R p (parse_call_rest n P call q)"
  unfolding parse_call_rest_def Let_def by (intro run_rules) (simp_all add: state_facts)

lemma runs_postfix_step [run_rules]:
  "parsers_run R P \<Longrightarrow> R p q \<Longrightarrow> runs R p (postfix_step n P left q)"
  unfolding postfix_step_def Let_def by (intro run_rules) (simp_all add: state_facts)

lemma runs_parser_parse_postfix [run_rules]:
  "parsers_run R P \<Longrightarrow> R p q \<Longrightarrow> runs R p (parser_parse_postfix n P left q)"
proof (induction n arbitrary: left q)
  case (Suc n)
  then show ?case unfolding parser_parse_postfix.simps Let_def
    by (intro run_rules) (simp_all add: state_facts)
qed (simp add: run_rules)

lemma runs_infix_loop [run_rules]:
  "parsers_run R P \<Longrightarrow> R p q \<Longrightarrow> runs R p (infix_loop n P bp left q)"
proof (induction n arbitrary: bp left q)
  case (Suc n)
  then show ?case unfolding infix_loop.simps Let_def
    by (intro run_rules) (simp_all add: state_facts)
qed (simp add: run_rules)

lemma runs_parser_parse_expr_bp [run_rules]:
  "parsers_run R P \<Longrightarrow> R p q \<Longrightarrow> runs R p (parser_parse_expr_bp n P bp q)"
  unfolding parser_parse_expr_bp_def Let_def by (intro run_rules) (simp_all add: state_facts)

lemma runs_block_step [run_rules]:
  "parsers_run R P \<Longrightarrow> R p q \<Longrightarrow> runs R p (block_step P block q)"
  unfolding block_step_def Let_def by (intro run_rules) (simp_all add: state_facts)

lemma runs_block_loop [run_rules]:
  "parsers_run R P \<Longrightarrow> R p q \<Longrightarrow> runs R p (block_loop n P block q)"
proof (induction n arbitrary: block q)
  case (Suc n)
  then show ?case unfolding block_loop.simps Let_def
    by (intro run_rules) (simp_all add: state_facts)
qed (simp add: run_rules)

lemma runs_parser_parse_block [run_rules]:
  "parsers_run R P \<Longrightarrow> R p q \<Longrightarrow> runs R p (parser_parse_block n P q)"
  unfolding parser_parse_block_def Let_def by (intro run_rules) (simp_all add: state_facts)

lemma runs_parse_var_decl [run_rules]:
  "parsers_run R P \<Longrightarrow> tok_kind (parser_current q) \<noteq> TOK_EOF \<Longrightarrow> R p q \<Longrightarrow> runs R p (parse_var_decl P c am sm pub attrs q)"
  unfolding parse_var_decl_def Let_def by (intro run_rules) (simp_all add: state_facts)

lemma runs_parse_return [run_rules]:
  "parsers_run R P \<Longrightarrow> R p q \<Longrightarrow> runs R p (parse_return P tok q)"
  unfolding parse_return_def Let_def by (intro run_rules) (simp_all add: state_facts)

lemma runs_parse_if [run_rules]:
  "parsers_run R P \<Longrightarrow> R p q \<Longrightarrow> runs R p (parse_if P tok q)"
  unfolding parse_if_def Let_def by (intro run_rules) (simp_all add: state_facts)

lemma runs_parse_while [run_rules]:
  "parsers_run R P \<Longrightarrow> R p q \<Longrightarrow> runs R p (parse_while P tok q)"
  unfolding parse_while_def Let_def by (intro run_rules) (simp_all add: state_facts)

lemma runs_parse_for [run_rules]:
  "parsers_run R P \<Longrightarrow> R p q \<Longrightarrow> runs R p (parse_for P tok q)"
  unfolding parse_for_def Let_def by (intro run_rules) (simp_all add: state_facts)

lemma runs_parse_defer [run_rules]:
  "parsers_run R P \<Longrightarrow> R p q \<Longrightarrow> runs R p (parse_defer P tok q)"
  unfolding parse_defer_def Let_def by (intro run_rules) (simp_all add: state_facts)

lemma runs_match_arms_loop [run_rules]:
  "parsers_run R P \<Longrightarrow> R p q \<Longrightarrow> runs R p (match_arms_loop n P mat q)"
proof (induction n arbitrary: mat q)
  case (Suc n)
  then show ?case unfolding match_arms_loop.simps Let_def
    by (intro run_rules) (simp_all add: state_facts)
qed (simp add: run_rules)

lemma runs_parse_match [run_rules]:
  "parsers_run R P \<Longrightarrow> R p q \<Longrightarrow> runs R p (parse_match n P tok q)"
  unfolding parse_match_def Let_def by (intro run_rules) (simp_all add: state_facts)

lemma runs_parse_expr_stmt [run_rules]:
  "parsers_run R P \<Longrightarrow> R p q \<Longrightarrow> runs R p (parse_expr_stmt P q)"
  unfolding parse_expr_stmt_def Let_def by (intro run_rules) (simp_all add: state_facts)

lemma runs_parser_parse_stmt [run_rules]:
  "parsers_run R P \<Longrightarrow> R p q \<Longrightarrow> runs R p (parser_parse_stmt n P q)"
  unfolding parser_parse_stmt_def Let_def by (intro run_rules) (auto simp: state_facts)

lemma runs_struct_pattern_loop [run_rules]:
  "parsers_run R P \<Longrightarrow> R p q \<Longrightarrow> runs R p (struct_pattern_loop n P pat q)"
proof (induction n arbitrary: pat q)
  case (Suc n)
  then show ?case unfolding struct_pattern_loop.simps Let_def
    by (intro run_rules) (simp_all add: state_facts)
qed (simp add: run_rules)

lemma runs_parse_struct_pattern [run_rules]:
  "parsers_run R P \<Longrightarrow> tok_kind (parser_current q) \<noteq> TOK_EOF \<Longrightarrow> R p q \<Longrightarrow> runs R p (parse_struct_pattern n P loc q)"
  unfolding parse_struct_pattern_def Let_def by (intro run_rules) (simp_all add: state_facts)

lemma runs_parse_variant_pattern [run_rules]:
  "parsers_run R P \<Longrightarrow> tok_kind (parser_current q) \<noteq> TOK_EOF \<Longrightarrow> R p q \<Longrightarrow> runs R p (parse_variant_pattern P loc q)"
  unfolding parse_variant_pattern_def Let_def by (intro run_rules) (simp_all add: state_facts)

lemma runs_parser_parse_pattern [run_rules]:
  "parsers_run R P \<Longrightarrow> R p q \<Longrightarrow> runs R p (parser_parse_pattern n P q)"
  unfolding parser_parse_pattern_def Let_def by (intro run_rules) (simp_all add: state_facts)

lemma runs_fn_type_params_loop [run_rules]:
  "parsers_run R P \<Longrightarrow> R p q \<Longrightarrow> runs R p (fn_type_params_loop n P ty q)"
proof (induction n arbitrary: ty q)
  case (Suc n)
  then show ?case unfolding fn_type_params_loop.simps Let_def
    by (intro run_rules) (simp_all add: state_facts)
qed (simp add: run_rules)

lemma runs_generic_args_loop [run_rules]:
  "parsers_run R P \<Longrightarrow> R p q \<Longrightarrow> runs R p (generic_args_loop n P ty q)"
proof (induction n arbitrary: ty q)
  case (Suc n)
  then show ?case unfolding generic_args_loop.simps Let_def
    by (intro run_rules) (simp_all add: state_facts)
qed (simp add: run_rules)

lemma runs_parse_pointer_type [run_rules]:
  "parsers_run R P \<Longrightarrow> R p q \<Longrightarrow> runs R p (parse_pointer_type P new loc q)"
  unfolding parse_pointer_type_def Let_def by (intro run_rules) (simp_all add: state_facts)

lemma runs_parse_array_type [run_rules]:
  "parsers_run R P \<Longrightarrow> R p q \<Longrightarrow> runs R p (parse_array_type P loc q)"
  unfolding parse_array_type_def Let_def by (intro run_rules) (simp_all add: state_facts)

lemma runs_parse_fn_type [run_rules]:
  "parsers_run R P \<Longrightarrow> R p q \<Longrightarrow> runs R p (parse_fn_type n P loc q)"
  unfolding parse_fn_type_def Let_def by (intro run_rules) (simp_all add: state_facts)

lemma runs_parse_named_type [run_rules]:
  "parsers_run R P \<Longrightarrow> R p q \<Longrightarrow> runs R p (parse_named_type n P tok q)"
  unfolding parse_named_type_def Let_def by (intro run_rules) (simp_all add: state_facts)

lemma runs_parse_primary_type [run_rules]:
  "parsers_run R P \<Longrightarrow> R p q \<Longrightarrow> runs R p (parse_primary_type n P q)"
  unfolding parse_primary_type_def Let_def by (intro run_rules) (simp_all add: state_facts)

lemma runs_parser_parse_type [run_rules]:
  "parsers_run R P \<Longrightarrow> R p q \<Longrightarrow> runs R p (parser_parse_type n P q)"
  unfolding parser_parse_type_def Let_def by (intro run_rules) (simp_all add: state_facts)

lemma parsers_at_run: "parsers_run R (parsers_at n)"
proof (induction n)
  case 0
  then show ?case by (simp add: parsers_run_def run_rules)
next
  case (Suc n)
  then show ?case
    unfolding parsers_run_def [of R "parsers_at (Suc n)"] by (auto simp: Let_def intro: run_rules)
qed

lemma runs_attr_args_loop [run_rules]:
  "parsers_run R P \<Longrightarrow> R p q \<Longrightarrow> runs R p (attr_args_loop n P args q)"
proof (induction n arbitrary: args q)
  case (Suc n)
  then show ?case unfolding attr_args_loop.simps Let_def
    by (intro run_rules) (simp_all add: state_facts)
qed (simp add: run_rules)

lemma runs_parser_parse_attribute [run_rules]:
  "parsers_run R P \<Longrightarrow> R p q \<Longrightarrow> runs R p (parser_parse_attribute n P q)"
  unfolding parser_parse_attribute_def Let_def by (intro run_rules) (simp_all add: state_facts)

lemma runs_attrs_loop [run_rules]:
  "parsers_run R P \<Longrightarrow> R p q \<Longrightarrow> runs R p (attrs_loop n P attrs q)"
proof (induction n arbitrary: attrs q)
  case (Suc n)
  then show ?case unfolding attrs_loop.simps Let_def
    by (intro run_rules) (simp_all add: state_facts)
qed (simp add: run_rules)

lemma runs_parser_parse_attrs [run_rules]:
  "parsers_run R P \<Longrightarrow> R p q \<Longrightarrow> runs R p (parser_parse_attrs n P q)"
  unfolding parser_parse_attrs_def Let_def by (intro run_rules) (simp_all add: state_facts)

lemma runs_parse_default_value [run_rules]:
  "parsers_run R P \<Longrightarrow> R p q \<Longrightarrow> runs R p (parse_default_value P q)"
  unfolding parse_default_value_def Let_def by (intro run_rules) (simp_all add: state_facts)

lemma runs_parse_self_param [run_rules]:
  "parsers_run R P \<Longrightarrow> R p q \<Longrightarrow> runs R p (parse_self_param P q)"
  unfolding parse_self_param_def Let_def by (intro run_rules) (simp_all add: state_facts)

lemma runs_parse_named_param [run_rules]:
  "parsers_run R P \<Longrightarrow> R p q \<Longrightarrow> runs R p (parse_named_param P q)"
  unfolding parse_named_param_def Let_def by (intro run_rules) (simp_all add: state_facts)

lemma runs_parser_parse_param [run_rules]:
  "parsers_run R P \<Longrightarrow> R p q \<Longrightarrow> runs R p (parser_parse_param P q)"
  unfolding parser_parse_param_def Let_def by (intro run_rules) (simp_all add: state_facts)

lemma runs_params_loop [run_rules]:
  "parsers_run R P \<Longrightarrow> R p q \<Longrightarrow> runs R p (params_loop n P fn q)"
proof (induction n arbitrary: fn q)
  case (Suc n)
  then show ?case unfolding params_loop.simps Let_def
    by (intro run_rules) (simp_all add: state_facts)
qed (simp add: run_rules)

lemma runs_trait_params_loop [run_rules]:
  "parsers_run R P \<Longrightarrow> R p q \<Longrightarrow> runs R p (trait_params_loop n P params q)"
proof (induction n arbitrary: params q)
  case (Suc n)
  then show ?case unfolding trait_params_loop.simps Let_def
    by (intro run_rules) (simp_all add: state_facts)
qed (simp add: run_rules)

lemma runs_trait_names_loop [run_rules]:
  "R p q \<Longrightarrow> runs R p (trait_names_loop n traits q)"
proof (induction n arbitrary: traits q)
  case (Suc n)
  then show ?case unfolding trait_names_loop.simps Let_def
    by (intro run_rules) (simp_all add: state_facts)
qed (simp add: run_rules)

lemma runs_generic_params_loop [run_rules]:
  "R p q \<Longrightarrow> runs R p (generic_params_loop n out q)"
proof (induction n arbitrary: out q)
  case (Suc n)
  then show ?case unfolding generic_params_loop.simps Let_def
    by (intro run_rules) (simp_all add: state_facts)
qed (simp add: run_rules)

lemma runs_parser_parse_generic_params [run_rules]:
  "R p q \<Longrightarrow> runs R p (parser_parse_generic_params n q)"
  unfolding parser_parse_generic_params_def Let_def by (intro run_rules) (simp_all add: state_facts)

lemma runs_parse_fn_rest [run_rules]:
  "parsers_run R P \<Longrightarrow> R p q \<Longrightarrow> runs R p (parse_fn_rest n P fn q)"
  unfolding parse_fn_rest_def Let_def by (intro run_rules) (simp_all add: state_facts)

lemma runs_parser_parse_fn_decl [run_rules]:
  "parsers_run R P \<Longrightarrow> R p q \<Longrightarrow> runs R p (parser_parse_fn_decl n P pub attrs q)"
  unfolding parser_parse_fn_decl_def Let_def by (intro run_rules) (simp_all add: state_facts)

lemma runs_fields_loop [run_rules]:
  "parsers_run R P \<Longrightarrow> R p q \<Longrightarrow> runs R p (fields_loop n P s q)"
proof (induction n arbitrary: s q)
  case (Suc n)
  then show ?case unfolding fields_loop.simps Let_def
    by (intro run_rules) (simp_all add: state_facts)
qed (simp add: run_rules)

lemma runs_parser_parse_struct_decl [run_rules]:
  "parsers_run R P \<Longrightarrow> R p q \<Longrightarrow> runs R p (parser_parse_struct_decl n P pub attrs q)"
  unfolding parser_parse_struct_decl_def Let_def by (intro run_rules) (simp_all add: state_facts)

lemma runs_parser_parse_union_decl [run_rules]:
  "parsers_run R P \<Longrightarrow> R p q \<Longrightarrow> runs R p (parser_parse_union_decl n P pub attrs q)"
  unfolding parser_parse_union_decl_def Let_def by (intro run_rules) (simp_all add: state_facts)

lemma runs_variants_loop [run_rules]:
  "parsers_run R P \<Longrightarrow> R p q \<Longrightarrow> runs R p (variants_loop n P e q)"
proof (induction n arbitrary: e q)
  case (Suc n)
  then show ?case unfolding variants_loop.simps Let_def
    by (intro run_rules) (simp_all add: state_facts)
qed (simp add: run_rules)

lemma runs_parser_parse_enum_decl [run_rules]:
  "parsers_run R P \<Longrightarrow> R p q \<Longrightarrow> runs R p (parser_parse_enum_decl n P pub attrs q)"
  unfolding parser_parse_enum_decl_def Let_def by (intro run_rules) (simp_all add: state_facts)

lemma runs_trait_method_step [run_rules]:
  "parsers_run R P \<Longrightarrow> R p q \<Longrightarrow> runs R p (trait_method_step n P traits q)"
  unfolding trait_method_step_def Let_def by (intro run_rules) (simp_all add: state_facts)

lemma runs_trait_methods_loop [run_rules]:
  "parsers_run R P \<Longrightarrow> R p q \<Longrightarrow> runs R p (trait_methods_loop n P traits q)"
proof (induction n arbitrary: traits q)
  case (Suc n)
  then show ?case unfolding trait_methods_loop.simps Let_def
    by (intro run_rules) (simp_all add: state_facts)
qed (simp add: run_rules)

lemma runs_parser_parse_traits_decl [run_rules]:
  "parsers_run R P \<Longrightarrow> R p q \<Longrightarrow> runs R p (parser_parse_traits_decl n P pub attrs q)"
  unfolding parser_parse_traits_decl_def Let_def by (intro run_rules) (simp_all add: state_facts)

lemma runs_extend_step [run_rules]:
  "parsers_run R P \<Longrightarrow> R p q \<Longrightarrow> runs R p (extend_step n P ext q)"
  unfolding extend_step_def Let_def by (intro run_rules) (simp_all add: state_facts)

lemma runs_extend_loop [run_rules]:
  "parsers_run R P \<Longrightarrow> R p q \<Longrightarrow> runs R p (extend_loop n P ext q)"
proof (induction n arbitrary: ext q)
  case (Suc n)
  then show ?case unfolding extend_loop.simps Let_def
    by (intro run_rules) (simp_all add: state_facts)
qed (simp add: run_rules)

lemma runs_extend_traits_loop [run_rules]:
  "R p q \<Longrightarrow> runs R p (extend_traits_loop n ext q)"
proof (induction n arbitrary: ext q)
  case (Suc n)
  then show ?case unfolding extend_traits_loop.simps Let_def
    by (intro run_rules) (simp_all add: state_facts)
qed (simp add: run_rules)

lemma runs_parser_parse_extend_decl [run_rules]:
  "parsers_run R P \<Longrightarrow> R p q \<Longrightarrow> runs R p (parser_parse_extend_decl n P pub attrs q)"
  unfolding parser_parse_extend_decl_def Let_def by (intro run_rules) (simp_all add: state_facts)

lemma runs_parser_parse_type_alias [run_rules]:
  "parsers_run R P \<Longrightarrow> R p q \<Longrightarrow> runs R p (parser_parse_type_alias P pub attrs q)"
  unfolding parser_parse_type_alias_def Let_def by (intro run_rules) (simp_all add: state_facts)

lemma runs_parser_parse_test_decl [run_rules]:
  "parsers_run R P \<Longrightarrow> R p q \<Longrightarrow> runs R p (parser_parse_test_decl P attrs q)"
  unfolding parser_parse_test_decl_def Let_def by (intro run_rules) (simp_all add: state_facts)

lemma runs_parser_parse_top_level_decl [run_rules]:
  "parsers_run R P \<Longrightarrow> R p q \<Longrightarrow> runs R p (parser_parse_top_level_decl n P q)"
  unfolding parser_parse_top_level_decl_def Let_def by (intro run_rules) (auto simp: state_facts)

lemma runs_import_parts_loop [run_rules]:
  "R p q \<Longrightarrow> runs R p (import_parts_loop n imp q)"
proof (induction n arbitrary: imp q)
  case (Suc n)
  then show ?case unfolding import_parts_loop.simps Let_def
    by (intro run_rules) (simp_all add: state_facts)
qed (simp add: run_rules)

lemma runs_parse_import [run_rules]:
  "R p q \<Longrightarrow> runs R p (parse_import n q)"
  unfolding parse_import_def Let_def by (intro run_rules) (simp_all add: state_facts)

lemma runs_imports_loop [run_rules]:
  "R p q \<Longrightarrow> runs R p (imports_loop n root q)"
proof (induction n arbitrary: root q)
  case (Suc n)
  then show ?case unfolding imports_loop.simps Let_def
    by (intro run_rules) (simp_all add: state_facts)
qed (simp add: run_rules)

lemma runs_decl_step [run_rules]:
  "parsers_run R P \<Longrightarrow> R p q \<Longrightarrow> runs R p (decl_step n P root q)"
  unfolding decl_step_def Let_def by (intro run_rules) (simp_all add: state_facts)

lemma runs_decls_loop [run_rules]:
  "parsers_run R P \<Longrightarrow> R p q \<Longrightarrow> runs R p (decls_loop n P root q)"
proof (induction n arbitrary: root q)
  case (Suc n)
  then show ?case unfolding decls_loop.simps Let_def
    by (intro run_rules) (simp_all add: state_facts)
qed (simp add: run_rules)

lemma runs_module [run_rules]:
  "R p q \<Longrightarrow> (\<And>root q'. R p q' \<Longrightarrow> runs R p (f root q')) \<Longrightarrow>
     runs R p (case parse_module root q of (root, q') \<Rightarrow> f root q')"
proof -
  assume a: "R p q" "\<And>root q'. R p q' \<Longrightarrow> runs R p (f root q')"
  have "runs R p (Some (parse_module root q))"
    unfolding parse_module_def Let_def if_distrib [of Some] prod.case_distrib [of Some]
    by (intro run_rules a) simp_all
  then show ?thesis using a(2) by (auto simp: runs_def split: prod.split)
qed

lemma runs_parse: "R p q \<Longrightarrow> runs R p (parser_parse n q)"
  unfolding parser_parse_def Let_def
  by (intro run_rules parsers_at_run) (simp_all add: state_facts)

end

section \<open>The cursor and the error report\<close>

text \<open>
  \<open>parser_ok\<close>: the cursor is on a token, the last token is the end of the input, and the error flag
  is set if and only if something was reported.
\<close>

definition parser_ok :: "parser \<Rightarrow> bool" where
  "parser_ok p \<longleftrightarrow> p_pos p < p_count p \<and> tok_kind (last (p_tokens p)) = TOK_EOF
     \<and> (p_had_error p \<longleftrightarrow> p_stderr p \<noteq> [])"

definition steps_to :: "parser \<Rightarrow> parser \<Rightarrow> bool" where
  "steps_to p q \<longleftrightarrow> p_tokens q = p_tokens p \<and> p_pos p \<le> p_pos q \<and> p_nodes p \<le> p_nodes q
     \<and> prefix (p_stderr p) (p_stderr q) \<and> (parser_ok p \<longrightarrow> parser_ok q)"

lemma current_nth: "p_pos p < p_count p \<Longrightarrow> parser_current p = p_tokens p ! p_pos p"
  by (simp add: parser_current_def)

lemma skip_token_ok:
  "parser_ok p \<Longrightarrow> tok_kind (parser_current p) \<noteq> TOK_EOF \<Longrightarrow> parser_ok (skip_token p)"
proof -
  assume a: "parser_ok p" "tok_kind (parser_current p) \<noteq> TOK_EOF"
  then have "p_tokens p \<noteq> []" by (auto simp: parser_ok_def)
  with a have "p_pos p \<noteq> p_count p - 1"
    by (auto simp: parser_ok_def current_nth last_conv_nth)
  with a show ?thesis by (auto simp: parser_ok_def skip_token_def)
qed

interpretation cursor: parser_rules steps_to
proof
  fix p q r :: parser
  show "steps_to p p" by (simp add: steps_to_def)
  show "steps_to p q \<Longrightarrow> steps_to q r \<Longrightarrow> steps_to p r" by (auto simp: steps_to_def)
  show "tok_kind (parser_current p) \<noteq> TOK_EOF \<Longrightarrow> steps_to p (skip_token p)"
    using skip_token_ok [of p] by (auto simp: steps_to_def skip_token_def)
  show "steps_to p (parser_error tok msg p)" for tok msg
    by (auto simp: steps_to_def parser_error_def parser_ok_def)
  show "steps_to p (p\<lparr>p_nodes := Suc (p_nodes p)\<rparr>)"
    by (auto simp: steps_to_def parser_ok_def)
qed

lemma decls_loop_end:
  "decls_loop n P root q = Some (root', q') \<Longrightarrow> parser_at_end q'"
proof (induction n arbitrary: root q)
  case (Suc n)
  then show ?case by (auto simp: bind_eq_Some_conv split: if_splits)
qed simp

text \<open>
  C2. A run of the parser reads the whole input and nothing beyond it. Started on a token array
  whose last token is its only end token, a run that returns has not changed the array, has its
  cursor exactly on the end token, has allocated nodes only by counting on, and has the error flag
  set if and only if it has written an error message.
\<close>

theorem parser_parse_reads_all:
  assumes "parser_parse n (parser_init tokens k) = Some (root, p)" "tokens \<noteq> []"
    "tok_kind (last tokens) = TOK_EOF" "\<forall>t \<in> set (butlast tokens). tok_kind t \<noteq> TOK_EOF"
  shows "p_tokens p = tokens \<and> p_pos p = length tokens - 1 \<and> p_nodes p > k
    \<and> (p_had_error p \<longleftrightarrow> p_stderr p \<noteq> [])"
proof -
  let ?p = "parser_init tokens k"
  let ?p1 = "?p\<lparr>p_nodes := Suc k\<rparr>"
  have ok: "parser_ok ?p1" using assms(2,3) by (simp add: parser_ok_def parser_init_def)
  obtain root0 q where q: "parse_module (Node k (tok_loc (parser_current ?p))
      (Decl (AST_COMPILATION_UNIT [] [] []))) ?p1 = (root0, q)" by fastforce
  obtain root1 q1 where q1: "imports_loop n root0 q = Some (root1, q1)"
    "decls_loop n (parsers_at n) root1 q1 = Some (root, p)"
    using assms(1) q
    by (auto simp: parser_parse_def alloc_def ast_new_compilation_unit_def new_node_def Let_def
        parser_init_def bind_eq_Some_conv)
  have "runs steps_to ?p1 (case parse_module (Node k (tok_loc (parser_current ?p))
      (Decl (AST_COMPILATION_UNIT [] [] []))) ?p1 of (r, q) \<Rightarrow>
        Option.bind (imports_loop n r q) (\<lambda>(r, q). decls_loop n (parsers_at n) r q))"
    by (intro run_rules cursor.parsers_at_run cursor.R_refl)
  then have st: "steps_to ?p1 p" using q q1 by (simp add: runs_def)
  then have "parser_ok p" "p_tokens p = tokens" "p_nodes p > k"
    using ok by (simp_all add: steps_to_def parser_init_def)
  moreover have "p_pos p = length tokens - 1"
  proof (rule ccontr)
    assume "p_pos p \<noteq> length tokens - 1"
    then have "p_pos p < length (butlast tokens)"
      using \<open>parser_ok p\<close> \<open>p_tokens p = tokens\<close> by (auto simp: parser_ok_def)
    then have "parser_current p \<in> set (butlast tokens)"
      using \<open>p_tokens p = tokens\<close> by (auto simp: parser_current_def nth_butlast in_set_conv_nth)
    then show False
      using decls_loop_end [OF q1(2)] assms(4) by (auto simp: parser_at_end_def)
  qed
  ultimately show ?thesis by (simp add: parser_ok_def)
qed

theorem parser_parse_reads_all_witness:
  "\<exists>root p. parser_parse 3 (parser_init demo_tokens 0) = Some (root, p) \<and> p_pos p = 3"
proof -
  obtain root p where r: "parser_parse 3 (parser_init demo_tokens 0) = Some (root, p)"
    using demo_parse by (metis not_None_eq prod.collapse)
  from parser_parse_reads_all [OF this] show ?thesis
    using r by (simp add: demo_tokens_def demo_token_def)
qed

end
