(* ===== verification/Parser_Termination.thy ===== *)
theory Parser_Termination
  imports Parser_Frame
begin

text \<open>
  When the parser returns. Without a match statement in the input every loop and every recursive
  call gets closer to the end token, so fuel proportional to the number of tokens is enough; the
  loop over match arms can stand still, and then no fuel is enough. The first part is proved with
  rules that follow a run forward: \<open>ends m Q\<close> says that \<open>m\<close> returns, with a result and a state in
  \<open>Q\<close>.
\<close>

section \<open>Following a run\<close>

definition ends :: "('a \<times> parser) option \<Rightarrow> ('a \<Rightarrow> parser \<Rightarrow> bool) \<Rightarrow> bool" where
  "ends m Q \<longleftrightarrow> (\<exists>r q. m = Some (r, q) \<and> Q r q)"

text \<open>The number of tokens from the cursor on, the end token included.\<close>

definition rem :: "parser \<Rightarrow> nat" where
  "rem p = p_count p - p_pos p"

definition fine :: "parser \<Rightarrow> bool" where
  "fine p \<longleftrightarrow> parser_ok p \<and> (\<forall>t \<in> set (p_tokens p). tok_kind t \<noteq> TOK_MATCH)"

text \<open>
  The recursive functions return within budget \<open>M\<close>: two units for every token left and one more
  for a statement, which may call the expression parser on the same token. A result other than
  null has consumed a token.
\<close>

definition eats :: "parser \<Rightarrow> 'a option \<Rightarrow> parser \<Rightarrow> bool" where
  "eats q r q' \<longleftrightarrow> fine q' \<and> p_tokens q' = p_tokens q \<and> rem q' + of_bool (r \<noteq> None) \<le> rem q"

definition parsers_total :: "nat \<Rightarrow> parsers \<Rightarrow> bool" where
  "parsers_total M P \<longleftrightarrow> (\<forall>q. fine q \<longrightarrow>
     (2 * rem q < M \<longrightarrow> (\<forall>bp. ends (ps_expr_bp P bp q) (eats q)) \<and> ends (ps_block P q) (eats q)
        \<and> ends (ps_type P q) (eats q))
     \<and> (2 * rem q + 1 < M \<longrightarrow> ends (ps_stmt P q) (eats q)))"

named_theorems ends_rules \<open>rules that follow a run of the parser\<close>

lemma ends_Some [ends_rules]: "Q r q \<Longrightarrow> ends (Some (r, q)) Q"
  by (simp add: ends_def)

lemma ends_bind [ends_rules]: "ends m (\<lambda>r q. ends (k (r, q)) Q) \<Longrightarrow> ends (Option.bind m k) Q"
  by (auto simp: ends_def)

lemma ends_pair [ends_rules]: "ends (f a b) Q \<Longrightarrow> ends (case (a, b) of (x, y) \<Rightarrow> f x y) Q"
  by simp

lemma ends_pair_app [ends_rules]:
  "(\<And>a b. x = (a, b) \<Longrightarrow> ends (f a b q) Q) \<Longrightarrow> ends (case_prod f x q) Q"
  by (cases x) simp

lemma ends_int_pair [ends_rules]:
  fixes x :: "int \<times> int"
  shows "(\<And>a b. x = (a, b) \<Longrightarrow> ends (f a b) Q) \<Longrightarrow> ends (case x of (a, b) \<Rightarrow> f a b) Q"
  by (cases x) simp

lemma ends_nested [ends_rules]:
  "ends (case x of (a, q) \<Rightarrow> (case f a q of (b, q') \<Rightarrow> g b q')) Q \<Longrightarrow>
     ends (case (case x of (a, q) \<Rightarrow> f a q) of (b, q') \<Rightarrow> g b q') Q"
  by (simp add: case_prod_beta)

lemma ends_if [ends_rules]:
  "(b \<Longrightarrow> ends x Q) \<Longrightarrow> (\<not> b \<Longrightarrow> ends y Q) \<Longrightarrow> ends (if b then x else y) Q"
  by simp

lemma ends_prod_if [ends_rules]:
  "(b \<Longrightarrow> ends (case x of (a, q) \<Rightarrow> f a q) Q) \<Longrightarrow> (\<not> b \<Longrightarrow> ends (case y of (a, q) \<Rightarrow> f a q) Q) \<Longrightarrow>
     ends (case (if b then x else y) of (a, q) \<Rightarrow> f a q) Q"
  by simp

lemma ends_option [ends_rules]:
  "(x = None \<Longrightarrow> ends y Q) \<Longrightarrow> (\<And>a. x = Some a \<Longrightarrow> ends (f a) Q) \<Longrightarrow>
     ends (case x of None \<Rightarrow> y | Some a \<Rightarrow> f a) Q"
  by (simp split: option.split)

lemma fine_skip [simp]: "fine q \<Longrightarrow> tok_kind (parser_current q) \<noteq> TOK_EOF \<Longrightarrow> fine (skip_token q)"
  using skip_token_ok [of q] by (auto simp: fine_def skip_token_def)

lemma fine_error [simp]: "fine q \<Longrightarrow> fine (parser_error tok msg q)"
  by (auto simp: fine_def parser_error_def parser_ok_def)

lemma current_error [simp]: "parser_current (parser_error tok msg q) = parser_current q"
  by (simp add: parser_error_def parser_current_def)

lemma rem_error [simp]: "rem (parser_error tok msg q) = rem q"
  by (simp add: rem_def parser_error_def)

lemma rem_pos: "fine q \<Longrightarrow> rem q > 0"
  by (simp add: fine_def parser_ok_def rem_def)

lemma rem_skip: "rem (skip_token q) = rem q - 1"
  by (auto simp: rem_def skip_token_def)

lemma tokens_skip [simp]: "p_tokens (skip_token q) = p_tokens q"
  by (simp add: skip_token_def)

lemma tokens_error [simp]: "p_tokens (parser_error tok msg q) = p_tokens q"
  by (simp add: parser_error_def)

lemma same_place:
  assumes "fine q" "fine q'" "p_tokens q' = p_tokens q"
  shows "rem q' < rem q \<or> rem q < rem q' \<or> parser_current q' = parser_current q"
proof (cases "p_pos q' = p_pos q")
  case True
  then show ?thesis using assms(3) by (simp add: parser_current_def)
next
  case False
  then show ?thesis using assms by (auto simp: fine_def parser_ok_def rem_def)
qed

lemma skip_or_end:
  assumes "fine q" "fine q'" "p_tokens q' = p_tokens q" "\<not> parser_at_end q" "rem q' \<le> rem q"
  shows "rem (if \<not> parser_at_end q' then skip_token q' else q') < rem q"
  using same_place [OF assms(1-3)] rem_pos [OF assms(2)] assms(4,5)
  by (auto simp: parser_at_end_def rem_skip)

lemma fine_current: "fine q \<Longrightarrow> tok_kind (parser_current q) \<noteq> TOK_MATCH"
  by (auto simp: fine_def parser_ok_def current_nth)

lemma ends_match [ends_rules]:
  "fine q \<Longrightarrow> k \<noteq> TOK_EOF \<Longrightarrow>
   (\<And>ok q'. fine q' \<Longrightarrow> p_tokens q' = p_tokens q \<Longrightarrow> rem q' + of_bool ok \<le> rem q \<Longrightarrow>
     (ok \<longleftrightarrow> parser_check k q) \<Longrightarrow> ends (f ok q') Q) \<Longrightarrow>
     ends (case parser_match k q of (ok, q') \<Rightarrow> f ok q') Q"
  using rem_pos [of q]
  by (cases "parser_check k q")
    (auto simp: parser_match_def parser_check_def rem_skip Suc_le_eq)

lemma ends_expect [ends_rules]:
  "fine q \<Longrightarrow> k \<noteq> TOK_EOF \<Longrightarrow>
   (\<And>ok q'. fine q' \<Longrightarrow> p_tokens q' = p_tokens q \<Longrightarrow> rem q' + of_bool ok \<le> rem q \<Longrightarrow>
     (ok \<longleftrightarrow> parser_check k q) \<Longrightarrow> ends (f ok q') Q) \<Longrightarrow>
     ends (case parser_expect k msg q of (ok, q') \<Rightarrow> f ok q') Q"
  using rem_pos [of q]
  by (cases "parser_check k q")
    (auto simp: parser_expect_def parser_match_def parser_check_def rem_skip Suc_le_eq)

lemma ends_alloc [ends_rules]:
  "fine q \<Longrightarrow> creates new \<Longrightarrow>
   (\<And>n q'. fine q' \<Longrightarrow> p_tokens q' = p_tokens q \<Longrightarrow> rem q' = rem q \<Longrightarrow> tok_kind (parser_current q') = tok_kind (parser_current q)
     \<Longrightarrow> ends (f n q') Q) \<Longrightarrow>
     ends (case alloc new q of (n, q') \<Rightarrow> f n q') Q"
  by (simp add: alloc_def fine_def rem_def parser_ok_def parser_current_def case_prod_beta Let_def)

lemma ends_calls [ends_rules]:
  "parsers_total M P \<Longrightarrow> fine q \<Longrightarrow> 2 * rem q < M \<Longrightarrow> (\<And>r q'. eats q r q' \<Longrightarrow> Q r q') \<Longrightarrow>
     ends (ps_expr_bp P bp q) Q"
  "parsers_total M P \<Longrightarrow> fine q \<Longrightarrow> 2 * rem q < M \<Longrightarrow> (\<And>r q'. eats q r q' \<Longrightarrow> Q r q') \<Longrightarrow>
     ends (parser_parse_expr P q) Q"
  "parsers_total M P \<Longrightarrow> fine q \<Longrightarrow> 2 * rem q < M \<Longrightarrow> (\<And>r q'. eats q r q' \<Longrightarrow> Q r q') \<Longrightarrow>
     ends (ps_block P q) Q"
  "parsers_total M P \<Longrightarrow> fine q \<Longrightarrow> 2 * rem q + 1 < M \<Longrightarrow> (\<And>r q'. eats q r q' \<Longrightarrow> Q r q') \<Longrightarrow>
     ends (ps_stmt P q) Q"
  unfolding parser_parse_expr_def by (fastforce simp: parsers_total_def ends_def)+

lemma ends_call_type [ends_rules]:
  "parsers_total M P \<Longrightarrow> fine q \<Longrightarrow> 2 * rem q < M \<Longrightarrow> (\<And>r q'. eats q r q' \<Longrightarrow> Q r q') \<Longrightarrow>
     ends (ps_type P q) Q"
  by (fastforce simp: parsers_total_def ends_def)

lemmas end_facts = state_facts eats_def rem_skip fine_current

lemma ends_leaf [ends_rules]:
  assumes "fine q" "creates new" "tok_kind (parser_current q) \<noteq> TOK_EOF"
    "\<And>r q'. eats q r q' \<Longrightarrow> Q r q'"
  shows "ends (leaf new q) Q"
  using assms(1-3) rem_pos [OF assms(1)] unfolding leaf_def Let_def
  by (intro ends_rules assms(4)) (auto simp: end_facts)

lemma ends_struct_literal_loop [ends_rules]:
  assumes "parsers_total M P" "rem q \<le> n" "fine q" "2 * rem q < M"
    "\<And>r q'. fine q' \<Longrightarrow> p_tokens q' = p_tokens q \<Longrightarrow> rem q' \<le> rem q \<Longrightarrow> Q r q'"
  shows "ends (struct_literal_loop n P lit q) Q"
  using assms
proof (induction n arbitrary: lit q)
  case 0
  then show ?case using rem_pos by fastforce
next
  case (Suc n)
  show ?case using Suc.prems(1-4) rem_pos [OF Suc.prems(3)]
    unfolding struct_literal_loop.simps Let_def
    by (intro ends_rules Suc.IH Suc.prems(5))
      (simp add: end_facts; fail | (auto simp: end_facts)[1])+
qed

lemma ends_parser_parse_struct_literal [ends_rules]:
  assumes "parsers_total M P" "rem q \<le> n" "fine q" "2 * rem q < M"
    "\<And>r q'. fine q' \<Longrightarrow> p_tokens q' = p_tokens q \<Longrightarrow> rem q' \<le> rem q \<Longrightarrow> Q r q'"
  shows "ends (parser_parse_struct_literal n P ty q) Q"
  using assms(1-4) rem_pos [OF assms(3)] unfolding parser_parse_struct_literal_def Let_def
  by (intro ends_rules assms(5))
    (simp add: end_facts; fail | (auto simp: end_facts)[1])+

lemma ends_array_literal_loop [ends_rules]:
  assumes "parsers_total M P" "rem q \<le> n" "fine q" "2 * rem q < M"
    "\<And>r q'. fine q' \<Longrightarrow> p_tokens q' = p_tokens q \<Longrightarrow> rem q' \<le> rem q \<Longrightarrow> Q r q'"
  shows "ends (array_literal_loop n P lit q) Q"
  using assms
proof (induction n arbitrary: lit q)
  case 0
  then show ?case using rem_pos by fastforce
next
  case (Suc n)
  show ?case using Suc.prems(1-4) rem_pos [OF Suc.prems(3)]
    unfolding array_literal_loop.simps Let_def
    by (intro ends_rules Suc.IH Suc.prems(5))
      (simp add: end_facts; fail | (auto simp: end_facts)[1])+
qed

lemma ends_parser_parse_array_literal [ends_rules]:
  assumes "parsers_total M P" "rem q \<le> n" "fine q" "2 * rem q \<le> M"
    "tok_kind (parser_current q) \<noteq> TOK_EOF"
    "\<And>r q'. fine q' \<Longrightarrow> p_tokens q' = p_tokens q \<Longrightarrow> rem q' < rem q \<Longrightarrow> Q r q'"
  shows "ends (parser_parse_array_literal n P tok q) Q"
  using assms(1-5) rem_pos [OF assms(3)] unfolding parser_parse_array_literal_def Let_def
  by (intro ends_rules assms(6))
    (simp add: end_facts; fail | (auto simp: end_facts)[1])+

lemma ends_parser_parse_primary [ends_rules]:
  assumes "parsers_total M P" "rem q \<le> n" "fine q" "2 * rem q \<le> M"
    "\<And>r q'. eats q r q' \<Longrightarrow> Q r q'"
  shows "ends (parser_parse_primary n P q) Q"
  using assms(1-4) rem_pos [OF assms(3)] unfolding parser_parse_primary_def Let_def
  by (intro ends_rules assms(5))
    (simp add: end_facts; fail | (auto simp: end_facts)[1])+

lemma ends_parse_unary [ends_rules]:
  assumes "parsers_total M P" "fine q" "2 * rem q < M"
    "\<And>r q'. fine q' \<Longrightarrow> p_tokens q' = p_tokens q \<Longrightarrow> rem q' \<le> rem q \<Longrightarrow> Q r q'"
  shows "ends (parse_unary P op tok q) Q"
  using assms(1-3) rem_pos [OF assms(2)] unfolding parse_unary_def Let_def
  by (intro ends_rules assms(4))
    (simp add: end_facts; fail | (auto simp: end_facts)[1])+

lemma ends_parse_try [ends_rules]:
  assumes "parsers_total M P" "fine q" "2 * rem q < M"
    "\<And>r q'. fine q' \<Longrightarrow> p_tokens q' = p_tokens q \<Longrightarrow> rem q' \<le> rem q \<Longrightarrow> Q r q'"
  shows "ends (parse_try P tok q) Q"
  using assms(1-3) rem_pos [OF assms(2)] unfolding parse_try_def Let_def
  by (intro ends_rules assms(4))
    (simp add: end_facts; fail | (auto simp: end_facts)[1])+

lemma ends_parser_parse_prefix [ends_rules]:
  assumes "parsers_total M P" "rem q \<le> n" "fine q" "2 * rem q \<le> M"
    "\<And>r q'. eats q r q' \<Longrightarrow> Q r q'"
  shows "ends (parser_parse_prefix n P q) Q"
  using assms(1-4) rem_pos [OF assms(3)] unfolding parser_parse_prefix_def Let_def
  by (intro ends_rules assms(5))
    (simp add: end_facts; fail | (auto simp: end_facts)[1])+

lemma ends_call_args_loop [ends_rules]:
  assumes "parsers_total M P" "rem q \<le> n" "fine q" "2 * rem q < M"
    "\<And>r q'. fine q' \<Longrightarrow> p_tokens q' = p_tokens q \<Longrightarrow> rem q' \<le> rem q \<Longrightarrow> Q r q'"
  shows "ends (call_args_loop n P call q) Q"
  using assms
proof (induction n arbitrary: call q)
  case 0
  then show ?case using rem_pos by fastforce
next
  case (Suc n)
  show ?case using Suc.prems(1-4) rem_pos [OF Suc.prems(3)]
    unfolding call_args_loop.simps Let_def
    by (intro ends_rules Suc.IH Suc.prems(5))
      (simp add: end_facts; fail | (auto simp: end_facts)[1])+
qed

lemma ends_parse_call_rest [ends_rules]:
  assumes "parsers_total M P" "rem q \<le> n" "fine q" "2 * rem q < M"
    "\<And>r q'. fine q' \<Longrightarrow> p_tokens q' = p_tokens q \<Longrightarrow> rem q' \<le> rem q \<Longrightarrow> Q r q'"
  shows "ends (parse_call_rest n P call q) Q"
  using assms(1-4) rem_pos [OF assms(3)] unfolding parse_call_rest_def Let_def
  by (intro ends_rules assms(5))
    (simp add: end_facts; fail | (auto simp: end_facts)[1])+

lemma ends_postfix_step [ends_rules]:
  assumes "parsers_total M P" "rem q \<le> n" "fine q" "2 * rem q < M"
    "\<And>r q'. fine q' \<Longrightarrow> p_tokens q' = p_tokens q \<Longrightarrow> rem q' + of_bool (fst r) \<le> rem q \<Longrightarrow> Q r q'"
  shows "ends (postfix_step n P left q) Q"
  using assms(1-4) rem_pos [OF assms(3)] unfolding postfix_step_def Let_def
  by (intro ends_rules assms(5))
    (simp add: end_facts; fail | (auto simp: end_facts)[1])+

lemma ends_parser_parse_postfix [ends_rules]:
  assumes "parsers_total M P" "2 * rem q \<le> n" "fine q" "2 * rem q < M"
    "\<And>r q'. fine q' \<Longrightarrow> p_tokens q' = p_tokens q \<Longrightarrow> rem q' \<le> rem q \<Longrightarrow> Q r q'"
  shows "ends (parser_parse_postfix n P left q) Q"
  using assms
proof (induction n arbitrary: left q)
  case 0
  then show ?case using rem_pos by fastforce
next
  case (Suc n)
  show ?case using Suc.prems(1-4) rem_pos [OF Suc.prems(3)]
    unfolding parser_parse_postfix.simps Let_def
    by (intro ends_rules Suc.IH Suc.prems(5))
      (simp add: end_facts; fail | (auto simp: end_facts)[1])+
qed

lemma ends_infix_loop [ends_rules]:
  assumes "parsers_total M P" "rem q \<le> n" "fine q" "2 * rem q < M"
    "\<And>r q'. fine q' \<Longrightarrow> p_tokens q' = p_tokens q \<Longrightarrow> rem q' \<le> rem q \<Longrightarrow> Q r q'"
  shows "ends (infix_loop n P bp left q) Q"
  using assms
proof (induction n arbitrary: bp left q)
  case 0
  then show ?case using rem_pos by fastforce
next
  case (Suc n)
  show ?case using Suc.prems(1-4) rem_pos [OF Suc.prems(3)]
    unfolding infix_loop.simps Let_def
    by (intro ends_rules Suc.IH Suc.prems(5))
      (simp add: end_facts; fail | (auto simp: end_facts)[1])+
qed

lemma ends_parser_parse_expr_bp [ends_rules]:
  assumes "parsers_total M P" "2 * rem q \<le> n" "fine q" "2 * rem q \<le> M"
    "\<And>r q'. eats q r q' \<Longrightarrow> Q r q'"
  shows "ends (parser_parse_expr_bp n P bp q) Q"
  using assms(1-4) rem_pos [OF assms(3)] unfolding parser_parse_expr_bp_def Let_def
  by (intro ends_rules assms(5))
    (simp add: end_facts; fail | (auto simp: end_facts)[1])+

lemma ends_block_step [ends_rules]:
  assumes "parsers_total M P" "fine q" "2 * rem q + 1 < M"
    "\<And>r q'. fine q' \<Longrightarrow> p_tokens q' = p_tokens q \<Longrightarrow> rem q' + of_bool (fst r) \<le> rem q \<Longrightarrow> Q r q'"
  shows "ends (block_step P block q) Q"
  using assms(1-3) rem_pos [OF assms(2)] unfolding block_step_def Let_def
  by (intro ends_rules assms(4))
    (simp add: end_facts; fail | (auto simp: end_facts)[1])+

lemma ends_block_loop [ends_rules]:
  assumes "parsers_total M P" "rem q \<le> n" "fine q" "2 * rem q + 1 < M"
    "\<And>r q'. fine q' \<Longrightarrow> p_tokens q' = p_tokens q \<Longrightarrow> rem q' \<le> rem q \<Longrightarrow> Q r q'"
  shows "ends (block_loop n P block q) Q"
  using assms
proof (induction n arbitrary: block q)
  case 0
  then show ?case using rem_pos by fastforce
next
  case (Suc n)
  show ?case using Suc.prems(1-4) rem_pos [OF Suc.prems(3)]
    unfolding block_loop.simps Let_def
    by (intro ends_rules Suc.IH Suc.prems(5))
      (simp add: end_facts; fail | (auto simp: end_facts)[1])+
qed

lemma ends_parser_parse_block [ends_rules]:
  assumes "parsers_total M P" "rem q \<le> n" "fine q" "2 * rem q \<le> M"
    "\<And>r q'. eats q r q' \<Longrightarrow> Q r q'"
  shows "ends (parser_parse_block n P q) Q"
  using assms(1-4) rem_pos [OF assms(3)] unfolding parser_parse_block_def Let_def
  by (intro ends_rules assms(5))
    (simp add: end_facts; fail | (auto simp: end_facts)[1])+

lemma ends_parse_var_decl [ends_rules]:
  assumes "parsers_total M P" "fine q" "2 * rem q \<le> M"
    "tok_kind (parser_current q) \<noteq> TOK_EOF"
    "\<And>r q'. eats q r q' \<Longrightarrow> Q r q'"
  shows "ends (parse_var_decl P c am sm pub attrs q) Q"
  using assms(1-4) rem_pos [OF assms(2)] unfolding parse_var_decl_def Let_def
  by (intro ends_rules assms(5))
    (simp add: end_facts; fail | (auto simp: end_facts)[1])+

lemma ends_parse_return [ends_rules]:
  assumes "parsers_total M P" "fine q" "2 * rem q < M"
    "\<And>r q'. fine q' \<Longrightarrow> p_tokens q' = p_tokens q \<Longrightarrow> rem q' \<le> rem q \<Longrightarrow> Q r q'"
  shows "ends (parse_return P tok q) Q"
  using assms(1-3) rem_pos [OF assms(2)] unfolding parse_return_def Let_def
  by (intro ends_rules assms(4))
    (simp add: end_facts; fail | (auto simp: end_facts)[1])+

lemma ends_parse_if [ends_rules]:
  assumes "parsers_total M P" "fine q" "2 * rem q < M"
    "\<And>r q'. fine q' \<Longrightarrow> p_tokens q' = p_tokens q \<Longrightarrow> rem q' \<le> rem q \<Longrightarrow> Q r q'"
  shows "ends (parse_if P tok q) Q"
  using assms(1-3) rem_pos [OF assms(2)] unfolding parse_if_def Let_def
  by (intro ends_rules assms(4))
    (simp add: end_facts; fail | (auto simp: end_facts)[1])+

lemma ends_parse_while [ends_rules]:
  assumes "parsers_total M P" "fine q" "2 * rem q < M"
    "\<And>r q'. fine q' \<Longrightarrow> p_tokens q' = p_tokens q \<Longrightarrow> rem q' \<le> rem q \<Longrightarrow> Q r q'"
  shows "ends (parse_while P tok q) Q"
  using assms(1-3) rem_pos [OF assms(2)] unfolding parse_while_def Let_def
  by (intro ends_rules assms(4))
    (simp add: end_facts; fail | (auto simp: end_facts)[1])+

lemma ends_parse_for [ends_rules]:
  assumes "parsers_total M P" "fine q" "2 * rem q < M"
    "\<And>r q'. fine q' \<Longrightarrow> p_tokens q' = p_tokens q \<Longrightarrow> rem q' \<le> rem q \<Longrightarrow> Q r q'"
  shows "ends (parse_for P tok q) Q"
  using assms(1-3) rem_pos [OF assms(2)] unfolding parse_for_def Let_def
  by (intro ends_rules assms(4))
    (simp add: end_facts; fail | (auto simp: end_facts)[1])+

lemma ends_parse_defer [ends_rules]:
  assumes "parsers_total M P" "fine q" "2 * rem q < M"
    "\<And>r q'. fine q' \<Longrightarrow> p_tokens q' = p_tokens q \<Longrightarrow> rem q' \<le> rem q \<Longrightarrow> Q r q'"
  shows "ends (parse_defer P tok q) Q"
  using assms(1-3) rem_pos [OF assms(2)] unfolding parse_defer_def Let_def
  by (intro ends_rules assms(4))
    (simp add: end_facts; fail | (auto simp: end_facts)[1])+

lemma ends_parse_expr_stmt [ends_rules]:
  assumes "parsers_total M P" "fine q" "2 * rem q < M"
    "\<And>r q'. eats q r q' \<Longrightarrow> Q r q'"
  shows "ends (parse_expr_stmt P q) Q"
  using assms(1-3) rem_pos [OF assms(2)] unfolding parse_expr_stmt_def Let_def
  by (intro ends_rules assms(4))
    (simp add: end_facts; fail | (auto simp: end_facts)[1])+

lemma ends_parser_parse_stmt [ends_rules]:
  assumes "parsers_total M P" "rem q \<le> n" "fine q" "2 * rem q < M"
    "\<And>r q'. eats q r q' \<Longrightarrow> Q r q'"
  shows "ends (parser_parse_stmt n P q) Q"
  using assms(1-4) rem_pos [OF assms(3)] unfolding parser_parse_stmt_def Let_def
  by (intro ends_rules assms(5))
    (simp add: end_facts; fail | (auto simp: end_facts)[1])+

lemma ends_fn_type_params_loop [ends_rules]:
  assumes "parsers_total M P" "rem q \<le> n" "fine q" "2 * rem q < M"
    "\<And>r q'. fine q' \<Longrightarrow> p_tokens q' = p_tokens q \<Longrightarrow> rem q' \<le> rem q \<Longrightarrow> Q r q'"
  shows "ends (fn_type_params_loop n P ty q) Q"
  using assms
proof (induction n arbitrary: ty q)
  case 0
  then show ?case using rem_pos by fastforce
next
  case (Suc n)
  show ?case using Suc.prems(1-4) rem_pos [OF Suc.prems(3)]
    unfolding fn_type_params_loop.simps Let_def
    by (intro ends_rules Suc.IH Suc.prems(5))
      (simp add: end_facts; fail | (auto simp: end_facts)[1])+
qed

lemma ends_generic_args_loop [ends_rules]:
  assumes "parsers_total M P" "rem q \<le> n" "fine q" "2 * rem q < M"
    "\<And>r q'. fine q' \<Longrightarrow> p_tokens q' = p_tokens q \<Longrightarrow> rem q' \<le> rem q \<Longrightarrow> Q r q'"
  shows "ends (generic_args_loop n P ty q) Q"
  using assms
proof (induction n arbitrary: ty q)
  case 0
  then show ?case using rem_pos by fastforce
next
  case (Suc n)
  show ?case using Suc.prems(1-4) rem_pos [OF Suc.prems(3)]
    unfolding generic_args_loop.simps Let_def
    by (intro ends_rules Suc.IH Suc.prems(5))
      (simp add: end_facts; fail | (auto simp: end_facts)[1])+
qed

lemma ends_parse_pointer_type [ends_rules]:
  assumes "parsers_total M P" "fine q" "2 * rem q < M"
    "\<And>r q'. fine q' \<Longrightarrow> p_tokens q' = p_tokens q \<Longrightarrow> rem q' \<le> rem q \<Longrightarrow> Q r q'"
  shows "ends (parse_pointer_type P new loc q) Q"
  using assms(1-3) rem_pos [OF assms(2)] unfolding parse_pointer_type_def Let_def
  by (intro ends_rules assms(4))
    (simp add: end_facts; fail | (auto simp: end_facts)[1])+

lemma ends_parse_array_type [ends_rules]:
  assumes "parsers_total M P" "fine q" "2 * rem q < M"
    "\<And>r q'. fine q' \<Longrightarrow> p_tokens q' = p_tokens q \<Longrightarrow> rem q' \<le> rem q \<Longrightarrow> Q r q'"
  shows "ends (parse_array_type P loc q) Q"
  using assms(1-3) rem_pos [OF assms(2)] unfolding parse_array_type_def Let_def
  by (intro ends_rules assms(4))
    (simp add: end_facts; fail | (auto simp: end_facts)[1])+

lemma ends_parse_fn_type [ends_rules]:
  assumes "parsers_total M P" "rem q \<le> n" "fine q" "2 * rem q < M"
    "\<And>r q'. fine q' \<Longrightarrow> p_tokens q' = p_tokens q \<Longrightarrow> rem q' \<le> rem q \<Longrightarrow> Q r q'"
  shows "ends (parse_fn_type n P loc q) Q"
  using assms(1-4) rem_pos [OF assms(3)] unfolding parse_fn_type_def Let_def
  by (intro ends_rules assms(5))
    (simp add: end_facts; fail | (auto simp: end_facts)[1])+

lemma ends_parse_named_type [ends_rules]:
  assumes "parsers_total M P" "rem q \<le> n" "fine q" "2 * rem q < M"
    "\<And>r q'. fine q' \<Longrightarrow> p_tokens q' = p_tokens q \<Longrightarrow> rem q' \<le> rem q \<Longrightarrow> Q r q'"
  shows "ends (parse_named_type n P tok q) Q"
  using assms(1-4) rem_pos [OF assms(3)] unfolding parse_named_type_def Let_def
  by (intro ends_rules assms(5))
    (simp add: end_facts; fail | (auto simp: end_facts)[1])+

lemma ends_parse_primary_type [ends_rules]:
  assumes "parsers_total M P" "rem q \<le> n" "fine q" "2 * rem q \<le> M"
    "\<And>r q'. eats q r q' \<Longrightarrow> Q r q'"
  shows "ends (parse_primary_type n P q) Q"
  using assms(1-4) rem_pos [OF assms(3)] unfolding parse_primary_type_def Let_def
  by (intro ends_rules assms(5))
    (simp add: end_facts; fail | (auto simp: end_facts)[1])+

lemma ends_parser_parse_type [ends_rules]:
  assumes "parsers_total M P" "rem q \<le> n" "fine q" "2 * rem q \<le> M"
    "\<And>r q'. eats q r q' \<Longrightarrow> Q r q'"
  shows "ends (parser_parse_type n P q) Q"
  using assms(1-4) rem_pos [OF assms(3)] unfolding parser_parse_type_def Let_def
  by (intro ends_rules assms(5))
    (simp add: end_facts; fail | (auto simp: end_facts)[1])+

lemma parsers_at_total: "parsers_total n (parsers_at n)"
proof (induction n)
  case 0
  then show ?case by (simp add: parsers_total_def)
next
  case (Suc n)
  note t = ends_parser_parse_expr_bp [OF Suc] ends_parser_parse_block [OF Suc]
    ends_parser_parse_type [OF Suc] ends_parser_parse_stmt [OF Suc]
  show ?case
    unfolding parsers_total_def [of "Suc n"] by (auto simp: Let_def intro!: t)
qed

section \<open>Declarations\<close>

lemma ends_attr_args_loop [ends_rules]:
  assumes "parsers_total M P" "rem q \<le> n" "fine q" "2 * rem q < M"
    "\<And>r q'. fine q' \<Longrightarrow> p_tokens q' = p_tokens q \<Longrightarrow> rem q' \<le> rem q \<Longrightarrow> Q r q'"
  shows "ends (attr_args_loop n P args q) Q"
  using assms
proof (induction n arbitrary: args q)
  case 0
  then show ?case using rem_pos by fastforce
next
  case (Suc n)
  show ?case using Suc.prems(1-4) rem_pos [OF Suc.prems(3)]
    unfolding attr_args_loop.simps Let_def
    by (intro ends_rules Suc.IH Suc.prems(5))
      (simp add: end_facts; fail | (auto simp: end_facts)[1])+
qed

lemma ends_parser_parse_attribute [ends_rules]:
  assumes "parsers_total M P" "rem q \<le> n" "fine q" "2 * rem q < M"
    "tok_kind (parser_current q) = TOK_HASH"
    "\<And>r q'. fine q' \<Longrightarrow> p_tokens q' = p_tokens q \<Longrightarrow> rem q' < rem q \<Longrightarrow> Q r q'"
  shows "ends (parser_parse_attribute n P q) Q"
  using assms(1-5) rem_pos [OF assms(3)] unfolding parser_parse_attribute_def Let_def
  by (intro ends_rules assms(6))
    (simp add: end_facts; fail | (auto simp: end_facts)[1])+

lemma ends_attrs_loop [ends_rules]:
  assumes "parsers_total M P" "2 * rem q \<le> n" "fine q" "2 * rem q < M"
    "\<And>r q'. fine q' \<Longrightarrow> p_tokens q' = p_tokens q \<Longrightarrow> rem q' \<le> rem q \<Longrightarrow> Q r q'"
  shows "ends (attrs_loop n P attrs q) Q"
  using assms
proof (induction n arbitrary: attrs q)
  case 0
  then show ?case using rem_pos by fastforce
next
  case (Suc n)
  show ?case using Suc.prems(1-4) rem_pos [OF Suc.prems(3)]
    unfolding attrs_loop.simps Let_def
    by (intro ends_rules Suc.IH Suc.prems(5))
      (simp add: end_facts; fail | (auto simp: end_facts)[1])+
qed

lemma ends_parser_parse_attrs [ends_rules]:
  assumes "parsers_total M P" "2 * rem q \<le> n" "fine q" "2 * rem q < M"
    "\<And>r q'. fine q' \<Longrightarrow> p_tokens q' = p_tokens q \<Longrightarrow> rem q' \<le> rem q \<Longrightarrow> Q r q'"
  shows "ends (parser_parse_attrs n P q) Q"
  using assms(1-4) rem_pos [OF assms(3)] unfolding parser_parse_attrs_def Let_def
  by (intro ends_rules assms(5))
    (simp add: end_facts; fail | (auto simp: end_facts)[1])+

lemma ends_parse_default_value [ends_rules]:
  assumes "parsers_total M P" "fine q" "2 * rem q < M"
    "\<And>r q'. fine q' \<Longrightarrow> p_tokens q' = p_tokens q \<Longrightarrow> rem q' \<le> rem q \<Longrightarrow> Q r q'"
  shows "ends (parse_default_value P q) Q"
  using assms(1-3) rem_pos [OF assms(2)] unfolding parse_default_value_def Let_def
  by (intro ends_rules assms(4))
    (simp add: end_facts; fail | (auto simp: end_facts)[1])+

lemma ends_parse_self_param [ends_rules]:
  assumes "parsers_total M P" "fine q" "2 * rem q < M"
    "\<And>r q'. fine q' \<Longrightarrow> p_tokens q' = p_tokens q \<Longrightarrow> rem q' \<le> rem q \<Longrightarrow> Q r q'"
  shows "ends (parse_self_param P q) Q"
  using assms(1-3) rem_pos [OF assms(2)] unfolding parse_self_param_def Let_def
  by (intro ends_rules assms(4))
    (simp add: end_facts; fail | (auto simp: end_facts)[1])+

lemma ends_parse_named_param [ends_rules]:
  assumes "parsers_total M P" "fine q" "2 * rem q < M"
    "\<And>r q'. fine q' \<Longrightarrow> p_tokens q' = p_tokens q \<Longrightarrow> rem q' \<le> rem q \<Longrightarrow> Q r q'"
  shows "ends (parse_named_param P q) Q"
  using assms(1-3) rem_pos [OF assms(2)] unfolding parse_named_param_def Let_def
  by (intro ends_rules assms(4))
    (simp add: end_facts; fail | (auto simp: end_facts)[1])+

lemma ends_parser_parse_param [ends_rules]:
  assumes "parsers_total M P" "fine q" "2 * rem q < M"
    "\<And>r q'. fine q' \<Longrightarrow> p_tokens q' = p_tokens q \<Longrightarrow> rem q' \<le> rem q \<Longrightarrow> Q r q'"
  shows "ends (parser_parse_param P q) Q"
  using assms(1-3) rem_pos [OF assms(2)] unfolding parser_parse_param_def Let_def
  by (intro ends_rules assms(4))
    (simp add: end_facts; fail | (auto simp: end_facts)[1])+

lemma ends_params_loop [ends_rules]:
  assumes "parsers_total M P" "rem q \<le> n" "fine q" "2 * rem q < M"
    "\<And>r q'. fine q' \<Longrightarrow> p_tokens q' = p_tokens q \<Longrightarrow> rem q' \<le> rem q \<Longrightarrow> Q r q'"
  shows "ends (params_loop n P fn q) Q"
  using assms
proof (induction n arbitrary: fn q)
  case 0
  then show ?case using rem_pos by fastforce
next
  case (Suc n)
  show ?case using Suc.prems(1-4) rem_pos [OF Suc.prems(3)]
    unfolding params_loop.simps Let_def
    by (intro ends_rules Suc.IH Suc.prems(5))
      (simp add: end_facts; fail | (auto simp: end_facts)[1])+
qed

lemma ends_trait_params_loop [ends_rules]:
  assumes "parsers_total M P" "rem q \<le> n" "fine q" "2 * rem q < M"
    "\<And>r q'. fine q' \<Longrightarrow> p_tokens q' = p_tokens q \<Longrightarrow> rem q' \<le> rem q \<Longrightarrow> Q r q'"
  shows "ends (trait_params_loop n P params q) Q"
  using assms
proof (induction n arbitrary: params q)
  case 0
  then show ?case using rem_pos by fastforce
next
  case (Suc n)
  show ?case using Suc.prems(1-4) rem_pos [OF Suc.prems(3)]
    unfolding trait_params_loop.simps Let_def
    by (intro ends_rules Suc.IH Suc.prems(5))
      (simp add: end_facts; fail | (auto simp: end_facts)[1])+
qed

lemma ends_trait_names_loop [ends_rules]:
  assumes "rem q \<le> n" "fine q"
    "\<And>r q'. fine q' \<Longrightarrow> p_tokens q' = p_tokens q \<Longrightarrow> rem q' \<le> rem q \<Longrightarrow> Q r q'"
  shows "ends (trait_names_loop n traits q) Q"
  using assms
proof (induction n arbitrary: traits q)
  case 0
  then show ?case using rem_pos by fastforce
next
  case (Suc n)
  show ?case using Suc.prems(1-2) rem_pos [OF Suc.prems(2)]
    unfolding trait_names_loop.simps Let_def
    by (intro ends_rules Suc.IH Suc.prems(3))
      (simp add: end_facts; fail | (auto simp: end_facts)[1])+
qed

lemma ends_generic_params_loop [ends_rules]:
  assumes "rem q \<le> n" "fine q"
    "\<And>r q'. fine q' \<Longrightarrow> p_tokens q' = p_tokens q \<Longrightarrow> rem q' \<le> rem q \<Longrightarrow> Q r q'"
  shows "ends (generic_params_loop n out q) Q"
  using assms
proof (induction n arbitrary: out q)
  case 0
  then show ?case using rem_pos by fastforce
next
  case (Suc n)
  show ?case using Suc.prems(1-2) rem_pos [OF Suc.prems(2)]
    unfolding generic_params_loop.simps Let_def
    by (intro ends_rules Suc.IH Suc.prems(3))
      (simp add: end_facts; fail | (auto simp: end_facts)[1])+
qed

lemma ends_parser_parse_generic_params [ends_rules]:
  assumes "rem q \<le> n" "fine q"
    "\<And>r q'. fine q' \<Longrightarrow> p_tokens q' = p_tokens q \<Longrightarrow> rem q' \<le> rem q \<Longrightarrow> Q r q'"
  shows "ends (parser_parse_generic_params n q) Q"
  using assms(1-2) rem_pos [OF assms(2)] unfolding parser_parse_generic_params_def Let_def
  by (intro ends_rules assms(3))
    (simp add: end_facts; fail | (auto simp: end_facts)[1])+

lemma ends_parse_fn_rest [ends_rules]:
  assumes "parsers_total M P" "rem q \<le> n" "fine q" "2 * rem q < M"
    "\<And>r q'. fine q' \<Longrightarrow> p_tokens q' = p_tokens q \<Longrightarrow> rem q' \<le> rem q \<Longrightarrow> Q r q'"
  shows "ends (parse_fn_rest n P fn q) Q"
  using assms(1-4) rem_pos [OF assms(3)] unfolding parse_fn_rest_def Let_def
  by (intro ends_rules assms(5))
    (simp add: end_facts; fail | (auto simp: end_facts)[1])+

lemma match_other: "tok_kind (parser_current q) \<noteq> k \<Longrightarrow> parser_match k q = (False, q)"
  by (simp add: parser_match_def parser_check_def)

lemma match_here: "tok_kind (parser_current q) = k \<Longrightarrow> parser_match k q = (True, skip_token q)"
  by (simp add: parser_match_def parser_check_def)

lemma expect_here: "tok_kind (parser_current q) = k \<Longrightarrow> parser_expect k msg q = (True, skip_token q)"
  by (simp add: parser_expect_def match_here)

lemma ends_parser_parse_fn_decl [ends_rules]:
  assumes "parsers_total M P" "rem q \<le> n" "fine q" "2 * rem q < M"
    "tok_kind (parser_current q) = TOK_FN \<or> tok_kind (parser_current q) = TOK_UNSAFE"
    "\<And>r q'. fine q' \<Longrightarrow> p_tokens q' = p_tokens q \<Longrightarrow> rem q' < rem q \<Longrightarrow> Q r q'"
  shows "ends (parser_parse_fn_decl n P pub attrs q) Q"
proof (cases "tok_kind (parser_current q) = TOK_FN")
  case True
  then have m: "parser_match TOK_COMPTIME q = (False, q)" "parser_match TOK_UNSAFE q = (False, q)"
    "parser_expect TOK_FN m_fn q = (True, skip_token q)"
    by (simp_all add: match_other expect_here)
  show ?thesis
    using assms(1-4) True rem_pos [OF assms(3)]
    unfolding parser_parse_fn_decl_def Let_def m prod.case
    by (intro ends_rules assms(6)) (simp add: end_facts; fail)+
next
  case False
  then have u: "tok_kind (parser_current q) = TOK_UNSAFE" using assms(5) by simp
  then have m: "parser_match TOK_COMPTIME q = (False, q)"
    "parser_match TOK_UNSAFE q = (True, skip_token q)"
    by (simp_all add: match_other match_here)
  show ?thesis
    using assms(1-4) u rem_pos [OF assms(3)]
    unfolding parser_parse_fn_decl_def Let_def m prod.case
    by (intro ends_rules assms(6)) (simp add: end_facts; fail)+
qed

lemma ends_fields_loop [ends_rules]:
  assumes "parsers_total M P" "3 * rem q \<le> n" "fine q" "2 * rem q < M"
    "\<And>r q'. fine q' \<Longrightarrow> p_tokens q' = p_tokens q \<Longrightarrow> rem q' \<le> rem q \<Longrightarrow> Q r q'"
  shows "ends (fields_loop n P s q) Q"
  using assms
proof (induction n arbitrary: s q)
  case 0
  then show ?case using rem_pos by fastforce
next
  case (Suc n)
  show ?case using Suc.prems(1-4) rem_pos [OF Suc.prems(3)]
    unfolding fields_loop.simps Let_def
    by (intro ends_rules Suc.IH Suc.prems(5))
      (simp add: end_facts; fail | (auto simp: end_facts)[1])+
qed

lemma ends_parser_parse_struct_decl [ends_rules]:
  assumes "parsers_total M P" "3 * rem q \<le> n" "fine q" "2 * rem q < M"
    "tok_kind (parser_current q) = TOK_STRUCT"
    "\<And>r q'. fine q' \<Longrightarrow> p_tokens q' = p_tokens q \<Longrightarrow> rem q' < rem q \<Longrightarrow> Q r q'"
  shows "ends (parser_parse_struct_decl n P pub attrs q) Q"
  using assms(1-5) rem_pos [OF assms(3)] unfolding parser_parse_struct_decl_def Let_def
  by (intro ends_rules assms(6))
    (simp add: end_facts; fail | (auto simp: end_facts)[1])+

lemma ends_parser_parse_union_decl [ends_rules]:
  assumes "parsers_total M P" "3 * rem q \<le> n" "fine q" "2 * rem q < M"
    "tok_kind (parser_current q) = TOK_UNION"
    "\<And>r q'. fine q' \<Longrightarrow> p_tokens q' = p_tokens q \<Longrightarrow> rem q' < rem q \<Longrightarrow> Q r q'"
  shows "ends (parser_parse_union_decl n P pub attrs q) Q"
  using assms(1-5) rem_pos [OF assms(3)] unfolding parser_parse_union_decl_def Let_def
  by (intro ends_rules assms(6))
    (simp add: end_facts; fail | (auto simp: end_facts)[1])+

lemma ends_variants_loop [ends_rules]:
  assumes "parsers_total M P" "rem q \<le> n" "fine q" "2 * rem q < M"
    "\<And>r q'. fine q' \<Longrightarrow> p_tokens q' = p_tokens q \<Longrightarrow> rem q' \<le> rem q \<Longrightarrow> Q r q'"
  shows "ends (variants_loop n P e q) Q"
  using assms
proof (induction n arbitrary: e q)
  case 0
  then show ?case using rem_pos by fastforce
next
  case (Suc n)
  show ?case using Suc.prems(1-4) rem_pos [OF Suc.prems(3)]
    unfolding variants_loop.simps Let_def
    by (intro ends_rules Suc.IH Suc.prems(5))
      (simp add: end_facts; fail | (auto simp: end_facts)[1])+
qed

lemma ends_parser_parse_enum_decl [ends_rules]:
  assumes "parsers_total M P" "rem q \<le> n" "fine q" "2 * rem q < M"
    "tok_kind (parser_current q) = TOK_ENUM"
    "\<And>r q'. fine q' \<Longrightarrow> p_tokens q' = p_tokens q \<Longrightarrow> rem q' < rem q \<Longrightarrow> Q r q'"
  shows "ends (parser_parse_enum_decl n P pub attrs q) Q"
  using assms(1-5) rem_pos [OF assms(3)] unfolding parser_parse_enum_decl_def Let_def
  by (intro ends_rules assms(6))
    (simp add: end_facts; fail | (auto simp: end_facts)[1])+

lemma ends_trait_method_step [ends_rules]:
  assumes "parsers_total M P" "2 * rem q \<le> n" "fine q" "2 * rem q < M" "\<not> parser_at_end q"
    "\<And>r q'. fine q' \<Longrightarrow> p_tokens q' = p_tokens q \<Longrightarrow> rem q' < rem q \<Longrightarrow> Q r q'"
  shows "ends (trait_method_step n P traits q) Q"
  using assms(1-5) rem_pos [OF assms(3)] unfolding trait_method_step_def Let_def
  by (intro ends_rules assms(6))
    (rule skip_or_end; simp add: end_facts; fail | simp add: end_facts; fail)+

lemma ends_trait_methods_loop [ends_rules]:
  assumes "parsers_total M P" "3 * rem q \<le> n" "fine q" "2 * rem q < M"
    "\<And>r q'. fine q' \<Longrightarrow> p_tokens q' = p_tokens q \<Longrightarrow> rem q' \<le> rem q \<Longrightarrow> Q r q'"
  shows "ends (trait_methods_loop n P traits q) Q"
  using assms
proof (induction n arbitrary: traits q)
  case 0
  then show ?case using rem_pos by fastforce
next
  case (Suc n)
  show ?case using Suc.prems(1-4) rem_pos [OF Suc.prems(3)]
    unfolding trait_methods_loop.simps Let_def
    by (intro ends_rules Suc.IH Suc.prems(5))
      (simp add: end_facts; fail | (auto simp: end_facts)[1])+
qed

lemma ends_parser_parse_traits_decl [ends_rules]:
  assumes "parsers_total M P" "3 * rem q \<le> n" "fine q" "2 * rem q < M"
    "tok_kind (parser_current q) = TOK_TRAITS"
    "\<And>r q'. fine q' \<Longrightarrow> p_tokens q' = p_tokens q \<Longrightarrow> rem q' < rem q \<Longrightarrow> Q r q'"
  shows "ends (parser_parse_traits_decl n P pub attrs q) Q"
  using assms(1-5) rem_pos [OF assms(3)] unfolding parser_parse_traits_decl_def Let_def
  by (intro ends_rules assms(6))
    (simp add: end_facts; fail | (auto simp: end_facts)[1])+

lemma ends_extend_step [ends_rules]:
  assumes "parsers_total M P" "2 * rem q \<le> n" "fine q" "2 * rem q < M" "\<not> parser_at_end q"
    "\<And>r q'. fine q' \<Longrightarrow> p_tokens q' = p_tokens q \<Longrightarrow> rem q' < rem q \<Longrightarrow> Q r q'"
  shows "ends (extend_step n P ext q) Q"
  using assms(1-5) rem_pos [OF assms(3)] unfolding extend_step_def Let_def
  by (intro ends_rules assms(6))
    (rule skip_or_end; simp add: end_facts; fail | simp add: end_facts; fail)+

lemma ends_extend_loop [ends_rules]:
  assumes "parsers_total M P" "3 * rem q \<le> n" "fine q" "2 * rem q < M"
    "\<And>r q'. fine q' \<Longrightarrow> p_tokens q' = p_tokens q \<Longrightarrow> rem q' \<le> rem q \<Longrightarrow> Q r q'"
  shows "ends (extend_loop n P ext q) Q"
  using assms
proof (induction n arbitrary: ext q)
  case 0
  then show ?case using rem_pos by fastforce
next
  case (Suc n)
  show ?case using Suc.prems(1-4) rem_pos [OF Suc.prems(3)]
    unfolding extend_loop.simps Let_def
    by (intro ends_rules Suc.IH Suc.prems(5))
      (simp add: end_facts; fail | (auto simp: end_facts)[1])+
qed

lemma ends_extend_traits_loop [ends_rules]:
  assumes "rem q \<le> n" "fine q"
    "\<And>r q'. fine q' \<Longrightarrow> p_tokens q' = p_tokens q \<Longrightarrow> rem q' \<le> rem q \<Longrightarrow> Q r q'"
  shows "ends (extend_traits_loop n ext q) Q"
  using assms
proof (induction n arbitrary: ext q)
  case 0
  then show ?case using rem_pos by fastforce
next
  case (Suc n)
  show ?case using Suc.prems(1-2) rem_pos [OF Suc.prems(2)]
    unfolding extend_traits_loop.simps Let_def
    by (intro ends_rules Suc.IH Suc.prems(3))
      (simp add: end_facts; fail | (auto simp: end_facts)[1])+
qed

lemma ends_parser_parse_extend_decl [ends_rules]:
  assumes "parsers_total M P" "3 * rem q \<le> n" "fine q" "2 * rem q < M"
    "tok_kind (parser_current q) = TOK_EXTEND"
    "\<And>r q'. fine q' \<Longrightarrow> p_tokens q' = p_tokens q \<Longrightarrow> rem q' < rem q \<Longrightarrow> Q r q'"
  shows "ends (parser_parse_extend_decl n P pub attrs q) Q"
  using assms(1-5) rem_pos [OF assms(3)] unfolding parser_parse_extend_decl_def Let_def
  by (intro ends_rules assms(6))
    (simp add: end_facts; fail | (auto simp: end_facts)[1])+

lemma ends_parser_parse_type_alias [ends_rules]:
  assumes "parsers_total M P" "fine q" "2 * rem q < M" "tok_kind (parser_current q) = TOK_TYPE"
    "\<And>r q'. fine q' \<Longrightarrow> p_tokens q' = p_tokens q \<Longrightarrow> rem q' < rem q \<Longrightarrow> Q r q'"
  shows "ends (parser_parse_type_alias P pub attrs q) Q"
  using assms(1-4) rem_pos [OF assms(2)] unfolding parser_parse_type_alias_def Let_def
  by (intro ends_rules assms(5))
    (simp add: end_facts; fail | (auto simp: end_facts)[1])+

lemma ends_parser_parse_test_decl [ends_rules]:
  assumes "parsers_total M P" "fine q" "2 * rem q < M" "tok_kind (parser_current q) = TOK_TEST"
    "\<And>r q'. fine q' \<Longrightarrow> p_tokens q' = p_tokens q \<Longrightarrow> rem q' < rem q \<Longrightarrow> Q r q'"
  shows "ends (parser_parse_test_decl P attrs q) Q"
  using assms(1-4) rem_pos [OF assms(2)] unfolding parser_parse_test_decl_def Let_def
  by (intro ends_rules assms(5))
    (simp add: end_facts; fail | (auto simp: end_facts)[1])+

lemma ends_parser_parse_top_level_decl [ends_rules]:
  assumes "parsers_total M P" "3 * rem q \<le> n" "fine q" "2 * rem q < M"
    "\<And>r q'. eats q r q' \<Longrightarrow> Q r q'"
  shows "ends (parser_parse_top_level_decl n P q) Q"
  using assms(1-4) rem_pos [OF assms(3)] unfolding parser_parse_top_level_decl_def Let_def
  by (intro ends_rules assms(5))
    (simp add: end_facts; fail | (auto simp: end_facts)[1])+

lemma ends_import_parts_loop [ends_rules]:
  assumes "rem q \<le> n" "fine q"
    "\<And>r q'. fine q' \<Longrightarrow> p_tokens q' = p_tokens q \<Longrightarrow> rem q' \<le> rem q \<Longrightarrow> Q r q'"
  shows "ends (import_parts_loop n imp q) Q"
  using assms
proof (induction n arbitrary: imp q)
  case 0
  then show ?case using rem_pos by fastforce
next
  case (Suc n)
  show ?case using Suc.prems(1-2) rem_pos [OF Suc.prems(2)]
    unfolding import_parts_loop.simps Let_def
    by (intro ends_rules Suc.IH Suc.prems(3))
      (simp add: end_facts; fail | (auto simp: end_facts)[1])+
qed

lemma ends_parse_import [ends_rules]:
  assumes "rem q \<le> n" "fine q"
    "\<And>r q'. fine q' \<Longrightarrow> p_tokens q' = p_tokens q \<Longrightarrow> rem q' \<le> rem q \<Longrightarrow> Q r q'"
  shows "ends (parse_import n q) Q"
  using assms(1-2) rem_pos [OF assms(2)] unfolding parse_import_def Let_def
  by (intro ends_rules assms(3))
    (simp add: end_facts; fail | (auto simp: end_facts)[1])+

lemma ends_imports_loop [ends_rules]:
  assumes "rem q \<le> n" "fine q"
    "\<And>r q'. fine q' \<Longrightarrow> p_tokens q' = p_tokens q \<Longrightarrow> rem q' \<le> rem q \<Longrightarrow> Q r q'"
  shows "ends (imports_loop n root q) Q"
  using assms
proof (induction n arbitrary: root q)
  case 0
  then show ?case using rem_pos by fastforce
next
  case (Suc n)
  show ?case using Suc.prems(1-2) rem_pos [OF Suc.prems(2)]
    unfolding imports_loop.simps Let_def
    by (intro ends_rules Suc.IH Suc.prems(3))
      (simp add: end_facts; fail | (auto simp: end_facts)[1])+
qed

lemma ends_decl_step [ends_rules]:
  assumes "parsers_total M P" "3 * rem q \<le> n" "fine q" "2 * rem q < M" "\<not> parser_at_end q"
    "\<And>r q'. fine q' \<Longrightarrow> p_tokens q' = p_tokens q \<Longrightarrow> rem q' < rem q \<Longrightarrow> Q r q'"
  shows "ends (decl_step n P root q) Q"
  using assms(1-5) rem_pos [OF assms(3)] unfolding decl_step_def Let_def
  by (intro ends_rules assms(6))
    (rule skip_or_end; simp add: end_facts; fail | simp add: end_facts; fail)+

lemma ends_decls_loop [ends_rules]:
  assumes "parsers_total M P" "4 * rem q \<le> n" "fine q" "2 * rem q < M"
    "\<And>r q'. fine q' \<Longrightarrow> p_tokens q' = p_tokens q \<Longrightarrow> rem q' \<le> rem q \<Longrightarrow> Q r q'"
  shows "ends (decls_loop n P root q) Q"
  using assms
proof (induction n arbitrary: root q)
  case 0
  then show ?case using rem_pos by fastforce
next
  case (Suc n)
  show ?case using Suc.prems(1-4) rem_pos [OF Suc.prems(3)]
    unfolding decls_loop.simps Let_def
    by (intro ends_rules Suc.IH Suc.prems(5))
      (simp add: end_facts; fail | (auto simp: end_facts)[1])+
qed

section \<open>Whole files\<close>

lemma ends_parse_module:
  assumes "fine q" "\<And>r q'. fine q' \<Longrightarrow> p_tokens q' = p_tokens q \<Longrightarrow> rem q' \<le> rem q \<Longrightarrow> ends (f r q') Q"
  shows "ends (case parse_module root q of (r, q') \<Rightarrow> f r q') Q"
  using assms(1) unfolding parse_module_def Let_def
  by (intro ends_rules assms(2)) (simp add: end_facts; fail)+

lemma parser_parse_ends:
  assumes "fine (parser_init tokens k)" "4 * length tokens + 1 \<le> n"
  shows "ends (parser_parse n (parser_init tokens k)) (\<lambda>r q. True)"
proof -
  let ?q = "parser_init tokens k"
  have r: "rem ?q = length tokens" by (simp add: rem_def parser_init_def)
  show ?thesis
    using assms r rem_pos [OF assms(1)] parsers_at_total [of n] unfolding parser_parse_def Let_def
    by (intro ends_rules ends_parse_module) (simp add: end_facts; fail)+
qed

text \<open>
  C8. The parser comes to an end on every file without a match statement. On a token array whose
  last token is the end token and which has no \<open>match\<close> keyword, with any errors of syntax in it,
  the run returns a tree within fuel four times the number of tokens.
\<close>

theorem parser_parse_terminates:
  assumes "tokens \<noteq> []" "tok_kind (last tokens) = TOK_EOF"
    "\<forall>t \<in> set tokens. tok_kind t \<noteq> TOK_MATCH" "4 * length tokens + 1 \<le> n"
  shows "\<exists>root p. parser_parse n (parser_init tokens k) = Some (root, p)"
  using parser_parse_ends [of tokens k n] assms
  by (auto simp: ends_def fine_def parser_ok_def parser_init_def)

theorem parser_parse_terminates_witness:
  "\<exists>root p. parser_parse 17 (parser_init demo_tokens 0) = Some (root, p)"
  using parser_parse_terminates [of demo_tokens 17 0] by (simp add: demo_tokens_def demo_token_def)

section \<open>The loop over match arms\<close>

text \<open>
  The kinds of token a pattern and an expression start with, and those that are left where they are
  by every step of the loop: the pattern becomes the wildcard, the arrow is reported missing, the
  expression is reported missing.
\<close>

definition starts_pattern :: "token_kind \<Rightarrow> bool" where
  "starts_pattern k \<longleftrightarrow> k \<in> {TOK_UNDERSCORE, TOK_INT_LITERAL, TOK_FLOAT_LITERAL, TOK_STRING_LITERAL,
     TOK_CHAR_LITERAL, TOK_TRUE, TOK_FALSE, TOK_NULL, TOK_DOT, TOK_IDENTIFIER}"

definition starts_expression :: "token_kind \<Rightarrow> bool" where
  "starts_expression k \<longleftrightarrow> k \<in> {TOK_INT_LITERAL, TOK_FLOAT_LITERAL, TOK_STRING_LITERAL, TOK_CHAR_LITERAL,
     TOK_TRUE, TOK_FALSE, TOK_NULL, TOK_UNDEFINED, TOK_SELF, TOK_IDENTIFIER, TOK_LPAREN, TOK_LBRACKET,
     TOK_AMPERSAND, TOK_STAR, TOK_MINUS, TOK_BANG, TOK_TILDE, TOK_TRY, TOK_UNSAFE}"

definition stuck_kind :: "token_kind \<Rightarrow> bool" where
  "stuck_kind k \<longleftrightarrow> \<not> starts_pattern k \<and> \<not> starts_expression k
     \<and> k \<notin> {TOK_COMMA, TOK_FAT_ARROW, TOK_RBRACE, TOK_EOF}"

lemmas stuck_defs = stuck_kind_def starts_pattern_def starts_expression_def

lemma stuck_pattern:
  "stuck_kind (tok_kind (parser_current p)) \<Longrightarrow>
     ps_pattern (parsers_at (Suc m)) p = Some (pattern_new_wildcard (tok_loc (parser_current p)),
       parser_error (parser_current p) m_pattern p)"
  by (auto simp: stuck_defs parser_parse_pattern_def parser_check_def is_literal_kind_def Let_def)

lemma stuck_expr:
  "stuck_kind (tok_kind (parser_current p)) \<Longrightarrow>
     ps_expr_bp (parsers_at (Suc m)) bp p = Some (None, parser_error (parser_current p) m_expression p)"
  by (auto simp: stuck_defs parser_parse_expr_bp_def parser_parse_prefix_def
      parser_parse_primary_def parser_check_def is_literal_kind_def Let_def)

lemma current_alloc: "alloc new p = (n, q) \<Longrightarrow> parser_current q = parser_current p"
  by (auto simp: alloc_def parser_current_def split: prod.splits)

text \<open>
  C24. The loop over the arms of a match statement does not come to an end at a token that starts
  neither a pattern nor an expression and is none of the four the loop consumes or ends at, a comma,
  the arrow, a closing brace and the end of the file. At every other such token (a semicolon, an
  opening brace, a keyword such as \<^verbatim>\<open>return\<close>, an operator such as \<^verbatim>\<open>+\<close>) no step moves the cursor,
  and the loop does not end, whatever the fuel and however deep the calls may nest: it goes on
  reporting errors and allocating arms until memory runs out.
\<close>

theorem match_arms_loop_stuck:
  assumes "\<not> starts_pattern (tok_kind (parser_current p))" "\<not> starts_expression (tok_kind (parser_current p))"
    "tok_kind (parser_current p) \<notin> {TOK_COMMA, TOK_FAT_ARROW, TOK_RBRACE, TOK_EOF}"
  shows "match_arms_loop n (parsers_at m) mat p = None"
proof -
  have "stuck_kind (tok_kind (parser_current p)) \<Longrightarrow> match_arms_loop n (parsers_at m) mat p = None"
  proof (induction n arbitrary: mat p)
    case (Suc n)
    show ?case
    proof (cases m)
      case (Suc m')
      have k: "tok_kind (parser_current p) \<noteq> TOK_FAT_ARROW" "tok_kind (parser_current p) \<noteq> TOK_COMMA"
        "tok_kind (parser_current p) \<noteq> TOK_RBRACE" "tok_kind (parser_current p) \<noteq> TOK_EOF"
        using Suc.prems by (auto simp: stuck_defs)
      show ?thesis
        using Suc.IH Suc.prems k \<open>m = Suc m'\<close>
        by (auto simp: stuck_pattern stuck_expr parser_parse_expr_def parser_expect_def
            parser_match_def parser_check_def parser_at_end_def Let_def current_alloc
            split: prod.split simp del: parsers_at.simps)
    qed (use Suc.prems in \<open>auto simp: stuck_defs parser_check_def parser_at_end_def\<close>)
  qed simp
  then show ?thesis using assms by (simp add: stuck_kind_def)
qed

theorem match_arms_loop_stuck_witness:
  "match_arms_loop 50 (parsers_at 9) (fst (ast_new_match None (loc_make [] 1 1 0) 0))
     (parser_init [demo_token TOK_SEMICOLON [], demo_token TOK_EOF []] 1) = None"
  by (rule match_arms_loop_stuck)
    (simp_all add: parser_current_def parser_init_def demo_token_def starts_pattern_def starts_expression_def)

end
