(* ===== verification/Parser_Precedence.thy ===== *)
theory Parser_Precedence
  imports Parser_Facts
begin

text \<open>
  The language of operator expressions and what the parser makes of it. \<open>exp\<close> is the type of
  expressions as trees over their tokens; \<open>fringe\<close> are the tokens of an expression from left to
  right, \<open>build\<close> is the syntax tree it stands for, with node numbers and locations. The operators
  have a table of levels of their own, beside the binding powers of the parser; \<open>grouped\<close> puts
  parentheses around the operands that bind less tightly than their place asks for.
\<close>

section \<open>Expressions\<close>

datatype exp =
    Leaf token
  | Unary token exp
  | Binary exp token exp
  | Group token exp token

primrec fringe :: "exp \<Rightarrow> token list" where
  "fringe (Leaf t) = [t]"
| "fringe (Unary t e) = t # fringe e"
| "fringe (Binary l t r) = fringe l @ t # fringe r"
| "fringe (Group lp e rp) = lp # fringe e @ [rp]"

text \<open>The binary operators, from those that bind least to those that bind most; all associate to the left.\<close>

definition levels :: "token_kind list list" where
  "levels =
    [[TOK_OR_OR], [TOK_AND_AND], [TOK_EQ, TOK_NE], [TOK_LT, TOK_GT, TOK_LE, TOK_GE], [TOK_DOT_DOT],
     [TOK_PIPE], [TOK_CARET], [TOK_AMPERSAND], [TOK_SHL, TOK_SHR], [TOK_PLUS, TOK_MINUS],
     [TOK_STAR, TOK_SLASH, TOK_PERCENT]]"

definition op_level :: "token_kind \<Rightarrow> nat option" where
  "op_level = map_of (concat (map (\<lambda>(i, ks). map (\<lambda>k. (k, i)) ks) (enumerate 0 levels)))"

abbreviation level :: "token \<Rightarrow> nat" where
  "level t \<equiv> the (op_level (tok_kind t))"

text \<open>The place of an operand of a prefix operator is above all of them.\<close>

definition prefix_level :: nat where
  "prefix_level = length levels"

definition leaf_kinds :: "token_kind set" where
  "leaf_kinds = {TOK_INT_LITERAL, TOK_FLOAT_LITERAL, TOK_STRING_LITERAL, TOK_CHAR_LITERAL, TOK_TRUE,
     TOK_FALSE, TOK_NULL, TOK_UNDEFINED, TOK_SELF, TOK_IDENTIFIER}"

definition unary_kinds :: "token_kind set" where
  "unary_kinds = {TOK_AMPERSAND, TOK_STAR, TOK_MINUS, TOK_BANG, TOK_TILDE}"

primrec exp_ok :: "exp \<Rightarrow> bool" where
  "exp_ok (Leaf t) \<longleftrightarrow> tok_kind t \<in> leaf_kinds"
| "exp_ok (Unary t e) \<longleftrightarrow> tok_kind t \<in> unary_kinds \<and> exp_ok e"
| "exp_ok (Binary l t r) \<longleftrightarrow> op_level (tok_kind t) \<noteq> None \<and> exp_ok l \<and> exp_ok r"
| "exp_ok (Group lp e rp) \<longleftrightarrow> tok_kind lp = TOK_LPAREN \<and> tok_kind rp = TOK_RPAREN \<and> exp_ok e"

text \<open>The node of a leaf token.\<close>

definition leaf_body :: "token \<Rightarrow> expr_body" where
  "leaf_body t =
    (if tok_kind t = TOK_INT_LITERAL then AST_INT_LITERAL (int_value t)
     else if tok_kind t = TOK_FLOAT_LITERAL then AST_FLOAT_LITERAL (float_value t)
     else if tok_kind t = TOK_STRING_LITERAL then AST_STRING_LITERAL (tok_text t)
     else if tok_kind t = TOK_CHAR_LITERAL then AST_CHAR_LITERAL (tok_text t)
     else if tok_kind t = TOK_TRUE then AST_BOOL_LITERAL True
     else if tok_kind t = TOK_FALSE then AST_BOOL_LITERAL False
     else if tok_kind t = TOK_NULL then AST_NULL_LITERAL
     else if tok_kind t = TOK_UNDEFINED then AST_UNDEFINED_LITERAL
     else AST_IDENTIFIER (if tok_kind t = TOK_SELF then ''self'' else tok_text t))"

text \<open>The tree of an expression, when so many nodes exist already, and the number of nodes after.\<close>

primrec build :: "exp \<Rightarrow> nat \<Rightarrow> node \<times> nat" where
  "build (Leaf t) k = (Node k (tok_loc t) (Expr (leaf_body t)), k + 1)"
| "build (Unary t e) k =
    (let (a, k) = build e k in (Node k (tok_loc t) (Expr (AST_UNARY_EXPR (tok_kind t) (Some a))), k + 1))"
| "build (Binary l t r) k =
    (let (a, k) = build l k; (b, k) = build r k in
     (Node k (n_loc a) (Expr (AST_BINARY_EXPR (tok_kind t) (Some a) (Some b))), k + 1))"
| "build (Group lp e rp) k = build e k"

text \<open>An expression fits a place when its operators bind tightly enough.\<close>

primrec fits :: "nat \<Rightarrow> exp \<Rightarrow> bool" where
  "fits m (Leaf t) \<longleftrightarrow> True"
| "fits m (Unary t e) \<longleftrightarrow> fits prefix_level e"
| "fits m (Binary l t r) \<longleftrightarrow> m \<le> level t \<and> fits (level t) l \<and> fits (level t + 1) r"
| "fits m (Group lp e rp) \<longleftrightarrow> fits 0 e"

primrec grouped :: "token \<Rightarrow> token \<Rightarrow> nat \<Rightarrow> exp \<Rightarrow> exp" where
  "grouped lp rp m (Leaf t) = Leaf t"
| "grouped lp rp m (Unary t e) = Unary t (grouped lp rp prefix_level e)"
| "grouped lp rp m (Binary l t r) =
    (let e = Binary (grouped lp rp (level t) l) t (grouped lp rp (level t + 1) r)
     in if m \<le> level t then e else Group lp e rp)"
| "grouped lp rp m (Group l e r) = Group l (grouped lp rp 0 e) r"

lemma grouped_fits: "fits m (grouped lp rp m e)"
  by (induction e arbitrary: m) (auto simp: Let_def)

lemma grouped_build [simp]: "build (grouped lp rp m e) = build e"
  by (induction e arbitrary: m) (auto simp: Let_def fun_eq_iff)

lemma grouped_ok:
  "exp_ok e \<Longrightarrow> tok_kind lp = TOK_LPAREN \<Longrightarrow> tok_kind rp = TOK_RPAREN \<Longrightarrow> exp_ok (grouped lp rp m e)"
  by (induction e arbitrary: m) (auto simp: Let_def)

section \<open>Levels and binding powers\<close>

definition powers :: "int list" where
  "powers = [10, 20, 30, 40, 45, 50, 60, 70, 80, 90, 100]"

lemma level_power: "infix_binding_power k = map_option (\<lambda>l. (powers ! l, powers ! l + 1)) (op_level k)"
  by (cases k) (simp_all add: infix_binding_power_def op_level_def levels_def powers_def)

lemma op_level_bound: "op_level k = Some l \<Longrightarrow> l < 11"
  by (cases k) (simp_all add: op_level_def levels_def)

text \<open>A least binding power stands for a least level when it admits the same operators.\<close>

definition stands_for :: "int \<Rightarrow> nat \<Rightarrow> bool" where
  "stands_for m lv \<longleftrightarrow> (\<forall>l < 11. m \<le> powers ! l \<longleftrightarrow> lv \<le> l)"

lemma all_less_11: "(\<forall>l < (11 :: nat). P l) \<longleftrightarrow> list_all P [0, 1, 2, 3, 4, 5, 6, 7, 8, 9, 10]"
proof -
  have "[0, 1, 2, 3, 4, 5, 6, 7, 8, 9, 10] = [0 ..< (11 :: nat)]" by code_simp
  then show ?thesis by (simp only: list_all_iff set_upt) auto
qed

lemma stands_for:
  "stands_for 0 0" "stands_for 110 prefix_level" "l < 11 \<Longrightarrow> stands_for (powers ! l + 1) (l + 1)"
proof -
  show "stands_for 0 0" "stands_for 110 prefix_level"
    by (simp_all add: stands_for_def all_less_11 powers_def prefix_level_def levels_def)
  have "\<forall>l < 11. stands_for (powers ! l + 1) (l + 1)"
    unfolding stands_for_def all_less_11 by (simp add: powers_def)
  then show "l < 11 \<Longrightarrow> stands_for (powers ! l + 1) (l + 1)" by blast
qed

section \<open>The cursor\<close>

text \<open>\<open>at p ts\<close>: the tokens from the cursor on are \<open>ts\<close>.\<close>

definition at :: "parser \<Rightarrow> token list \<Rightarrow> bool" where
  "at p ts \<longleftrightarrow> drop (p_pos p) (p_tokens p) = ts"

text \<open>The cursor moved on, with so many nodes now; nothing else changed.\<close>

definition moved :: "parser \<Rightarrow> nat \<Rightarrow> nat \<Rightarrow> parser" where
  "moved p i k = p\<lparr>p_pos := p_pos p + i, p_nodes := k\<rparr>"

lemma at_current: "at p (t # ts) \<Longrightarrow> parser_current p = t"
  by (metis at_def drop_eq_Nil list.distinct(1) hd_drop_conv_nth list.sel(1) not_le parser_current_def)

lemma at_check: "at p (t # ts) \<Longrightarrow> parser_check k p \<longleftrightarrow> tok_kind t = k"
  by (simp add: parser_check_def at_current)

lemma at_moved:
  assumes "at p (xs @ ts)" "i = length xs"
  shows "at (moved p i k) ts"
proof -
  have "drop i (drop (p_pos p) (p_tokens p)) = ts" using assms by (simp add: at_def)
  then show ?thesis by (simp add: at_def moved_def add.commute)
qed

lemma at_step: "at p (t # ts) \<Longrightarrow> at (moved p 1 k) ts"
  using at_moved [of p "[t]" ts 1] by simp

lemma skip_moved: "skip_token p = moved p 1 (p_nodes p)"
  by (simp add: skip_token_def moved_def)

lemma moved_simps [simp]:
  "moved (moved p i k) j l = moved p (i + j) l" "p_nodes (moved p i k) = k"
  "(moved p i k)\<lparr>p_nodes := l\<rparr> = moved p i l"
  by (simp_all add: moved_def)

lemma alloc_moved: "alloc (new_node b loc) (moved p i k) = (Node k loc b, moved p i (k + 1))"
  by (simp add: alloc_def new_node_def)

section \<open>Parsing\<close>

definition goes_on :: "token \<Rightarrow> bool" where
  "goes_on t \<longleftrightarrow> tok_kind t \<in> {TOK_DOT, TOK_LPAREN, TOK_LBRACKET, TOK_LBRACE, TOK_AS}"

text \<open>A token that ends an expression in a place of a given level.\<close>

definition stops :: "nat \<Rightarrow> token \<Rightarrow> bool" where
  "stops m t \<longleftrightarrow> \<not> goes_on t \<and> (op_level (tok_kind t) = None \<or> level t < m)"

primrec weight :: "exp \<Rightarrow> nat" where
  "weight (Leaf t) = 2"
| "weight (Unary t e) = weight e + 1"
| "weight (Binary l t r) = weight l + weight r"
| "weight (Group lp e rp) = weight e + 1"

primrec ops :: "exp \<Rightarrow> nat" where
  "ops (Leaf t) = 0"
| "ops (Unary t e) = 0"
| "ops (Binary l t r) = ops l + 1"
| "ops (Group lp e rp) = 0"

lemma weight_bounds: "ops e + 2 \<le> weight e" "weight e \<le> length (fringe e) + 1"
  by (induction e) auto

lemma stops_mono: "stops m t \<Longrightarrow> m \<le> k \<Longrightarrow> stops k t"
  by (auto simp: stops_def)

lemma operator_stops: "op_level (tok_kind t) \<noteq> None \<Longrightarrow> stops (level t + 1) t"
  by (cases "tok_kind t") (simp_all add: stops_def goes_on_def op_level_def levels_def)

abbreviation expr_at :: "nat \<Rightarrow> int \<Rightarrow> node option parse" where
  "expr_at n \<equiv> ps_expr_bp (parsers_at n)"

abbreviation built :: "exp \<Rightarrow> parser \<Rightarrow> node" where
  "built e p \<equiv> fst (build e (p_nodes p))"

abbreviation past :: "exp \<Rightarrow> parser \<Rightarrow> parser" where
  "past e p \<equiv> moved p (length (fringe e)) (snd (build e (p_nodes p)))"

text \<open>With fuel \<open>n\<close> the expression is parsed up to a token that stops it.\<close>

definition whole :: "nat \<Rightarrow> exp \<Rightarrow> bool" where
  "whole n e \<longleftrightarrow> (\<forall>m lv p t ts. stands_for m lv \<longrightarrow> fits lv e \<longrightarrow> at p (fringe e @ t # ts) \<longrightarrow> stops lv t \<longrightarrow>
     expr_at n m p = Some (Some (built e p), past e p))"

text \<open>
  The leftmost operand is parsed, and the loop over infix operators takes it to the whole
  expression in as many rounds as there are operators on the left spine.
\<close>

definition spine :: "nat \<Rightarrow> exp \<Rightarrow> bool" where
  "spine n e \<longleftrightarrow> (\<forall>m lv k p t ts. stands_for m lv \<longrightarrow> lv \<le> k \<longrightarrow> fits k e \<longrightarrow> at p (fringe e @ t # ts) \<longrightarrow>
     stops (k + 1) t \<longrightarrow>
     (\<exists>left q. parser_parse_prefix n (parsers_at n) p = Some (Some left, q)
        \<and> (\<forall>N. postfix_step N (parsers_at n) left q = Some ((False, left), q))
        \<and> (\<forall>N. infix_loop (N + ops e) (parsers_at n) m left q
             = infix_loop N (parsers_at n) m (built e p) (past e p))))"

lemma wholeD:
  "whole n e \<Longrightarrow> stands_for m lv \<Longrightarrow> fits lv e \<Longrightarrow> at p (fringe e @ t # ts) \<Longrightarrow> stops lv t \<Longrightarrow>
     expr_at n m p = Some (Some (built e p), past e p)"
  unfolding whole_def by blast

lemma no_postfix: "at q (t # ts) \<Longrightarrow> \<not> goes_on t \<Longrightarrow> postfix_step n P left q = Some ((False, left), q)"
  by (simp add: postfix_step_def at_check goes_on_def)

lemma loop_stops:
  assumes "at q (t # ts)" "stops lv t" "stands_for m lv"
  shows "infix_loop (Suc N) P m left q = Some ((False, left), q)"
proof (cases "op_level (tok_kind t)")
  case None
  then show ?thesis using assms by (simp add: at_current level_power)
next
  case (Some l)
  then have "powers ! l < m" using assms(2,3) op_level_bound [OF Some] by (simp add: stops_def stands_for_def linorder_not_le [symmetric])
  then show ?thesis using assms(1) Some by (simp add: at_current level_power)
qed

lemma spine_whole:
  assumes "spine n e" "weight e \<le> n + 1"
  shows "whole (Suc n) e"
  unfolding whole_def
proof (intro allI impI)
  fix m lv p t ts
  assume a: "stands_for m lv" "fits lv e" "at p (fringe e @ t # ts)" "stops lv t"
  define N where "N = n - Suc (ops e)"
  have n: "n = Suc N + ops e" using assms(2) weight_bounds(1) [of e] by (simp add: N_def)
  obtain left q where s: "parser_parse_prefix n (parsers_at n) p = Some (Some left, q)"
      "\<And>N. postfix_step N (parsers_at n) left q = Some ((False, left), q)"
      "infix_loop (Suc N + ops e) (parsers_at n) m left q = infix_loop (Suc N) (parsers_at n) m (built e p) (past e p)"
    using assms(1) a(1-3) stops_mono [OF a(4), of "lv + 1"] unfolding spine_def by (metis le_add1 order_refl)
  have q: "at (past e p) (t # ts)" by (rule at_moved [OF a(3) refl])
  have loop: "infix_loop n (parsers_at n) m left q = Some ((False, built e p), past e p)"
    using loop_stops [OF q a(4,1)] s(3) unfolding n [symmetric] by simp
  obtain n' where n': "n = Suc n'" using n by simp
  have "parser_parse_postfix n (parsers_at n) left q = Some (left, q)"
    using s(2) unfolding n' by (simp del: parsers_at.simps)
  then show "expr_at (Suc n) m p = Some (Some (built e p), past e p)"
    using s(1) loop q a(4)
    by (simp add: Let_def parser_parse_expr_bp_def parser_match_def at_check stops_def goes_on_def del: infix_loop.simps)
qed

text \<open>Single tokens.\<close>

lemma leaf_prefix:
  assumes "at p (t # u # ts)" "tok_kind t \<in> leaf_kinds" "\<not> goes_on u"
  shows "parser_parse_prefix n P p = Some (Some (built (Leaf t) p), past (Leaf t) p)"
proof -
  have c: "parser_current p = t" by (rule at_current [OF assms(1)])
  have b: "\<not> parser_check TOK_LBRACE (moved p 1 k)" for k
    using at_check [OF at_step [OF assms(1)]] assms(3) by (simp add: goes_on_def)
  show ?thesis
    using assms(2) b [simplified]
    by (auto simp: leaf_kinds_def parser_parse_prefix_def parser_parse_primary_def Let_def c leaf_def
        skip_moved alloc_moved leaf_body_def ast_new_int_literal_def ast_new_float_literal_def
        ast_new_string_literal_def ast_new_char_literal_def ast_new_bool_literal_def
        ast_new_null_literal_def ast_new_undefined_literal_def ast_new_identifier_def)
qed

lemma first_token: "exp_ok e \<Longrightarrow> \<exists>t ts. fringe e = t # ts \<and> tok_kind t \<noteq> TOK_CONST"
  by (induction e) (auto simp: leaf_kinds_def unary_kinds_def)

lemma unary_prefix:
  assumes "at p (t # fringe e @ u # ts)" "tok_kind t \<in> unary_kinds" "exp_ok e" "fits prefix_level e"
    "stops prefix_level u" "whole n e"
  shows "parser_parse_prefix n (parsers_at n) p = Some (Some (built (Unary t e) p), past (Unary t e) p)"
proof -
  have c: "parser_current p = t" by (rule at_current [OF assms(1)])
  let ?p = "moved p 1 (p_nodes p)"
  have a: "at ?p (fringe e @ u # ts)" by (rule at_step [OF assms(1)])
  have "\<not> parser_check TOK_CONST ?p"
    using first_token [OF assms(3)] a at_check by fastforce
  moreover have "expr_at n 110 ?p = Some (Some (built e ?p), past e ?p)"
    by (rule wholeD [OF assms(6) stands_for(2) assms(4) a assms(5)])
  ultimately show ?thesis
    using assms(2)
    by (auto simp: unary_kinds_def parser_parse_prefix_def Let_def c skip_moved parse_unary_def
        parser_match_def alloc_moved ast_new_unary_def case_prod_beta)
qed

lemma group_prefix:
  assumes "at p (lp # fringe e @ rp # ts)" "tok_kind lp = TOK_LPAREN" "tok_kind rp = TOK_RPAREN"
    "fits 0 e" "whole n e"
  shows "parser_parse_prefix n (parsers_at n) p = Some (Some (built (Group lp e rp) p), past (Group lp e rp) p)"
proof -
  have c: "parser_current p = lp" by (rule at_current [OF assms(1)])
  let ?p = "moved p 1 (p_nodes p)"
  have a: "at ?p (fringe e @ rp # ts)" by (rule at_step [OF assms(1)])
  have s: "stops 0 rp" using assms(3) by (simp add: stops_def goes_on_def op_level_def levels_def)
  have "expr_at n 0 ?p = Some (Some (built e ?p), past e ?p)"
    by (rule wholeD [OF assms(5) stands_for(1) assms(4) a s])
  moreover have "parser_check TOK_RPAREN (past e ?p)"
    using at_check [OF at_moved [OF a refl]] assms(3) by simp
  ultimately show ?thesis
    by (simp add: parser_parse_prefix_def parser_parse_primary_def Let_def c assms(2) skip_moved
        parser_parse_expr_def parser_expect_def parser_match_def)
qed

lemma spineI:
  assumes "parser_parse_prefix n (parsers_at n) p = Some (Some (built e p), past e p)" "ops e = 0"
    "at p (fringe e @ t # ts)" "\<not> goes_on t"
  shows "\<exists>left q. parser_parse_prefix n (parsers_at n) p = Some (Some left, q)
        \<and> (\<forall>N. postfix_step N (parsers_at n) left q = Some ((False, left), q))
        \<and> (\<forall>N. infix_loop (N + ops e) (parsers_at n) m left q
             = infix_loop N (parsers_at n) m (built e p) (past e p))"
  using assms no_postfix [OF at_moved [OF assms(3) refl] assms(4)] by auto

text \<open>One round of the loop over infix operators.\<close>

lemma infix_round:
  assumes "at p (t # fringe r @ u # ts)" "op_level (tok_kind t) \<noteq> None" "fits (level t + 1) r"
    "stops (level t + 1) u" "whole n r" "stands_for m lv" "lv \<le> level t"
  shows "infix_loop (Suc N) (parsers_at n) m left p = infix_loop N (parsers_at n) m
    (let (b, k) = build r (p_nodes p) in Node k (n_loc left) (Expr (AST_BINARY_EXPR (tok_kind t) (Some left) (Some b))))
    (moved p (length (fringe r) + 1) (snd (build r (p_nodes p)) + 1))"
proof -
  obtain l where l: "op_level (tok_kind t) = Some l" "l < 11" using assms(2) op_level_bound by blast
  have c: "parser_current p = t" by (rule at_current [OF assms(1)])
  let ?p = "moved p 1 (p_nodes p)"
  have a: "at ?p (fringe r @ u # ts)" by (rule at_step [OF assms(1)])
  have "expr_at n (powers ! l + 1) ?p = Some (Some (built r ?p), past r ?p)"
    by (rule wholeD [OF assms(5) stands_for(3) [OF l(2)] _ a]) (use assms(3,4) l(1) in simp_all)
  moreover have "\<not> powers ! l < m" using assms(6,7) l by (simp add: stands_for_def not_less)
  ultimately show ?thesis
    by (simp add: Let_def c level_power l(1) skip_moved alloc_moved ast_new_binary_def case_prod_beta)
qed

lemma spine: "exp_ok e \<Longrightarrow> weight e \<le> n + 1 \<Longrightarrow> spine n e"
proof (induction e arbitrary: n)
  case (Leaf t)
  then show ?case unfolding spine_def
    using spineI [OF leaf_prefix] by (fastforce simp: stops_def)
next
  case (Unary t e)
  then obtain n' where n: "n = Suc n'" using weight_bounds(1) [of e] by (cases n) auto
  have w: "whole n e" unfolding n using Unary n by (intro spine_whole) auto
  show ?case
    unfolding spine_def
  proof (intro allI impI)
    fix m lv k p u ts
    assume a: "fits k (Unary t e)" "at p (fringe (Unary t e) @ u # ts)" "stops (k + 1) u"
    have u: "\<not> goes_on u" using a(3) by (simp add: stops_def)
    have "prefix_level = 11" by code_simp
    then have "stops prefix_level u"
      using a(3) op_level_bound [of "tok_kind u"] by (cases "op_level (tok_kind u)") (auto simp: stops_def)
    then show "\<exists>left q. parser_parse_prefix n (parsers_at n) p = Some (Some left, q)
        \<and> (\<forall>N. postfix_step N (parsers_at n) left q = Some ((False, left), q))
        \<and> (\<forall>N. infix_loop (N + ops (Unary t e)) (parsers_at n) m left q
             = infix_loop N (parsers_at n) m (built (Unary t e) p) (past (Unary t e) p))"
      using unary_prefix [of p t e u ts n] a Unary.prems(1) w by (intro spineI [OF _ _ a(2) u]) auto
  qed
next
  case (Binary l t r)
  have l: "spine n l" and r: "spine (n - 1) r" "n = Suc (n - 1)"
    using Binary weight_bounds(1) [of l] weight_bounds(1) [of r] by auto
  have w: "whole n r"
    using spine_whole [OF r(1)] Binary.prems(2) weight_bounds(1) [of l] r(2) by simp
  have op: "op_level (tok_kind t) \<noteq> None" using Binary.prems(1) by simp
  show ?case
    unfolding spine_def
  proof (intro allI impI)
    fix m lv k p u ts
    assume a: "stands_for m lv" "lv \<le> k" "fits k (Binary l t r)" "at p (fringe (Binary l t r) @ u # ts)" "stops (k + 1) u"
    have f: "k \<le> level t" "fits (level t) l" "fits (level t + 1) r" using a(3) by simp_all
    have al: "at p (fringe l @ t # fringe r @ u # ts)" using a(4) by simp
    obtain left q where q: "parser_parse_prefix n (parsers_at n) p = Some (Some left, q)"
        "\<forall>N. postfix_step N (parsers_at n) left q = Some ((False, left), q)"
        "\<forall>N. infix_loop (N + ops l) (parsers_at n) m left q = infix_loop N (parsers_at n) m (built l p) (past l p)"
      using l a(1,2) f(1,2) al operator_stops [OF op] unfolding spine_def by (meson order_trans)
    have ar: "at (past l p) (t # fringe r @ u # ts)" by (rule at_moved [OF al refl])
    have "infix_loop (Suc N) (parsers_at n) m (built l p) (past l p)
        = infix_loop N (parsers_at n) m (built (Binary l t r) p) (past (Binary l t r) p)" for N
      using infix_round [OF ar op f(3) stops_mono [OF a(5)] w a(1), of N "built l p"] f(1) a(2)
      by (simp add: case_prod_beta add.assoc del: infix_loop.simps)
    then show "\<exists>left q. parser_parse_prefix n (parsers_at n) p = Some (Some left, q)
        \<and> (\<forall>N. postfix_step N (parsers_at n) left q = Some ((False, left), q))
        \<and> (\<forall>N. infix_loop (N + ops (Binary l t r)) (parsers_at n) m left q
             = infix_loop N (parsers_at n) m (built (Binary l t r) p) (past (Binary l t r) p))"
      using q(1,2) q(3) [rule_format, of "Suc _"] by (intro exI [of _ left] exI [of _ q]) (simp del: infix_loop.simps)
  qed
next
  case (Group lp e rp)
  then obtain n' where n: "n = Suc n'" using weight_bounds(1) [of e] by (cases n) auto
  have w: "whole n e" unfolding n using Group n by (intro spine_whole) auto
  show ?case
    unfolding spine_def
  proof (intro allI impI)
    fix m lv k p u ts
    assume a: "fits k (Group lp e rp)" "at p (fringe (Group lp e rp) @ u # ts)" "stops (k + 1) u"
    have u: "\<not> goes_on u" using a(3) by (simp add: stops_def)
    show "\<exists>left q. parser_parse_prefix n (parsers_at n) p = Some (Some left, q)
        \<and> (\<forall>N. postfix_step N (parsers_at n) left q = Some ((False, left), q))
        \<and> (\<forall>N. infix_loop (N + ops (Group lp e rp)) (parsers_at n) m left q
             = infix_loop N (parsers_at n) m (built (Group lp e rp) p) (past (Group lp e rp) p))"
      using group_prefix [of p lp e rp "u # ts" n] a Group.prems(1) w by (intro spineI [OF _ _ a(2) u]) auto
  qed
qed

text \<open>
  C16. The parser reads an operator expression as the table of levels groups it. The tokens of any
  expression of literals, names, prefix and binary operators, written with parentheses exactly
  around the operands that need them, are parsed, from any parser state and before any token that
  does not go on with the expression, as the tree of the expression: the operators associate to the
  left, bind as the table says, prefix operators bind closest. The cursor stands behind the last
  token, nothing was reported, and fuel one more than the number of tokens is enough.
\<close>

theorem parse_print_expr:
  assumes "exp_ok e" "tok_kind lp = TOK_LPAREN" "tok_kind rp = TOK_RPAREN"
    "drop (p_pos p) (p_tokens p) = fringe (grouped lp rp 0 e) @ t # ts"
    "\<not> goes_on t" "op_level (tok_kind t) = None" "length (fringe (grouped lp rp 0 e)) < n"
  shows "parser_parse_expr (parsers_at n) p = Some (Some (fst (build e (p_nodes p))),
    p\<lparr>p_pos := p_pos p + length (fringe (grouped lp rp 0 e)), p_nodes := snd (build e (p_nodes p))\<rparr>)"
proof -
  let ?g = "grouped lp rp 0 e"
  have ok: "exp_ok ?g" using grouped_ok assms(1-3) by blast
  obtain n' where n: "n = Suc n'" using assms(7) by (cases n) auto
  have "whole n ?g"
    unfolding n using spine [OF ok, of n'] weight_bounds(2) [of ?g] assms(7) n by (intro spine_whole) auto
  moreover have "stops 0 t" using assms(5,6) by (simp add: stops_def)
  ultimately show ?thesis
    using wholeD [OF _ stands_for(1) grouped_fits, of n lp rp e p t ts] assms(4)
    by (simp add: at_def moved_def parser_parse_expr_def)
qed

text \<open>The product of a sum, with its parentheses: \<^verbatim>\<open>(a - b) * -c;\<close>.\<close>

definition demo_product :: exp where
  "demo_product = Binary (Binary (Leaf (demo_token TOK_IDENTIFIER ''a'')) (demo_token TOK_MINUS ''-'') (Leaf (demo_token TOK_IDENTIFIER ''b'')))
     (demo_token TOK_STAR ''*'') (Unary (demo_token TOK_MINUS ''-'') (Leaf (demo_token TOK_IDENTIFIER ''c'')))"

theorem parse_print_expr_witness:
  "parser_parse_expr (parsers_at 9) (parser_init (map (\<lambda>(k, s). demo_token k s)
     [(TOK_LPAREN, ''(''), (TOK_IDENTIFIER, ''a''), (TOK_MINUS, ''-''), (TOK_IDENTIFIER, ''b''), (TOK_RPAREN, '')''),
      (TOK_STAR, ''*''), (TOK_MINUS, ''-''), (TOK_IDENTIFIER, ''c''), (TOK_SEMICOLON, '';'')]) 0)
     = Some (Some (fst (build demo_product 0)), (parser_init (map (\<lambda>(k, s). demo_token k s)
     [(TOK_LPAREN, ''(''), (TOK_IDENTIFIER, ''a''), (TOK_MINUS, ''-''), (TOK_IDENTIFIER, ''b''), (TOK_RPAREN, '')''),
      (TOK_STAR, ''*''), (TOK_MINUS, ''-''), (TOK_IDENTIFIER, ''c''), (TOK_SEMICOLON, '';'')]) 0)\<lparr>p_pos := 8, p_nodes := 6\<rparr>)"
  using parse_print_expr [of demo_product "demo_token TOK_LPAREN ''(''" "demo_token TOK_RPAREN '')''"
      "parser_init (map (\<lambda>(k, s). demo_token k s)
     [(TOK_LPAREN, ''(''), (TOK_IDENTIFIER, ''a''), (TOK_MINUS, ''-''), (TOK_IDENTIFIER, ''b''), (TOK_RPAREN, '')''),
      (TOK_STAR, ''*''), (TOK_MINUS, ''-''), (TOK_IDENTIFIER, ''c''), (TOK_SEMICOLON, '';'')]) 0"
      "demo_token TOK_SEMICOLON '';''" "[]" 9]
  by (simp add: demo_product_def demo_token_def parser_init_def leaf_kinds_def unary_kinds_def op_level_def
      levels_def prefix_level_def goes_on_def del: parsers_at.simps)

end
