(* ===== verification/Lexer.thy ===== *)
theory Lexer
  imports Token
begin

text \<open>
  The lexer of \<^verbatim>\<open>src/lexer.c\<close>, function by function. The cursor works on the list of
  source bytes; \<^verbatim>\<open>source_len\<close> is the length of that list. The pair
  \<^verbatim>\<open>has_current\<close>/\<^verbatim>\<open>current\<close> is the optional token \<open>lx_current\<close>, as
  \<^verbatim>\<open>current\<close> is only read under the flag. Every loop is a recursive function that
  terminates because the cursor moves towards the end of the source.
\<close>

section \<open>State and character classes\<close>

record lexer =
  lx_source :: string
  lx_pos :: nat
  lx_line :: nat
  lx_column :: nat
  lx_filename :: string
  lx_diag :: diag_engine
  lx_current :: "token option"

abbreviation source_len :: "lexer \<Rightarrow> nat" where
  "source_len l \<equiv> length (lx_source l)"

definition keyword_table :: "(string \<times> token_kind) list" where
  "keyword_table =
   [(''break'', TOK_BREAK), (''comptime'', TOK_COMPTIME), (''const'', TOK_CONST),
    (''continue'', TOK_CONTINUE), (''defer'', TOK_DEFER), (''else'', TOK_ELSE),
    (''errdefer'', TOK_ERRDEFER), (''extend'', TOK_EXTEND), (''false'', TOK_FALSE),
    (''fn'', TOK_FN), (''for'', TOK_FOR), (''if'', TOK_IF), (''in'', TOK_IN),
    (''import'', TOK_IMPORT), (''match'', TOK_MATCH), (''module'', TOK_MODULE),
    (''noreturn'', TOK_NORETURN), (''null'', TOK_NULL), (''pub'', TOK_PUB),
    (''return'', TOK_RETURN), (''struct'', TOK_STRUCT), (''test'', TOK_TEST),
    (''traits'', TOK_TRAITS), (''true'', TOK_TRUE), (''try'', TOK_TRY), (''type'', TOK_TYPE),
    (''union'', TOK_UNION), (''unsafe'', TOK_UNSAFE), (''var'', TOK_VAR),
    (''while'', TOK_WHILE), (''enum'', TOK_ENUM), (''as'', TOK_AS), (''with'', TOK_WITH),
    (''undefined'', TOK_UNDEFINED), (''self'', TOK_SELF), (''Self'', TOK_CAP_SELF)]"

fun lookup_keyword_in :: "(string \<times> token_kind) list \<Rightarrow> string \<Rightarrow> token_kind" where
  "lookup_keyword_in [] s = TOK_IDENTIFIER"
| "lookup_keyword_in ((word, kind) # ks) s =
     (if length word = length s \<and> word = s then kind else lookup_keyword_in ks s)"

definition lookup_keyword :: "string \<Rightarrow> token_kind" where
  "lookup_keyword s = lookup_keyword_in keyword_table s"

definition is_ident_start :: "char \<Rightarrow> bool" where
  "is_ident_start c \<longleftrightarrow>
     (c \<ge> CHR ''a'' \<and> c \<le> CHR ''z'') \<or> (c \<ge> CHR ''A'' \<and> c \<le> CHR ''Z'') \<or> c = CHR ''_''"

definition is_ident_char :: "char \<Rightarrow> bool" where
  "is_ident_char c \<longleftrightarrow> is_ident_start c \<or> (c \<ge> CHR ''0'' \<and> c \<le> CHR ''9'')"

definition is_digit :: "char \<Rightarrow> bool" where
  "is_digit c \<longleftrightarrow> c \<ge> CHR ''0'' \<and> c \<le> CHR ''9''"

definition is_hex_digit :: "char \<Rightarrow> bool" where
  "is_hex_digit c \<longleftrightarrow>
     is_digit c \<or> (c \<ge> CHR ''a'' \<and> c \<le> CHR ''f'') \<or> (c \<ge> CHR ''A'' \<and> c \<le> CHR ''F'')"

definition is_space :: "char \<Rightarrow> bool" where
  "is_space c \<longleftrightarrow> c = CHR '' '' \<or> c = TAB \<or> c = NL \<or> c = CR \<or> c = FF \<or> c = VT"

section \<open>The cursor\<close>

definition lexer_peek_char :: "lexer \<Rightarrow> nat \<Rightarrow> char" where
  "lexer_peek_char l ahead =
     (if lx_pos l + ahead \<ge> source_len l then NUL else lx_source l ! (lx_pos l + ahead))"

definition lexer_advance_char :: "lexer \<Rightarrow> char \<times> lexer" where
  "lexer_advance_char l =
     (if lx_pos l \<ge> source_len l then (NUL, l)
      else let c = lx_source l ! lx_pos l;
               l1 = l\<lparr>lx_pos := lx_pos l + 1\<rparr>
           in (c, if c = NL then l1\<lparr>lx_line := lx_line l1 + 1, lx_column := 1\<rparr>
                  else l1\<lparr>lx_column := lx_column l1 + 1\<rparr>))"

abbreviation adv :: "lexer \<Rightarrow> lexer" where
  "adv l \<equiv> snd (lexer_advance_char l)"

definition lexer_loc :: "lexer \<Rightarrow> source_location" where
  "lexer_loc l = loc_make (lx_filename l) (lx_line l) (lx_column l) (lx_pos l)"

definition lexer_error :: "lexer \<Rightarrow> source_location \<Rightarrow> string \<Rightarrow> lexer" where
  "lexer_error l loc msg = l\<lparr>lx_diag := diag_error (lx_diag l) loc msg\<rparr>"

section \<open>White space and comments\<close>

text \<open>The loop over a line comment moves the position only; it stops at the line feed.\<close>

function skip_line_comment :: "lexer \<Rightarrow> lexer" where
  "skip_line_comment l =
     (if lx_pos l < source_len l \<and> lx_source l ! lx_pos l \<noteq> NL
      then skip_line_comment (l\<lparr>lx_pos := lx_pos l + 1\<rparr>) else l)"
  by pat_completeness auto
termination by (relation "measure (\<lambda>l. source_len l - lx_pos l)") auto

text \<open>
  The loop over a block comment, with the nesting depth. One iteration consumes an opening or a
  closing delimiter or one character; the line and the column follow single characters only.
\<close>

definition block_comment_step :: "nat \<Rightarrow> lexer \<Rightarrow> nat \<times> lexer" where
  "block_comment_step depth l =
     (let c = lx_source l ! lx_pos l;
          more = lx_pos l + 1 < source_len l;
          next_c = lx_source l ! (lx_pos l + 1)
      in if c = CHR ''/'' \<and> more \<and> next_c = CHR ''*'' then (depth + 1, l\<lparr>lx_pos := lx_pos l + 2\<rparr>)
         else if c = CHR ''*'' \<and> more \<and> next_c = CHR ''/''
         then (depth - 1, l\<lparr>lx_pos := lx_pos l + 2\<rparr>)
         else (depth,
           (if c = NL then l\<lparr>lx_line := lx_line l + 1, lx_column := 1\<rparr>
            else l\<lparr>lx_column := lx_column l + 1\<rparr>)\<lparr>lx_pos := lx_pos l + 1\<rparr>))"

definition nesting_message :: string where
  "nesting_message = ''block comment nesting exceeds maximum depth of 16''"

lemma block_comment_step_pos:
  assumes "block_comment_step d l = (d', l')" "lx_pos l < source_len l"
  shows "lx_source l' = lx_source l" "lx_pos l < lx_pos l'"
  using assms by (auto simp: block_comment_step_def Let_def split: if_splits)

function skip_block_comment :: "nat \<Rightarrow> lexer \<Rightarrow> lexer" where
  "skip_block_comment depth l =
     (if lx_pos l < source_len l \<and> depth > 0
      then let (depth', l') = block_comment_step depth l in
        if depth' > 16 then lexer_error l' (lexer_loc l') nesting_message
        else skip_block_comment depth' l'
      else l)"
  by pat_completeness auto
termination
proof (relation "measure (\<lambda>(d, l). source_len l - lx_pos l)", goal_cases)
  case (2 depth l r depth' l')
  then have "block_comment_step depth l = (depth', l')" by simp
  with 2 block_comment_step_pos [OF this] show ?case by (auto simp del: split_paired_All)
qed simp

declare skip_line_comment.simps [simp del] skip_block_comment.simps [simp del]

text \<open>
  What every operation of the lexer keeps. The position moves forward inside the source, errors
  are only added, and the line stays one more than the number of line feeds consumed.
\<close>

definition newlines_upto :: "string \<Rightarrow> nat \<Rightarrow> nat" where
  "newlines_upto src i = length (filter (\<lambda>c. c = NL) (take i src))"

lemma newlines_upto_0 [simp]: "newlines_upto src 0 = 0"
  by (simp add: newlines_upto_def)

lemma newlines_upto_Suc [simp]:
  "i < length src \<Longrightarrow>
     newlines_upto src (Suc i) = newlines_upto src i + (if src ! i = NL then 1 else 0)"
  by (simp add: newlines_upto_def take_Suc_conv_app_nth)

definition line_ok :: "lexer \<Rightarrow> bool" where
  "line_ok l \<longleftrightarrow> lx_line l = 1 + newlines_upto (lx_source l) (lx_pos l)"

definition lx_ok :: "lexer \<Rightarrow> bool" where
  "lx_ok l \<longleftrightarrow> lx_pos l \<le> source_len l \<and> line_ok l \<and> diag_ok (lx_diag l)"

definition moves :: "lexer \<Rightarrow> lexer \<Rightarrow> bool" where
  "moves l l' \<longleftrightarrow> lx_source l' = lx_source l \<and> lx_filename l' = lx_filename l
     \<and> lx_current l' = lx_current l \<and> lx_pos l \<le> lx_pos l'
     \<and> prefix (items (lx_diag l)) (items (lx_diag l')) \<and> (lx_ok l \<longrightarrow> lx_ok l')"

lemma moves_refl [lexer_frame]: "moves l l"
  by (simp add: moves_def)

lemma moves_trans: "moves l l1 \<Longrightarrow> moves l1 l2 \<Longrightarrow> moves l l2"
  by (auto simp: moves_def)

lemma movesD:
  assumes "moves l l'"
  shows "lx_source l' = lx_source l" "lx_filename l' = lx_filename l" "lx_current l' = lx_current l"
    "lx_pos l \<le> lx_pos l'" "prefix (items (lx_diag l)) (items (lx_diag l'))" "lx_ok l \<Longrightarrow> lx_ok l'"
  using assms by (auto simp: moves_def)

lemma moves_error [lexer_frame]: "moves l (lexer_error l loc msg)"
  using diag_ok_emit [of "lx_diag l" DIAG_ERROR loc msg]
  by (auto simp: moves_def lexer_error_def diag_error_def lx_ok_def line_ok_def)

lemma moves_adv [lexer_frame]: "moves l (adv l)"
  by (auto simp: moves_def lexer_advance_char_def Let_def lx_ok_def line_ok_def)

lemma adv_pos [simp]: "lx_pos (adv l) = (if lx_pos l < source_len l then lx_pos l + 1 else lx_pos l)"
  by (auto simp: lexer_advance_char_def Let_def)

lemma adv_source [simp]: "lx_source (adv l) = lx_source l"
  by (auto simp: lexer_advance_char_def Let_def)

lemma moves_line_comment [lexer_frame]: "moves l (skip_line_comment l)"
proof (induction l rule: skip_line_comment.induct)
  case (1 l)
  show ?case
  proof (cases "lx_pos l < source_len l \<and> lx_source l ! lx_pos l \<noteq> NL")
    case True
    have "moves l (l\<lparr>lx_pos := lx_pos l + 1\<rparr>)"
      using True by (auto simp: moves_def lx_ok_def line_ok_def)
    with 1 [OF True] True show ?thesis
      by (auto simp: skip_line_comment.simps [of l] intro: moves_trans)
  next
    case False
    then show ?thesis by (subst skip_line_comment.simps) (auto simp: moves_refl)
  qed
qed

lemma line_comment_moves_on:
  assumes "lx_pos l < source_len l" "lx_source l ! lx_pos l \<noteq> NL"
  shows "lx_pos l < lx_pos (skip_line_comment l)"
  using movesD(4) [OF moves_line_comment, of "l\<lparr>lx_pos := lx_pos l + 1\<rparr>"] assms
  by (simp add: skip_line_comment.simps [of l])

lemma moves_block_step:
  assumes "lx_pos l < source_len l" "block_comment_step d l = (d', l')"
  shows "moves l l'"
  using assms
  by (auto simp: block_comment_step_def Let_def moves_def lx_ok_def line_ok_def NL_def
      split: if_splits)

lemma moves_block_comment [lexer_frame]: "moves l (skip_block_comment d l)"
proof (induction d l rule: skip_block_comment.induct)
  case (1 d l)
  show ?case
  proof (cases "lx_pos l < source_len l \<and> d > 0")
    case True
    obtain d' l' where step: "block_comment_step d l = (d', l')" by fastforce
    have "moves l l'" using True moves_block_step [OF _ step] by simp
    with 1 [OF True refl step [symmetric]] True step show ?thesis
      by (auto simp: skip_block_comment.simps [of d l] intro: moves_trans moves_error)
  next
    case False
    then show ?thesis by (subst skip_block_comment.simps) (auto simp: moves_refl)
  qed
qed

text \<open>The outer loop. After an over-deep comment it resumes where the inner loop stopped.\<close>

function lexer_skip_whitespace :: "lexer \<Rightarrow> lexer" where
  "lexer_skip_whitespace l =
     (if lx_pos l < source_len l
      then let c = lx_source l ! lx_pos l in
        if is_space c then lexer_skip_whitespace (adv l)
        else if c = CHR ''/'' \<and> lx_pos l + 1 < source_len l
        then let next_c = lx_source l ! (lx_pos l + 1) in
          if next_c = CHR ''/'' then lexer_skip_whitespace (skip_line_comment l)
          else if next_c = CHR ''*''
          then lexer_skip_whitespace (skip_block_comment 1
                 (l\<lparr>lx_pos := lx_pos l + 2, lx_column := lx_column l + 2\<rparr>))
          else l
        else l
      else l)"
  by pat_completeness auto
termination
proof (relation "measure (\<lambda>l. source_len l - lx_pos l)", goal_cases)
  case (3 l c d)
  then have "lx_pos l < source_len l" "lx_source l ! lx_pos l = CHR ''/''" by auto
  then show ?case
    using line_comment_moves_on [of l] movesD(1) [OF moves_line_comment [of l]]
    by (simp add: NL_def diff_less_mono2)
next
  case (4 l c d)
  let ?l = "l\<lparr>lx_pos := lx_pos l + 2, lx_column := lx_column l + 2\<rparr>"
  show ?case
    using 4 movesD(1,4) [OF moves_block_comment [of ?l 1]] by (auto intro!: diff_less_mono2)
qed simp_all

declare lexer_skip_whitespace.simps [simp del]

section \<open>Tokens\<close>

definition make_token :: "lexer \<Rightarrow> token_kind \<Rightarrow> nat \<Rightarrow> nat \<Rightarrow> token" where
  "make_token l kind start len =
     \<lparr>tok_kind = kind, tok_text = take len (drop start (lx_source l)),
      tok_loc = loc_make (lx_filename l) (lx_line l) (size_sub (lx_column l) len) start,
      tok_value = Int_Value 0\<rparr>"

text \<open>The assignments \<open>t.loc.line = start_line; t.loc.column = start_col\<close>.\<close>

definition set_start :: "nat \<Rightarrow> nat \<Rightarrow> token \<Rightarrow> token" where
  "set_start start_line start_col t =
     t\<lparr>tok_loc := (tok_loc t)\<lparr>line := start_line, column := start_col\<rparr>\<rparr>"

definition lexer_init :: "string \<Rightarrow> string \<Rightarrow> diag_engine \<Rightarrow> lexer" where
  "lexer_init source fname diag =
     \<lparr>lx_source = source, lx_pos = 0, lx_line = 1, lx_column = 1, lx_filename = fname,
      lx_diag = diag, lx_current = None\<rparr>"

subsection \<open>Identifiers and keywords\<close>

function lex_ident_chars :: "lexer \<Rightarrow> lexer" where
  "lex_ident_chars l =
     (if lx_pos l < source_len l \<and> is_ident_char (lx_source l ! lx_pos l)
      then lex_ident_chars (adv l) else l)"
  by pat_completeness auto
termination by (relation "measure (\<lambda>l. source_len l - lx_pos l)") auto

definition lex_identifier :: "nat \<Rightarrow> nat \<Rightarrow> nat \<Rightarrow> lexer \<Rightarrow> token \<times> lexer" where
  "lex_identifier start start_line start_col l =
     (let l1 = lex_ident_chars l;
          len = lx_pos l1 - start;
          kind = lookup_keyword (take len (drop start (lx_source l1)))
      in (set_start start_line start_col (make_token l1 kind start len), l1))"

subsection \<open>Numbers\<close>

text \<open>
  \<^verbatim>\<open>strtoll\<close> on a text that starts with a digit or a point: no white space or sign can
  occur. A prefix \<open>0x\<close> is skipped for base 16 when a hexadecimal digit follows; C11 knows no
  prefix for the other bases. The value saturates at \<open>LLONG_MAX\<close>.
\<close>

definition char_digit :: "char \<Rightarrow> nat option" where
  "char_digit c =
     (if is_digit c then Some (digit_val c)
      else if c \<ge> CHR ''a'' \<and> c \<le> CHR ''z'' then Some (of_char c - 87)
      else if c \<ge> CHR ''A'' \<and> c \<le> CHR ''Z'' then Some (of_char c - 55)
      else None)"

fun digits_prefix :: "nat \<Rightarrow> string \<Rightarrow> nat list" where
  "digits_prefix b [] = []"
| "digits_prefix b (c # cs) =
     (case char_digit c of
        None \<Rightarrow> []
      | Some d \<Rightarrow> if d < b then d # digits_prefix b cs else [])"

definition skip_base_prefix :: "nat \<Rightarrow> string \<Rightarrow> string" where
  "skip_base_prefix b s =
     (if b = 16 \<and> length s > 2 \<and> s ! 0 = CHR ''0'' \<and> (s ! 1 = CHR ''x'' \<or> s ! 1 = CHR ''X'')
         \<and> is_hex_digit (s ! 2)
      then drop 2 s else s)"

definition llong_max :: int where
  "llong_max = 2 ^ 63 - 1"

definition strtoll :: "nat \<Rightarrow> string \<Rightarrow> 64 word" where
  "strtoll b s =
     of_int (min llong_max (int (digits_val b (digits_prefix b (skip_base_prefix b s)))))"

definition number_base :: "char \<Rightarrow> lexer \<Rightarrow> nat \<times> lexer" where
  "number_base c l =
     (if c = CHR ''0'' \<and> lx_pos l < source_len l
      then let next_c = lx_source l ! lx_pos l in
        if next_c = CHR ''x'' \<or> next_c = CHR ''X'' then (16, adv l)
        else if next_c = CHR ''o'' \<or> next_c = CHR ''O'' then (8, adv l)
        else if next_c = CHR ''b'' \<or> next_c = CHR ''B'' then (2, adv l)
        else (10, l)
      else (10, l))"

function lex_number_chars :: "nat \<Rightarrow> bool \<Rightarrow> lexer \<Rightarrow> bool \<times> lexer" where
  "lex_number_chars base is_float l =
     (if lx_pos l < source_len l
      then let ch = lx_source l ! lx_pos l in
        if base = 16 \<and> is_hex_digit ch then lex_number_chars base is_float (adv l)
        else if base \<noteq> 16 \<and> is_digit ch then lex_number_chars base is_float (adv l)
        else if ch = CHR ''.'' \<and> \<not> is_float
        then if base \<noteq> 10 then (is_float, l)
             else if lx_pos l + 1 < source_len l \<and> lx_source l ! (lx_pos l + 1) = CHR ''.''
             then (is_float, l)
             else lex_number_chars base True (adv l)
        else if (ch = CHR ''e'' \<or> ch = CHR ''E'') \<and> base = 10
        then let l1 = adv l in
          if lx_pos l1 < source_len l1
             \<and> (lx_source l1 ! lx_pos l1 = CHR ''+'' \<or> lx_source l1 ! lx_pos l1 = CHR ''-'')
          then lex_number_chars base True (adv l1) else lex_number_chars base True l1
        else (is_float, l)
      else (is_float, l))"
  by pat_completeness auto
termination by (relation "measure (\<lambda>(b, f, l). source_len l - lx_pos l)") auto

definition lex_number :: "char \<Rightarrow> nat \<Rightarrow> nat \<Rightarrow> nat \<Rightarrow> lexer \<Rightarrow> token \<times> lexer" where
  "lex_number c start start_line start_col l =
     (let (base, l1) = number_base c l;
          (is_float, l2) = lex_number_chars base False l1;
          len = lx_pos l2 - start;
          kind = (if is_float then TOK_FLOAT_LITERAL else TOK_INT_LITERAL);
          t = set_start start_line start_col (make_token l2 kind start len);
          buf = take len (drop start (lx_source l2));
          t1 = t\<lparr>tok_value := (if is_float then Float_Value buf else Int_Value (strtoll base buf))\<rparr>
      in (t1, l2))"

subsection \<open>Strings and characters\<close>

definition unterminated_string :: string where
  "unterminated_string = ''unterminated string literal''"

definition unterminated_char :: string where
  "unterminated_char = ''unterminated character literal''"

function lex_string_chars :: "lexer \<Rightarrow> lexer" where
  "lex_string_chars l =
     (if lx_pos l < source_len l \<and> lx_source l ! lx_pos l \<noteq> CHR 0x22
      then if lx_source l ! lx_pos l = CHR 0x5C
        then let l1 = adv l in
          lex_string_chars (if lx_pos l1 < source_len l1 then adv l1 else l1)
        else if lx_source l ! lx_pos l = NL then lexer_error l (lexer_loc l) unterminated_string
        else lex_string_chars (adv l)
      else l)"
  by pat_completeness auto
termination by (relation "measure (\<lambda>l. source_len l - lx_pos l)") auto

definition lex_string :: "nat \<Rightarrow> nat \<Rightarrow> nat \<Rightarrow> lexer \<Rightarrow> token \<times> lexer" where
  "lex_string start start_line start_col l =
     (let l1 = lex_string_chars l;
          l2 = (if lx_pos l1 < source_len l1 \<and> lx_source l1 ! lx_pos l1 = CHR 0x22
                then adv l1 else l1)
      in (set_start start_line start_col
            (make_token l2 TOK_STRING_LITERAL start (lx_pos l2 - start)), l2))"

definition lex_char :: "nat \<Rightarrow> nat \<Rightarrow> nat \<Rightarrow> lexer \<Rightarrow> token \<times> lexer" where
  "lex_char start start_line start_col l =
     (let l1 = (if lx_pos l < source_len l \<and> lx_source l ! lx_pos l = CHR 0x5C
                then let l0 = adv l in if lx_pos l0 < source_len l0 then adv l0 else l0
                else if lx_pos l < source_len l \<and> lx_source l ! lx_pos l \<noteq> CHR 0x27
                then adv l else l);
          l2 = (if lx_pos l1 < source_len l1 \<and> lx_source l1 ! lx_pos l1 = CHR 0x27
                then adv l1 else lexer_error l1 (lexer_loc l1) unterminated_char)
      in (set_start start_line start_col
            (make_token l2 TOK_CHAR_LITERAL start (lx_pos l2 - start)), l2))"

declare lex_ident_chars.simps [simp del] lex_number_chars.simps [simp del]
  lex_string_chars.simps [simp del]

subsection \<open>Operators and punctuation\<close>

definition tok_here :: "lexer \<Rightarrow> token_kind \<Rightarrow> nat \<Rightarrow> nat \<Rightarrow> token \<times> lexer" where
  "tok_here l kind start len = (make_token l kind start len, l)"

definition hex_upper :: "nat \<Rightarrow> char" where
  "hex_upper d = (if d < 10 then char_of (48 + d) else char_of (55 + d))"

definition unexpected_message :: "char \<Rightarrow> string" where
  "unexpected_message c =
     ''unexpected character '' @ [CHR 0x27, c, CHR 0x27] @ '' (0x''
       @ [hex_upper (of_char c div 16), hex_upper (of_char c mod 16)] @ '')''"

text \<open>The chain of tests from \<open>=\<close> to the final \<^verbatim>\<open>switch\<close> and the error report.\<close>

definition lex_operator :: "char \<Rightarrow> nat \<Rightarrow> nat \<Rightarrow> lexer \<Rightarrow> token \<times> lexer" where
  "lex_operator c start start_col l =
    (if c = CHR ''=''
     then if lexer_peek_char l 0 = CHR ''='' then tok_here (adv l) TOK_EQ start 2
       else if lexer_peek_char l 0 = CHR ''>'' then tok_here (adv l) TOK_FAT_ARROW start 2
       else tok_here l TOK_ASSIGN start 1
     else if c = CHR ''!''
     then if lexer_peek_char l 0 = CHR ''='' then tok_here (adv l) TOK_NE start 2
       else tok_here l TOK_BANG start 1
     else if c = CHR ''<''
     then if lexer_peek_char l 0 = CHR ''='' then tok_here (adv l) TOK_LE start 2
       else if lexer_peek_char l 0 = CHR ''<''
       then (let l1 = adv l in
         if lexer_peek_char l1 0 = CHR ''='' then tok_here (adv l1) TOK_SHL_ASSIGN start 3
         else tok_here l1 TOK_SHL start 2)
       else tok_here l TOK_LT start 1
     else if c = CHR ''>''
     then if lexer_peek_char l 0 = CHR ''='' then tok_here (adv l) TOK_GE start 2
       else if lexer_peek_char l 0 = CHR ''>''
       then (let l1 = adv l in
         if lexer_peek_char l1 0 = CHR ''='' then tok_here (adv l1) TOK_SHR_ASSIGN start 3
         else tok_here l1 TOK_SHR start 2)
       else tok_here l TOK_GT start 1
     else if c = CHR ''&''
     then if lexer_peek_char l 0 = CHR ''&'' then tok_here (adv l) TOK_AND_AND start 2
       else if lexer_peek_char l 0 = CHR ''='' then tok_here (adv l) TOK_AND_ASSIGN start 2
       else tok_here l TOK_AMPERSAND start 1
     else if c = CHR ''|''
     then if lexer_peek_char l 0 = CHR ''|'' then tok_here (adv l) TOK_OR_OR start 2
       else if lexer_peek_char l 0 = CHR ''='' then tok_here (adv l) TOK_OR_ASSIGN start 2
       else tok_here l TOK_PIPE start 1
     else if c = CHR ''+''
     then if lexer_peek_char l 0 = CHR ''='' then tok_here (adv l) TOK_PLUS_ASSIGN start 2
       else tok_here l TOK_PLUS start 1
     else if c = CHR ''-''
     then if lexer_peek_char l 0 = CHR ''='' then tok_here (adv l) TOK_MINUS_ASSIGN start 2
       else if lexer_peek_char l 0 = CHR ''>'' then tok_here (adv l) TOK_ARROW start 2
       else tok_here l TOK_MINUS start 1
     else if c = CHR ''*''
     then if lexer_peek_char l 0 = CHR ''='' then tok_here (adv l) TOK_STAR_ASSIGN start 2
       else tok_here l TOK_STAR start 1
     else if c = CHR ''/''
     then if lexer_peek_char l 0 = CHR ''='' then tok_here (adv l) TOK_SLASH_ASSIGN start 2
       else tok_here l TOK_SLASH start 1
     else if c = CHR ''%''
     then if lexer_peek_char l 0 = CHR ''='' then tok_here (adv l) TOK_PERCENT_ASSIGN start 2
       else tok_here l TOK_PERCENT start 1
     else if c = CHR ''^''
     then if lexer_peek_char l 0 = CHR ''='' then tok_here (adv l) TOK_XOR_ASSIGN start 2
       else tok_here l TOK_CARET start 1
     else if c = CHR ''.''
     then if lexer_peek_char l 0 = CHR ''.'' then tok_here (adv l) TOK_DOT_DOT start 2
       else tok_here l TOK_DOT start 1
     else if c = CHR '':''
     then if lexer_peek_char l 0 = CHR '':'' then tok_here (adv l) TOK_COLON_COLON start 2
       else tok_here l TOK_COLON start 1
     else if c = CHR ''('' then tok_here l TOK_LPAREN start 1
     else if c = CHR '')'' then tok_here l TOK_RPAREN start 1
     else if c = CHR ''['' then tok_here l TOK_LBRACKET start 1
     else if c = CHR '']'' then tok_here l TOK_RBRACKET start 1
     else if c = CHR ''{'' then tok_here l TOK_LBRACE start 1
     else if c = CHR ''}'' then tok_here l TOK_RBRACE start 1
     else if c = CHR '','' then tok_here l TOK_COMMA start 1
     else if c = CHR '';'' then tok_here l TOK_SEMICOLON start 1
     else if c = CHR ''?'' then tok_here l TOK_QUESTION start 1
     else if c = CHR ''~'' then tok_here l TOK_TILDE start 1
     else if c = CHR ''#'' then tok_here l TOK_HASH start 1
     else let l1 = lexer_error l (loc_make (lx_filename l) (lx_line l) start_col start)
                     (unexpected_message c)
          in tok_here l1 TOK_ERROR start 1)"

subsection \<open>The next token\<close>

definition lex_token :: "lexer \<Rightarrow> token \<times> lexer" where
  "lex_token l =
     (let start = lx_pos l;
          start_line = lx_line l;
          start_col = lx_column l;
          (c, l1) = lexer_advance_char l
      in if is_ident_start c then lex_identifier start start_line start_col l1
         else if is_digit c \<or> (c = CHR ''.'' \<and> is_digit (lexer_peek_char l1 0))
         then lex_number c start start_line start_col l1
         else if c = CHR 0x22 then lex_string start start_line start_col l1
         else if c = CHR 0x27 then lex_char start start_line start_col l1
         else lex_operator c start start_col l1)"

definition lexer_next :: "lexer \<Rightarrow> token \<times> lexer" where
  "lexer_next l =
     (case lx_current l of
        Some t \<Rightarrow> (t, l\<lparr>lx_current := None\<rparr>)
      | None \<Rightarrow>
          let l1 = lexer_skip_whitespace l in
          if lx_pos l1 \<ge> source_len l1 then (make_token l1 TOK_EOF (source_len l1) 0, l1)
          else lex_token l1)"

definition lexer_peek :: "lexer \<Rightarrow> token \<times> lexer" where
  "lexer_peek l =
     (case lx_current l of
        Some t \<Rightarrow> (t, l)
      | None \<Rightarrow> let (t, l1) = lexer_next l in (t, l1\<lparr>lx_current := Some t\<rparr>))"

definition lexer_advance :: "lexer \<Rightarrow> lexer" where
  "lexer_advance l = (snd (lexer_peek l))\<lparr>lx_current := None\<rparr>"

end
