(* ===== verification/Types.thy ===== *)
theory Types
  imports Ast Lexer
begin

text \<open>
  The semantic types of \<^verbatim>\<open>src/type.h\<close> and \<^verbatim>\<open>src/type.c\<close>. An \<open>SType\<close> object is
  shared and compared by its address, so the objects live in a store: \<open>tt_types\<close> lists them in the
  order in which the arena was asked for them, a pointer to the object is its position in this
  list, and \<open>tt_addr\<close> gives the address the arena chose for it, which the hash function reads. The
  chain of a bucket, linked through \<^verbatim>\<open>next_hash\<close>, is the list of its members from the head
  on. The second half of the theory states what interning promises: two interned types are the
  same pointer if and only if they denote the same type.
\<close>

section \<open>Types and their store\<close>

type_synonym sptr = nat

record type_field =
  tf_name :: string_view
  tf_type :: sptr
  tf_default_value :: "node option"

datatype (plugins only: code size) stype_body =
    ST_VOID
  | ST_BOOL
  | ST_INT (int_is_signed: bool) (int_bits: "8 word")
  | ST_FLOAT (float_bits: "8 word")
  | ST_NORETURN
  | ST_POINTER (ptr_is_const: bool) (ptr_base: sptr)
  | ST_REFERENCE (ptr_is_const: bool) (ptr_base: sptr)
  | ST_SLICE (ptr_is_const: bool) (ptr_base: sptr)
  | ST_ARRAY (array_size: "64 word") (array_base: sptr)
  | ST_OPTIONAL (optional_base: sptr)
  | ST_ERROR_UNION (eu_success: sptr) (eu_error: sptr)
  | ST_FUNCTION (fun_params: "sptr list") (fun_ret: sptr) (fun_is_variadic: bool)
  | ST_STRUCT (st_struct_name: string_view) (st_generic_args: "sptr list")
      (st_fields: "type_field list") (st_decl: "node option")
  | ST_UNION (st_struct_name: string_view) (st_fields: "type_field list") (st_decl: "node option")
  | ST_ENUM (st_struct_name: string_view) (st_variants: "string_view list")
      (st_decl: "node option")
  | ST_TRAIT (st_struct_name: string_view) (st_required_methods: "sptr list")
  | ST_GENERIC_PARAM (st_param_name: string_view) (st_param_index: "64 word")
  | ST_OPAQUE

record stype =
  st_body :: stype_body
  st_hash :: u32

record type_table =
  tt_addr :: "sptr \<Rightarrow> u64"
  tt_types :: "stype list"
  tt_buckets :: "sptr list list"

abbreviation body_of :: "type_table \<Rightarrow> sptr \<Rightarrow> stype_body" where
  "body_of tt p \<equiv> st_body (tt_types tt ! p)"

definition TYPE_TABLE_BUCKETS :: nat where
  "TYPE_TABLE_BUCKETS = 256"

text \<open>The number of a kind in the C enumeration.\<close>

definition st_kind :: "stype_body \<Rightarrow> nat" where
  "st_kind b = (case b of ST_VOID \<Rightarrow> 0 | ST_BOOL \<Rightarrow> 1 | ST_INT _ _ \<Rightarrow> 2 | ST_FLOAT _ \<Rightarrow> 3
     | ST_NORETURN \<Rightarrow> 4 | ST_POINTER _ _ \<Rightarrow> 5 | ST_REFERENCE _ _ \<Rightarrow> 6 | ST_SLICE _ _ \<Rightarrow> 7
     | ST_ARRAY _ _ \<Rightarrow> 8 | ST_OPTIONAL _ \<Rightarrow> 9 | ST_ERROR_UNION _ _ \<Rightarrow> 10
     | ST_FUNCTION _ _ _ \<Rightarrow> 11 | ST_STRUCT _ _ _ _ \<Rightarrow> 12 | ST_UNION _ _ _ \<Rightarrow> 13
     | ST_ENUM _ _ _ \<Rightarrow> 14 | ST_TRAIT _ _ \<Rightarrow> 15 | ST_GENERIC_PARAM _ _ \<Rightarrow> 16 | ST_OPAQUE \<Rightarrow> 17)"

text \<open>
  What \<^verbatim>\<open>as.struct_.generic_arg_count\<close> reads of each named type: the fourth word of the
  union is the field count of a union, the variant count of an enumeration and the method count of
  a trait.
\<close>

definition generic_arg_count :: "stype_body \<Rightarrow> nat" where
  "generic_arg_count b = (case b of
     ST_STRUCT _ args _ _ \<Rightarrow> length args
   | ST_UNION _ fs _ \<Rightarrow> length fs
   | ST_ENUM _ vs _ \<Rightarrow> length vs
   | ST_TRAIT _ ms \<Rightarrow> length ms
   | _ \<Rightarrow> 0)"

section \<open>Hashing and comparison\<close>

definition hash_step :: "u32 \<Rightarrow> u32 \<Rightarrow> u32" where
  "hash_step h v = (h XOR v) * 16777619"

definition hash_bytes :: "u32 \<Rightarrow> string \<Rightarrow> u32" where
  "hash_bytes h s = foldl (\<lambda>h c. hash_step h (of_char c)) h s"

definition hash_type_shape :: "(sptr \<Rightarrow> u64) \<Rightarrow> stype_body \<Rightarrow> u32" where
  "hash_type_shape addr b =
    (let h = hash_step 2166136261 (of_nat (st_kind b));
         low = (\<lambda>p. ucast (addr p))
     in case b of
       ST_INT sg bits \<Rightarrow> hash_step (hash_step h (of_bool sg)) (ucast bits)
     | ST_FLOAT bits \<Rightarrow> hash_step h (ucast bits)
     | ST_POINTER c base \<Rightarrow> hash_step (hash_step h (of_bool c)) (low base)
     | ST_REFERENCE c base \<Rightarrow> hash_step (hash_step h (of_bool c)) (low base)
     | ST_SLICE c base \<Rightarrow> hash_step (hash_step h (of_bool c)) (low base)
     | ST_ARRAY n base \<Rightarrow> hash_step (hash_step h (ucast n)) (low base)
     | ST_OPTIONAL base \<Rightarrow> hash_step h (low base)
     | ST_ERROR_UNION success err \<Rightarrow> hash_step (hash_step h (low err)) (low success)
     | ST_FUNCTION params ret variadic \<Rightarrow>
         hash_step
           (foldl (\<lambda>h p. hash_step h (low p))
             (hash_step (hash_step h (of_nat (length params))) (of_bool variadic)) params)
           (low ret)
     | ST_STRUCT name _ _ _ \<Rightarrow> hash_step (hash_bytes h name) (of_nat (generic_arg_count b))
     | ST_UNION name _ _ \<Rightarrow> hash_step (hash_bytes h name) (of_nat (generic_arg_count b))
     | ST_ENUM name _ _ \<Rightarrow> hash_step (hash_bytes h name) (of_nat (generic_arg_count b))
     | ST_TRAIT name _ \<Rightarrow> hash_step (hash_bytes h name) (of_nat (generic_arg_count b))
     | ST_GENERIC_PARAM name index \<Rightarrow> hash_step (hash_bytes h name) (ucast index)
     | _ \<Rightarrow> h)"

definition type_shape_eq :: "stype_body \<Rightarrow> stype_body \<Rightarrow> bool" where
  "type_shape_eq a b =
    (if st_kind a \<noteq> st_kind b then False
     else case a of
       ST_VOID \<Rightarrow> True | ST_BOOL \<Rightarrow> True | ST_NORETURN \<Rightarrow> True | ST_OPAQUE \<Rightarrow> True
     | ST_INT sg bits \<Rightarrow> sg = int_is_signed b \<and> bits = int_bits b
     | ST_FLOAT bits \<Rightarrow> bits = float_bits b
     | ST_POINTER c base \<Rightarrow> c = ptr_is_const b \<and> base = ptr_base b
     | ST_REFERENCE c base \<Rightarrow> c = ptr_is_const b \<and> base = ptr_base b
     | ST_SLICE c base \<Rightarrow> c = ptr_is_const b \<and> base = ptr_base b
     | ST_ARRAY n base \<Rightarrow> n = array_size b \<and> base = array_base b
     | ST_OPTIONAL base \<Rightarrow> base = optional_base b
     | ST_ERROR_UNION success err \<Rightarrow> err = eu_error b \<and> success = eu_success b
     | ST_FUNCTION params ret variadic \<Rightarrow>
         length params = length (fun_params b) \<and> variadic = fun_is_variadic b
           \<and> ret = fun_ret b \<and> list_all2 (=) params (fun_params b)
     | ST_STRUCT name _ _ _ \<Rightarrow>
         sv_eq name (st_struct_name b) \<and> generic_arg_count a = generic_arg_count b
     | ST_UNION name _ _ \<Rightarrow>
         sv_eq name (st_struct_name b) \<and> generic_arg_count a = generic_arg_count b
     | ST_ENUM name _ _ \<Rightarrow>
         sv_eq name (st_struct_name b) \<and> generic_arg_count a = generic_arg_count b
     | ST_TRAIT name _ \<Rightarrow>
         sv_eq name (st_struct_name b) \<and> generic_arg_count a = generic_arg_count b
     | ST_GENERIC_PARAM name index \<Rightarrow>
         sv_eq name (st_param_name b) \<and> index = st_param_index b)"

section \<open>Interning\<close>

definition type_table_new :: "(sptr \<Rightarrow> u64) \<Rightarrow> type_table" where
  "type_table_new addr =
     \<lparr>tt_addr = addr, tt_types = [], tt_buckets = replicate TYPE_TABLE_BUCKETS []\<rparr>"

text \<open>A new object with a copy of the prototype.\<close>

definition st_alloc :: "stype_body \<Rightarrow> type_table \<Rightarrow> sptr \<times> type_table" where
  "st_alloc b tt =
     (length (tt_types tt), tt\<lparr>tt_types := tt_types tt @ [\<lparr>st_body = b, st_hash = 0\<rparr>]\<rparr>)"

definition intern_type :: "type_table \<Rightarrow> sptr \<Rightarrow> sptr \<times> type_table" where
  "intern_type tt proto =
    (let h = hash_type_shape (tt_addr tt) (body_of tt proto) mod of_nat TYPE_TABLE_BUCKETS;
         tt = tt\<lparr>tt_types := (tt_types tt)[proto := (tt_types tt ! proto)\<lparr>st_hash := h\<rparr>]\<rparr>;
         chain = tt_buckets tt ! unat h
     in case List.find (\<lambda>t. st_hash (tt_types tt ! t) = st_hash (tt_types tt ! proto)
            \<and> type_shape_eq (body_of tt t) (body_of tt proto)) chain of
          Some t \<Rightarrow> (t, tt)
        | None \<Rightarrow> (proto, tt\<lparr>tt_buckets := (tt_buckets tt)[unat h := proto # chain]\<rparr>))"

definition st_simple :: "stype_body \<Rightarrow> type_table \<Rightarrow> sptr \<times> type_table" where
  "st_simple b tt = (let (p, tt) = st_alloc b tt in intern_type tt p)"

definition st_void :: "type_table \<Rightarrow> sptr \<times> type_table" where
  "st_void tt = st_simple ST_VOID tt"

definition st_bool :: "type_table \<Rightarrow> sptr \<times> type_table" where
  "st_bool tt = st_simple ST_BOOL tt"

definition st_int :: "bool \<Rightarrow> 8 word \<Rightarrow> type_table \<Rightarrow> sptr \<times> type_table" where
  "st_int is_signed bits tt =
     (let (p, tt) = st_alloc (ST_INT is_signed bits) tt in intern_type tt p)"

definition st_float :: "8 word \<Rightarrow> type_table \<Rightarrow> sptr \<times> type_table" where
  "st_float bits tt = (let (p, tt) = st_alloc (ST_FLOAT bits) tt in intern_type tt p)"

definition st_pointer :: "bool \<Rightarrow> sptr \<Rightarrow> type_table \<Rightarrow> sptr \<times> type_table" where
  "st_pointer is_const base tt =
     (let (p, tt) = st_alloc (ST_POINTER is_const base) tt in intern_type tt p)"

definition st_reference :: "bool \<Rightarrow> sptr \<Rightarrow> type_table \<Rightarrow> sptr \<times> type_table" where
  "st_reference is_const base tt =
     (let (p, tt) = st_alloc (ST_REFERENCE is_const base) tt in intern_type tt p)"

definition st_slice :: "bool \<Rightarrow> sptr \<Rightarrow> type_table \<Rightarrow> sptr \<times> type_table" where
  "st_slice is_const base tt =
     (let (p, tt) = st_alloc (ST_SLICE is_const base) tt in intern_type tt p)"

definition st_array :: "u64 \<Rightarrow> sptr \<Rightarrow> type_table \<Rightarrow> sptr \<times> type_table" where
  "st_array sz base tt =
     (let (p, tt) = st_alloc (ST_ARRAY sz base) tt in intern_type tt p)"

definition st_optional :: "sptr \<Rightarrow> type_table \<Rightarrow> sptr \<times> type_table" where
  "st_optional base tt = (let (p, tt) = st_alloc (ST_OPTIONAL base) tt in intern_type tt p)"

definition st_error_union :: "sptr \<Rightarrow> sptr \<Rightarrow> type_table \<Rightarrow> sptr \<times> type_table" where
  "st_error_union success err tt =
     (let (p, tt) = st_alloc (ST_ERROR_UNION success err) tt in intern_type tt p)"

definition st_function :: "sptr list \<Rightarrow> sptr \<Rightarrow> bool \<Rightarrow> type_table \<Rightarrow> sptr \<times> type_table" where
  "st_function params ret variadic tt =
     (let (p, tt) = st_alloc (ST_FUNCTION params ret variadic) tt in intern_type tt p)"

section \<open>Comparison, coercion, names\<close>

definition st_eq :: "sptr \<Rightarrow> sptr \<Rightarrow> bool" where
  "st_eq a b \<longleftrightarrow> a = b"

definition is_int_body :: "stype_body \<Rightarrow> bool" where
  "is_int_body b \<longleftrightarrow> (case b of ST_INT _ _ \<Rightarrow> True | _ \<Rightarrow> False)"

definition is_float_body :: "stype_body \<Rightarrow> bool" where
  "is_float_body b \<longleftrightarrow> (case b of ST_FLOAT _ \<Rightarrow> True | _ \<Rightarrow> False)"

definition is_reference_body :: "stype_body \<Rightarrow> bool" where
  "is_reference_body b \<longleftrightarrow> (case b of ST_REFERENCE _ _ \<Rightarrow> True | _ \<Rightarrow> False)"

definition is_pointer_body :: "stype_body \<Rightarrow> bool" where
  "is_pointer_body b \<longleftrightarrow> (case b of ST_POINTER _ _ \<Rightarrow> True | _ \<Rightarrow> False)"

definition is_optional_body :: "stype_body \<Rightarrow> bool" where
  "is_optional_body b \<longleftrightarrow> (case b of ST_OPTIONAL _ \<Rightarrow> True | _ \<Rightarrow> False)"

definition is_error_union_body :: "stype_body \<Rightarrow> bool" where
  "is_error_union_body b \<longleftrightarrow> (case b of ST_ERROR_UNION _ _ \<Rightarrow> True | _ \<Rightarrow> False)"

lemmas body_tests = is_int_body_def is_float_body_def is_reference_body_def is_pointer_body_def
  is_optional_body_def is_error_union_body_def

definition st_is_integer :: "type_table \<Rightarrow> sptr \<Rightarrow> bool" where
  "st_is_integer tt t \<longleftrightarrow> is_int_body (body_of tt t)"

definition st_is_numeric :: "type_table \<Rightarrow> sptr \<Rightarrow> bool" where
  "st_is_numeric tt t \<longleftrightarrow> is_int_body (body_of tt t) \<or> is_float_body (body_of tt t)"

text \<open>
  The coercion test calls itself on the parts of the target type. On a store whose types contain
  themselves it would not return, which is the result \<open>None\<close>. An \<open>if\<close> whose condition holds a
  recursive call is the bind of that call.
\<close>

partial_function (option) st_can_coerce :: "type_table \<Rightarrow> sptr \<Rightarrow> sptr \<Rightarrow> bool option" where
  "st_can_coerce tt from to =
    (let f = body_of tt from; t = body_of tt to in
     if st_eq from to then Some True
     else if is_int_body f \<and> is_int_body t
     then Some (int_is_signed f = int_is_signed t \<and> int_bits f \<le> int_bits t)
     else if is_float_body f \<and> is_float_body t then Some (float_bits f \<le> float_bits t)
     else if is_int_body f \<and> is_float_body t then Some True
     else do {
       opt \<leftarrow> (if is_optional_body t then st_can_coerce tt from (optional_base t) else Some False);
       if opt then Some True
       else if is_reference_body f \<and> is_reference_body t
       then Some (\<not> ptr_is_const f \<and> ptr_is_const t \<and> st_eq (ptr_base f) (ptr_base t))
       else if is_reference_body f \<and> st_eq (ptr_base f) to then Some True
       else if is_pointer_body f \<and> st_eq (ptr_base f) to then Some True
       else if is_reference_body t \<and> st_eq from (ptr_base t) then Some True
       else if is_error_union_body t
       then if is_error_union_body f \<and> st_eq from to then Some True
         else do {
           ok \<leftarrow> st_can_coerce tt from (eu_success t);
           if ok then Some True
           else do {
             ok \<leftarrow> st_can_coerce tt from (eu_error t);
             if ok then Some True else Some False
           }
         }
       else Some False
     })"

text \<open>
  The name of a type for a message, cut off at 255 characters in each call by the size of the
  buffer. The ring of eight static buffers is not modelled: a name stands for the characters in its
  buffer at the time of the call.
\<close>

definition buf :: "string \<Rightarrow> string" where
  "buf s = take 255 s"

definition const_prefix :: "bool \<Rightarrow> string" where
  "const_prefix c = (if c then ''const '' else [])"

partial_function (option) st_name :: "type_table \<Rightarrow> sptr \<Rightarrow> string option" where
  "st_name tt t =
    (case body_of tt t of
       ST_VOID \<Rightarrow> Some ''void''
     | ST_BOOL \<Rightarrow> Some ''bool''
     | ST_INT sg bits \<Rightarrow>
         Some (buf ((if sg then CHR ''i'' else CHR ''u'') # show_nat (unat bits)))
     | ST_FLOAT bits \<Rightarrow> Some (buf (CHR ''f'' # show_nat (unat bits)))
     | ST_NORETURN \<Rightarrow> Some ''noreturn''
     | ST_POINTER c base \<Rightarrow>
         do { n \<leftarrow> st_name tt base; Some (buf (''*'' @ const_prefix c @ n)) }
     | ST_REFERENCE c base \<Rightarrow>
         do { n \<leftarrow> st_name tt base; Some (buf (''&'' @ const_prefix c @ n)) }
     | ST_SLICE c base \<Rightarrow>
         do { n \<leftarrow> st_name tt base; Some (buf (''[]'' @ const_prefix c @ n)) }
     | ST_ARRAY sz base \<Rightarrow>
         do { n \<leftarrow> st_name tt base; Some (buf (''['' @ show_nat (unat sz) @ '']'' @ n)) }
     | ST_OPTIONAL base \<Rightarrow> do { n \<leftarrow> st_name tt base; Some (buf (''?'' @ n)) }
     | ST_ERROR_UNION success err \<Rightarrow> do {
         e \<leftarrow> st_name tt err;
         n \<leftarrow> st_name tt success;
         Some (buf (e @ ''!'' @ n))
       }
     | ST_FUNCTION _ ret _ \<Rightarrow>
         do { n \<leftarrow> st_name tt ret; Some (buf (''fn(...) -> '' @ n)) }
     | ST_STRUCT name _ _ _ \<Rightarrow> Some (if name \<noteq> [] then buf name else ''<anon>'')
     | ST_UNION name _ _ \<Rightarrow> Some (if name \<noteq> [] then buf name else ''<anon>'')
     | ST_ENUM name _ _ \<Rightarrow> Some (if name \<noteq> [] then buf name else ''<anon>'')
     | ST_TRAIT name _ \<Rightarrow> Some (if name \<noteq> [] then buf name else ''<anon>'')
     | ST_GENERIC_PARAM name _ \<Rightarrow> Some (if name \<noteq> [] then buf name else ''<T>'')
     | ST_OPAQUE \<Rightarrow> Some ''<opaque>'')"

text \<open>The characters \<^verbatim>\<open>st_print\<close> writes.\<close>

definition st_print :: "type_table \<Rightarrow> sptr \<Rightarrow> string option" where
  "st_print tt t = st_name tt t"

section \<open>Types of the syntax tree\<close>

text \<open>
  \<^verbatim>\<open>atoi\<close> on the rest of a name: a name has no white space and no sign, and it reads up to
  the first character that is not a digit. It is the \<^verbatim>\<open>long\<close> of \<^verbatim>\<open>strtol\<close> cut to an
  \<^verbatim>\<open>int\<close>.
\<close>

definition c_atoi :: "string \<Rightarrow> int" where
  "c_atoi s = sint (ucast (strtoll 10 s) :: 32 word)"

definition st_named :: "string_view \<Rightarrow> type_table \<Rightarrow> sptr \<times> type_table" where
  "st_named n tt =
    (let b = c_atoi (drop 1 n);
         int_width = b = 8 \<or> b = 16 \<or> b = 32 \<or> b = 64 \<or> b = 128;
         float_width = b = 32 \<or> b = 64
     in
     if sv_eq_cstr n ''void'' then st_void tt
     else if sv_eq_cstr n ''bool'' then st_bool tt
     else if sv_eq_cstr n ''isize'' then st_int True 64 tt
     else if sv_eq_cstr n ''usize'' then st_int False 64 tt
     else if length n > 1 \<and> n ! 0 = CHR ''i'' \<and> int_width then st_int True (of_int b) tt
     else if length n > 1 \<and> n ! 0 = CHR ''u'' \<and> int_width then st_int False (of_int b) tt
     else if length n > 1 \<and> n ! 0 = CHR ''f'' \<and> float_width then st_float (of_int b) tt
     else if sv_eq_cstr n ''noreturn''
     then let (p, tt) = st_alloc ST_NORETURN tt in intern_type tt p
     else let (p, tt) = st_alloc (ST_STRUCT n [] [] None) tt in intern_type tt p)"

text \<open>The size of an array type: only a literal counts, every other length is 0.\<close>

definition literal_length :: "node option \<Rightarrow> u64" where
  "literal_length len = (case len of
     Some n \<Rightarrow> (case n_body n of Expr (AST_INT_LITERAL v) \<Rightarrow> v | _ \<Rightarrow> 0)
   | None \<Rightarrow> 0)"

fun st_from_ast :: "type_expr option \<Rightarrow> type_table \<Rightarrow> sptr \<times> type_table"
  and st_from_asts :: "type_expr option list \<Rightarrow> type_table \<Rightarrow> sptr list \<times> type_table" where
  "st_from_ast None tt = st_void tt"
| "st_from_ast (Some (TYPE_NAMED _ n _)) tt = st_named n tt"
| "st_from_ast (Some (TYPE_POINTER _ child c)) tt =
     (let (base, tt) = st_from_ast child tt in st_pointer c base tt)"
| "st_from_ast (Some (TYPE_REFERENCE _ child c)) tt =
     (let (base, tt) = st_from_ast child tt in st_reference c base tt)"
| "st_from_ast (Some (TYPE_SLICE _ child c)) tt =
     (let (base, tt) = st_from_ast child tt in st_slice c base tt)"
| "st_from_ast (Some (TYPE_ARRAY _ len elem)) tt =
     (let (base, tt) = st_from_ast elem tt in st_array (literal_length len) base tt)"
| "st_from_ast (Some (TYPE_OPTIONAL _ child)) tt =
     (let (base, tt) = st_from_ast child tt in st_optional base tt)"
| "st_from_ast (Some (TYPE_ERROR_UNION _ err success)) tt =
     (let (s, tt) = st_from_ast success tt;
          (e, tt) = st_from_ast err tt
      in st_error_union s e tt)"
| "st_from_ast (Some (TYPE_FUNCTION _ params ret)) tt =
     (let (ps, tt) = st_from_asts params tt;
          (r, tt) = st_from_ast ret tt
      in st_function ps r False tt)"
| "st_from_asts [] tt = ([], tt)"
| "st_from_asts (t # ts) tt =
     (let (p, tt) = st_from_ast t tt; (ps, tt) = st_from_asts ts tt in (p # ps, tt))"

end
