(* ===== verification/Symbols.thy ===== *)
theory Symbols
  imports Types
begin

text \<open>
  Symbols and scopes of \<^verbatim>\<open>src/symbol.h\<close> and \<^verbatim>\<open>src/symbol.c\<close>. Symbols and scopes are
  shared by pointer, so both live in stores and a pointer is a position in the store. A scope is a
  hash table of 32 chains; the chain of a bucket, linked through the \<^verbatim>\<open>next\<close> field of its
  symbols, is the list of its members from the head on. The interface \<open>keyed_table\<close> states what
  such a table promises its clients.
\<close>

section \<open>The interface of a chained table\<close>

locale keyed_table =
  fixes lookup :: "'t \<Rightarrow> 'k \<Rightarrow> 'v option"
    and insert :: "'k \<Rightarrow> 'v \<Rightarrow> 't \<Rightarrow> 't"
    and ok :: "'t \<Rightarrow> bool"
  assumes ok_insert: "ok t \<Longrightarrow> ok (insert k v t)"
    and lookup_insert: "ok t \<Longrightarrow> lookup (insert k v t) k' = (if k' = k then Some v else lookup t k')"
begin

definition insert_all :: "('k \<times> 'v) list \<Rightarrow> 't \<Rightarrow> 't" where
  "insert_all kvs t = fold (\<lambda>(k, v). insert k v) kvs t"

lemma insert_all_simps [simp]:
  "insert_all [] t = t" "insert_all ((k, v) # kvs) t = insert_all kvs (insert k v t)"
  by (simp_all add: insert_all_def)

lemma ok_insert_all: "ok t \<Longrightarrow> ok (insert_all kvs t)"
  by (induction kvs arbitrary: t) (auto simp: ok_insert)

text \<open>The last entry made under a key hides the earlier ones.\<close>

lemma lookup_insert_all:
  "ok t \<Longrightarrow> lookup (insert_all kvs t) k =
     (case map_of (rev kvs) k of Some v \<Rightarrow> Some v | None \<Rightarrow> lookup t k)"
  by (induction kvs arbitrary: t)
    (auto simp: ok_insert lookup_insert map_add_def split: option.splits)

lemma lookup_insert_all_other:
  "ok t \<Longrightarrow> k \<notin> fst ` set kvs \<Longrightarrow> lookup (insert_all kvs t) k = lookup t k"
  by (induction kvs arbitrary: t) (auto simp: ok_insert lookup_insert)

end

text \<open>A chain with a new head.\<close>

lemma find_chain_update:
  "h < length cs \<Longrightarrow>
     List.find P (cs[h := x # cs ! h] ! h') =
       (if h' = h \<and> P x then Some x else List.find P (cs ! h'))"
  by (cases "h' = h") auto

section \<open>Symbols and scopes\<close>

datatype (plugins only: code size) symbol_kind =
    SYM_MODULE | SYM_FUNCTION | SYM_VAR | SYM_CONST | SYM_STRUCT | SYM_UNION | SYM_ENUM
  | SYM_TRAIT | SYM_TYPE_ALIAS | SYM_GENERIC_PARAM | SYM_FIELD | SYM_VARIANT | SYM_POISON

type_synonym symptr = nat
type_synonym scopeptr = nat

record symbol =
  sym_kind :: symbol_kind
  sym_name :: string_view
  sym_type :: "sptr option"
  sym_decl :: "node option"
  sym_is_pub :: bool
  sym_is_comptime :: bool

record scope =
  sc_parent :: "scopeptr option"
  sc_buckets :: "symptr list list"
  sc_children :: "scopeptr option"
  sc_next_sibling :: "scopeptr option"
  sc_node :: "node option"

record symtab =
  sy_symbols :: "symbol list"
  sy_scopes :: "scope list"

definition SCOPE_BUCKETS :: nat where
  "SCOPE_BUCKETS = 32"

definition hash_sv :: "string_view \<Rightarrow> u32" where
  "hash_sv sv = foldl (\<lambda>h c. (h XOR of_char c) * 16777619) 2166136261 sv"

definition scope_new :: "scopeptr option \<Rightarrow> node option \<Rightarrow> symtab \<Rightarrow> scopeptr \<times> symtab" where
  "scope_new parent node st =
    (let s = length (sy_scopes st);
         sc = \<lparr>sc_parent = parent, sc_buckets = replicate SCOPE_BUCKETS [], sc_children = None,
               sc_next_sibling = (case parent of Some p \<Rightarrow> sc_children (sy_scopes st ! p)
                  | None \<Rightarrow> None),
               sc_node = node\<rparr>;
         scopes = sy_scopes st @ [sc];
         scopes = (case parent of
             Some p \<Rightarrow> scopes[p := (scopes ! p)\<lparr>sc_children := Some s\<rparr>]
           | None \<Rightarrow> scopes)
     in (s, st\<lparr>sy_scopes := scopes\<rparr>))"

definition scope_bucket :: "scope \<Rightarrow> string_view \<Rightarrow> nat" where
  "scope_bucket sc name = unat (hash_sv name mod of_nat (length (sc_buckets sc)))"

definition scope_lookup_current :: "symtab \<Rightarrow> scopeptr \<Rightarrow> string_view \<Rightarrow> symptr option" where
  "scope_lookup_current st s name =
    (let sc = sy_scopes st ! s in
     List.find (\<lambda>p. sv_eq (sym_name (sy_symbols st ! p)) name)
       (sc_buckets sc ! scope_bucket sc name))"

text \<open>
  The walk up the parents. On scopes that are their own ancestors it would not return, which is the
  result \<open>None\<close>; \<open>Some None\<close> is the null pointer of a failed lookup.
\<close>

partial_function (option) scope_lookup ::
    "symtab \<Rightarrow> scopeptr option \<Rightarrow> string_view \<Rightarrow> symptr option option" where
  "scope_lookup st s name =
    (case s of
       None \<Rightarrow> Some None
     | Some sc \<Rightarrow>
         (case scope_lookup_current st sc name of
            Some p \<Rightarrow> Some (Some p)
          | None \<Rightarrow> scope_lookup st (sc_parent (sy_scopes st ! sc)) name))"

definition scope_insert :: "scopeptr \<Rightarrow> symptr \<Rightarrow> symtab \<Rightarrow> symtab" where
  "scope_insert s p st =
    (let sc = sy_scopes st ! s;
         h = scope_bucket sc (sym_name (sy_symbols st ! p));
         sc = sc\<lparr>sc_buckets := (sc_buckets sc)[h := p # sc_buckets sc ! h]\<rparr>
     in st\<lparr>sy_scopes := (sy_scopes st)[s := sc]\<rparr>)"

definition symbol_new :: "symbol_kind \<Rightarrow> string_view \<Rightarrow> sptr option \<Rightarrow> node option \<Rightarrow> symtab
    \<Rightarrow> symptr \<times> symtab" where
  "symbol_new kind name ty decl st =
    (length (sy_symbols st),
     st\<lparr>sy_symbols := sy_symbols st @ [\<lparr>sym_kind = kind, sym_name = name, sym_type = ty,
       sym_decl = decl, sym_is_pub = False, sym_is_comptime = False\<rparr>]\<rparr>)"

section \<open>A scope is a keyed table\<close>

definition symtab_ok :: "symtab \<Rightarrow> bool" where
  "symtab_ok st \<longleftrightarrow>
     (\<forall>s < length (sy_scopes st). let sc = sy_scopes st ! s in
        length (sc_buckets sc) = SCOPE_BUCKETS
        \<and> (\<forall>p \<in> set (concat (sc_buckets sc)). p < length (sy_symbols st))
        \<and> (\<forall>p. sc_parent sc = Some p \<longrightarrow> p < s))"

text \<open>Declaring a name: a new symbol, put into a scope.\<close>

definition declare_symbol :: "scopeptr \<Rightarrow> string_view \<Rightarrow> symbol_kind \<times> sptr option \<times> node option
    \<Rightarrow> symtab \<Rightarrow> symtab" where
  "declare_symbol s name v st =
    (case v of (kind, ty, decl) \<Rightarrow>
       let (p, st) = symbol_new kind name ty decl st in scope_insert s p st)"

definition declared :: "scopeptr \<Rightarrow> symtab \<Rightarrow> string_view
    \<Rightarrow> (symbol_kind \<times> sptr option \<times> node option) option" where
  "declared s st name = map_option
     (\<lambda>p. let y = sy_symbols st ! p in (sym_kind y, sym_type y, sym_decl y))
     (scope_lookup_current st s name)"

lemma scope_bucket_less:
  "length (sc_buckets sc) = SCOPE_BUCKETS \<Longrightarrow> scope_bucket sc name < SCOPE_BUCKETS"
  by (simp add: scope_bucket_def SCOPE_BUCKETS_def unat_mod)

lemma find_cong: "xs = ys \<Longrightarrow> (\<And>x. x \<in> set ys \<Longrightarrow> P x = Q x) \<Longrightarrow> List.find P xs = List.find Q ys"
  by (induction ys arbitrary: xs) auto

lemma bucket_member: "h < length cs \<Longrightarrow> p \<in> set (cs ! h) \<Longrightarrow> p \<in> set (concat cs)"
  by (auto intro: nth_mem)

lemma lookup_current_cong:
  assumes "symtab_ok st" "s < length (sy_scopes st)" "sc_buckets (sy_scopes st' ! s) = sc_buckets (sy_scopes st ! s)"
    "\<And>p. p < length (sy_symbols st) \<Longrightarrow> sy_symbols st' ! p = sy_symbols st ! p"
  shows "scope_lookup_current st' s name = scope_lookup_current st s name"
proof -
  let ?sc = "sy_scopes st ! s"
  have len: "length (sc_buckets ?sc) = SCOPE_BUCKETS"
    and m: "\<forall>p \<in> set (concat (sc_buckets ?sc)). p < length (sy_symbols st)"
    using assms(1,2) by (auto simp: symtab_ok_def Let_def)
  have "p < length (sy_symbols st)" if "p \<in> set (sc_buckets ?sc ! scope_bucket ?sc name)" for p
    using bucket_member [OF _ that] scope_bucket_less [OF len, of name] len m by auto
  note this [unfolded scope_bucket_def]
  then show ?thesis
    unfolding scope_lookup_current_def Let_def scope_bucket_def assms(3)
    by (intro find_cong) (simp_all add: assms(4))
qed

text \<open>The table after a declaration, with the new symbol at the end of the store.\<close>

lemma declare_symbol_eq:
  assumes "s < length (sy_scopes st)"
  shows "declare_symbol s name (kind, ty, decl) st =
    (let sc = sy_scopes st ! s; n = length (sy_symbols st); h = scope_bucket sc name in
     st\<lparr>sy_symbols := sy_symbols st @ [\<lparr>sym_kind = kind, sym_name = name, sym_type = ty,
           sym_decl = decl, sym_is_pub = False, sym_is_comptime = False\<rparr>],
        sy_scopes := (sy_scopes st)[s := sc\<lparr>sc_buckets :=
           (sc_buckets sc)[h := n # sc_buckets sc ! h]\<rparr>]\<rparr>)"
  by (simp add: declare_symbol_def symbol_new_def scope_insert_def Let_def)

lemma symtab_ok_declare:
  assumes "symtab_ok st" "s < length (sy_scopes st)"
  shows "symtab_ok (declare_symbol s name (kind, ty, decl) st)"
proof -
  let ?sc = "sy_scopes st ! s" and ?n = "length (sy_symbols st)"
  let ?h = "scope_bucket ?sc name"
  have sc: "length (sc_buckets ?sc) = SCOPE_BUCKETS"
      "\<forall>p \<in> set (concat (sc_buckets ?sc)). p < ?n"
    using assms by (auto simp: symtab_ok_def Let_def)
  have "set (concat ((sc_buckets ?sc)[?h := ?n # sc_buckets ?sc ! ?h]))
      \<subseteq> Set.insert ?n (set (concat (sc_buckets ?sc)))"
    using bucket_member [of ?h "sc_buckets ?sc"] scope_bucket_less [OF sc(1)] sc(1)
    by (fastforce dest: set_update_subset_insert [THEN subsetD])
  then have "\<forall>p \<in> set (concat ((sc_buckets ?sc)[?h := ?n # sc_buckets ?sc ! ?h])). p < Suc ?n"
    using sc(2) by (auto simp: less_Suc_eq)
  then show ?thesis
    using assms sc by (auto simp: declare_symbol_eq symtab_ok_def Let_def nth_list_update less_Suc_eq)
qed

lemma declared_declare:
  assumes "symtab_ok st" "s < length (sy_scopes st)"
  shows "declared s (declare_symbol s name (kind, ty, decl) st) name' =
    (if name' = name then Some (kind, ty, decl) else declared s st name')"
proof -
  let ?sc = "sy_scopes st ! s" and ?n = "length (sy_symbols st)"
  let ?h = "scope_bucket ?sc" and ?st = "declare_symbol s name (kind, ty, decl) st"
  have sc: "length (sc_buckets ?sc) = SCOPE_BUCKETS"
      "\<forall>p \<in> set (concat (sc_buckets ?sc)). p < ?n"
    using assms by (auto simp: symtab_ok_def Let_def)
  have h: "?h x < length (sc_buckets ?sc)" for x by (simp add: sc(1) scope_bucket_less)
  have old: "p < ?n" if "p \<in> set (sc_buckets ?sc ! ?h name')" for p
    using bucket_member [OF h that] sc(2) by blast
  have b: "scope_bucket (sy_scopes ?st ! s) = ?h"
    using assms(2) by (simp add: declare_symbol_eq Let_def scope_bucket_def fun_eq_iff)
  have "scope_lookup_current ?st s name' = List.find
      (\<lambda>p. sv_eq (sym_name (sy_symbols ?st ! p)) name')
      ((sc_buckets ?sc)[?h name := ?n # sc_buckets ?sc ! ?h name] ! ?h name')"
    unfolding scope_lookup_current_def Let_def b
    using assms(2) by (simp add: declare_symbol_eq Let_def)
  also have "\<dots> = (if name' = name then Some ?n else scope_lookup_current st s name')"
  proof -
    have "List.find (\<lambda>p. sv_eq (sym_name (sy_symbols ?st ! p)) name') (sc_buckets ?sc ! ?h name')
        = scope_lookup_current st s name'"
      unfolding scope_lookup_current_def Let_def using old assms(2)
      by (intro find_cong) (simp_all add: declare_symbol_eq Let_def nth_append)
    then show ?thesis using assms(2)
      by (auto simp: find_chain_update [OF h] declare_symbol_eq Let_def nth_append)
  qed
  moreover have "sy_symbols ?st ! p = sy_symbols st ! p" if "p < ?n" for p
    using that assms(2) by (simp add: declare_symbol_eq Let_def nth_append)
  moreover have "p < ?n" if "scope_lookup_current st s name' = Some p" for p
    using that old by (auto simp: scope_lookup_current_def Let_def find_Some_iff)
  moreover have "sy_symbols ?st ! ?n = \<lparr>sym_kind = kind, sym_name = name, sym_type = ty,
       sym_decl = decl, sym_is_pub = False, sym_is_comptime = False\<rparr>"
    using assms(2) by (simp add: declare_symbol_eq Let_def)
  ultimately show ?thesis
    by (cases "scope_lookup_current st s name'") (auto simp: declared_def Let_def)
qed

interpretation scope_table: keyed_table "\<lambda>st. declared s st" "declare_symbol s"
    "\<lambda>st. symtab_ok st \<and> s < length (sy_scopes st)" for s
proof
  fix st name and v :: "symbol_kind \<times> sptr option \<times> node option"
  assume ok: "symtab_ok st \<and> s < length (sy_scopes st)"
  obtain kind ty decl where v: "v = (kind, ty, decl)" by (cases v)
  show "symtab_ok (declare_symbol s name v st) \<and> s < length (sy_scopes (declare_symbol s name v st))"
    using ok symtab_ok_declare [of st s name kind ty decl]
    by (simp add: v declare_symbol_eq Let_def)
  show "declared s (declare_symbol s name v st) name'
      = (if name' = name then Some v else declared s st name')" for name'
    using ok declared_declare [of st s name kind ty decl name'] by (simp add: v)
qed

section \<open>Nested scopes\<close>

definition symbol_value :: "symtab \<Rightarrow> symptr \<Rightarrow> symbol_kind \<times> sptr option \<times> node option" where
  "symbol_value st p = (let y = sy_symbols st ! p in (sym_kind y, sym_type y, sym_decl y))"

definition visible :: "symtab \<Rightarrow> scopeptr option \<Rightarrow> string_view
    \<Rightarrow> (symbol_kind \<times> sptr option \<times> node option) option option" where
  "visible st s name = map_option (map_option (symbol_value st)) (scope_lookup st s name)"

lemma visible_None [simp]: "visible st None name = Some None"
  by (simp add: visible_def scope_lookup.simps)

lemma visible_Some:
  "visible st (Some s) name =
    (case declared s st name of
       Some v \<Rightarrow> Some (Some v)
     | None \<Rightarrow> visible st (sc_parent (sy_scopes st ! s)) name)"
  by (subst visible_def, subst scope_lookup.simps)
    (simp add: declared_def symbol_value_def visible_def Let_def split: option.split)

text \<open>Two states that agree on a scope and its ancestors show the same names there.\<close>

definition agree :: "scopeptr \<Rightarrow> symtab \<Rightarrow> symtab \<Rightarrow> bool" where
  "agree s st st' \<longleftrightarrow>
     (\<forall>i \<le> s. sc_parent (sy_scopes st' ! i) = sc_parent (sy_scopes st ! i)
        \<and> sc_buckets (sy_scopes st' ! i) = sc_buckets (sy_scopes st ! i))
     \<and> (\<forall>p < length (sy_symbols st). sy_symbols st' ! p = sy_symbols st ! p)"

lemma agree_trans:
  "agree s a b \<Longrightarrow> agree s b c \<Longrightarrow> length (sy_symbols a) \<le> length (sy_symbols b) \<Longrightarrow> agree s a c"
  by (simp add: agree_def)

lemma agree_declared:
  assumes "symtab_ok st" "s < length (sy_scopes st)" "agree s st st'"
  shows "declared s st' name = declared s st name"
proof -
  have eq: "scope_lookup_current st' s name = scope_lookup_current st s name"
    by (rule lookup_current_cong [OF assms(1,2)]) (use assms(3) in \<open>auto simp: agree_def\<close>)
  have "p < length (sy_symbols st)" if "scope_lookup_current st s name = Some p" for p
  proof -
    let ?sc = "sy_scopes st ! s"
    have len: "length (sc_buckets ?sc) = SCOPE_BUCKETS"
      and m: "\<forall>p \<in> set (concat (sc_buckets ?sc)). p < length (sy_symbols st)"
      using assms(1,2) by (auto simp: symtab_ok_def Let_def)
    have "p \<in> set (sc_buckets ?sc ! scope_bucket ?sc name)"
      using that by (auto simp: scope_lookup_current_def Let_def find_Some_iff)
    then show ?thesis
      using bucket_member [of "scope_bucket ?sc name"] scope_bucket_less [OF len] len m by auto
  qed
  then show ?thesis using assms(3)
    by (cases "scope_lookup_current st s name") (auto simp: declared_def Let_def eq agree_def)
qed

lemma agree_visible:
  assumes "symtab_ok st" "agree s st st'" "s < length (sy_scopes st)"
  shows "visible st' (Some s) name = visible st (Some s) name"
  using assms(2,3)
proof (induction s rule: less_induct)
  case (less s)
  have "visible st' (sc_parent (sy_scopes st ! s)) name = visible st (sc_parent (sy_scopes st ! s)) name"
  proof (cases "sc_parent (sy_scopes st ! s)")
    case (Some p)
    then have "p < s" using assms(1) less.prems(2) by (auto simp: symtab_ok_def Let_def)
    moreover have "agree p st st'" using less.prems(1) \<open>p < s\<close> by (simp add: agree_def)
    ultimately show ?thesis using less.IH less.prems(2) Some by simp
  qed simp
  moreover have "sc_parent (sy_scopes st' ! s) = sc_parent (sy_scopes st ! s)"
    using less.prems(1) by (simp add: agree_def)
  ultimately show ?case
    using agree_declared [OF assms(1) less.prems(2,1)]
    by (simp add: visible_Some cong: option.case_cong)
qed

lemma scope_new_facts:
  assumes "symtab_ok st" "p < length (sy_scopes st)" "scope_new (Some p) node st = (s, st')"
  shows "s = length (sy_scopes st)" "symtab_ok st'" "s < length (sy_scopes st')" "agree p st st'"
    "sc_parent (sy_scopes st' ! s) = Some p" "declared s st' name = None"
proof -
  let ?n = "length (sy_scopes st)"
  show s: "s = ?n" using assms(3) by (simp add: scope_new_def Let_def)
  have len: "length (sy_scopes st') = Suc ?n" "sy_symbols st' = sy_symbols st"
    using assms(3) by (auto simp: scope_new_def Let_def)
  have new: "sc_parent (sy_scopes st' ! ?n) = Some p"
      "sc_buckets (sy_scopes st' ! ?n) = replicate SCOPE_BUCKETS []"
    using assms(2,3) by (auto simp: scope_new_def Let_def nth_list_update nth_append)
  have old: "sc_parent (sy_scopes st' ! i) = sc_parent (sy_scopes st ! i)"
      "sc_buckets (sy_scopes st' ! i) = sc_buckets (sy_scopes st ! i)" if "i < ?n" for i
    using assms(2,3) that by (auto simp: scope_new_def Let_def nth_list_update nth_append)
  show "symtab_ok st'"
    unfolding symtab_ok_def Let_def
  proof (intro allI impI)
    fix i assume "i < length (sy_scopes st')"
    then show "length (sc_buckets (sy_scopes st' ! i)) = SCOPE_BUCKETS
        \<and> (\<forall>p \<in> set (concat (sc_buckets (sy_scopes st' ! i))). p < length (sy_symbols st'))
        \<and> (\<forall>p. sc_parent (sy_scopes st' ! i) = Some p \<longrightarrow> p < i)"
    proof (cases "i = ?n")
      case False
      then have "i < ?n" using \<open>i < length (sy_scopes st')\<close> len by simp
      then show ?thesis
        using assms(1) old [of i] len(2) unfolding symtab_ok_def Let_def by metis
    qed (use assms(2) new in simp)
  qed
  show "s < length (sy_scopes st')" "sc_parent (sy_scopes st' ! s) = Some p"
    using s len new by simp_all
  show "agree p st st'" using old assms(2) by (simp add: agree_def len)
  have "scope_bucket (sy_scopes st' ! ?n) name < SCOPE_BUCKETS"
    by (rule scope_bucket_less) (simp add: new)
  then show "declared s st' name = None"
    by (simp add: s declared_def scope_lookup_current_def new Let_def)
qed

lemma agree_declare:
  assumes "i < s" "s < length (sy_scopes st)"
  shows "agree i st (declare_symbol s name (kind, ty, decl) st)"
  using assms by (simp add: declare_symbol_eq agree_def Let_def nth_append)

lemma declare_all:
  assumes "symtab_ok st" "i < s" "s < length (sy_scopes st)"
  shows "symtab_ok (scope_table.insert_all s ds st)
    \<and> length (sy_scopes (scope_table.insert_all s ds st)) = length (sy_scopes st)
    \<and> sc_parent (sy_scopes (scope_table.insert_all s ds st) ! s) = sc_parent (sy_scopes st ! s)
    \<and> agree i st (scope_table.insert_all s ds st)"
  using assms(1,3)
proof (induction ds arbitrary: st)
  case Nil
  then show ?case by (simp add: agree_def)
next
  case (Cons d ds)
  obtain n k t c where d: "d = (n, k, t, c)" by (cases d)
  let ?st = "declare_symbol s n (k, t, c) st"
  have l: "length (sy_scopes ?st) = length (sy_scopes st)"
      "sc_parent (sy_scopes ?st ! s) = sc_parent (sy_scopes st ! s)"
      "length (sy_symbols st) \<le> length (sy_symbols ?st)"
    using Cons.prems(2) by (simp_all add: declare_symbol_eq Let_def)
  have "agree i st ?st" by (rule agree_declare [OF assms(2) Cons.prems(2)])
  then show ?case
    using Cons.IH [of ?st] symtab_ok_declare [OF Cons.prems, of n k t c] Cons.prems(2) l
      agree_trans [of i st ?st] d
    by simp
qed

text \<open>
  C22. Scopes nest as blocks do. In a scope opened inside scope \<open>p\<close>, a name that was declared there
  is seen as its last declaration, every other name as \<open>p\<close> sees it, the search always returns, and
  nothing declared in the inner scope shows in \<open>p\<close>.
\<close>

theorem inner_scope_hides:
  assumes "symtab_ok st" "p < length (sy_scopes st)" "scope_new (Some p) node st = (s, st1)"
    "st2 = fold (\<lambda>(name, v). declare_symbol s name v) ds st1"
  shows "visible st2 (Some s) name =
      (case map_of (rev ds) name of Some v \<Rightarrow> Some (Some v) | None \<Rightarrow> visible st (Some p) name)
    \<and> visible st2 (Some p) name = visible st (Some p) name"
proof -
  note new = scope_new_facts [OF assms(1-3)]
  have st2: "st2 = scope_table.insert_all s ds st1"
    using assms(4) by (simp add: scope_table.insert_all_def)
  have all: "symtab_ok st2" "agree p st1 st2" "sc_parent (sy_scopes st2 ! s) = Some p"
    using declare_all [of st1 p s ds] new assms(2) st2 by auto
  have "length (sy_symbols st1) = length (sy_symbols st)"
    using assms(3) by (auto simp: scope_new_def Let_def)
  then have "agree p st st2" using agree_trans [OF new(4) all(2)] by simp
  then have p: "visible st2 (Some p) name = visible st (Some p) name"
    by (rule agree_visible [OF assms(1) _ assms(2)])
  have "declared s st2 name = map_of (rev ds) name"
    using scope_table.lookup_insert_all [of st1 s ds name] new
    by (simp add: st2 split: option.split)
  then show ?thesis using p by (simp add: visible_Some [of st2 s] all(3) split: option.split)
qed

definition demo_symtab :: symtab where
  "demo_symtab = declare_symbol 0 ''x'' (SYM_CONST, None, None)
     (snd (scope_new None None \<lparr>sy_symbols = [], sy_scopes = []\<rparr>))"

theorem inner_scope_hides_witness:
  "\<exists>st s. visible st (Some s) ''x'' = Some (Some (SYM_VAR, None, None))
     \<and> visible st (Some 0) ''x'' = Some (Some (SYM_CONST, None, None))"
proof -
  have len: "0 < length (sy_scopes (snd (scope_new None None \<lparr>sy_symbols = [], sy_scopes = []\<rparr>)))"
    and ok: "symtab_ok (snd (scope_new None None \<lparr>sy_symbols = [], sy_scopes = []\<rparr>))"
    by (simp_all add: scope_new_def symtab_ok_def)
  have d: "symtab_ok demo_symtab" "0 < length (sy_scopes demo_symtab)"
      "declared 0 demo_symtab ''x'' = Some (SYM_CONST, None, None)"
    using symtab_ok_declare [OF ok len] declared_declare [OF ok len] len
    by (simp_all add: demo_symtab_def declare_symbol_eq Let_def)
  obtain s st where n: "scope_new (Some 0) None demo_symtab = (s, st)" by fastforce
  from inner_scope_hides [OF d(1,2) n refl, of "[(''x'', SYM_VAR, None, None)]" "''x''"] d(3)
  show ?thesis by (auto simp: visible_Some [of demo_symtab])
qed

end
