(* ===== verification/Sema.thy ===== *)
theory Sema
  imports Symbols
begin

text \<open>
  The semantic analysis of \<^verbatim>\<open>src/sema.c\<close>. The annotations the analysis writes into the
  tree are kept beside it: \<open>sm_type_of\<close> and \<open>sm_sym_of\<close> give, for the identity of a node, its
  \<^verbatim>\<open>sema_type\<close> and the symbol of an identifier, and \<open>sm_error_return\<close> the flag of a return
  statement. A function returns \<open>None\<close> where the C code has no result: it follows a null pointer,
  reads a member of a union that is not the one the node holds, overflows an \<^verbatim>\<open>int\<close>, or
  does not end. The functions that check expressions, statements and blocks call each other through
  the record \<open>checkers\<close>; \<open>checkers_at n\<close> ties the knot \<open>n\<close> levels deep.
\<close>

section \<open>State\<close>

record method_entry =
  me_type_name :: string_view
  me_method_name :: string_view
  me_fn_decl :: node

definition METHOD_TABLE_BUCKETS :: nat where
  "METHOD_TABLE_BUCKETS = 64"

record sema =
  sm_types :: type_table
  sm_syms :: symtab
  sm_module_scope :: scopeptr
  sm_current_scope :: scopeptr
  sm_self_type :: "sptr option"
  sm_fn :: "node option"
  sm_diag :: diag_engine
  sm_error_count :: nat
  sm_in_unsafe :: bool
  sm_fn_has_return :: bool
  sm_in_collect :: bool
  sm_methods :: "method_entry list list"
  sm_fn_return_type :: "sptr option"
  sm_type_of :: "nat \<Rightarrow> sptr option"
  sm_sym_of :: "nat \<Rightarrow> symptr option"
  sm_error_return :: "nat \<Rightarrow> bool"

type_synonym 'a check = "sema \<Rightarrow> ('a \<times> sema) option"
type_synonym step = "sema \<Rightarrow> sema option"

abbreviation tbody :: "sema \<Rightarrow> sptr \<Rightarrow> stype_body" where
  "tbody s p \<equiv> body_of (sm_types s) p"

abbreviation symbol_at :: "sema \<Rightarrow> symptr \<Rightarrow> symbol" where
  "symbol_at s p \<equiv> sy_symbols (sm_syms s) ! p"

definition is_bool_body :: "stype_body \<Rightarrow> bool" where
  "is_bool_body b \<longleftrightarrow> (case b of ST_BOOL \<Rightarrow> True | _ \<Rightarrow> False)"

definition is_void_body :: "stype_body \<Rightarrow> bool" where
  "is_void_body b \<longleftrightarrow> (case b of ST_VOID \<Rightarrow> True | _ \<Rightarrow> False)"

definition is_noreturn_body :: "stype_body \<Rightarrow> bool" where
  "is_noreturn_body b \<longleftrightarrow> (case b of ST_NORETURN \<Rightarrow> True | _ \<Rightarrow> False)"

definition is_named_body :: "stype_body \<Rightarrow> bool" where
  "is_named_body b \<longleftrightarrow>
     (case b of ST_STRUCT _ _ _ _ \<Rightarrow> True | ST_UNION _ _ _ \<Rightarrow> True | ST_ENUM _ _ _ \<Rightarrow> True | _ \<Rightarrow> False)"

text \<open>A function of the type table, on the table of the analysis.\<close>

definition tt_do :: "(type_table \<Rightarrow> sptr \<times> type_table) \<Rightarrow> sema \<Rightarrow> sptr \<times> sema" where
  "tt_do f s = (let (p, tt) = f (sm_types s) in (p, s\<lparr>sm_types := tt\<rparr>))"

text \<open>A new symbol in a scope.\<close>

definition declare_in :: "scopeptr \<Rightarrow> symbol_kind \<Rightarrow> string_view \<Rightarrow> sptr option \<Rightarrow> node option \<Rightarrow>
    sema \<Rightarrow> sema" where
  "declare_in sc kind name ty decl s =
    (let (p, st) = symbol_new kind name ty decl (sm_syms s);
         st = scope_insert sc p st
     in s\<lparr>sm_syms := st\<rparr>)"

definition open_scope :: "node option \<Rightarrow> sema \<Rightarrow> scopeptr \<times> sema" where
  "open_scope node s =
    (let (sc, st) = scope_new (Some (sm_current_scope s)) node (sm_syms s)
     in (sc, s\<lparr>sm_syms := st\<rparr>))"

text \<open>Setting \<^verbatim>\<open>expr->sema_type\<close> and returning it.\<close>

definition typed :: "nat \<Rightarrow> sptr \<Rightarrow> sema \<Rightarrow> sptr \<times> sema" where
  "typed i t s = (t, s\<lparr>sm_type_of := (sm_type_of s)(i := Some t)\<rparr>)"

definition quoted :: "string \<Rightarrow> string" where
  "quoted s = [CHR 0x27] @ s @ [CHR 0x27]"

definition sema_report :: "source_location \<Rightarrow> string \<Rightarrow> sema \<Rightarrow> sema" where
  "sema_report loc msg s =
     s\<lparr>sm_diag := diag_error (sm_diag s) loc (take 1023 msg),
       sm_error_count := sm_error_count s + 1\<rparr>"

section \<open>Method table\<close>

definition schar :: "char \<Rightarrow> u64" where
  "schar c = scast (of_char c :: 8 word)"

definition hash_method_key :: "string_view \<Rightarrow> string_view \<Rightarrow> u64" where
  "hash_method_key ty name =
     foldl (\<lambda>h c. (h XOR schar c) * 0x100000001b3)
       (foldl (\<lambda>h c. (h XOR schar c) * 0x100000001b3) 0xcbf29ce484222325 ty) name"

definition method_bucket :: "string_view \<Rightarrow> string_view \<Rightarrow> nat" where
  "method_bucket ty name = unat (hash_method_key ty name mod of_nat METHOD_TABLE_BUCKETS)"

definition method_table_add ::
    "string_view \<Rightarrow> string_view \<Rightarrow> node \<Rightarrow> method_entry list list \<Rightarrow> method_entry list list" where
  "method_table_add ty name fn tbl =
    (let i = method_bucket ty name;
         e = \<lparr>me_type_name = ty, me_method_name = name, me_fn_decl = fn\<rparr>
     in tbl[i := e # tbl ! i])"

definition method_table_lookup ::
    "method_entry list list \<Rightarrow> string_view \<Rightarrow> string_view \<Rightarrow> node option" where
  "method_table_lookup tbl ty name =
     map_option me_fn_decl
       (List.find (\<lambda>e. sv_eq (me_type_name e) ty \<and> sv_eq (me_method_name e) name)
         (tbl ! method_bucket ty name))"

partial_function (option) sema_type_name_for_method ::
    "type_table \<Rightarrow> sptr \<Rightarrow> string_view option" where
  "sema_type_name_for_method tt t =
    (case body_of tt t of
       ST_POINTER _ base \<Rightarrow> sema_type_name_for_method tt base
     | ST_REFERENCE _ base \<Rightarrow> sema_type_name_for_method tt base
     | ST_STRUCT n _ _ _ \<Rightarrow> Some n
     | ST_UNION n _ _ \<Rightarrow> Some n
     | ST_ENUM n _ _ \<Rightarrow> Some n
     | _ \<Rightarrow> Some (sv_from_cstr (Some [])))"

section \<open>Lifecycle\<close>

text \<open>
  The field \<^verbatim>\<open>current_fn_return_type\<close> is not set: it holds what the memory of the arena
  held, the parameter \<open>junk\<close>.
\<close>

definition sema_new :: "(sptr \<Rightarrow> u64) \<Rightarrow> sptr option \<Rightarrow> diag_engine \<Rightarrow> sema" where
  "sema_new addr junk dg =
    (let tt = type_table_new addr;
         (ms, st) = scope_new None None \<lparr>sy_symbols = [], sy_scopes = []\<rparr>
     in \<lparr>sm_types = tt, sm_syms = st, sm_module_scope = ms, sm_current_scope = ms,
         sm_self_type = None, sm_fn = None, sm_diag = dg, sm_error_count = 0,
         sm_in_unsafe = False, sm_fn_has_return = False, sm_in_collect = False,
         sm_methods = replicate METHOD_TABLE_BUCKETS [], sm_fn_return_type = junk,
         sm_type_of = (\<lambda>_. None), sm_sym_of = (\<lambda>_. None), sm_error_return = (\<lambda>_. False)\<rparr>)"

section \<open>Divergence\<close>

fun block_diverges :: "sema \<Rightarrow> node option \<Rightarrow> bool"
  and stmts_diverge :: "sema \<Rightarrow> node list \<Rightarrow> bool"
  and stmt_diverges :: "sema \<Rightarrow> node \<Rightarrow> bool"
  and arms_diverge :: "sema \<Rightarrow> node list \<Rightarrow> bool"
  and expr_diverges :: "sema \<Rightarrow> node option \<Rightarrow> bool" where
  "block_diverges s None = False"
| "block_diverges s (Some (Node i loc b)) =
    (case b of
       Stmt (AST_BLOCK stmts trailing) \<Rightarrow> stmts_diverge s stmts \<or> expr_diverges s trailing
     | _ \<Rightarrow> False)"
| "stmts_diverge s [] = False"
| "stmts_diverge s (st # sts) = (stmt_diverges s st \<or> stmts_diverge s sts)"
| "stmt_diverges s (Node i loc b) =
    (case b of
       Stmt (AST_RETURN_STMT _ _) \<Rightarrow> True
     | Stmt AST_BREAK_STMT \<Rightarrow> True
     | Stmt AST_CONTINUE_STMT \<Rightarrow> True
     | Stmt (AST_IF_STMT _ then_block else_block) \<Rightarrow>
         block_diverges s then_block \<and> block_diverges s else_block
     | Stmt (AST_WHILE_STMT _ _) \<Rightarrow> False
     | Stmt (AST_MATCH_STMT _ arms) \<Rightarrow> arms \<noteq> [] \<and> arms_diverge s arms
     | Stmt (AST_BLOCK stmts trailing) \<Rightarrow> stmts_diverge s stmts \<or> expr_diverges s trailing
     | Stmt (AST_EXPR_STMT e) \<Rightarrow> expr_diverges s e
     | _ \<Rightarrow> False)"
| "arms_diverge s [] = True"
| "arms_diverge s (Node i loc b # arms) =
    ((case b of Expr (AST_MATCH_ARM _ e) \<Rightarrow> expr_diverges s e | _ \<Rightarrow> False) \<and> arms_diverge s arms)"
| "expr_diverges s None = False"
| "expr_diverges s (Some (Node i loc b)) =
    (case b of
       Stmt (AST_BLOCK stmts trailing) \<Rightarrow> stmts_diverge s stmts \<or> expr_diverges s trailing
     | Expr (AST_UNSAFE_BLOCK_EXPR body) \<Rightarrow> block_diverges s body
     | Expr (AST_CALL_EXPR _ _) \<Rightarrow>
         (case sm_type_of s i of None \<Rightarrow> False | Some ct \<Rightarrow> is_noreturn_body (tbody s ct))
     | _ \<Rightarrow> False)"

section \<open>Constant expressions\<close>

text \<open>
  The value of a constant expression. A constant is looked up by name and its initializer
  evaluated in turn, so the recursion is not bounded by the expression: the fuel bounds its depth.
  Negating the smallest 64-bit integer is undefined.
\<close>

definition const_init :: "symbol \<Rightarrow> node option option" where
  "const_init y =
    (case sym_kind y of
       SYM_CONST \<Rightarrow>
         (case sym_decl y of
            None \<Rightarrow> Some None
          | Some d \<Rightarrow> (case n_body d of
               Decl (AST_CONST_DECL _ _ _ _ ini _) \<Rightarrow> Some ini
             | Decl (AST_VAR_DECL _ _ _ _ ini _) \<Rightarrow> Some ini
             | _ \<Rightarrow> None))
     | _ \<Rightarrow> Some None)"

definition m_not_constant :: "string \<Rightarrow> string" where
  "m_not_constant name = quoted name @ '' is not a compile-time constant''"

definition eval_operator :: "source_location \<Rightarrow> token_kind \<Rightarrow> u64 \<Rightarrow> u64 \<Rightarrow> sema \<Rightarrow> u64 \<times> sema" where
  "eval_operator loc op l r s =
    (if op = TOK_PLUS then (l + r, s)
     else if op = TOK_MINUS then (l - r, s)
     else if op = TOK_STAR then (l * r, s)
     else if op = TOK_SLASH then (if r \<noteq> 0 then l div r else 0, s)
     else if op = TOK_PERCENT then (if r \<noteq> 0 then l mod r else 0, s)
     else (0, sema_report loc ''unsupported operator in constant expression'' s))"

primrec sema_eval_const_expr :: "nat \<Rightarrow> node option \<Rightarrow> u64 check" where
  "sema_eval_const_expr 0 expr s = None"
| "sema_eval_const_expr (Suc n) expr s =
    (case expr of
       None \<Rightarrow> Some (0, s)
     | Some e \<Rightarrow>
        (case n_body e of
           Expr (AST_INT_LITERAL v) \<Rightarrow> Some (v, s)
         | Expr (AST_BINARY_EXPR op left right) \<Rightarrow> do {
             (l, s) \<leftarrow> sema_eval_const_expr n left s;
             (r, s) \<leftarrow> sema_eval_const_expr n right s;
             Some (eval_operator (n_loc e) op l r s)
           }
         | Expr (AST_UNARY_EXPR op operand) \<Rightarrow>
             if op = TOK_MINUS
             then do {
               (v, s) \<leftarrow> sema_eval_const_expr n operand s;
               if v = 2 ^ 63 then None else Some (- v, s)
             }
             else Some (0, sema_report (n_loc e) ''unsupported unary operator in constant expression'' s)
         | Expr (AST_IDENTIFIER name) \<Rightarrow> do {
             y \<leftarrow> scope_lookup (sm_syms s) (Some (sm_current_scope s)) name;
             ini \<leftarrow> (case y of None \<Rightarrow> Some None | Some y \<Rightarrow> const_init (symbol_at s y));
             case ini of
               Some _ \<Rightarrow> sema_eval_const_expr n ini s
             | None \<Rightarrow> Some (0, sema_report (n_loc e) (m_not_constant name) s)
           }
         | _ \<Rightarrow> Some (0, sema_report (n_loc e) ''expression is not compile-time evaluable'' s)))"

section \<open>Type resolution\<close>

definition is_type_symbol :: "symbol_kind \<Rightarrow> bool" where
  "is_type_symbol k \<longleftrightarrow> k = SYM_STRUCT \<or> k = SYM_UNION \<or> k = SYM_ENUM \<or> k = SYM_TYPE_ALIAS
     \<or> k = SYM_TRAIT"

text \<open>The number after the first letter of a name, read when the letter is the one asked for.\<close>

definition name_number :: "string_view \<Rightarrow> char \<Rightarrow> int option" where
  "name_number n c =
    (if length n > 1 \<and> n ! 0 = c
     then case sv_to_int (sv_slice n 1 (length n)) of Inr b \<Rightarrow> Some b | Inl _ \<Rightarrow> None
     else Some 0)"

definition is_int_width :: "int \<Rightarrow> bool" where
  "is_int_width b \<longleftrightarrow> b = 8 \<or> b = 16 \<or> b = 32 \<or> b = 64 \<or> b = 128"

text \<open>A name that is not primitive: reported when it is unknown, then resolved all the same.\<close>

definition resolve_declared :: "source_location \<Rightarrow> string_view \<Rightarrow> sptr check" where
  "resolve_declared loc n s = do {
     s \<leftarrow> (if \<not> sm_in_collect s
       then do {
         y \<leftarrow> scope_lookup (sm_syms s) (Some (sm_module_scope s)) n;
         Some (case y of
             None \<Rightarrow> sema_report loc (''unknown type '' @ quoted n) s
           | Some y \<Rightarrow> if is_type_symbol (sym_kind (symbol_at s y)) then s
               else sema_report loc (''unknown type '' @ quoted n) s)
       }
       else Some s);
     Some (tt_do (st_named n) s)
   }"

definition resolve_named :: "source_location \<Rightarrow> string_view \<Rightarrow> sptr check" where
  "resolve_named loc n s =
    (if sv_eq_cstr n ''Self''
     then case sm_self_type s of
        None \<Rightarrow> Some (tt_do st_void (sema_report loc ''Self outside of method context'' s))
      | Some t \<Rightarrow> Some (t, s)
     else if sv_eq_cstr n ''void'' then Some (tt_do st_void s)
     else if sv_eq_cstr n ''bool'' then Some (tt_do st_bool s)
     else if sv_eq_cstr n ''isize'' then Some (tt_do (st_int True 64) s)
     else if sv_eq_cstr n ''usize'' then Some (tt_do (st_int False 64) s)
     else do {
       i \<leftarrow> name_number n (CHR ''i'');
       if is_int_width i then Some (tt_do (st_int True (of_int i)) s)
       else do {
         u \<leftarrow> name_number n (CHR ''u'');
         if is_int_width u then Some (tt_do (st_int False (of_int u)) s)
         else do {
           f \<leftarrow> name_number n (CHR ''f'');
           if f = 32 \<or> f = 64 then Some (tt_do (st_float (of_int f)) s)
           else if sv_eq_cstr n ''noreturn'' then Some (tt_do (st_alloc ST_NORETURN) s)
           else resolve_declared loc n s
         }
       }
     })"

definition m_error_type :: "string \<Rightarrow> string" where
  "m_error_type name = ''error type '' @ quoted name @ '' must be a struct, union, or enum''"

definition m_void_success :: string where
  "m_void_success = ''error union success type cannot be '' @ quoted ''void''
     @ ''; use '' @ quoted ''noreturn'' @ '' if function always fails''"

text \<open>The two checks on an error union; a part that is missing has no location to report at.\<close>

definition check_error_union ::
    "type_expr option \<Rightarrow> type_expr option \<Rightarrow> sptr \<Rightarrow> sptr \<Rightarrow> step" where
  "check_error_union e sc err succ s = do {
     s \<leftarrow> (if is_named_body (tbody s err) then Some s
       else do {
         t \<leftarrow> e;
         name \<leftarrow> st_name (sm_types s) err;
         Some (sema_report (t_loc t) (m_error_type name) s)
       });
     if is_void_body (tbody s succ)
     then do { t \<leftarrow> sc; Some (sema_report (t_loc t) m_void_success s) }
     else Some s
   }"

fun sema_resolve_type :: "nat \<Rightarrow> type_expr option \<Rightarrow> sptr check"
  and sema_resolve_types :: "nat \<Rightarrow> type_expr option list \<Rightarrow> sptr list check" where
  "sema_resolve_type n None s = Some (tt_do st_void s)"
| "sema_resolve_type n (Some (TYPE_NAMED loc name args)) s = resolve_named loc name s"
| "sema_resolve_type n (Some (TYPE_REFERENCE loc child c)) s = do {
     (base, s) \<leftarrow> sema_resolve_type n child s;
     Some (tt_do (st_reference c base) s)
   }"
| "sema_resolve_type n (Some (TYPE_POINTER loc child c)) s = do {
     (base, s) \<leftarrow> sema_resolve_type n child s;
     Some (tt_do (st_pointer c base) s)
   }"
| "sema_resolve_type n (Some (TYPE_SLICE loc child c)) s = do {
     (base, s) \<leftarrow> sema_resolve_type n child s;
     Some (tt_do (st_slice c base) s)
   }"
| "sema_resolve_type n (Some (TYPE_OPTIONAL loc child)) s = do {
     (base, s) \<leftarrow> sema_resolve_type n child s;
     Some (tt_do (st_optional base) s)
   }"
| "sema_resolve_type n (Some (TYPE_ERROR_UNION loc e sc)) s = do {
     (err, s) \<leftarrow> sema_resolve_type n e s;
     (succ, s) \<leftarrow> sema_resolve_type n sc s;
     s \<leftarrow> check_error_union e sc err succ s;
     Some (tt_do (st_error_union succ err) s)
   }"
| "sema_resolve_type n (Some (TYPE_FUNCTION loc ps r)) s = do {
     (params, s) \<leftarrow> sema_resolve_types n ps s;
     (ret, s) \<leftarrow> sema_resolve_type n r s;
     Some (tt_do (st_function params ret False) s)
   }"
| "sema_resolve_type n (Some (TYPE_ARRAY loc len elem)) s = do {
     (sz, s) \<leftarrow> sema_eval_const_expr n len s;
     (base, s) \<leftarrow> sema_resolve_type n elem s;
     Some (tt_do (st_array sz base) s)
   }"
| "sema_resolve_types n [] s = Some ([], s)"
| "sema_resolve_types n (t # ts) s = do {
     (p, s) \<leftarrow> sema_resolve_type n t s;
     (ps, s) \<leftarrow> sema_resolve_types n ts s;
     Some (p # ps, s)
   }"

section \<open>Steps of expression checking\<close>

text \<open>
  The parts of the cases of \<^verbatim>\<open>sema_check_expr\<close> that come after its recursive calls. Each
  gets the types of the operands and ends by setting the type of the node.
\<close>

definition typed_tt :: "nat \<Rightarrow> (type_table \<Rightarrow> sptr \<times> type_table) \<Rightarrow> sema \<Rightarrow> sptr \<times> sema" where
  "typed_tt i f s = (let (t, s) = tt_do f s in typed i t s)"

text \<open>A report after which the node has the type void.\<close>

definition void_error :: "nat \<Rightarrow> source_location \<Rightarrow> string \<Rightarrow> sema \<Rightarrow> sptr \<times> sema" where
  "void_error i loc msg s = typed_tt i st_void (sema_report loc msg s)"

definition st_string :: "type_table \<Rightarrow> sptr \<times> type_table" where
  "st_string tt = (let (c, tt) = st_int False 8 tt in st_slice True c tt)"

definition check_identifier :: "nat \<Rightarrow> source_location \<Rightarrow> string_view \<Rightarrow> sptr check" where
  "check_identifier i loc name s =
    (if sv_eq_cstr name ''self'' \<and> sm_self_type s = None
     then
       let (t, s) = void_error i loc (quoted ''self'' @ '' can only be used inside methods'') s
       in Some (t, s\<lparr>sm_sym_of := (sm_sym_of s)(i := None)\<rparr>)
     else do {
       y \<leftarrow> scope_lookup (sm_syms s) (Some (sm_current_scope s)) name;
       case y of
         None \<Rightarrow>
           let (t, s) = void_error i loc (''use of undeclared identifier '' @ quoted name) s
           in Some (t, s\<lparr>sm_sym_of := (sm_sym_of s)(i := None)\<rparr>)
       | Some y \<Rightarrow>
           let s = s\<lparr>sm_sym_of := (sm_sym_of s)(i := Some y)\<rparr>
           in Some (case sym_type (symbol_at s y) of
               Some t \<Rightarrow> typed i t s
             | None \<Rightarrow> typed_tt i st_void s)
     })"

definition is_arithmetic_op :: "token_kind \<Rightarrow> bool" where
  "is_arithmetic_op op \<longleftrightarrow> op = TOK_PLUS \<or> op = TOK_MINUS \<or> op = TOK_STAR \<or> op = TOK_SLASH
     \<or> op = TOK_PERCENT"

definition is_comparison_op :: "token_kind \<Rightarrow> bool" where
  "is_comparison_op op \<longleftrightarrow> op = TOK_EQ \<or> op = TOK_NE \<or> op = TOK_LT \<or> op = TOK_GT \<or> op = TOK_LE
     \<or> op = TOK_GE"

definition is_bitwise_op :: "token_kind \<Rightarrow> bool" where
  "is_bitwise_op op \<longleftrightarrow> op = TOK_AMPERSAND \<or> op = TOK_PIPE \<or> op = TOK_CARET \<or> op = TOK_SHL
     \<or> op = TOK_SHR"

definition check_binary ::
    "nat \<Rightarrow> source_location \<Rightarrow> token_kind \<Rightarrow> sptr \<Rightarrow> sptr \<Rightarrow> sema \<Rightarrow> sptr \<times> sema" where
  "check_binary i loc op l r s =
    (if is_arithmetic_op op
     then
       if \<not> st_is_numeric (sm_types s) l \<or> \<not> st_is_numeric (sm_types s) r
       then void_error i loc ''invalid operands to arithmetic expression'' s
       else if is_float_body (tbody s l) \<or> is_float_body (tbody s r)
       then typed_tt i (st_float 64) s
       else typed i l s
     else if is_comparison_op op then typed_tt i st_bool s
     else if op = TOK_AND_AND \<or> op = TOK_OR_OR
     then typed_tt i st_bool
       (if \<not> is_bool_body (tbody s l) \<or> \<not> is_bool_body (tbody s r)
        then sema_report loc ''logical operators require boolean operands'' s else s)
     else if is_bitwise_op op
     then typed i l
       (if \<not> st_is_integer (sm_types s) l \<or> \<not> st_is_integer (sm_types s) r
        then sema_report loc ''bitwise operators require integer operands'' s else s)
     else typed i l s)"

definition m_raw_deref :: string where
  "m_raw_deref = ''dereferencing raw pointer requires '' @ quoted ''unsafe'' @ '' context''"

definition check_unary :: "nat \<Rightarrow> source_location \<Rightarrow> token_kind \<Rightarrow> sptr \<Rightarrow> sema \<Rightarrow> sptr \<times> sema" where
  "check_unary i loc op t s =
    (if op = TOK_MINUS \<or> op = TOK_TILDE
     then typed i t
       (if \<not> st_is_numeric (sm_types s) t
        then sema_report loc ''invalid operand to unary operator'' s else s)
     else if op = TOK_BANG
     then typed_tt i st_bool
       (if \<not> is_bool_body (tbody s t)
        then sema_report loc ''logical not requires boolean operand'' s else s)
     else if op = TOK_STAR
     then
       (case tbody s t of
          ST_POINTER _ base \<Rightarrow>
            typed i base (if \<not> sm_in_unsafe s then sema_report loc m_raw_deref s else s)
        | ST_REFERENCE _ base \<Rightarrow> typed i base s
        | _ \<Rightarrow> void_error i loc ''cannot dereference non-pointer type'' s)
     else if op = TOK_AMPERSAND then typed_tt i (st_reference False t) s
     else typed i t s)"

definition m_arg_count :: "nat \<Rightarrow> nat \<Rightarrow> string" where
  "m_arg_count expected got = ''function expects '' @ show_nat expected @ '' argument(s), got ''
     @ show_nat got"

definition m_argument :: "nat \<Rightarrow> string \<Rightarrow> string \<Rightarrow> string" where
  "m_argument k param arg = ''argument '' @ show_nat k @ '': expected '' @ quoted param
     @ '', found '' @ quoted arg"

text \<open>An argument of type \<open>arg\<close> for a parameter of type \<open>param\<close>.\<close>

definition check_argument :: "source_location \<Rightarrow> nat \<Rightarrow> sptr \<Rightarrow> sptr \<Rightarrow> step" where
  "check_argument loc k param arg s = do {
     ok \<leftarrow> st_can_coerce (sm_types s) arg param;
     if ok then Some s
     else do {
       pn \<leftarrow> st_name (sm_types s) param;
       an \<leftarrow> st_name (sm_types s) arg;
       Some (sema_report loc (m_argument k pn an) s)
     }
   }"

definition m_try_type :: "string \<Rightarrow> string" where
  "m_try_type name = quoted ''try'' @ '' requires error union type, got '' @ quoted name"

definition m_try_function :: string where
  "m_try_function = quoted ''try''
     @ '' can only propagate errors when enclosing function returns an error union''"

definition m_try_propagate :: "string \<Rightarrow> string \<Rightarrow> string" where
  "m_try_propagate e f = ''cannot propagate error '' @ quoted e @ '' into function returning ''
     @ quoted f"

definition check_try :: "nat \<Rightarrow> source_location \<Rightarrow> sptr \<Rightarrow> sptr check" where
  "check_try i loc inner s =
    (case tbody s inner of
       ST_ERROR_UNION succ err \<Rightarrow> do {
         s \<leftarrow> (case sm_fn_return_type s of
             None \<Rightarrow> Some (sema_report loc m_try_function s)
           | Some fr \<Rightarrow>
               (case tbody s fr of
                  ST_ERROR_UNION _ fn_err \<Rightarrow> do {
                    ok \<leftarrow> st_can_coerce (sm_types s) err fn_err;
                    if ok then Some s
                    else do {
                      en \<leftarrow> st_name (sm_types s) err;
                      fname \<leftarrow> st_name (sm_types s) fr;
                      Some (sema_report loc (m_try_propagate en fname) s)
                    }
                  }
                | _ \<Rightarrow> Some (sema_report loc m_try_function s)));
         Some (typed i succ s)
       }
     | _ \<Rightarrow> do {
         name \<leftarrow> st_name (sm_types s) inner;
         Some (typed i inner (sema_report loc (m_try_type name) s))
       })"

text \<open>
  The fields of the declaration a type name stands for, \<open>Some None\<close> for none. A union is built and
  parsed through the member \<^verbatim>\<open>struct_decl\<close> of the node and read here through the member
  \<^verbatim>\<open>union_decl\<close>, whose field list lies over the generic parameters.
\<close>

definition struct_name :: "stype_body \<Rightarrow> string_view option" where
  "struct_name b =
    (case b of ST_STRUCT n _ _ _ \<Rightarrow> Some n | ST_UNION n _ _ \<Rightarrow> Some n | _ \<Rightarrow> None)"

definition decl_fields :: "symbol \<Rightarrow> node list option" where
  "decl_fields y =
    (if sym_kind y = SYM_STRUCT \<or> sym_kind y = SYM_UNION
     then case sym_decl y of
        None \<Rightarrow> None
      | Some d \<Rightarrow> (case n_body d of
           Decl (AST_STRUCT_DECL _ _ _ fs _) \<Rightarrow> Some fs
         | Decl (AST_UNION_DECL _ _ gps _ _) \<Rightarrow> Some gps
         | _ \<Rightarrow> None)
     else None)"

definition sema_get_type_fields :: "sema \<Rightarrow> sptr \<Rightarrow> node list option option" where
  "sema_get_type_fields s t =
    (case struct_name (tbody s t) of
       None \<Rightarrow> Some None
     | Some name \<Rightarrow> do {
         y \<leftarrow> scope_lookup (sm_syms s) (Some (sm_module_scope s)) name;
         Some (case y of None \<Rightarrow> None | Some y \<Rightarrow> decl_fields (symbol_at s y))
       })"

text \<open>
  The first field of that name, with the type expression of its declaration. A generic parameter
  read as a field has its name; the pointer to its type lies over the number of its constraints.
\<close>

definition field_view :: "node \<Rightarrow> (string_view \<times> type_expr option option) option" where
  "field_view f =
    (case n_body f of
       Decl (AST_FIELD_DECL fname _ ty _ _) \<Rightarrow> Some (fname, Some ty)
     | Decl (AST_GENERIC_PARAM_DECL gname constraints) \<Rightarrow>
         Some (gname, if constraints = [] then Some None else None)
     | _ \<Rightarrow> None)"

fun find_field :: "node list \<Rightarrow> string_view \<Rightarrow> type_expr option option option" where
  "find_field [] name = Some None"
| "find_field (f # fs) name = do {
     (fname, ty) \<leftarrow> field_view f;
     if sv_eq fname name then do { ty \<leftarrow> ty; Some (Some ty) } else find_field fs name
   }"

definition pointee :: "stype_body \<Rightarrow> sptr \<Rightarrow> sptr" where
  "pointee b t = (case b of ST_POINTER _ base \<Rightarrow> base | ST_REFERENCE _ base \<Rightarrow> base | _ \<Rightarrow> t)"

definition m_no_field :: "string \<Rightarrow> string \<Rightarrow> string" where
  "m_no_field name field = ''struct '' @ quoted name @ '' has no field '' @ quoted field"

definition check_struct_field ::
    "nat \<Rightarrow> nat \<Rightarrow> source_location \<Rightarrow> string_view \<Rightarrow> sptr \<Rightarrow> sptr check" where
  "check_struct_field n i loc fname base s = do {
     let st = pointee (tbody s base) base;
     fs \<leftarrow> sema_get_type_fields s st;
     case fs of
       None \<Rightarrow> do {
         name \<leftarrow> st_name (sm_types s) base;
         Some (void_error i loc (''field access on non-struct type '' @ quoted name) s)
       }
     | Some fs \<Rightarrow> do {
         f \<leftarrow> find_field fs fname;
         case f of
           Some ty \<Rightarrow> do { (t, s) \<leftarrow> sema_resolve_type n ty s; Some (typed i t s) }
         | None \<Rightarrow> do {
             name \<leftarrow> st_name (sm_types s) st;
             Some (void_error i loc (m_no_field name fname) s)
           }
       }
   }"

definition check_field_access ::
    "nat \<Rightarrow> nat \<Rightarrow> source_location \<Rightarrow> string_view \<Rightarrow> sptr \<Rightarrow> sptr check" where
  "check_field_access n i loc fname base s =
    (case tbody s base of
       ST_SLICE _ elem \<Rightarrow>
         if sv_eq_cstr fname ''ptr'' then Some (typed_tt i (st_pointer False elem) s)
         else if sv_eq_cstr fname ''len'' then Some (typed_tt i (st_int False 64) s)
         else check_struct_field n i loc fname base s
     | _ \<Rightarrow> check_struct_field n i loc fname base s)"

definition check_index :: "nat \<Rightarrow> sptr \<Rightarrow> sema \<Rightarrow> sptr \<times> sema" where
  "check_index i obj s =
    (case tbody s obj of
       ST_ARRAY _ base \<Rightarrow> typed i base s
     | ST_SLICE _ base \<Rightarrow> typed i base s
     | _ \<Rightarrow> typed_tt i st_void s)"

definition m_element :: "nat \<Rightarrow> string \<Rightarrow> string \<Rightarrow> string" where
  "m_element k expected found = ''array element '' @ show_nat k @ '': expected '' @ quoted expected
     @ '', found '' @ quoted found"

text \<open>The type of the elements so far, after element \<open>k\<close> of type \<open>t\<close>.\<close>

definition join_element ::
    "source_location \<Rightarrow> nat \<Rightarrow> sptr option \<Rightarrow> sptr \<Rightarrow> sema \<Rightarrow> (sptr option \<times> sema) option" where
  "join_element loc k elem t s =
    (case elem of
       None \<Rightarrow> Some (Some t, s)
     | Some e \<Rightarrow>
        if st_eq e t then Some (Some e, s)
        else do {
          ok \<leftarrow> st_can_coerce (sm_types s) t e;
          if ok then Some (Some e, s)
          else do {
            ok \<leftarrow> st_can_coerce (sm_types s) e t;
            if ok then Some (Some t, s)
            else do {
              en \<leftarrow> st_name (sm_types s) e;
              tn \<leftarrow> st_name (sm_types s) t;
              Some (Some e, sema_report loc (m_element k en tn) s)
            }
          }
        })"

definition check_array ::
    "nat \<Rightarrow> nat \<Rightarrow> source_location \<Rightarrow> type_expr option \<Rightarrow> node option \<Rightarrow> sptr option \<Rightarrow> sptr check"
where
  "check_array n i loc explicit len elem s = do {
     (elem, s) \<leftarrow> (case explicit of
         None \<Rightarrow> Some (elem, s)
       | Some te \<Rightarrow> do {
           (ex, s) \<leftarrow> sema_resolve_type n (Some te) s;
           s \<leftarrow> (case elem of
               None \<Rightarrow> Some s
             | Some e \<Rightarrow> do {
                 ok \<leftarrow> st_can_coerce (sm_types s) e ex;
                 if ok then Some s
                 else do {
                   xn \<leftarrow> st_name (sm_types s) ex;
                   en \<leftarrow> st_name (sm_types s) e;
                   Some (sema_report loc (''cannot initialize array of '' @ quoted xn @ '' with ''
                     @ quoted en) s)
                 }
               });
           Some (Some ex, s)
         });
     let (elem, s) = (case elem of Some e \<Rightarrow> (e, s) | None \<Rightarrow> tt_do st_void s);
     case len of
       Some l \<Rightarrow> do {
         (sz, s) \<leftarrow> sema_eval_const_expr n (Some l) s;
         Some (typed_tt i (st_array sz elem) s)
       }
     | None \<Rightarrow> Some (typed_tt i (st_slice False elem) s)
   }"

definition m_field_type :: "string \<Rightarrow> string \<Rightarrow> string \<Rightarrow> string" where
  "m_field_type name expected got = ''field '' @ quoted name @ '' expects '' @ quoted expected
     @ '', got '' @ quoted got"

text \<open>One initializer of a structure literal, with the type of its value.\<close>

definition check_field_init ::
    "nat \<Rightarrow> source_location \<Rightarrow> sptr \<Rightarrow> node list option \<Rightarrow> string_view \<Rightarrow> sptr \<Rightarrow> step" where
  "check_field_init n loc st fs fname fval s = do {
     fs \<leftarrow> fs;
     f \<leftarrow> find_field fs fname;
     case f of
       Some ty \<Rightarrow> do {
         (ftype, s) \<leftarrow> sema_resolve_type n ty s;
         ok \<leftarrow> st_can_coerce (sm_types s) fval ftype;
         if ok then Some s
         else do {
           tn \<leftarrow> st_name (sm_types s) ftype;
           vn \<leftarrow> st_name (sm_types s) fval;
           Some (sema_report loc (m_field_type fname tn vn) s)
         }
       }
     | None \<Rightarrow> do {
         name \<leftarrow> st_name (sm_types s) st;
         Some (sema_report loc (m_no_field name fname) s)
       }
   }"

text \<open>The types of the parameters of a function declaration, and its function type.\<close>

fun param_types :: "node list \<Rightarrow> type_expr option list option" where
  "param_types [] = Some []"
| "param_types (p # ps) =
    (case n_body p of
       Decl (AST_PARAM_DECL _ ty _ _ _) \<Rightarrow> do { ts \<leftarrow> param_types ps; Some (ty # ts) }
     | _ \<Rightarrow> None)"

definition sema_make_fn_type :: "nat \<Rightarrow> node \<Rightarrow> sptr check" where
  "sema_make_fn_type n fn s =
    (case n_body fn of
       Decl (AST_FN_DECL _ _ _ _ _ _ _ params ret _ _) \<Rightarrow> do {
         ts \<leftarrow> param_types params;
         (ps, s) \<leftarrow> sema_resolve_types n ts s;
         (r, s) \<leftarrow> sema_resolve_type n ret s;
         Some (tt_do (st_function ps r False) s)
       }
     | _ \<Rightarrow> None)"

definition m_receiver :: "string \<Rightarrow> string \<Rightarrow> string \<Rightarrow> string" where
  "m_receiver name expected found = ''method '' @ quoted name @ '' expects receiver of type ''
     @ quoted expected @ '', found '' @ quoted found"

definition m_method_args :: "string \<Rightarrow> nat \<Rightarrow> nat \<Rightarrow> string" where
  "m_method_args name expected got = ''method '' @ quoted name @ '' expects '' @ show_nat expected
     @ '' argument(s) (including self), got '' @ show_nat got"

text \<open>
  The first half of a method call, up to the check of the receiver: the types of the parameters
  and of the result of the method, or \<open>Inl\<close> when the call was rejected.
\<close>

definition check_receiver ::
    "nat \<Rightarrow> nat \<Rightarrow> source_location \<Rightarrow> string_view \<Rightarrow> sptr \<Rightarrow> (sptr + sptr list \<times> sptr) check" where
  "check_receiver n i loc mname recv s = do {
     let concrete = pointee (tbody s recv) recv;
     ty \<leftarrow> sema_type_name_for_method (sm_types s) concrete;
     if length ty = 0
     then do {
       rn \<leftarrow> st_name (sm_types s) recv;
       let (t, s) = void_error i loc (''cannot call method on type '' @ quoted rn) s;
       Some (Inl t, s)
     }
     else case method_table_lookup (sm_methods s) ty mname of
       None \<Rightarrow>
         let (t, s) = void_error i loc (''no method '' @ quoted mname @ '' on type '' @ quoted ty) s
         in Some (Inl t, s)
     | Some meth \<Rightarrow> do {
         let prev_self = sm_self_type s;
         (ft, s) \<leftarrow> sema_make_fn_type n meth (s\<lparr>sm_self_type := Some concrete\<rparr>);
         let s = s\<lparr>sm_self_type := prev_self\<rparr>;
         case tbody s ft of
           ST_FUNCTION params ret _ \<Rightarrow>
             (case params of
                [] \<Rightarrow>
                  let (t, s) = void_error i loc
                        (''method '' @ quoted mname @ '' has no '' @ quoted ''self'' @ '' parameter'') s
                  in Some (Inl t, s)
              | self_param # _ \<Rightarrow> do {
                  ok \<leftarrow> (if st_eq recv self_param then Some True
                    else st_can_coerce (sm_types s) recv self_param);
                  s \<leftarrow> (if ok then Some s
                    else do {
                      pn \<leftarrow> st_name (sm_types s) self_param;
                      rn \<leftarrow> st_name (sm_types s) recv;
                      Some (sema_report loc (m_receiver mname pn rn) s)
                    });
                  Some (Inr (params, ret), s)
                })
         | _ \<Rightarrow> let (t, s) = typed_tt i st_void s in Some (Inl t, s)
       }
   }"

definition m_capture_type :: "string \<Rightarrow> string" where
  "m_capture_type name = quoted ''try else'' @ '' requires error union type, got '' @ quoted name"

definition m_fallback :: "string \<Rightarrow> string \<Rightarrow> string" where
  "m_fallback found expected = quoted ''try else'' @ '' fallback produces '' @ quoted found
     @ '', expected '' @ quoted expected @ '' or diverging block''"

text \<open>The end of \<^verbatim>\<open>try ... else\<close>, after its fallback block of type \<open>fb\<close>.\<close>

definition check_fallback ::
    "nat \<Rightarrow> source_location \<Rightarrow> node option \<Rightarrow> sptr \<Rightarrow> sptr \<Rightarrow> sptr check" where
  "check_fallback i loc fallback succ fb s = do {
     s \<leftarrow> (if block_diverges s fallback then Some s
       else do {
         ok \<leftarrow> st_can_coerce (sm_types s) fb succ;
         if ok then Some s
         else do {
           bn \<leftarrow> st_name (sm_types s) fb;
           sn \<leftarrow> st_name (sm_types s) succ;
           Some (sema_report loc (m_fallback bn sn) s)
         }
       });
     Some (typed i succ s)
   }"

section \<open>Steps of statement checking\<close>

definition m_init :: "string \<Rightarrow> string \<Rightarrow> string \<Rightarrow> string" where
  "m_init name ty found = ''cannot initialize variable '' @ quoted name @ '' of type '' @ quoted ty
     @ '' with '' @ quoted found"

text \<open>A local declaration after its initializer, of type \<open>init_type\<close>, was checked.\<close>

definition check_var_decl :: "nat \<Rightarrow> node \<Rightarrow> symbol_kind \<Rightarrow> string_view \<Rightarrow> type_expr option \<Rightarrow>
    node option \<Rightarrow> sptr \<Rightarrow> sptr check" where
  "check_var_decl n node kind name ty ini init_type s = do {
     (decl_type, s) \<leftarrow> (case ty of
         None \<Rightarrow> Some (init_type, s)
       | Some te \<Rightarrow> do {
           (dt, s) \<leftarrow> sema_resolve_type n (Some te) s;
           ok \<leftarrow> (if ini = None then Some True else st_can_coerce (sm_types s) init_type dt);
           if ok then Some (dt, s)
           else do {
             dn \<leftarrow> st_name (sm_types s) dt;
             tn \<leftarrow> st_name (sm_types s) init_type;
             Some (dt, sema_report (n_loc node) (m_init name dn tn) s)
           }
         });
     Some (tt_do st_void (declare_in (sm_current_scope s) kind name (Some decl_type) (Some node) s))
   }"

definition m_return :: "string \<Rightarrow> string \<Rightarrow> string" where
  "m_return found expected = ''cannot return '' @ quoted found @ '' from function returning ''
     @ quoted expected"

definition m_return_mismatch :: "string \<Rightarrow> string \<Rightarrow> string" where
  "m_return_mismatch expected found = ''return type mismatch: expected '' @ quoted expected
     @ '', found '' @ quoted found"

definition set_error_return :: "nat \<Rightarrow> bool \<Rightarrow> sema \<Rightarrow> sema" where
  "set_error_return i b s = s\<lparr>sm_error_return := (sm_error_return s)(i := b)\<rparr>"

text \<open>A return statement whose value has type \<open>ret\<close>, checked without a new error.\<close>

definition check_return :: "nat \<Rightarrow> source_location \<Rightarrow> sptr \<Rightarrow> sptr \<Rightarrow> step" where
  "check_return i loc ret expected s =
    (case tbody s expected of
       ST_ERROR_UNION succ err \<Rightarrow>
         if is_error_union_body (tbody s ret) \<and> st_eq ret expected
         then Some (set_error_return i True s)
         else do {
           ok \<leftarrow> st_can_coerce (sm_types s) ret err;
           if ok then Some (set_error_return i True s)
           else do {
             ok \<leftarrow> st_can_coerce (sm_types s) ret succ;
             if ok then Some (set_error_return i False s)
             else do {
               rn \<leftarrow> st_name (sm_types s) ret;
               en \<leftarrow> st_name (sm_types s) expected;
               Some (sema_report loc (m_return rn en) s)
             }
           }
         }
     | _ \<Rightarrow> do {
         ok \<leftarrow> st_can_coerce (sm_types s) ret expected;
         if ok then Some s
         else do {
           en \<leftarrow> st_name (sm_types s) expected;
           rn \<leftarrow> st_name (sm_types s) ret;
           Some (sema_report loc (m_return_mismatch en rn) s)
         }
       })"

text \<open>The condition of an \<open>if\<close> or a \<open>while\<close>; a missing one has no location to report at.\<close>

definition check_condition :: "node option \<Rightarrow> string \<Rightarrow> sptr \<Rightarrow> step" where
  "check_condition condition msg t s =
    (if is_bool_body (tbody s t) then Some s
     else do { c \<leftarrow> condition; Some (sema_report (n_loc c) msg s) })"

definition m_assign_const :: "string \<Rightarrow> string" where
  "m_assign_const name = ''cannot assign to constant '' @ quoted name"

definition check_assign :: "source_location \<Rightarrow> node option \<Rightarrow> sptr \<Rightarrow> sptr \<Rightarrow> step" where
  "check_assign loc lhs lt rt s = do {
     l \<leftarrow> lhs;
     let s = (case n_body l of
         Expr (AST_IDENTIFIER _) \<Rightarrow>
           (case sm_sym_of s (n_id l) of
              Some y \<Rightarrow>
                if sym_kind (symbol_at s y) = SYM_CONST
                then sema_report loc (m_assign_const (sym_name (symbol_at s y))) s else s
            | None \<Rightarrow> s)
       | _ \<Rightarrow> s);
     ok \<leftarrow> st_can_coerce (sm_types s) rt lt;
     if ok then Some s
     else do {
       rn \<leftarrow> st_name (sm_types s) rt;
       ln \<leftarrow> st_name (sm_types s) lt;
       Some (sema_report loc (''cannot assign '' @ quoted rn @ '' to '' @ quoted ln) s)
     }
   }"

definition m_errdefer :: string where
  "m_errdefer = quoted ''errdefer'' @ '' only valid in functions returning error unions''"

definition check_errdefer :: "source_location \<Rightarrow> sema \<Rightarrow> sema" where
  "check_errdefer loc s =
    (case sm_fn_return_type s of
       None \<Rightarrow> sema_report loc m_errdefer s
     | Some t \<Rightarrow> if is_error_union_body (tbody s t) then s else sema_report loc m_errdefer s)"

section \<open>Expressions, statements, blocks\<close>

text \<open>
  The three functions that call each other are reached through a record. \<open>n\<close> is the fuel of the
  constant expressions. \<^verbatim>\<open>sema_check_block\<close> reads the members of a block from any node it
  gets (\<open>block_members\<close>).
\<close>

record checkers =
  ck_expr :: "node option \<Rightarrow> sptr check"
  ck_stmt :: "node \<Rightarrow> sptr check"
  ck_block :: "node option \<Rightarrow> sptr check"

definition m_literal_fields :: "string \<Rightarrow> string" where
  "m_literal_fields name = ''cannot resolve fields for type '' @ quoted name"

primrec check_args :: "checkers \<Rightarrow> nat \<Rightarrow> node list \<Rightarrow> sptr list \<Rightarrow> step" where
  "check_args C k [] params s = Some s"
| "check_args C k (a # args) params s = do {
     (t, s) \<leftarrow> ck_expr C (Some a) s;
     s \<leftarrow> check_argument (n_loc a) k (hd params) t s;
     check_args C (Suc k) args (tl params) s
   }"

primrec check_elements :: "checkers \<Rightarrow> nat \<Rightarrow> sptr option \<Rightarrow> node list \<Rightarrow> sema \<Rightarrow>
    (sptr option \<times> sema) option" where
  "check_elements C k elem [] s = Some (elem, s)"
| "check_elements C k elem (e # es) s = do {
     (t, s) \<leftarrow> ck_expr C (Some e) s;
     (elem, s) \<leftarrow> join_element (n_loc e) k elem t s;
     check_elements C (Suc k) elem es s
   }"

definition check_one_init ::
    "nat \<Rightarrow> checkers \<Rightarrow> sptr \<Rightarrow> node list option \<Rightarrow> node \<Rightarrow> step" where
  "check_one_init n C st fs f s =
    (case n_body f of
       Stmt (AST_ASSIGN_STMT _ lhs rhs) \<Rightarrow> do {
         l \<leftarrow> lhs;
         (case n_body l of
            Expr (AST_IDENTIFIER fname) \<Rightarrow> do {
              (fval, s) \<leftarrow> ck_expr C rhs s;
              check_field_init n (n_loc f) st fs fname fval s
            }
          | _ \<Rightarrow> Some (sema_report (n_loc f) ''invalid struct field initializer'' s))
       }
     | _ \<Rightarrow> Some (sema_report (n_loc f) ''invalid struct field initializer'' s))"

primrec check_field_inits :: "nat \<Rightarrow> checkers \<Rightarrow> sptr \<Rightarrow> node list option \<Rightarrow> node list \<Rightarrow> step" where
  "check_field_inits n C st fs [] s = Some s"
| "check_field_inits n C st fs (f # inits) s = do {
     s \<leftarrow> check_one_init n C st fs f s;
     check_field_inits n C st fs inits s
   }"

text \<open>
  The operand of the \<^verbatim>\<open>try\<close> under a \<^verbatim>\<open>try ... else\<close>, checked; \<open>None\<close> is the result when the
  node is no \<^verbatim>\<open>try\<close>.
\<close>

definition check_try_operand :: "checkers \<Rightarrow> node option \<Rightarrow> sptr option check" where
  "check_try_operand C node s = do {
     e \<leftarrow> node;
     (case n_body e of
        Expr (AST_TRY_EXPR e) \<Rightarrow> do {
          (t, s) \<leftarrow> ck_expr C e s;
          Some (Some t, s)
        }
      | _ \<Rightarrow> Some (None, s))
   }"

definition check_node :: "nat \<Rightarrow> checkers \<Rightarrow> node \<Rightarrow> sptr check" where
  "check_node n C node s =
    (let i = n_id node; loc = n_loc node in
     case n_body node of
       Expr (AST_INT_LITERAL _) \<Rightarrow> Some (typed_tt i (st_int True 64) s)
     | Expr (AST_FLOAT_LITERAL _) \<Rightarrow> Some (typed_tt i (st_float 64) s)
     | Expr (AST_STRING_LITERAL _) \<Rightarrow> Some (typed_tt i st_string s)
     | Expr (AST_CHAR_LITERAL _) \<Rightarrow> Some (typed_tt i (st_int False 8) s)
     | Expr (AST_BOOL_LITERAL _) \<Rightarrow> Some (typed_tt i st_bool s)
     | Expr (AST_IDENTIFIER name) \<Rightarrow> check_identifier i loc name s
     | Expr (AST_BINARY_EXPR op left right) \<Rightarrow> do {
         (l, s) \<leftarrow> ck_expr C left s;
         (r, s) \<leftarrow> ck_expr C right s;
         Some (check_binary i loc op l r s)
       }
     | Expr (AST_UNARY_EXPR op operand) \<Rightarrow> do {
         (t, s) \<leftarrow> ck_expr C operand s;
         Some (check_unary i loc op t s)
       }
     | Expr (AST_CALL_EXPR callee args) \<Rightarrow> do {
         (c, s) \<leftarrow> ck_expr C callee s;
         (case tbody s c of
            ST_FUNCTION params ret _ \<Rightarrow>
              if length args \<noteq> length params
              then Some (typed i ret (sema_report loc (m_arg_count (length params) (length args)) s))
              else do {
                s \<leftarrow> check_args C 1 args params s;
                Some (typed i ret s)
              }
          | _ \<Rightarrow> Some (void_error i loc ''called object is not a function'' s))
       }
     | Expr (AST_CAST_EXPR e ty) \<Rightarrow> do {
         (t, s) \<leftarrow> sema_resolve_type n ty s;
         (_, s) \<leftarrow> ck_expr C e s;
         Some (typed i t s)
       }
     | Expr (AST_TRY_EXPR e) \<Rightarrow> do {
         (inner, s) \<leftarrow> ck_expr C e s;
         check_try i loc inner s
       }
     | Expr (AST_UNSAFE_BLOCK_EXPR body) \<Rightarrow> do {
         let prev = sm_in_unsafe s;
         (t, s) \<leftarrow> ck_block C body (s\<lparr>sm_in_unsafe := True\<rparr>);
         Some (typed i t (s\<lparr>sm_in_unsafe := prev\<rparr>))
       }
     | Expr (AST_FIELD_ACCESS_EXPR obj fname) \<Rightarrow> do {
         (base, s) \<leftarrow> ck_expr C obj s;
         check_field_access n i loc fname base s
       }
     | Expr (AST_INDEX_EXPR obj idx) \<Rightarrow> do {
         (t, s) \<leftarrow> ck_expr C obj s;
         (_, s) \<leftarrow> ck_expr C idx s;
         Some (check_index i t s)
       }
     | Expr (AST_SLICE_EXPR obj lo hi) \<Rightarrow> do {
         (_, s) \<leftarrow> ck_expr C obj s;
         s \<leftarrow> (if lo = None then Some s else do { (_, s) \<leftarrow> ck_expr C lo s; Some s });
         s \<leftarrow> (if hi = None then Some s else do { (_, s) \<leftarrow> ck_expr C hi s; Some s });
         Some (typed_tt i st_void s)
       }
     | Expr (AST_ARRAY_LITERAL explicit len elems _) \<Rightarrow> do {
         (elem, s) \<leftarrow> check_elements C 1 None elems s;
         check_array n i loc explicit len elem s
       }
     | Expr (AST_STRUCT_LITERAL ty inits) \<Rightarrow> do {
         (st, s) \<leftarrow> sema_resolve_type n ty s;
         let (st, s) = typed i st s;
         fs \<leftarrow> sema_get_type_fields s st;
         if fs = None \<and> ty \<noteq> None
         then do {
           name \<leftarrow> st_name (sm_types s) st;
           Some (st, sema_report loc (m_literal_fields name) s)
         }
         else do {
           s \<leftarrow> check_field_inits n C st fs inits s;
           Some (st, s)
         }
       }
     | Expr (AST_METHOD_CALL_EXPR receiver mname args) \<Rightarrow> do {
         (recv, s) \<leftarrow> ck_expr C receiver s;
         (r, s) \<leftarrow> check_receiver n i loc mname recv s;
         (case r of
            Inl t \<Rightarrow> Some (t, s)
          | Inr (params, ret) \<Rightarrow>
              if length args + 1 \<noteq> length params
              then Some (typed i ret
                (sema_report loc (m_method_args mname (length params) (length args + 1)) s))
              else do {
                s \<leftarrow> check_args C 1 args (tl params) s;
                Some (typed i ret s)
              })
       }
     | Expr (AST_MATCH_ARM _ e) \<Rightarrow> do {
         (t, s) \<leftarrow> ck_expr C e s;
         Some (typed i t s)
       }
     | Expr (AST_ERROR_CAPTURE_EXPR e err_name fallback) \<Rightarrow> do {
         (inner, s) \<leftarrow> check_try_operand C e s;
         (case inner of
            None \<Rightarrow>
              Some (void_error i loc ''internal error: try else without try expression'' s)
          | Some inner \<Rightarrow>
              (case tbody s inner of
                 ST_ERROR_UNION succ err \<Rightarrow> do {
                   let prev = sm_current_scope s;
                   let (sc, s) = open_scope (Some node) s;
                   let s = declare_in sc SYM_VAR err_name (Some err) (Some node) s;
                   (fb, s) \<leftarrow> ck_block C fallback (s\<lparr>sm_current_scope := sc\<rparr>);
                   check_fallback i loc fallback succ fb (s\<lparr>sm_current_scope := prev\<rparr>)
                 }
               | _ \<Rightarrow> do {
                   name \<leftarrow> st_name (sm_types s) inner;
                   Some (typed i inner (sema_report loc (m_capture_type name) s))
                 }))
       }
     | _ \<Rightarrow> Some (typed_tt i st_void s))"

definition sema_check_expr :: "nat \<Rightarrow> checkers \<Rightarrow> node option \<Rightarrow> sptr check" where
  "sema_check_expr n C expr s =
    (case expr of None \<Rightarrow> Some (tt_do st_void s) | Some e \<Rightarrow> check_node n C e s)"

primrec check_stmts :: "checkers \<Rightarrow> sptr \<Rightarrow> node list \<Rightarrow> sptr check" where
  "check_stmts C last_type [] s = Some (last_type, s)"
| "check_stmts C last_type (st # sts) s = do {
     (t, s) \<leftarrow> ck_stmt C st s;
     check_stmts C t sts s
   }"

text \<open>
  The statements and the trailing expression as they lie in the union of a node. A block has them. An
  \<^verbatim>\<open>if\<close> node, which the parser stores for an \<^verbatim>\<open>else if\<close>, has its second block where the number of
  statements is read, and zero where the trailing expression is: without that block it reads as an
  empty block, with it the number is an address and the condition is taken for the array.
\<close>

definition block_members :: "node \<Rightarrow> (node list \<times> node option) option" where
  "block_members node =
    (case n_body node of
       Stmt (AST_BLOCK stmts trailing) \<Rightarrow> Some (stmts, trailing)
     | Stmt (AST_IF_STMT _ None _) \<Rightarrow> Some ([], None)
     | _ \<Rightarrow> None)"

definition sema_check_block :: "checkers \<Rightarrow> node option \<Rightarrow> sptr check" where
  "sema_check_block C block s =
    (case block of
       None \<Rightarrow> Some (tt_do st_void s)
     | Some node \<Rightarrow> do {
         (stmts, trailing) \<leftarrow> block_members node;
         let prev = sm_current_scope s;
         let (sc, s) = open_scope (Some node) s;
         let (last_type, s) = tt_do st_void (s\<lparr>sm_current_scope := sc\<rparr>);
         (last_type, s) \<leftarrow> check_stmts C last_type stmts s;
         (last_type, s) \<leftarrow> (if trailing = None then Some (last_type, s)
           else ck_expr C trailing s);
         Some (last_type, s\<lparr>sm_current_scope := prev\<rparr>)
       })"

definition sema_check_stmt :: "nat \<Rightarrow> checkers \<Rightarrow> node \<Rightarrow> sptr check" where
  "sema_check_stmt n C node s =
    (let i = n_id node; loc = n_loc node in
     case n_body node of
       Decl (AST_VAR_DECL name _ _ ty ini _) \<Rightarrow> do {
         (t, s) \<leftarrow> ck_expr C ini s;
         check_var_decl n node SYM_VAR name ty ini t s
       }
     | Decl (AST_CONST_DECL name _ _ ty ini _) \<Rightarrow> do {
         (t, s) \<leftarrow> ck_expr C ini s;
         check_var_decl n node SYM_CONST name ty ini t s
       }
     | Stmt (AST_RETURN_STMT val _) \<Rightarrow> do {
         let s = s\<lparr>sm_fn_has_return := True\<rparr>;
         let errs_before = sm_error_count s;
         (ret, s) \<leftarrow> ck_expr C val s;
         let (expected, s) = (case sm_fn_return_type s of
             Some t \<Rightarrow> (t, s) | None \<Rightarrow> tt_do st_void s);
         s \<leftarrow> (if sm_error_count s = errs_before then check_return i loc ret expected s
           else Some s);
         Some (tt_do st_void s)
       }
     | Stmt (AST_EXPR_STMT e) \<Rightarrow> do {
         (_, s) \<leftarrow> ck_expr C e s;
         Some (tt_do st_void s)
       }
     | Stmt (AST_BLOCK _ _) \<Rightarrow> ck_block C (Some node) s
     | Stmt (AST_IF_STMT condition then_block else_block) \<Rightarrow> do {
         (t, s) \<leftarrow> ck_expr C condition s;
         s \<leftarrow> check_condition condition ''if condition must be boolean'' t s;
         (_, s) \<leftarrow> ck_block C then_block s;
         s \<leftarrow> (if else_block = None then Some s
           else do { (_, s) \<leftarrow> ck_block C else_block s; Some s });
         Some (tt_do st_void s)
       }
     | Stmt (AST_WHILE_STMT condition body) \<Rightarrow> do {
         (t, s) \<leftarrow> ck_expr C condition s;
         s \<leftarrow> check_condition condition ''while condition must be boolean'' t s;
         (_, s) \<leftarrow> ck_block C body s;
         Some (tt_do st_void s)
       }
     | Stmt (AST_FOR_STMT name ty iterable body) \<Rightarrow> do {
         let prev = sm_current_scope s;
         let (sc, s) = open_scope (Some node) s;
         (_, s) \<leftarrow> ck_expr C iterable (s\<lparr>sm_current_scope := sc\<rparr>);
         (vt, s) \<leftarrow> (if ty = None then Some (tt_do (st_int True 64) s)
           else sema_resolve_type n ty s);
         (_, s) \<leftarrow> ck_block C body
           (declare_in sc SYM_VAR name (Some vt) (Some node) s);
         Some (tt_do st_void (s\<lparr>sm_current_scope := prev\<rparr>))
       }
     | Stmt (AST_DEFER_STMT e) \<Rightarrow> do {
         (_, s) \<leftarrow> ck_expr C e s;
         Some (tt_do st_void s)
       }
     | Stmt (AST_ERRDEFER_STMT body) \<Rightarrow> do {
         (_, s) \<leftarrow> ck_block C body (check_errdefer loc s);
         Some (tt_do st_void s)
       }
     | Stmt AST_BREAK_STMT \<Rightarrow> Some (tt_do st_void s)
     | Stmt AST_CONTINUE_STMT \<Rightarrow> Some (tt_do st_void s)
     | Stmt (AST_MATCH_STMT e _) \<Rightarrow> do {
         (_, s) \<leftarrow> ck_expr C e s;
         Some (tt_do st_void s)
       }
     | Stmt (AST_ASSIGN_STMT _ lhs rhs) \<Rightarrow> do {
         (lt, s) \<leftarrow> ck_expr C lhs s;
         (rt, s) \<leftarrow> ck_expr C rhs s;
         s \<leftarrow> check_assign loc lhs lt rt s;
         Some (tt_do st_void s)
       }
     | _ \<Rightarrow> check_node n C node s)"

text \<open>Tying the knot.\<close>

primrec checkers_at :: "nat \<Rightarrow> checkers" where
  "checkers_at 0 = \<lparr>ck_expr = (\<lambda>_ _. None), ck_stmt = (\<lambda>_ _. None), ck_block = (\<lambda>_ _. None)\<rparr>"
| "checkers_at (Suc n) =
     (let C = checkers_at n in
      \<lparr>ck_expr = sema_check_expr n C, ck_stmt = sema_check_stmt n C, ck_block = sema_check_block C\<rparr>)"


section \<open>Function bodies\<close>

text \<open>
  A generic parameter and a parameter, declared in the scope of the function. A \<^verbatim>\<open>self\<close> outside
  of a method is reported, and its type becomes the type of \<^verbatim>\<open>Self\<close> for what follows.
\<close>

definition declare_generic_param :: "scopeptr \<Rightarrow> node \<Rightarrow> step" where
  "declare_generic_param sc gp s =
    (case n_body gp of
       Decl (AST_GENERIC_PARAM_DECL name _) \<Rightarrow>
         let (t, s) = tt_do st_void s
         in Some (declare_in sc SYM_GENERIC_PARAM name (Some t) (Some gp) s)
     | _ \<Rightarrow> None)"

definition m_self_param :: string where
  "m_self_param = quoted ''self'' @ '' parameter only allowed in methods''"

definition declare_param :: "nat \<Rightarrow> scopeptr \<Rightarrow> node \<Rightarrow> step" where
  "declare_param n sc p s =
    (case n_body p of
       Decl (AST_PARAM_DECL name ty _ _ is_self) \<Rightarrow>
         if is_self
         then do {
           let s = (if sm_self_type s = None then sema_report (n_loc p) m_self_param s else s);
           (t, s) \<leftarrow> (case ty of
               Some te \<Rightarrow> sema_resolve_type n (Some te) s
             | None \<Rightarrow> (case sm_self_type s of
                 Some t \<Rightarrow> Some (t, s) | None \<Rightarrow> Some (tt_do st_void s)));
           let s = s\<lparr>sm_self_type := Some t\<rparr>;
           Some (declare_in sc SYM_VAR (sv_from_cstr (Some ''self'')) (Some t) (Some p) s)
         }
         else do {
           (t, s) \<leftarrow> sema_resolve_type n ty s;
           Some (declare_in sc SYM_VAR name (Some t) (Some p) s)
         }
     | _ \<Rightarrow> None)"

primrec all_steps :: "('a \<Rightarrow> step) \<Rightarrow> 'a list \<Rightarrow> step" where
  "all_steps f [] s = Some s"
| "all_steps f (x # xs) s = do { s \<leftarrow> f x s; all_steps f xs s }"

definition m_body_type :: "string \<Rightarrow> string \<Rightarrow> string" where
  "m_body_type expected found = ''expected return type '' @ quoted expected @ '', found '' @ quoted found"

text \<open>The type of the last expression against the result type; a missing body has no location.\<close>

definition check_body_type :: "node option \<Rightarrow> sptr \<Rightarrow> sptr \<Rightarrow> step" where
  "check_body_type body ret body_type s =
    (if \<not> sm_fn_has_return s \<and> \<not> st_eq ret body_type \<and> \<not> is_noreturn_body (tbody s body_type)
     then do {
       ok \<leftarrow> st_can_coerce (sm_types s) body_type ret;
       if ok then Some s
       else do {
         b \<leftarrow> body;
         rn \<leftarrow> st_name (sm_types s) ret;
         bn \<leftarrow> st_name (sm_types s) body_type;
         Some (sema_report (n_loc b) (m_body_type rn bn) s)
       }
     }
     else Some s)"

definition sema_check_fn_body :: "nat \<Rightarrow> checkers \<Rightarrow> node \<Rightarrow> step" where
  "sema_check_fn_body n C fn s =
    (case n_body fn of
       Decl (AST_FN_DECL _ _ _ is_unsafe _ _ generics params ret_type body _) \<Rightarrow> do {
         let (sc, st) = scope_new (Some (sm_module_scope s)) (Some fn) (sm_syms s);
         let prev_scope = sm_current_scope s;
         let prev_fn = sm_fn s;
         let prev_self = sm_self_type s;
         let prev_unsafe = sm_in_unsafe s;
         let s = s\<lparr>sm_syms := st, sm_current_scope := sc, sm_fn := Some fn,
                   sm_fn_has_return := False, sm_in_unsafe := is_unsafe\<rparr>;
         s \<leftarrow> all_steps (declare_generic_param sc) generics s;
         s \<leftarrow> all_steps (declare_param n sc) params s;
         (ret, s) \<leftarrow> sema_resolve_type n ret_type s;
         let s = s\<lparr>sm_fn_return_type := Some ret\<rparr>;
         (body_type, s) \<leftarrow> ck_block C body s;
         s \<leftarrow> check_body_type body ret body_type s;
         Some (s\<lparr>sm_current_scope := prev_scope, sm_fn := prev_fn, sm_self_type := prev_self,
                 sm_in_unsafe := prev_unsafe, sm_fn_return_type := None\<rparr>)
       }
     | _ \<Rightarrow> None)"

section \<open>Pass 1: symbol collection\<close>

text \<open>An import without an alias is named by its last part; one without parts has none.\<close>

definition collect_import :: "node \<Rightarrow> step" where
  "collect_import imp s =
    (case n_body imp of
       Decl (AST_IMPORT_DECL parts alias) \<Rightarrow> do {
         name \<leftarrow> (if length alias = 0 then if parts = [] then None else Some (last parts)
           else Some alias);
         let (t, s) = tt_do st_void s;
         Some (declare_in (sm_module_scope s) SYM_MODULE name (Some t) (Some imp) s)
       }
     | _ \<Rightarrow> None)"

text \<open>What a declaration declares: name, kind, type and the two flags; \<open>None\<close> when nothing.\<close>

record declared_symbol =
  ds_name :: string_view
  ds_kind :: symbol_kind
  ds_type :: "sptr option"
  ds_is_pub :: bool
  ds_is_comptime :: bool

definition void_symbol :: "string_view \<Rightarrow> symbol_kind \<Rightarrow> bool \<Rightarrow> sema \<Rightarrow> declared_symbol option \<times> sema"
where
  "void_symbol name kind is_pub s =
    (let (t, s) = tt_do st_void s
     in (Some \<lparr>ds_name = name, ds_kind = kind, ds_type = Some t, ds_is_pub = is_pub,
               ds_is_comptime = False\<rparr>, s))"

definition untyped_symbol :: "string_view \<Rightarrow> symbol_kind \<Rightarrow> bool \<Rightarrow> bool \<Rightarrow> declared_symbol" where
  "untyped_symbol name kind is_pub is_comptime =
     \<lparr>ds_name = name, ds_kind = kind, ds_type = None, ds_is_pub = is_pub,
      ds_is_comptime = is_comptime\<rparr>"

definition symbol_of_decl :: "nat \<Rightarrow> node \<Rightarrow> declared_symbol option check" where
  "symbol_of_decl n d s =
    (case n_body d of
       Decl (AST_FN_DECL name is_pub is_comptime _ _ _ _ _ _ _ _) \<Rightarrow> do {
         (t, s) \<leftarrow> sema_make_fn_type n d s;
         Some (Some \<lparr>ds_name = name, ds_kind = SYM_FUNCTION, ds_type = Some t, ds_is_pub = is_pub,
           ds_is_comptime = is_comptime\<rparr>, s)
       }
     | Decl (AST_STRUCT_DECL name is_pub _ _ _) \<Rightarrow> Some (void_symbol name SYM_STRUCT is_pub s)
     | Decl (AST_UNION_DECL name is_pub _ _ _) \<Rightarrow> Some (void_symbol name SYM_UNION is_pub s)
     | Decl (AST_ENUM_DECL name is_pub _ _) \<Rightarrow> Some (void_symbol name SYM_ENUM is_pub s)
     | Decl (AST_TRAITS_DECL name is_pub _ _) \<Rightarrow> Some (void_symbol name SYM_TRAIT is_pub s)
     | Decl (AST_TYPE_ALIAS name is_pub _ _) \<Rightarrow>
         Some (Some (untyped_symbol name SYM_TYPE_ALIAS is_pub False), s)
     | Decl (AST_CONST_DECL name is_pub is_comptime _ _ _) \<Rightarrow>
         Some (Some (untyped_symbol name SYM_CONST is_pub is_comptime), s)
     | Decl (AST_VAR_DECL name is_pub is_comptime _ _ _) \<Rightarrow>
         Some (Some (untyped_symbol name SYM_VAR is_pub is_comptime), s)
     | _ \<Rightarrow> Some (None, s))"

definition is_fn_decl :: "node \<Rightarrow> bool" where
  "is_fn_decl d \<longleftrightarrow> (case n_body d of Decl (AST_FN_DECL _ _ _ _ _ _ _ _ _ _ _) \<Rightarrow> True | _ \<Rightarrow> False)"

definition fn_decl_name :: "node \<Rightarrow> string_view" where
  "fn_decl_name d =
    (case n_body d of Decl (AST_FN_DECL name _ _ _ _ _ _ _ _ _ _) \<Rightarrow> name | _ \<Rightarrow> [])"

text \<open>The methods of an \<^verbatim>\<open>extend\<close> block are registered whether or not its target is known.\<close>

definition is_extend_target :: "symbol \<Rightarrow> bool" where
  "is_extend_target y \<longleftrightarrow> sym_kind y = SYM_STRUCT \<or> sym_kind y = SYM_UNION \<or> sym_kind y = SYM_ENUM"

definition m_extend_target :: "string \<Rightarrow> string" where
  "m_extend_target name = ''extend target '' @ quoted name @ '' is not a struct, union, or enum''"

definition collect_extend :: "source_location \<Rightarrow> string_view \<Rightarrow> node list \<Rightarrow> step" where
  "collect_extend loc target meths s = do {
     y \<leftarrow> scope_lookup (sm_syms s) (Some (sm_module_scope s)) target;
     let s = (case y of
         Some y \<Rightarrow> if is_extend_target (symbol_at s y) then s
           else sema_report loc (m_extend_target target) s
       | None \<Rightarrow> sema_report loc (m_extend_target target) s);
     Some (s\<lparr>sm_methods := fold (\<lambda>m. method_table_add target (fn_decl_name m) m)
       (filter is_fn_decl meths) (sm_methods s)\<rparr>)
   }"

text \<open>A redefinition is reported and its symbol, already allocated, stays out of the scope.\<close>

definition collect_symbol :: "source_location \<Rightarrow> node \<Rightarrow> declared_symbol \<Rightarrow> sema \<Rightarrow> sema" where
  "collect_symbol loc d ds s =
    (let (p, st) = symbol_new (ds_kind ds) (ds_name ds) (ds_type ds) (Some d) (sm_syms s);
         y = (sy_symbols st ! p)\<lparr>sym_is_pub := ds_is_pub ds, sym_is_comptime := ds_is_comptime ds\<rparr>;
         s = s\<lparr>sm_syms := st\<lparr>sy_symbols := (sy_symbols st)[p := y]\<rparr>\<rparr>
     in if scope_lookup_current (sm_syms s) (sm_module_scope s) (ds_name ds) \<noteq> None
        then sema_report loc (''redefinition of '' @ quoted (ds_name ds)) s
        else s\<lparr>sm_syms := scope_insert (sm_module_scope s) p (sm_syms s)\<rparr>)"

definition collect_decl :: "nat \<Rightarrow> node \<Rightarrow> step" where
  "collect_decl n d s =
    (case n_body d of
       Decl (AST_EXTEND_DECL target _ _ meths _) \<Rightarrow> collect_extend (n_loc d) target meths s
     | _ \<Rightarrow> do {
         (ds, s) \<leftarrow> symbol_of_decl n d s;
         Some (case ds of None \<Rightarrow> s | Some ds \<Rightarrow> collect_symbol (n_loc d) d ds s)
       })"

text \<open>The flag of the pass stays set when the node is no compilation unit.\<close>

definition sema_collect_decls :: "nat \<Rightarrow> node \<Rightarrow> step" where
  "sema_collect_decls n module s = do {
     let s = s\<lparr>sm_in_collect := True\<rparr>;
     case n_body module of
       Decl (AST_COMPILATION_UNIT _ imports decls) \<Rightarrow> do {
         s \<leftarrow> all_steps collect_import imports s;
         s \<leftarrow> all_steps (collect_decl n) decls s;
         Some (s\<lparr>sm_in_collect := False\<rparr>)
       }
     | _ \<Rightarrow> Some s
   }"

section \<open>Pass 2: body resolution\<close>

definition m_global_init :: "string \<Rightarrow> string \<Rightarrow> string \<Rightarrow> string \<Rightarrow> string" where
  "m_global_init what name ty found = ''cannot initialize '' @ what @ '' '' @ quoted name
     @ '' of type '' @ quoted ty @ '' with '' @ quoted found"

text \<open>
  A global with an initializer. Its symbol gets the declared type, resolved a second time, or else
  the type of the initializer.
\<close>

definition set_symbol_type :: "nat \<Rightarrow> string_view \<Rightarrow> type_expr option \<Rightarrow> sptr \<Rightarrow> step" where
  "set_symbol_type n name ty init_type s = do {
     y \<leftarrow> scope_lookup (sm_syms s) (Some (sm_module_scope s)) name;
     case y of
       Some y \<Rightarrow>
         if sym_type (symbol_at s y) = None
         then do {
           (t, s) \<leftarrow> (case ty of
               Some te \<Rightarrow> sema_resolve_type n (Some te) s | None \<Rightarrow> Some (init_type, s));
           let st = sm_syms s;
           Some (s\<lparr>sm_syms := st\<lparr>sy_symbols :=
             (sy_symbols st)[y := (sy_symbols st ! y)\<lparr>sym_type := Some t\<rparr>]\<rparr>\<rparr>)
         }
         else Some s
     | None \<Rightarrow> Some s
   }"

definition resolve_global :: "nat \<Rightarrow> checkers \<Rightarrow> source_location \<Rightarrow> string \<Rightarrow> string_view \<Rightarrow>
    type_expr option \<Rightarrow> node option \<Rightarrow> step" where
  "resolve_global n C loc what name ty ini s =
    (case ini of
       None \<Rightarrow> Some s
     | Some e \<Rightarrow> do {
         (init_type, s) \<leftarrow> ck_expr C (Some e) s;
         s \<leftarrow> (case ty of
             None \<Rightarrow> Some s
           | Some te \<Rightarrow> do {
               (decl_type, s) \<leftarrow> sema_resolve_type n (Some te) s;
               ok \<leftarrow> st_can_coerce (sm_types s) init_type decl_type;
               if ok then Some s
               else do {
                 dn \<leftarrow> st_name (sm_types s) decl_type;
                 tn \<leftarrow> st_name (sm_types s) init_type;
                 Some (sema_report loc (m_global_init what name dn tn) s)
               }
             });
         set_symbol_type n name ty init_type s
       })"

definition self_type_of :: "symbol \<Rightarrow> sema \<Rightarrow> sptr \<times> sema" where
  "self_type_of y s =
    (case sym_type y of
       Some t \<Rightarrow> if is_void_body (tbody s t) then tt_do st_void s else (t, s)
     | None \<Rightarrow> tt_do st_void s)"

definition resolve_extend :: "nat \<Rightarrow> checkers \<Rightarrow> string_view \<Rightarrow> node list \<Rightarrow> step" where
  "resolve_extend n C target meths s = do {
     y \<leftarrow> scope_lookup (sm_syms s) (Some (sm_module_scope s)) target;
     case y of
       Some y \<Rightarrow>
         if is_extend_target (symbol_at s y)
         then do {
           let prev_self = sm_self_type s;
           let (t, s) = self_type_of (symbol_at s y) s;
           s \<leftarrow> all_steps (sema_check_fn_body n C) (filter is_fn_decl meths)
             (s\<lparr>sm_self_type := Some t\<rparr>);
           Some (s\<lparr>sm_self_type := prev_self\<rparr>)
         }
         else Some s
     | None \<Rightarrow> Some s
   }"

definition resolve_decl :: "nat \<Rightarrow> checkers \<Rightarrow> node \<Rightarrow> step" where
  "resolve_decl n C d s =
    (case n_body d of
       Decl (AST_FN_DECL _ _ _ _ _ _ _ _ _ _ _) \<Rightarrow> sema_check_fn_body n C d (s\<lparr>sm_self_type := None\<rparr>)
     | Decl (AST_CONST_DECL name _ _ ty ini _) \<Rightarrow>
         resolve_global n C (n_loc d) ''constant'' name ty ini s
     | Decl (AST_VAR_DECL name _ _ ty ini _) \<Rightarrow>
         resolve_global n C (n_loc d) ''variable'' name ty ini s
     | Decl (AST_EXTEND_DECL target _ _ meths _) \<Rightarrow> resolve_extend n C target meths s
     | _ \<Rightarrow> Some s)"

definition sema_resolve_bodies :: "nat \<Rightarrow> node \<Rightarrow> step" where
  "sema_resolve_bodies n module s =
    (case n_body module of
       Decl (AST_COMPILATION_UNIT _ _ decls) \<Rightarrow> all_steps (resolve_decl n (checkers_at n)) decls s
     | _ \<Rightarrow> Some s)"

definition sema_run :: "nat \<Rightarrow> node \<Rightarrow> step" where
  "sema_run n module s = do {
     s \<leftarrow> sema_collect_decls n module s;
     if sm_error_count s > 0 then Some s else sema_resolve_bodies n module s
   }"

end
