(* ===== verification/Type_Facts.thy ===== *)
theory Type_Facts
  imports Types
begin

text \<open>
  What the type table promises. \<open>ty\<close> is the type of types as trees; \<open>denote\<close> reads the tree a
  pointer stands for off the store. The invariant \<open>tt_ok\<close> says that the parts of a type are older
  than the type and that no two members of the chains have the same shape; every operation keeps
  it. Its consequences: interned types are equal pointers exactly when they denote the same tree, and
  coercion and naming are the functions on trees that the reference definitions \<open>coerces\<close> and
  \<open>name_of\<close> state; in particular both return.
\<close>

section \<open>Types as trees\<close>

datatype (plugins only: code size) ty =
    T_VOID
  | T_BOOL
  | T_INT bool "8 word"
  | T_FLOAT "8 word"
  | T_NORETURN
  | T_POINTER bool ty
  | T_REFERENCE bool ty
  | T_SLICE bool ty
  | T_ARRAY "64 word" ty
  | T_OPTIONAL ty
  | T_ERROR_UNION ty ty
  | T_FUNCTION "ty list" ty bool
  | T_NAMED nat string_view nat
  | T_PARAM string_view "64 word"
  | T_OPAQUE

definition st_children :: "stype_body \<Rightarrow> sptr list" where
  "st_children b = (case b of
     ST_POINTER _ base \<Rightarrow> [base] | ST_REFERENCE _ base \<Rightarrow> [base] | ST_SLICE _ base \<Rightarrow> [base]
   | ST_ARRAY _ base \<Rightarrow> [base] | ST_OPTIONAL base \<Rightarrow> [base]
   | ST_ERROR_UNION s e \<Rightarrow> [s, e] | ST_FUNCTION ps r _ \<Rightarrow> r # ps
   | _ \<Rightarrow> [])"

definition denote_body :: "(sptr \<Rightarrow> ty) \<Rightarrow> stype_body \<Rightarrow> ty" where
  "denote_body f b = (case b of
     ST_VOID \<Rightarrow> T_VOID | ST_BOOL \<Rightarrow> T_BOOL | ST_INT sg bits \<Rightarrow> T_INT sg bits
   | ST_FLOAT bits \<Rightarrow> T_FLOAT bits | ST_NORETURN \<Rightarrow> T_NORETURN
   | ST_POINTER c base \<Rightarrow> T_POINTER c (f base) | ST_REFERENCE c base \<Rightarrow> T_REFERENCE c (f base)
   | ST_SLICE c base \<Rightarrow> T_SLICE c (f base) | ST_ARRAY n base \<Rightarrow> T_ARRAY n (f base)
   | ST_OPTIONAL base \<Rightarrow> T_OPTIONAL (f base) | ST_ERROR_UNION s e \<Rightarrow> T_ERROR_UNION (f s) (f e)
   | ST_FUNCTION ps r v \<Rightarrow> T_FUNCTION (map f ps) (f r) v
   | ST_STRUCT n _ _ _ \<Rightarrow> T_NAMED (st_kind b) n (generic_arg_count b)
   | ST_UNION n _ _ \<Rightarrow> T_NAMED (st_kind b) n (generic_arg_count b)
   | ST_ENUM n _ _ \<Rightarrow> T_NAMED (st_kind b) n (generic_arg_count b)
   | ST_TRAIT n _ \<Rightarrow> T_NAMED (st_kind b) n (generic_arg_count b)
   | ST_GENERIC_PARAM n i \<Rightarrow> T_PARAM n i
   | ST_OPAQUE \<Rightarrow> T_OPAQUE)"

definition denotes :: "stype_body list \<Rightarrow> ty list" where
  "denotes bs = foldl (\<lambda>ds b. ds @ [denote_body ((!) ds) b]) [] bs"

definition bodies :: "type_table \<Rightarrow> stype_body list" where
  "bodies tt = map st_body (tt_types tt)"

definition denote :: "type_table \<Rightarrow> sptr \<Rightarrow> ty" where
  "denote tt p = denotes (bodies tt) ! p"

lemma denotes_Nil [simp]: "denotes [] = []"
  by (simp add: denotes_def)

lemma denotes_snoc [simp]: "denotes (bs @ [b]) = denotes bs @ [denote_body ((!) (denotes bs)) b]"
  by (simp add: denotes_def)

lemma length_denotes [simp]: "length (denotes bs) = length bs"
  by (induction bs rule: rev_induct) simp_all

lemma denotes_append: "\<exists>ds. denotes (bs @ cs) = denotes bs @ ds"
proof (induction cs rule: rev_induct)
  case (snoc c cs)
  then show ?case by (metis append.assoc denotes_snoc)
qed simp

lemma denotes_nth_prefix: "p < length bs \<Longrightarrow> denotes (bs @ cs) ! p = denotes bs ! p"
  using denotes_append [of bs cs] by (auto simp: nth_append)

lemma denote_body_cong [fundef_cong]:
  "b = c \<Longrightarrow> (\<And>p. p \<in> set (st_children c) \<Longrightarrow> f p = g p) \<Longrightarrow> denote_body f b = denote_body g c"
  by (cases c) (auto simp: denote_body_def st_children_def)

section \<open>The invariant\<close>

definition interned :: "type_table \<Rightarrow> sptr set" where
  "interned tt = set (concat (tt_buckets tt))"

definition older_parts :: "type_table \<Rightarrow> bool" where
  "older_parts tt \<longleftrightarrow>
     (\<forall>i < length (tt_types tt). \<forall>c \<in> set (st_children (body_of tt i)). c < i)"

definition hashed_chain :: "type_table \<Rightarrow> nat \<Rightarrow> bool" where
  "hashed_chain tt h \<longleftrightarrow> (\<forall>p \<in> set (tt_buckets tt ! h). p < length (tt_types tt)
     \<and> st_hash (tt_types tt ! p) = of_nat h
     \<and> hash_type_shape (tt_addr tt) (body_of tt p) mod of_nat TYPE_TABLE_BUCKETS = of_nat h)"

definition distinct_shapes :: "type_table \<Rightarrow> bool" where
  "distinct_shapes tt \<longleftrightarrow> (\<forall>p \<in> interned tt. \<forall>q \<in> interned tt.
     type_shape_eq (body_of tt p) (body_of tt q) \<longrightarrow> p = q)"

definition tt_ok :: "type_table \<Rightarrow> bool" where
  "tt_ok tt \<longleftrightarrow> length (tt_buckets tt) = TYPE_TABLE_BUCKETS \<and> older_parts tt
     \<and> (\<forall>h < TYPE_TABLE_BUCKETS. hashed_chain tt h) \<and> distinct_shapes tt"

text \<open>An interned type all of whose parts are interned too.\<close>

inductive canonical :: "type_table \<Rightarrow> sptr \<Rightarrow> bool" for tt where
  canonical: "p \<in> interned tt \<Longrightarrow> (\<And>c. c \<in> set (st_children (body_of tt p)) \<Longrightarrow> canonical tt c)
    \<Longrightarrow> canonical tt p"

inductive_cases canonicalE: "canonical tt p"

definition extends :: "type_table \<Rightarrow> type_table \<Rightarrow> bool" where
  "extends tt tt' \<longleftrightarrow> tt_addr tt' = tt_addr tt \<and> prefix (bodies tt) (bodies tt')
     \<and> interned tt \<subseteq> interned tt'"

lemma extends_refl [simp]: "extends tt tt"
  by (simp add: extends_def)

lemma extends_trans [trans]: "extends a b \<Longrightarrow> extends b c \<Longrightarrow> extends a c"
  by (auto simp: extends_def intro: prefix_order.trans)

lemma length_bodies [simp]: "length (bodies tt) = length (tt_types tt)"
  by (simp add: bodies_def)

lemma nth_bodies [simp]: "p < length (tt_types tt) \<Longrightarrow> bodies tt ! p = body_of tt p"
  by (simp add: bodies_def)

lemma extends_length: "extends tt tt' \<Longrightarrow> length (tt_types tt) \<le> length (tt_types tt')"
  by (metis extends_def length_bodies prefix_length_le)

lemma extends_body:
  assumes "extends tt tt'" "p < length (tt_types tt)"
  shows "body_of tt' p = body_of tt p"
proof -
  obtain cs where "bodies tt' = bodies tt @ cs" using assms(1) by (auto simp: extends_def prefix_def)
  then have "bodies tt' ! p = bodies tt ! p" using assms(2) by (simp add: nth_append)
  moreover have "p < length (tt_types tt')" using extends_length [OF assms(1)] assms(2) by simp
  ultimately show ?thesis using assms(2) by simp
qed

lemma extends_denote:
  assumes "extends tt tt'" "p < length (tt_types tt)"
  shows "denote tt' p = denote tt p"
proof -
  obtain cs where "bodies tt' = bodies tt @ cs" using assms(1) by (auto simp: extends_def prefix_def)
  then show ?thesis using assms(2) by (simp add: denote_def denotes_nth_prefix)
qed

lemma interned_chain:
  assumes "tt_ok tt" "p \<in> interned tt"
  obtains h where "h < TYPE_TABLE_BUCKETS" "p \<in> set (tt_buckets tt ! h)" "hashed_chain tt h"
proof -
  obtain c where "c \<in> set (tt_buckets tt)" "p \<in> set c" using assms(2) by (auto simp: interned_def)
  then obtain h where "h < length (tt_buckets tt)" "tt_buckets tt ! h = c"
    by (meson in_set_conv_nth)
  then show thesis using that assms(1) \<open>p \<in> set c\<close> by (simp add: tt_ok_def)
qed

lemma interned_valid: "tt_ok tt \<Longrightarrow> p \<in> interned tt \<Longrightarrow> p < length (tt_types tt)"
  by (erule interned_chain) (auto simp: hashed_chain_def)

lemma canonical_valid: "tt_ok tt \<Longrightarrow> canonical tt p \<Longrightarrow> p < length (tt_types tt)"
  by (erule canonicalE) (rule interned_valid)

lemma canonical_extends:
  assumes "canonical tt p" "extends tt tt'" "tt_ok tt"
  shows "canonical tt' p"
  using assms(1)
proof (induction rule: canonical.induct)
  case (canonical p)
  have b: "body_of tt' p = body_of tt p"
    using extends_body [OF assms(2)] interned_valid [OF assms(3) canonical.hyps(1)] by simp
  have "p \<in> interned tt'" using assms(2) canonical.hyps(1) by (auto simp: extends_def)
  then show ?case by (rule canonical.canonical) (simp add: b canonical.IH)
qed

text \<open>The tree of a type is made of the trees of its parts.\<close>

lemma denotes_unfold:
  assumes "\<And>i c. i < length bs \<Longrightarrow> c \<in> set (st_children (bs ! i)) \<Longrightarrow> c < i" "p < length bs"
  shows "denotes bs ! p = denote_body ((!) (denotes bs)) (bs ! p)"
  using assms
proof (induction bs rule: rev_induct)
  case (snoc b bs)
  have old: "c < i" if "i < length bs" "c \<in> set (st_children (bs ! i))" for i c
    using snoc.prems(1) [of i c] that by (simp add: nth_append)
  then have IH: "denotes bs ! p = denote_body ((!) (denotes bs)) (bs ! p)" if "p < length bs"
    by (rule snoc.IH) (use old that in auto)
  have kids: "c < length bs" if "c \<in> set (st_children ((bs @ [b]) ! p))" for c
    using snoc.prems that by fastforce
  have eq: "denote_body ((!) (denotes (bs @ [b]))) ((bs @ [b]) ! p)
      = denote_body ((!) (denotes bs)) ((bs @ [b]) ! p)"
  proof (rule denote_body_cong)
    fix c assume "c \<in> set (st_children ((bs @ [b]) ! p))"
    then have "c < length (denotes bs)" using kids by simp
    then show "denotes (bs @ [b]) ! c = denotes bs ! c"
      unfolding denotes_snoc by (simp only: nth_append if_True)
  qed simp
  show ?case
  proof (cases "p < length bs")
    case True
    have "denotes (bs @ [b]) ! p = denotes bs ! p" "(bs @ [b]) ! p = bs ! p"
      using True by (simp_all add: nth_append)
    then show ?thesis unfolding eq using IH [OF True] by simp
  next
    case False
    then have "p = length bs" using snoc.prems(2) by simp
    then show ?thesis unfolding eq by (simp add: nth_append)
  qed
qed simp

lemma denote_unfold:
  assumes "tt_ok tt" "p < length (tt_types tt)"
  shows "denote tt p = denote_body (denote tt) (body_of tt p)"
proof -
  have "denotes (bodies tt) ! p = denote_body ((!) (denotes (bodies tt))) (bodies tt ! p)"
    by (rule denotes_unfold) (use assms in \<open>auto simp: tt_ok_def older_parts_def\<close>)
  then show ?thesis using assms(2) by (simp add: denote_def [abs_def] )
qed

section \<open>Shapes\<close>

text \<open>The part of a type the comparison looks at.\<close>

definition shape :: "stype_body \<Rightarrow> stype_body" where
  "shape b = (case b of
     ST_STRUCT n args _ _ \<Rightarrow> ST_STRUCT n (replicate (length args) 0) [] None
   | ST_UNION n fs _ \<Rightarrow> ST_UNION n (replicate (length fs) \<lparr>tf_name = [], tf_type = 0, tf_default_value = None\<rparr>) None
   | ST_ENUM n vs _ \<Rightarrow> ST_ENUM n (replicate (length vs) []) None
   | ST_TRAIT n ms \<Rightarrow> ST_TRAIT n (replicate (length ms) 0)
   | _ \<Rightarrow> b)"

lemma replicate_eq [simp]: "replicate m x = replicate n x \<longleftrightarrow> m = n"
  by (metis length_replicate)

lemma same_kind_cases:
  assumes "st_kind a = st_kind b"
  obtains (same) "a = b" "st_children a = []"
  | (int) s n s' n' where "a = ST_INT s n" "b = ST_INT s' n'"
  | (float) n n' where "a = ST_FLOAT n" "b = ST_FLOAT n'"
  | (pointer) c p c' p' where "a = ST_POINTER c p" "b = ST_POINTER c' p'"
  | (reference) c p c' p' where "a = ST_REFERENCE c p" "b = ST_REFERENCE c' p'"
  | (slice) c p c' p' where "a = ST_SLICE c p" "b = ST_SLICE c' p'"
  | (arr) n p n' p' where "a = ST_ARRAY n p" "b = ST_ARRAY n' p'"
  | (optional) p p' where "a = ST_OPTIONAL p" "b = ST_OPTIONAL p'"
  | (error_union) p q p' q' where "a = ST_ERROR_UNION p q" "b = ST_ERROR_UNION p' q'"
  | (func) ps r v ps' r' v' where "a = ST_FUNCTION ps r v" "b = ST_FUNCTION ps' r' v'"
  | (struct) n g f d n' g' f' d' where "a = ST_STRUCT n g f d" "b = ST_STRUCT n' g' f' d'"
  | (union) n f d n' f' d' where "a = ST_UNION n f d" "b = ST_UNION n' f' d'"
  | (enum) n f d n' f' d' where "a = ST_ENUM n f d" "b = ST_ENUM n' f' d'"
  | (trait) n f n' f' where "a = ST_TRAIT n f" "b = ST_TRAIT n' f'"
  | (param) n i n' i' where "a = ST_GENERIC_PARAM n i" "b = ST_GENERIC_PARAM n' i'"
  using assms by (cases a; cases b) (simp_all add: st_kind_def st_children_def)

lemma kind_shape: "st_kind (shape a) = st_kind a"
  by (cases a) (simp_all add: st_kind_def shape_def)

lemma type_shape_eq_iff: "type_shape_eq a b \<longleftrightarrow> shape a = shape b"
proof (cases "st_kind a = st_kind b")
  case True
  then show ?thesis
  proof (cases rule: same_kind_cases)
    case same
    then show ?thesis by (cases b) (auto simp: type_shape_eq_def list.rel_refl)
  qed (auto simp: type_shape_eq_def st_kind_def generic_arg_count_def shape_def list.rel_eq)
next
  case False
  then show ?thesis by (metis kind_shape type_shape_eq_def)
qed

lemma type_shape_eq_refl [simp]: "type_shape_eq a a"
  by (simp add: type_shape_eq_iff)

lemma hash_shape: "hash_type_shape addr (shape b) = hash_type_shape addr b"
  by (cases b) (simp_all add: hash_type_shape_def shape_def generic_arg_count_def st_kind_def)

lemma children_shape: "st_children (shape b) = st_children b"
  by (cases b) (simp_all add: st_children_def shape_def)

lemma denote_shape: "denote_body f (shape b) = denote_body f b"
  by (cases b) (simp_all add: denote_body_def shape_def generic_arg_count_def st_kind_def)

lemma type_shape_eq_hash: "type_shape_eq a b \<Longrightarrow> hash_type_shape addr a = hash_type_shape addr b"
  by (metis type_shape_eq_iff hash_shape)

lemma type_shape_eq_denote: "type_shape_eq a b \<Longrightarrow> denote_body f a = denote_body f b"
  by (metis type_shape_eq_iff denote_shape)

lemma type_shape_eq_children: "type_shape_eq a b \<Longrightarrow> st_children a = st_children b"
  by (metis type_shape_eq_iff children_shape)

text \<open>Equal trees with equal parts come from equal shapes.\<close>

lemma map_inj_list_all2:
  "map f ps = map f qs \<Longrightarrow> (\<And>p q. p \<in> set ps \<Longrightarrow> q \<in> set qs \<Longrightarrow> f p = f q \<Longrightarrow> p = q) \<Longrightarrow> ps = qs"
  by (rule list.inj_map_strong)

definition ty_kind :: "ty \<Rightarrow> nat" where
  "ty_kind t = (case t of T_VOID \<Rightarrow> 0 | T_BOOL \<Rightarrow> 1 | T_INT _ _ \<Rightarrow> 2 | T_FLOAT _ \<Rightarrow> 3
     | T_NORETURN \<Rightarrow> 4 | T_POINTER _ _ \<Rightarrow> 5 | T_REFERENCE _ _ \<Rightarrow> 6 | T_SLICE _ _ \<Rightarrow> 7
     | T_ARRAY _ _ \<Rightarrow> 8 | T_OPTIONAL _ \<Rightarrow> 9 | T_ERROR_UNION _ _ \<Rightarrow> 10
     | T_FUNCTION _ _ _ \<Rightarrow> 11 | T_NAMED k _ _ \<Rightarrow> k | T_PARAM _ _ \<Rightarrow> 16 | T_OPAQUE \<Rightarrow> 17)"

lemma kind_denote: "ty_kind (denote_body f b) = st_kind b"
  by (cases b) (simp_all add: ty_kind_def denote_body_def st_kind_def)

lemma denote_body_shape:
  assumes "denote_body f a = denote_body f b"
    "\<forall>p \<in> set (st_children a). \<forall>q \<in> set (st_children b). f p = f q \<longrightarrow> p = q"
  shows "type_shape_eq a b"
proof -
  have "st_kind a = st_kind b" by (metis kind_denote assms(1))
  then show ?thesis
  proof (cases rule: same_kind_cases)
    case (func ps r v ps' r' v')
    have "ps = ps'" using assms unfolding func
      by (intro map_inj_list_all2 [of f]) (auto simp: denote_body_def st_children_def)
    then show ?thesis using assms unfolding func
      by (simp add: type_shape_eq_iff denote_body_def st_children_def)
  qed (use assms in \<open>simp_all add: type_shape_eq_iff shape_def denote_body_def st_children_def
      generic_arg_count_def\<close>)
qed

text \<open>Interned types are equal pointers exactly when they denote the same tree.\<close>

lemma canonical_eq:
  assumes "tt_ok tt" "canonical tt p" "canonical tt q" "denote tt p = denote tt q"
  shows "p = q"
  using assms(2-4)
proof (induction p arbitrary: q rule: canonical.induct)
  case (canonical p)
  have q: "q \<in> interned tt" "\<And>c. c \<in> set (st_children (body_of tt q)) \<Longrightarrow> canonical tt c"
    using canonical.prems(1) by (auto elim: canonicalE)
  have "denote_body (denote tt) (body_of tt p) = denote_body (denote tt) (body_of tt q)"
    using canonical.prems(2) denote_unfold [OF assms(1)] interned_valid [OF assms(1)]
      canonical.hyps(1) q(1) by simp
  then have "type_shape_eq (body_of tt p) (body_of tt q)"
    by (rule denote_body_shape) (use canonical.IH q(2) in blast)
  then show ?case
    using assms(1) canonical.hyps(1) q(1) by (auto simp: tt_ok_def distinct_shapes_def)
qed

section \<open>The operations keep the invariant\<close>

lemma tt_ok_new [simp]: "tt_ok (type_table_new addr)"
  by (auto simp: tt_ok_def type_table_new_def older_parts_def hashed_chain_def distinct_shapes_def
      interned_def)

text \<open>The table after \<open>st_alloc\<close>, with the hash set, and after the new object was linked.\<close>

definition grown :: "stype_body \<Rightarrow> u32 \<Rightarrow> type_table \<Rightarrow> type_table" where
  "grown b h tt = tt\<lparr>tt_types := tt_types tt @ [\<lparr>st_body = b, st_hash = h\<rparr>]\<rparr>"

definition linked :: "sptr \<Rightarrow> nat \<Rightarrow> type_table \<Rightarrow> type_table" where
  "linked p i tt = tt\<lparr>tt_buckets := (tt_buckets tt)[i := p # tt_buckets tt ! i]\<rparr>"

definition bucket :: "stype_body \<Rightarrow> type_table \<Rightarrow> u32" where
  "bucket b tt = hash_type_shape (tt_addr tt) b mod of_nat TYPE_TABLE_BUCKETS"

lemma bucket_less: "unat (bucket b tt) < TYPE_TABLE_BUCKETS"
  by (simp add: bucket_def TYPE_TABLE_BUCKETS_def unat_mod)

lemma st_simple_cases:
  assumes "st_simple b tt = (p, tt')"
  obtains (found) "tt' = grown b (bucket b tt) tt" "p \<in> set (tt_buckets tt ! unat (bucket b tt))"
      "type_shape_eq (body_of tt' p) b"
    | (new) "tt' = linked p (unat (bucket b tt)) (grown b (bucket b tt) tt)"
      "p = length (tt_types tt)"
      "\<forall>t \<in> set (tt_buckets tt ! unat (bucket b tt)).
         st_hash (tt_types (grown b (bucket b tt) tt) ! t) = bucket b tt \<longrightarrow>
         \<not> type_shape_eq (body_of (grown b (bucket b tt) tt) t) b"
proof -
  let ?g = "grown b (bucket b tt) tt" and ?n = "length (tt_types tt)"
  let ?c = "tt_buckets tt ! unat (bucket b tt)"
  let ?P = "\<lambda>t. st_hash (tt_types ?g ! t) = bucket b tt \<and> type_shape_eq (body_of ?g t) b"
  have last: "tt_types ?g ! ?n = \<lparr>st_body = b, st_hash = bucket b tt\<rparr>"
    by (simp add: grown_def nth_append)
  have "st_simple b tt = (case List.find ?P ?c of Some t \<Rightarrow> (t, ?g)
      | None \<Rightarrow> (?n, linked ?n (unat (bucket b tt)) ?g))"
    using last
    by (simp add: st_simple_def st_alloc_def intern_type_def Let_def grown_def linked_def
        bucket_def list_update_append nth_append cong: option.case_cong)
  then show thesis using assms that
    by (auto simp: find_None_iff find_Some_iff split: option.splits)
qed

lemma grown_simps [simp]:
  "tt_addr (grown b h tt) = tt_addr tt" "tt_buckets (grown b h tt) = tt_buckets tt"
  "length (tt_types (grown b h tt)) = Suc (length (tt_types tt))"
  "interned (grown b h tt) = interned tt"
  "bodies (grown b h tt) = bodies tt @ [b]"
  "p < length (tt_types tt) \<Longrightarrow> tt_types (grown b h tt) ! p = tt_types tt ! p"
  "tt_types (grown b h tt) ! length (tt_types tt) = \<lparr>st_body = b, st_hash = h\<rparr>"
  by (simp_all add: grown_def interned_def bodies_def nth_append)

lemma linked_simps [simp]:
  "tt_addr (linked p i tt) = tt_addr tt" "tt_types (linked p i tt) = tt_types tt"
  "bodies (linked p i tt) = bodies tt" "length (tt_buckets (linked p i tt)) = length (tt_buckets tt)"
  by (simp_all add: linked_def bodies_def)

lemma interned_linked:
  assumes "i < length (tt_buckets tt)"
  shows "interned (linked p i tt) = insert p (interned tt)"
proof -
  let ?b = "tt_buckets tt"
  have "set (concat ?b) = set (concat (take i ?b @ ?b ! i # drop (Suc i) ?b))"
    using id_take_nth_drop [OF assms] by simp
  then show ?thesis using assms
    by (simp add: interned_def linked_def upd_conv_take_nth_drop Un_left_commute)
qed

lemma extends_grown [simp]: "extends tt (grown b h tt)"
  by (simp add: extends_def)

lemma grown_ok:
  assumes "tt_ok tt" "\<forall>c \<in> set (st_children b). c < length (tt_types tt)"
  shows "tt_ok (grown b h tt)"
proof -
  have "older_parts (grown b h tt)"
    using assms by (auto simp: older_parts_def tt_ok_def less_Suc_eq)
  moreover have "hashed_chain (grown b h tt) i" if "i < TYPE_TABLE_BUCKETS" for i
  proof -
    have "hashed_chain tt i" using assms(1) that by (simp add: tt_ok_def)
    then show ?thesis by (auto simp: hashed_chain_def)
  qed
  moreover have "distinct_shapes (grown b h tt)"
    using assms(1) interned_valid [OF assms(1)] by (simp add: distinct_shapes_def tt_ok_def)
  ultimately show ?thesis using assms(1) by (simp add: tt_ok_def)
qed

lemma bucket_of_interned:
  assumes "tt_ok tt" "t \<in> interned tt" "type_shape_eq (body_of tt t) b"
  shows "t \<in> set (tt_buckets tt ! unat (bucket b tt))" "st_hash (tt_types tt ! t) = bucket b tt"
proof -
  obtain h where h: "h < TYPE_TABLE_BUCKETS" "t \<in> set (tt_buckets tt ! h)" "hashed_chain tt h"
    using interned_chain [OF assms(1,2)] .
  have "bucket b tt = of_nat h"
    using h(2,3) type_shape_eq_hash [OF assms(3)] by (auto simp: hashed_chain_def bucket_def)
  moreover from this have "unat (bucket b tt) = h"
    using h(1) by (simp add: TYPE_TABLE_BUCKETS_def unat_of_nat)
  ultimately show "t \<in> set (tt_buckets tt ! unat (bucket b tt))"
      "st_hash (tt_types tt ! t) = bucket b tt"
    using h(2,3) by (auto simp: hashed_chain_def)
qed

text \<open>
  The whole contract of a type constructor: the invariant, the returned pointer, and that nothing
  that was there before changes.
\<close>

lemma st_simple_ok:
  assumes "st_simple b tt = (p, tt')" "tt_ok tt" "\<forall>c \<in> set (st_children b). canonical tt c"
  shows "tt_ok tt' \<and> extends tt tt' \<and> canonical tt' p \<and> type_shape_eq (body_of tt' p) b"
proof -
  let ?g = "grown b (bucket b tt) tt" and ?i = "unat (bucket b tt)"
  have kids: "\<forall>c \<in> set (st_children b). c < length (tt_types tt)"
    using canonical_valid [OF assms(2)] assms(3) by blast
  have g: "tt_ok ?g" by (rule grown_ok [OF assms(2) kids])
  have i: "?i < length (tt_buckets tt)" using bucket_less assms(2) by (simp add: tt_ok_def)
  have can: "canonical tt' p"
    if "tt_ok tt'" "extends tt tt'" "p \<in> interned tt'" "type_shape_eq (body_of tt' p) b"
    by (rule canonical.canonical)
      (use that assms(2,3) in \<open>auto simp: type_shape_eq_children intro: canonical_extends\<close>)
  from assms(1) show ?thesis
  proof (cases rule: st_simple_cases)
    case found
    have "p \<in> interned tt'" using found(1,2) i by (auto simp: interned_def intro: nth_mem)
    then show ?thesis using can g found by simp
  next
    case new
    have int: "interned tt' = insert p (interned tt)"
      using interned_linked [of ?i ?g] i by (simp add: new(1))
    have body: "type_shape_eq (body_of tt' p) b" by (simp add: new(1,2))
    have fresh: "\<not> type_shape_eq (body_of ?g t) b" if "t \<in> interned tt" for t
      using bucket_of_interned [OF g, of t b] that new(3) by (auto simp: bucket_def)
    have "distinct_shapes tt'"
      unfolding distinct_shapes_def int
    proof (intro ballI impI)
      fix x y
      assume xy: "x \<in> insert p (interned tt)" "y \<in> insert p (interned tt)"
        "type_shape_eq (body_of tt' x) (body_of tt' y)"
      have old: "x = y" if "x \<in> interned tt" "y \<in> interned tt"
        using g that xy(3) by (simp add: new(1) tt_ok_def distinct_shapes_def)
      have "body_of tt' t = body_of ?g t" "body_of tt' p = b" for t by (simp_all add: new(1,2))
      then show "x = y" using xy old fresh by (metis insert_iff type_shape_eq_iff)
    qed
    moreover have "hashed_chain tt' h" if "h < TYPE_TABLE_BUCKETS" for h
    proof -
      have "hashed_chain ?g h" using g that by (simp add: tt_ok_def)
      then show ?thesis using i
        by (auto simp: hashed_chain_def new(1,2) linked_def nth_list_update bucket_def)
    qed
    moreover have "older_parts tt'" using g by (simp add: tt_ok_def older_parts_def new(1))
    moreover have "length (tt_buckets tt') = TYPE_TABLE_BUCKETS"
      using assms(2) by (simp add: new(1) tt_ok_def)
    ultimately have ok: "tt_ok tt'" by (simp add: tt_ok_def)
    have "extends tt tt'" using int by (auto simp: extends_def new(1))
    then show ?thesis using can ok body int by simp
  qed
qed

end
