(* ===== verification/Type_Laws.thy ===== *)
theory Type_Laws
  imports Type_Facts
begin

text \<open>
  What the operations on semantic types compute, stated on trees: coercion, names, and the
  resolution of type expressions. Each constructor and each resolution of a type expression keeps
  the invariant of the table and yields a canonical type with the expected tree
  (\<open>type_result\<close>).
\<close>

section \<open>Coercion\<close>

definition derefs_to :: "ty \<Rightarrow> ty \<Rightarrow> bool" where
  "derefs_to a b \<longleftrightarrow> (case a of T_REFERENCE _ x \<Rightarrow> x = b | T_POINTER _ x \<Rightarrow> x = b | _ \<Rightarrow> False)"

fun coerces :: "ty \<Rightarrow> ty \<Rightarrow> bool" where
  "coerces a (T_INT s n) \<longleftrightarrow>
     (case a of T_INT t m \<Rightarrow> t = s \<and> m \<le> n | _ \<Rightarrow> derefs_to a (T_INT s n))"
| "coerces a (T_FLOAT n) \<longleftrightarrow>
     (case a of T_FLOAT m \<Rightarrow> m \<le> n | T_INT _ _ \<Rightarrow> True | _ \<Rightarrow> derefs_to a (T_FLOAT n))"
| "coerces a (T_REFERENCE c t) \<longleftrightarrow>
     (case a of T_REFERENCE d x \<Rightarrow> x = t \<and> (d = c \<or> \<not> d)
      | _ \<Rightarrow> a = t \<or> derefs_to a (T_REFERENCE c t))"
| "coerces a (T_OPTIONAL t) \<longleftrightarrow>
     a = T_OPTIONAL t \<or> coerces a t \<or> derefs_to a (T_OPTIONAL t)"
| "coerces a (T_ERROR_UNION s e) \<longleftrightarrow>
     a = T_ERROR_UNION s e \<or> derefs_to a (T_ERROR_UNION s e) \<or> coerces a s \<or> coerces a e"
| "coerces a b \<longleftrightarrow> a = b \<or> derefs_to a b"

lemma coerces_refl [simp]: "coerces a a"
  by (cases a) (simp_all split: ty.splits)

lemma source_cases:
  assumes "tt_ok tt" "p < length (tt_types tt)"
  obtains (int) s n where "body_of tt p = ST_INT s n" "denote tt p = T_INT s n"
  | (float) n where "body_of tt p = ST_FLOAT n" "denote tt p = T_FLOAT n"
  | (ref) c b where "body_of tt p = ST_REFERENCE c b" "denote tt p = T_REFERENCE c (denote tt b)"
  | (ptr) c b where "body_of tt p = ST_POINTER c b" "denote tt p = T_POINTER c (denote tt b)"
  | (other) "\<not> is_int_body (body_of tt p)" "\<not> is_float_body (body_of tt p)"
      "\<not> is_reference_body (body_of tt p)" "\<not> is_pointer_body (body_of tt p)"
      "\<forall>s n. denote tt p \<noteq> T_INT s n" "\<forall>n. denote tt p \<noteq> T_FLOAT n"
      "\<forall>c t. denote tt p \<noteq> T_REFERENCE c t" "\<forall>c t. denote tt p \<noteq> T_POINTER c t"
  using denote_unfold [OF assms]
  by (cases "body_of tt p") (auto simp: denote_body_def body_tests)

lemma derefs_to_simps [simp]:
  "derefs_to (T_INT s n) b = False" "derefs_to (T_FLOAT n) b = False"
  "derefs_to (T_REFERENCE c x) b = (x = b)" "derefs_to (T_POINTER c x) b = (x = b)"
  by (simp_all add: derefs_to_def)

lemma coerces_other:
  assumes "\<forall>s n. a \<noteq> T_INT s n" "\<forall>n. a \<noteq> T_FLOAT n"
    "\<forall>c t. a \<noteq> T_REFERENCE c t" "\<forall>c t. a \<noteq> T_POINTER c t"
  shows "coerces a (T_INT s n) = False" "coerces a (T_FLOAT n) = False"
    "coerces a (T_REFERENCE c t) = (a = t)" "derefs_to a b = False"
  using assms by (cases a; simp add: derefs_to_def)+

lemma is_reference_simps:
  "\<not> is_reference_body ST_VOID" "\<not> is_reference_body ST_BOOL"
  "\<not> is_reference_body (ST_INT s n)" "\<not> is_reference_body (ST_FLOAT n)"
  "\<not> is_reference_body ST_NORETURN" "\<not> is_reference_body (ST_POINTER c p)"
  "is_reference_body (ST_REFERENCE c p)" "\<not> is_reference_body (ST_SLICE c p)"
  "\<not> is_reference_body (ST_ARRAY sz p)" "\<not> is_reference_body (ST_OPTIONAL p)"
  "\<not> is_reference_body (ST_ERROR_UNION p q)" "\<not> is_reference_body (ST_FUNCTION ps p v)"
  "\<not> is_reference_body (ST_STRUCT name ps fs d)"
  "\<not> is_reference_body (ST_UNION name fs d)" "\<not> is_reference_body (ST_ENUM name vs d)"
  "\<not> is_reference_body (ST_TRAIT name ps)"
  "\<not> is_reference_body (ST_GENERIC_PARAM name i)" "\<not> is_reference_body ST_OPAQUE"
  by (simp_all add: is_reference_body_def)

text \<open>On canonical types the coercion test returns, and it is the relation on trees.\<close>

lemma st_can_coerce_denote:
  assumes "tt_ok tt" "canonical tt from" "canonical tt to"
  shows "st_can_coerce tt from to = Some (coerces (denote tt from) (denote tt to))"
  using assms(3)
proof (induction to rule: canonical.induct)
  case (canonical to)
  let ?d = "denote tt"
  have can: "canonical tt to" by (rule canonical.canonical) (use canonical.hyps in auto)
  have eq: "st_eq p q \<longleftrightarrow> ?d p = ?d q" if "canonical tt p" "canonical tt q" for p q
    using canonical_eq [OF assms(1) that] by (auto simp: st_eq_def)
  have base: "canonical tt c" if "c \<in> set (st_children (body_of tt from))" for c
    using assms(2) that by (auto elim: canonicalE)
  have d: "?d to = denote_body ?d (body_of tt to)"
    using denote_unfold [OF assms(1)] canonical_valid [OF assms(1) can] .
  note [simp] = eq [OF assms(2) can]
  have v: "from < length (tt_types tt)" by (rule canonical_valid [OF assms(1,2)])
  from assms(1) v show ?case
  proof (cases rule: source_cases)
    case other
    note o = other(1-4) coerces_other [OF other(5-8)] other(5-8)
    show ?thesis
      by (subst st_can_coerce.simps, cases "body_of tt to")
        (use d canonical.IH canonical.hyps assms(2) in
          \<open>simp_all add: o Let_def denote_body_def st_children_def eq is_optional_body_def
            is_error_union_body_def is_reference_simps del: coerces.simps(1-3)\<close>)
  next
    case (int s n)
    then show ?thesis
      by (subst st_can_coerce.simps, cases "body_of tt to")
        (use d canonical.IH canonical.hyps assms(2) in
          \<open>auto simp: Let_def denote_body_def st_children_def eq body_tests\<close>)
  next
    case (float n)
    then show ?thesis
      by (subst st_can_coerce.simps, cases "body_of tt to")
        (use d canonical.IH canonical.hyps assms(2) in
          \<open>auto simp: Let_def denote_body_def st_children_def eq body_tests\<close>)
  next
    case (ref c b)
    then have "canonical tt b" using base by (simp add: st_children_def)
    with ref show ?thesis
      by (subst st_can_coerce.simps, cases "body_of tt to")
        (use d canonical.IH canonical.hyps assms(2) can in
          \<open>auto simp: Let_def denote_body_def st_children_def eq body_tests\<close>)
  next
    case (ptr c b)
    then have "canonical tt b" using base by (simp add: st_children_def)
    with ptr show ?thesis
      by (subst st_can_coerce.simps, cases "body_of tt to")
        (use d canonical.IH canonical.hyps assms(2) can in
          \<open>auto simp: Let_def denote_body_def st_children_def eq body_tests\<close>)
  qed
qed

section \<open>Names\<close>

fun name_of :: "ty \<Rightarrow> string" where
  "name_of T_VOID = ''void''"
| "name_of T_BOOL = ''bool''"
| "name_of (T_INT s n) = (if s then CHR ''i'' else CHR ''u'') # show_nat (unat n)"
| "name_of (T_FLOAT n) = CHR ''f'' # show_nat (unat n)"
| "name_of T_NORETURN = ''noreturn''"
| "name_of (T_POINTER c t) = buf (''*'' @ const_prefix c @ name_of t)"
| "name_of (T_REFERENCE c t) = buf (''&'' @ const_prefix c @ name_of t)"
| "name_of (T_SLICE c t) = buf (''[]'' @ const_prefix c @ name_of t)"
| "name_of (T_ARRAY n t) = buf (''['' @ show_nat (unat n) @ '']'' @ name_of t)"
| "name_of (T_OPTIONAL t) = buf (''?'' @ name_of t)"
| "name_of (T_ERROR_UNION s e) = buf (name_of e @ ''!'' @ name_of s)"
| "name_of (T_FUNCTION ps r v) = buf (''fn(...) -> '' @ name_of r)"
| "name_of (T_NAMED k n c) = (if n \<noteq> [] then buf n else ''<anon>'')"
| "name_of (T_PARAM n i) = (if n \<noteq> [] then buf n else ''<T>'')"
| "name_of T_OPAQUE = ''<opaque>''"

lemma length_show_nat: "n < 10 ^ k \<Longrightarrow> k > 0 \<Longrightarrow> length (show_nat n) \<le> k"
proof (induction n arbitrary: k rule: show_nat.induct)
  case (1 n)
  show ?case
  proof (cases "n < 10")
    case False
    then obtain j where j: "k = Suc j" "j > 0" using 1(2,3) by (cases k; cases "k - 1") auto
    then have "n div 10 < 10 ^ j" using 1(2) by auto
    then show ?thesis using 1(1) [of j] False j by (subst show_nat.simps) simp
  qed (use 1 in \<open>subst show_nat.simps, simp\<close>)
qed

lemma buf_bits: "buf (c # show_nat (unat (n :: 8 word))) = c # show_nat (unat n)"
proof -
  have "unat n < 10 ^ 3" using unsigned_less [where 'a = nat, of n] by simp
  then show ?thesis using length_show_nat [of "unat n" 3] by (simp add: buf_def)
qed

lemma st_name_denote:
  assumes "tt_ok tt" "canonical tt p"
  shows "st_name tt p = Some (name_of (denote tt p))"
  using assms(2)
proof (induction rule: canonical.induct)
  case (canonical p)
  have "denote tt p = denote_body (denote tt) (body_of tt p)"
    using denote_unfold [OF assms(1)] interned_valid [OF assms(1) canonical.hyps(1)] .
  then show ?case
    by (subst st_name.simps, cases "body_of tt p")
      (use canonical.IH in \<open>simp_all add: denote_body_def st_children_def buf_bits\<close>)
qed

section \<open>Constructors and type expressions\<close>

definition type_result :: "type_table \<Rightarrow> sptr \<times> type_table \<Rightarrow> ty \<Rightarrow> bool" where
  "type_result tt r t \<longleftrightarrow> (case r of (p, tt') \<Rightarrow>
     tt_ok tt' \<and> extends tt tt' \<and> canonical tt' p \<and> denote tt' p = t)"

lemma st_simple_result:
  assumes "tt_ok tt" "\<forall>c \<in> set (st_children b). canonical tt c"
  shows "type_result tt (st_simple b tt) (denote_body (denote tt) b)"
proof -
  obtain p tt' where r: "st_simple b tt = (p, tt')" by fastforce
  have ok: "tt_ok tt'" "extends tt tt'" "canonical tt' p" "type_shape_eq (body_of tt' p) b"
    using st_simple_ok [OF r assms] by auto
  have "denote tt' p = denote_body (denote tt') (body_of tt' p)"
    using denote_unfold [OF ok(1)] canonical_valid [OF ok(1,3)] .
  also have "\<dots> = denote_body (denote tt') b" by (rule type_shape_eq_denote [OF ok(4)])
  also have "\<dots> = denote_body (denote tt) b"
    using extends_denote [OF ok(2)] canonical_valid [OF assms(1)] assms(2)
    by (intro denote_body_cong) auto
  finally show ?thesis using r ok by (simp add: type_result_def)
qed

lemmas st_makes = st_void_def st_bool_def st_int_def st_float_def st_pointer_def st_reference_def
  st_slice_def st_array_def st_optional_def st_error_union_def st_function_def

lemma constructor_results:
  assumes "tt_ok tt"
  shows "type_result tt (st_void tt) T_VOID" "type_result tt (st_bool tt) T_BOOL"
    "type_result tt (st_int s n tt) (T_INT s n)" "type_result tt (st_float n tt) (T_FLOAT n)"
    "canonical tt b \<Longrightarrow> denote tt b = t \<Longrightarrow> type_result tt (st_pointer c b tt) (T_POINTER c t)"
    "canonical tt b \<Longrightarrow> denote tt b = t \<Longrightarrow> type_result tt (st_reference c b tt) (T_REFERENCE c t)"
    "canonical tt b \<Longrightarrow> denote tt b = t \<Longrightarrow> type_result tt (st_slice c b tt) (T_SLICE c t)"
    "canonical tt b \<Longrightarrow> denote tt b = t \<Longrightarrow> type_result tt (st_array sz b tt) (T_ARRAY sz t)"
    "canonical tt b \<Longrightarrow> denote tt b = t \<Longrightarrow> type_result tt (st_optional b tt) (T_OPTIONAL t)"
    "canonical tt b \<Longrightarrow> denote tt b = t \<Longrightarrow> canonical tt e \<Longrightarrow> denote tt e = u \<Longrightarrow>
       type_result tt (st_error_union b e tt) (T_ERROR_UNION t u)"
    "\<forall>p \<in> set ps. canonical tt p \<Longrightarrow> map (denote tt) ps = ts \<Longrightarrow> canonical tt b \<Longrightarrow> denote tt b = t \<Longrightarrow>
       type_result tt (st_function ps b v tt) (T_FUNCTION ts t v)"
  using st_simple_result [OF assms, of ST_VOID] st_simple_result [OF assms, of ST_BOOL]
    st_simple_result [OF assms, of "ST_INT s n"] st_simple_result [OF assms, of "ST_FLOAT n"]
    st_simple_result [OF assms, of "ST_POINTER c b"]
    st_simple_result [OF assms, of "ST_REFERENCE c b"]
    st_simple_result [OF assms, of "ST_SLICE c b"] st_simple_result [OF assms, of "ST_ARRAY sz b"]
    st_simple_result [OF assms, of "ST_OPTIONAL b"]
    st_simple_result [OF assms, of "ST_ERROR_UNION b e"]
    st_simple_result [OF assms, of "ST_FUNCTION ps b v"]
  by (simp_all add: st_makes st_simple_def [symmetric] st_children_def denote_body_def)

text \<open>The object a type name stands for.\<close>

definition named_body :: "string_view \<Rightarrow> stype_body" where
  "named_body n =
    (let b = c_atoi (drop 1 n); i = b \<in> {8, 16, 32, 64, 128}; f = b \<in> {32, 64} in
     if n = ''void'' then ST_VOID
     else if n = ''bool'' then ST_BOOL
     else if n = ''isize'' then ST_INT True 64
     else if n = ''usize'' then ST_INT False 64
     else if length n > 1 \<and> n ! 0 = CHR ''i'' \<and> i then ST_INT True (of_int b)
     else if length n > 1 \<and> n ! 0 = CHR ''u'' \<and> i then ST_INT False (of_int b)
     else if length n > 1 \<and> n ! 0 = CHR ''f'' \<and> f then ST_FLOAT (of_int b)
     else if n = ''noreturn'' then ST_NORETURN
     else ST_STRUCT n [] [] None)"

lemma simple_fold: "(case st_alloc b tt of (p, tt) \<Rightarrow> intern_type tt p) = st_simple b tt"
  by (simp add: st_simple_def)

lemma st_named_eq: "st_named n tt = st_simple (named_body n) tt"
  unfolding st_named_def named_body_def st_makes Let_def sv_eq_cstr_iff simple_fold
  by (simp only: insert_iff empty_iff simp_thms if_distrib [of "\<lambda>b. st_simple b tt"] cong: if_cong)

lemma named_children [simp]: "st_children (named_body n) = []"
  by (simp add: named_body_def st_children_def Let_def)

definition type_of_name :: "string_view \<Rightarrow> ty" where
  "type_of_name n = denote_body (\<lambda>_. T_VOID) (named_body n)"

fun type_of :: "type_expr option \<Rightarrow> ty" and types_of :: "type_expr option list \<Rightarrow> ty list" where
  "type_of None = T_VOID"
| "type_of (Some (TYPE_NAMED _ n _)) = type_of_name n"
| "type_of (Some (TYPE_POINTER _ t c)) = T_POINTER c (type_of t)"
| "type_of (Some (TYPE_REFERENCE _ t c)) = T_REFERENCE c (type_of t)"
| "type_of (Some (TYPE_SLICE _ t c)) = T_SLICE c (type_of t)"
| "type_of (Some (TYPE_ARRAY _ len t)) = T_ARRAY (literal_length len) (type_of t)"
| "type_of (Some (TYPE_OPTIONAL _ t)) = T_OPTIONAL (type_of t)"
| "type_of (Some (TYPE_ERROR_UNION _ e s)) = T_ERROR_UNION (type_of s) (type_of e)"
| "type_of (Some (TYPE_FUNCTION _ ps r)) = T_FUNCTION (types_of ps) (type_of r) False"
| "types_of [] = []"
| "types_of (t # ts) = type_of t # types_of ts"

definition type_results :: "type_table \<Rightarrow> sptr list \<times> type_table \<Rightarrow> ty list \<Rightarrow> bool" where
  "type_results tt r ts \<longleftrightarrow> (case r of (ps, tt') \<Rightarrow> tt_ok tt' \<and> extends tt tt'
     \<and> (\<forall>p \<in> set ps. canonical tt' p) \<and> map (denote tt') ps = ts)"

lemma type_result_then:
  assumes "type_result tt r t"
    "\<And>p tt'. tt_ok tt' \<Longrightarrow> extends tt tt' \<Longrightarrow> canonical tt' p \<Longrightarrow> denote tt' p = t \<Longrightarrow>
      type_result tt' (f p tt') u"
  shows "type_result tt (case r of (p, tt') \<Rightarrow> f p tt') u"
proof -
  obtain p tt1 where r: "r = (p, tt1)" by fastforce
  have "type_result tt1 (f p tt1) u"
    by (rule assms(2)) (use assms(1) r in \<open>simp_all add: type_result_def\<close>)
  then show ?thesis using assms(1) r
    by (auto simp: type_result_def split: prod.splits intro: extends_trans)
qed

lemma type_results_then:
  assumes "type_results tt r ts"
    "\<And>ps tt'. tt_ok tt' \<Longrightarrow> extends tt tt' \<Longrightarrow> \<forall>p \<in> set ps. canonical tt' p \<Longrightarrow>
      map (denote tt') ps = ts \<Longrightarrow> type_result tt' (f ps tt') u"
  shows "type_result tt (case r of (ps, tt') \<Rightarrow> f ps tt') u"
proof -
  obtain ps tt1 where r: "r = (ps, tt1)" by fastforce
  have "type_result tt1 (f ps tt1) u"
    by (rule assms(2)) (use assms(1) r in \<open>simp_all add: type_results_def\<close>)
  then show ?thesis using assms(1) r
    by (auto simp: type_result_def type_results_def split: prod.splits intro: extends_trans)
qed

text \<open>Types resolved earlier keep their meaning.\<close>

lemma kept:
  assumes "tt_ok tt" "extends tt tt'"
  shows "canonical tt p \<Longrightarrow> canonical tt' p" "canonical tt p \<Longrightarrow> denote tt' p = denote tt p"
  using canonical_extends extends_denote canonical_valid assms by auto

lemma st_from_ast_result:
  "tt_ok tt \<Longrightarrow> type_result tt (st_from_ast te tt) (type_of te)"
  "tt_ok tt \<Longrightarrow> type_results tt (st_from_asts tes tt) (types_of tes)"
proof (induction te and tes arbitrary: tt and tt rule: type_of_types_of.induct)
  case (2 l n args)
  have "denote_body (denote tt) (named_body n) = type_of_name n"
    unfolding type_of_name_def by (rule denote_body_cong) simp_all
  then show ?case using st_simple_result [OF 2, of "named_body n"] by (simp add: st_named_eq)
next
  case (8 l err success)
  show ?case unfolding st_from_ast.simps type_of.simps Let_def
  proof (rule type_result_then [OF 8(1) [OF 8(3)]], rule type_result_then, rule 8(2))
    fix s tt1 e tt2
    assume "tt_ok tt1" "canonical tt1 s" "denote tt1 s = type_of success" "tt_ok tt2"
      "extends tt1 tt2" "canonical tt2 e" "denote tt2 e = type_of err"
    then show "type_result tt2 (st_error_union s e tt2) (T_ERROR_UNION (type_of success) (type_of err))"
      using kept [of tt1 tt2 s] by (simp add: constructor_results)
  qed
next
  case (9 l ps r)
  show ?case unfolding st_from_ast.simps type_of.simps Let_def
  proof (rule type_results_then [OF 9(1) [OF 9(3)]], rule type_result_then, rule 9(2))
    fix qs tt1 q tt2
    assume *: "tt_ok tt1" "\<forall>p \<in> set qs. canonical tt1 p" "map (denote tt1) qs = types_of ps"
      "tt_ok tt2" "extends tt1 tt2" "canonical tt2 q" "denote tt2 q = type_of r"
    then have "map (denote tt2) qs = types_of ps" "\<forall>p \<in> set qs. canonical tt2 p"
      using kept [of tt1 tt2] by (simp_all cong: map_cong)
    then show "type_result tt2 (st_function qs q False tt2)
        (T_FUNCTION (types_of ps) (type_of r) False)"
      using * by (simp add: constructor_results)
  qed
next
  case (11 t ts)
  obtain p tt1 where p: "st_from_ast t tt = (p, tt1)" by fastforce
  obtain ps tt2 where ps: "st_from_asts ts tt1 = (ps, tt2)" by fastforce
  have r: "type_result tt (p, tt1) (type_of t)" using 11(1) [OF 11(3)] p by simp
  then have "type_results tt1 (ps, tt2) (types_of ts)"
    using 11(2) [of tt1] ps by (simp add: type_result_def)
  then show ?case using r p ps kept [of tt1 tt2 p]
    by (auto simp: type_result_def type_results_def intro: extends_trans)
qed (auto simp: type_results_def constructor_results intro!: type_result_then)

text \<open>
  C6. Type expressions resolve to the same pointer if and only if they spell the same type. Two
  type expressions resolved at different times, with any number of types created in between, give
  equal pointers exactly when the trees of types they stand for are equal.
\<close>

theorem st_from_ast_equal:
  assumes "tt_ok tt" "st_from_ast a tt = (p, tt1)" "extends tt1 tt2" "tt_ok tt2"
    "st_from_ast b tt2 = (q, tt3)"
  shows "st_eq p q \<longleftrightarrow> type_of a = type_of b"
proof -
  have a: "canonical tt1 p" "denote tt1 p = type_of a" "tt_ok tt1"
    using st_from_ast_result(1) [OF assms(1), of a] assms(2) by (simp_all add: type_result_def)
  have b: "canonical tt3 q" "denote tt3 q = type_of b" "tt_ok tt3" "extends tt2 tt3"
    using st_from_ast_result(1) [OF assms(4), of b] assms(5) by (simp_all add: type_result_def)
  have "extends tt1 tt3" by (rule extends_trans [OF assms(3) b(4)])
  then have p: "canonical tt3 p" "denote tt3 p = type_of a"
    using kept [OF a(3) \<open>extends tt1 tt3\<close> a(1)] a(2) by simp_all
  have "p = q \<longleftrightarrow> denote tt3 p = denote tt3 q" 
    by (rule iffI, simp, rule canonical_eq [OF b(3) p(1) b(1)])
  then show ?thesis using p(2) b(2) by (simp add: st_eq_def)
qed

text \<open>
  C17. Coercion is a relation on types, and the test for it always returns. Between any two
  resolved types the test computes the relation \<open>coerces\<close>: integers widen within one signedness,
  floats widen, every integer coerces to every float and no float to an integer, a value coerces
  to the optional and to either side of an error union of its type, references gain \<open>const\<close>,
  take the reference of a value and lose one level of indirection. So a raw pointer \<open>*T\<close> is
  accepted where a \<open>T\<close> is expected, and no reference \<open>&T\<close> where a \<open>*T\<close> is, against what the
  documents of the repository say of the \<^verbatim>\<open>unsafe\<close> boundary and of the coercions.
\<close>

theorem st_can_coerce_coerces:
  assumes "tt_ok tt" "st_from_ast a tt = (p, tt1)" "st_from_ast b tt1 = (q, tt2)"
  shows "st_can_coerce tt2 p q = Some (coerces (type_of a) (type_of b))
    \<and> coerces (T_POINTER c t) t \<and> \<not> coerces (T_REFERENCE c t) (T_POINTER d t)"
proof -
  have a: "canonical tt1 p" "denote tt1 p = type_of a" "tt_ok tt1"
    using st_from_ast_result(1) [OF assms(1), of a] assms(2) by (simp_all add: type_result_def)
  have b: "canonical tt2 q" "denote tt2 q = type_of b" "tt_ok tt2" "extends tt1 tt2"
    using st_from_ast_result(1) [OF a(3), of b] assms(3) by (simp_all add: type_result_def)
  have "canonical tt2 p" "denote tt2 p = type_of a" using kept [OF a(3) b(4)] a by auto
  moreover have "coerces (T_POINTER c t) t" by (cases t) simp_all
  moreover have "t \<noteq> T_POINTER d t" by (induction t) auto
  ultimately show ?thesis using st_can_coerce_denote [OF b(3)] b(1,2) by simp
qed

definition demo_type :: "string \<Rightarrow> type_expr option" where
  "demo_type n = Some (TYPE_NAMED (loc_make [] 1 1 0) n [])"

definition demo_table :: type_table where
  "demo_table = type_table_new (\<lambda>p. of_nat (4096 + 96 * p))"

lemma demo_table_ok [simp]: "tt_ok demo_table"
  by (simp add: demo_table_def)

theorem st_from_ast_equal_witness:
  "st_eq (fst (st_from_ast (demo_type ''isize'') demo_table))
     (fst (st_from_ast (demo_type ''i64'') (snd (st_from_ast (demo_type ''isize'') demo_table))))"
proof -
  obtain p tt1 where p: "st_from_ast (demo_type ''isize'') demo_table = (p, tt1)" by fastforce
  obtain q tt2 where q: "st_from_ast (demo_type ''i64'') tt1 = (q, tt2)" by fastforce
  have ok: "tt_ok tt1"
    using st_from_ast_result(1) [OF demo_table_ok, of "demo_type ''isize''"] p
    by (simp add: type_result_def)
  have "type_of (demo_type ''isize'') = type_of (demo_type ''i64'')" by code_simp
  then show ?thesis using st_from_ast_equal [OF demo_table_ok p extends_refl ok q] p q by simp
qed

theorem st_can_coerce_coerces_witness:
  "\<exists>p q tt. st_can_coerce tt p q = Some True"
proof -
  obtain p tt1 where p: "st_from_ast (demo_type ''i32'') demo_table = (p, tt1)" by fastforce
  obtain q tt2 where q: "st_from_ast (demo_type ''f32'') tt1 = (q, tt2)" by fastforce
  have "coerces (type_of (demo_type ''i32'')) (type_of (demo_type ''f32''))" by code_simp
  then show ?thesis
    using st_can_coerce_coerces [OF demo_table_ok p q, where c = True and d = True and t = T_VOID] by auto
qed

lemma char_digit_dec: "is_dec c \<Longrightarrow> char_digit c = Some (digit_val c)"
  by (simp add: char_digit_def is_digit_def is_dec_def)

lemma digits_prefix_number:
  assumes "\<forall>c \<in> set w. is_dec c" "rest = [] \<or> \<not> is_dec (hd rest)"
  shows "digits_prefix 10 (w @ rest) = map digit_val w"
  using assms(1)
proof (induction w)
  case Nil
  show ?case
  proof (cases rest)
    case (Cons c cs)
    have "d \<ge> 10" if "char_digit c = Some d" for d
    proof -
      have "\<not> is_digit c" using assms(2) Cons by (simp add: is_dec_def is_digit_def)
      then show ?thesis using that
        by (simp add: char_digit_def less_eq_char_def split: if_splits; (arith)?)
    qed
    then show ?thesis using Cons by (auto split: option.split simp: not_less)
  qed simp
next
  case (Cons c w)
  then show ?case by (simp add: char_digit_dec digit_val_less)
qed

text \<open>\<^verbatim>\<open>atoi\<close> of a number below \<open>2 ^ 31\<close> with anything but a digit behind it.\<close>

lemma c_atoi_number:
  assumes "b < 2 ^ 31" "rest = [] \<or> \<not> is_dec (hd rest)"
  shows "c_atoi (show_nat b @ rest) = int b"
proof -
  have "strtoll 10 (show_nat b @ rest) = word_of_int (int b)"
    using digits_prefix_number [OF show_nat_digits assms(2), of b] assms(1)
    by (simp add: strtoll_def skip_base_prefix_def digits_val_show_nat llong_max_def min_absorb2)
  moreover have "(ucast (word_of_nat b :: 64 word) :: 32 word) = word_of_nat b"
    using assms(1) by (simp add: unsigned_of_nat take_bit_nat_eq_self)
  moreover have "sint (word_of_nat b :: 32 word) = int b"
    using assms(1) by (simp add: signed_of_nat signed_take_bit_int_eq_self)
  ultimately show ?thesis by (simp add: c_atoi_def)
qed

text \<open>
  C39. A type name is read as a letter and a number, and the rest is ignored. For every first
  character, every number below \<open>2 ^ 31\<close> and every rest that does not go on with a digit, the name
  resolves to the integer type of that width when the letter is \<open>i\<close> or \<open>u\<close> and the number is 8, 16,
  32, 64 or 128, to the float type when the letter is \<open>f\<close> and the number is 32 or 64, and to the
  structure of that name otherwise. So \<open>i32_list\<close> is the type \<open>i32\<close>, while \<open>i320\<close> and \<open>f16\<close> are structures.
\<close>

theorem st_named_ignores_rest:
  assumes "b < 2 ^ 31" "rest = [] \<or> \<not> is_dec (hd rest)"
  shows "st_named (c # show_nat b @ rest) tt =
    (if c \<in> {CHR ''i'', CHR ''u''} \<and> b \<in> {8, 16, 32, 64, 128} then st_int (c = CHR ''i'') (of_nat b) tt
     else if c = CHR ''f'' \<and> b \<in> {32, 64} then st_float (of_nat b) tt
     else let (p, tt) = st_alloc (ST_STRUCT (c # show_nat b @ rest) [] [] None) tt in intern_type tt p)"
proof -
  obtain d w where d: "show_nat b = d # w" "is_dec d"
    using show_nat_digits [of b] by (cases "show_nat b") auto
  have "d \<noteq> CHR ''o''" "d \<noteq> CHR ''s''" using d(2) by (auto simp: is_dec_def less_eq_char_def)
  then show ?thesis
    using c_atoi_number [OF assms] d(1)
    by (simp add: st_named_def Let_def sv_eq_cstr_iff) auto
qed

theorem st_named_ignores_rest_witness:
  "st_named ''u8string'' demo_table = st_int False 8 demo_table"
proof -
  have "show_nat 8 = ''8''" by code_simp
  then show ?thesis
    using st_named_ignores_rest [of 8 "''string''" "CHR ''u''" demo_table]
    by (simp add: is_dec_def less_eq_char_def)
qed

end
