(* ===== verification/Sema_Frame.thy ===== *)
theory Sema_Frame
  imports Sema Type_Laws
begin

text \<open>
  The rules every run of the semantic analysis respects, as an interface of two relations between
  states. \<open>E\<close> is for expressions, types and blocks: it allows reports, annotations of nodes and new
  types, and anything done inside a scope that is opened and left again. \<open>R\<close> is for statements,
  which may in addition declare a name in the current scope. Every checking function is proved once
  to stay inside any such pair of relations.
\<close>

section \<open>The interface\<close>

definition checks :: "(sema \<Rightarrow> sema \<Rightarrow> bool) \<Rightarrow> sema \<Rightarrow> ('a \<times> sema) option \<Rightarrow> bool" where
  "checks R s m \<longleftrightarrow> (\<forall>x. m = Some x \<longrightarrow> R s (snd x))"

definition steps :: "(sema \<Rightarrow> sema \<Rightarrow> bool) \<Rightarrow> sema \<Rightarrow> sema option \<Rightarrow> bool" where
  "steps R s m \<longleftrightarrow> (\<forall>q. m = Some q \<longrightarrow> R s q)"

text \<open>The type table changes by new objects only, interned or not.\<close>

definition type_step :: "type_table \<Rightarrow> type_table \<Rightarrow> bool" where
  "type_step tt tt' \<longleftrightarrow> (\<exists>b. tt' = snd (st_simple b tt) \<or> tt' = snd (st_alloc b tt))"

definition type_steps :: "(type_table \<Rightarrow> sptr \<times> type_table) \<Rightarrow> bool" where
  "type_steps f \<longleftrightarrow> (\<forall>tt. type_step\<^sup>*\<^sup>* tt (snd (f tt)))"

lemma simple_step: "type_step tt (snd (st_simple b tt))"
  by (auto simp: type_step_def)

lemma type_steps_simple [simp]: "type_steps (st_simple b)" "type_steps (st_alloc b)"
  unfolding type_steps_def type_step_def by blast+

lemma st_simples:
  "st_void tt = st_simple ST_VOID tt" "st_bool tt = st_simple ST_BOOL tt"
  "st_int g w tt = st_simple (ST_INT g w) tt" "st_float w tt = st_simple (ST_FLOAT w) tt"
  "st_pointer c p tt = st_simple (ST_POINTER c p) tt"
  "st_reference c p tt = st_simple (ST_REFERENCE c p) tt"
  "st_slice c p tt = st_simple (ST_SLICE c p) tt" "st_array k p tt = st_simple (ST_ARRAY k p) tt"
  "st_optional p tt = st_simple (ST_OPTIONAL p) tt"
  "st_error_union p q tt = st_simple (ST_ERROR_UNION p q) tt"
  "st_function ps r v tt = st_simple (ST_FUNCTION ps r v) tt"
  by (simp_all only: st_makes Let_def simple_fold)

lemma type_steps_all [simp]:
  "type_steps st_void" "type_steps st_bool" "type_steps (st_int g w)" "type_steps (st_float w)"
  "type_steps (st_pointer c p)" "type_steps (st_reference c p)" "type_steps (st_slice c p)"
  "type_steps (st_array k p)" "type_steps (st_optional p)" "type_steps (st_error_union p q)"
  "type_steps (st_function ps r v)" "type_steps (st_named n)"
  by (simp_all only: type_steps_def st_simples st_named_eq r_into_rtranclp [of type_step, OF simple_step] simp_thms)

lemma type_steps_string [simp]: "type_steps st_string"
  unfolding type_steps_def
proof
  fix tt
  obtain c tt' where c: "st_int False 8 tt = (c, tt')" by fastforce
  have "type_step tt tt'" using simple_step [of tt "ST_INT False 8"] c by (simp add: st_simples)
  moreover have "type_step tt' (snd (st_slice True c tt'))" by (simp only: st_simples simple_step)
  ultimately show "type_step\<^sup>*\<^sup>* tt (snd (st_string tt))" by (simp add: st_string_def c)
qed

named_theorems check_rules \<open>rules of the relations of the analysis\<close>

locale checker_rules =
  fixes E R :: "sema \<Rightarrow> sema \<Rightarrow> bool"
  assumes E_refl: "E s s"
    and E_trans: "E s q \<Longrightarrow> E q r \<Longrightarrow> E s r"
    and R_trans: "R s q \<Longrightarrow> R q r \<Longrightarrow> R s r"
    and E_R: "E s q \<Longrightarrow> R s q"
    and E_type: "type_step (sm_types s) tt \<Longrightarrow> E s (s\<lparr>sm_types := tt\<rparr>)"
    and E_report: "E s (sema_report loc msg s)"
    and E_note: "E s (s\<lparr>sm_type_of := f\<rparr>)" "E s (s\<lparr>sm_sym_of := g\<rparr>)"
      "E s (s\<lparr>sm_error_return := h\<rparr>)"
    and E_has_return: "E s (s\<lparr>sm_fn_has_return := True\<rparr>)"
    and E_self: "E (s\<lparr>sm_self_type := x\<rparr>) q \<Longrightarrow> E s (q\<lparr>sm_self_type := sm_self_type s\<rparr>)"
    and E_unsafe: "E (s\<lparr>sm_in_unsafe := b\<rparr>) q \<Longrightarrow> E s (q\<lparr>sm_in_unsafe := sm_in_unsafe s\<rparr>)"
    and E_scope: "open_scope node s = (sc, s1) \<Longrightarrow> R (s1\<lparr>sm_current_scope := sc\<rparr>) q \<Longrightarrow>
      E s (q\<lparr>sm_current_scope := sm_current_scope s\<rparr>)"
    and R_declare: "E s q \<Longrightarrow> R s (declare_in (sm_current_scope s) kind name ty decl q)"
begin

lemma E_types: "type_step\<^sup>*\<^sup>* (sm_types s) tt \<Longrightarrow> E s (s\<lparr>sm_types := tt\<rparr>)"
proof (induction rule: rtranclp_induct)
  case base
  then show ?case by (simp add: E_refl)
next
  case (step y z)
  then show ?case using E_trans E_type [of "s\<lparr>sm_types := y\<rparr>" z] by fastforce
qed

lemma E_tt_do: "type_steps f \<Longrightarrow> E s (snd (tt_do f s))"
  using E_types by (simp add: tt_do_def type_steps_def case_prod_beta)

subsection \<open>Following a run\<close>

lemma checks_Some [check_rules]: "E s q \<Longrightarrow> checks E s (Some (t, q))"
  by (simp add: checks_def)

lemma checks_None [check_rules]: "checks Q s None" "steps Q s None"
  by (simp_all add: checks_def steps_def)

lemma steps_Some [check_rules]: "E s q \<Longrightarrow> steps E s (Some q)"
  by (simp add: steps_def)

lemma checks_bind [check_rules]:
  "checks E s m \<Longrightarrow> (\<And>t q. m = Some (t, q) \<Longrightarrow> E s q \<Longrightarrow> checks E s (k (t, q))) \<Longrightarrow>
     checks E s (Option.bind m k)"
  "checks E s m \<Longrightarrow> (\<And>t q. m = Some (t, q) \<Longrightarrow> E s q \<Longrightarrow> steps E s (k' (t, q))) \<Longrightarrow>
     steps E s (Option.bind m k')"
  by (cases m; auto simp: checks_def steps_def)+

lemma steps_bind [check_rules]:
  "steps E s m \<Longrightarrow> (\<And>q. m = Some q \<Longrightarrow> E s q \<Longrightarrow> checks E s (k q)) \<Longrightarrow> checks E s (Option.bind m k)"
  "steps E s m \<Longrightarrow> (\<And>q. m = Some q \<Longrightarrow> E s q \<Longrightarrow> steps E s (k' q)) \<Longrightarrow> steps E s (Option.bind m k')"
  by (cases m; auto simp: checks_def steps_def)+

lemma pure_bind:
  "(\<And>x. m = Some x \<Longrightarrow> checks Q s (k x)) \<Longrightarrow> checks Q s (Option.bind m k)"
  "(\<And>x. m = Some x \<Longrightarrow> steps Q s (k' x)) \<Longrightarrow> steps Q s (Option.bind m k')"
  by (cases m; auto simp: checks_def steps_def)+

lemma tt_do_then [check_rules]:
  "E s q \<Longrightarrow> type_steps f \<Longrightarrow> (\<And>t r. tt_do f q = (t, r) \<Longrightarrow> E s r \<Longrightarrow> checks E s (k t r)) \<Longrightarrow>
     checks E s (case tt_do f q of (t, r) \<Rightarrow> k t r)"
  using E_trans [of s q "snd (tt_do f q)"] E_tt_do [of f q] by (cases "tt_do f q") simp

lemma E_after: "E s q \<Longrightarrow> E q r \<Longrightarrow> E s r"
  by (rule E_trans)

lemma report_after [check_rules]: "E s q \<Longrightarrow> E s (sema_report loc msg q)"
  using E_report E_trans by blast

lemma note_after [check_rules]:
  "E s q \<Longrightarrow> E s (q\<lparr>sm_type_of := f\<rparr>)" "E s q \<Longrightarrow> E s (q\<lparr>sm_sym_of := g\<rparr>)"
  "E s q \<Longrightarrow> E s (set_error_return i b q)" "E s q \<Longrightarrow> E s (q\<lparr>sm_fn_has_return := True\<rparr>)"
  unfolding set_error_return_def using E_note E_has_return E_trans by blast+

lemma typed_after: "E s q \<Longrightarrow> E s (snd (typed i t q))"
  by (simp add: typed_def note_after)

lemma tt_do_after: "E s q \<Longrightarrow> type_steps f \<Longrightarrow> E s (snd (tt_do f q))"
  using E_tt_do E_trans by blast

lemma typed_tt_after: "E s q \<Longrightarrow> type_steps f \<Longrightarrow> E s (snd (typed_tt i f q))"
  using tt_do_after [of s q f] by (simp add: typed_tt_def typed_def note_after case_prod_beta)

lemma void_error_after: "E s q \<Longrightarrow> E s (snd (void_error i loc msg q))"
  by (simp add: void_error_def typed_tt_after report_after)

lemma checks_pair: "E s (snd x) \<Longrightarrow> checks E s (Some x)"
  by (simp add: checks_def)

lemmas finals [check_rules] =
  checks_pair [OF tt_do_after] checks_pair [OF typed_after] checks_pair [OF typed_tt_after]
  checks_pair [OF void_error_after]

lemma pair_then [check_rules]:
  "E s (snd x) \<Longrightarrow> (\<And>t r. x = (t, r) \<Longrightarrow> E s r \<Longrightarrow> checks E s (k t r)) \<Longrightarrow>
     checks E s (case x of (t, r) \<Rightarrow> k t r)"
  "E s (snd x) \<Longrightarrow> (\<And>t r. x = (t, r) \<Longrightarrow> E s r \<Longrightarrow> steps E s (k' t r)) \<Longrightarrow>
     steps E s (case x of (t, r) \<Rightarrow> k' t r)"
  by (cases x; simp)+

lemma known_pair [check_rules]:
  "checks Q s (k a b) \<Longrightarrow> checks Q s (case (a, b) of (x, y) \<Rightarrow> k x y)"
  "steps Q s (k' a b) \<Longrightarrow> steps Q s (case (a, b) of (x, y) \<Rightarrow> k' x y)"
  by simp_all

lemmas afters [check_rules] = typed_after tt_do_after typed_tt_after void_error_after

lemma check_if [check_rules]:
  "(b \<Longrightarrow> checks Q s x) \<Longrightarrow> (\<not> b \<Longrightarrow> checks Q s y) \<Longrightarrow> checks Q s (if b then x else y)"
  "(b \<Longrightarrow> steps Q s x') \<Longrightarrow> (\<not> b \<Longrightarrow> steps Q s y') \<Longrightarrow> steps Q s (if b then x' else y')"
  "(b \<Longrightarrow> E s q) \<Longrightarrow> (\<not> b \<Longrightarrow> E s r) \<Longrightarrow> E s (if b then q else r)"
  "(b \<Longrightarrow> E s (snd u)) \<Longrightarrow> (\<not> b \<Longrightarrow> E s (snd v)) \<Longrightarrow> E s (snd (if b then u else v))"
  by simp_all

lemma check_option [check_rules]:
  "(x = None \<Longrightarrow> checks Q s y) \<Longrightarrow> (\<And>a. x = Some a \<Longrightarrow> checks Q s (f a)) \<Longrightarrow>
     checks Q s (case x of None \<Rightarrow> y | Some a \<Rightarrow> f a)"
  "(x = None \<Longrightarrow> steps Q s y') \<Longrightarrow> (\<And>a. x = Some a \<Longrightarrow> steps Q s (f' a)) \<Longrightarrow>
     steps Q s (case x of None \<Rightarrow> y' | Some a \<Rightarrow> f' a)"
  by (simp_all split: option.split)

lemma E_option [check_rules]:
  "(x = None \<Longrightarrow> E s q) \<Longrightarrow> (\<And>a. x = Some a \<Longrightarrow> E s (f a)) \<Longrightarrow>
     E s (case x of None \<Rightarrow> q | Some a \<Rightarrow> f a)"
  "(x = None \<Longrightarrow> E s (snd u)) \<Longrightarrow> (\<And>a. x = Some a \<Longrightarrow> E s (snd (g a))) \<Longrightarrow>
     E s (snd (case x of None \<Rightarrow> u | Some a \<Rightarrow> g a))"
  "E s r \<Longrightarrow> E s (snd (t, r))"
  by (simp_all split: option.split)

lemmas splits = stype_body.split node_body.split expr_body.split stmt_body.split decl_body.split

subsection \<open>Types and constants\<close>

lemma E_eval_operator [check_rules]: "E s q \<Longrightarrow> E s (snd (eval_operator loc op l r q))"
  by (simp add: eval_operator_def check_rules)

lemma E_eval_const [check_rules]: "E s q \<Longrightarrow> checks E s (sema_eval_const_expr n e q)"
proof (induction n arbitrary: e q)
  case (Suc n)
  note rules = check_rules Suc.IH
  show ?case unfolding sema_eval_const_expr.simps
    by (insert Suc.prems; rule rules pure_bind checks_pair refl | assumption
      | (split splits; intro conjI allI impI))+
qed (simp add: check_rules)

lemma E_resolve_declared [check_rules]: "E s q \<Longrightarrow> checks E s (resolve_declared loc n q)"
  unfolding resolve_declared_def
  by (rule check_rules pure_bind checks_pair refl | assumption | simp only: type_steps_all type_steps_simple)+

lemma E_resolve_named [check_rules]: "E s q \<Longrightarrow> checks E s (resolve_named loc n q)"
  unfolding resolve_named_def Let_def
  by (rule check_rules pure_bind checks_pair refl | assumption | simp only: type_steps_all type_steps_simple)+

lemma E_check_error_union [check_rules]: "E s q \<Longrightarrow> steps E s (check_error_union e sc err succ q)"
  unfolding check_error_union_def
  by (rule check_rules pure_bind checks_pair refl | assumption | simp only: type_steps_all type_steps_simple)+

definition checker :: "(sema \<Rightarrow> ('a \<times> sema) option) \<Rightarrow> bool" where
  "checker f \<longleftrightarrow> (\<forall>s q. E s q \<longrightarrow> checks E s (f q))"

lemma checkerI: "(\<And>s q. E s q \<Longrightarrow> checks E s (f q)) \<Longrightarrow> checker f"
  by (simp add: checker_def)

lemma checkerD: "checker f \<Longrightarrow> E s q \<Longrightarrow> checks E s (f q)"
  by (simp add: checker_def)

lemma checker_resolve_types:
  "checker (sema_resolve_type n ty)" "checker (sema_resolve_types n tys)"
  apply (induction ty and tys rule: type_of_types_of.induct)
  apply (unfold sema_resolve_type.simps sema_resolve_types.simps)
  apply (rule checkerI, ((rule check_rules pure_bind checks_pair refl | assumption
    | simp only: type_steps_all type_steps_simple | (erule checkerD, assumption))+) [1])+
  done

lemmas E_resolve_type [check_rules] = checker_resolve_types [THEN checkerD]

subsection \<open>Expressions\<close>

lemma E_check_binary [check_rules]: "E s q \<Longrightarrow> E s (snd (check_binary i loc op l r q))"
  unfolding check_binary_def
  by (rule check_rules pure_bind checks_pair refl | assumption | simp only: type_steps_all type_steps_simple)+

lemma E_check_unary [check_rules]: "E s q \<Longrightarrow> E s (snd (check_unary i loc op t q))"
  unfolding check_unary_def
  by (rule check_rules pure_bind checks_pair refl | assumption | simp only: type_steps_all type_steps_simple
    | (split splits; intro conjI allI impI))+

lemma E_check_argument [check_rules]: "E s q \<Longrightarrow> steps E s (check_argument loc k param arg q)"
  unfolding check_argument_def
  by (rule check_rules pure_bind checks_pair refl | assumption | simp only: type_steps_all type_steps_simple)+

lemma E_check_try [check_rules]: "E s q \<Longrightarrow> checks E s (check_try i loc inner q)"
  unfolding check_try_def
  by (rule check_rules pure_bind checks_pair refl | assumption | simp only: type_steps_all type_steps_simple
    | (split splits; intro conjI allI impI))+

lemma E_check_struct_field [check_rules]: "E s q \<Longrightarrow> checks E s (check_struct_field n i loc fname base q)"
  unfolding check_struct_field_def Let_def
  by (rule check_rules pure_bind checks_pair refl | assumption | simp only: type_steps_all type_steps_simple)+

lemma E_check_field_access [check_rules]: "E s q \<Longrightarrow> checks E s (check_field_access n i loc fname base q)"
  unfolding check_field_access_def
  by (rule check_rules pure_bind checks_pair refl | assumption | simp only: type_steps_all type_steps_simple
    | (split splits; intro conjI allI impI))+

lemma E_check_index [check_rules]: "E s q \<Longrightarrow> E s (snd (check_index i obj q))"
  unfolding check_index_def
  by (rule check_rules pure_bind checks_pair refl | assumption | simp only: type_steps_all type_steps_simple
    | (split splits; intro conjI allI impI))+

lemma E_join_element [check_rules]: "E s q \<Longrightarrow> checks E s (join_element loc k elem t q)"
  unfolding join_element_def
  by (rule check_rules pure_bind checks_pair refl | assumption | simp only: type_steps_all type_steps_simple)+

lemma E_check_array [check_rules]: "E s q \<Longrightarrow> checks E s (check_array n i loc explicit len elem q)"
  unfolding check_array_def Let_def
  by (rule check_rules pure_bind checks_pair refl | assumption | simp only: type_steps_all type_steps_simple)+

lemma E_check_field_init [check_rules]: "E s q \<Longrightarrow> steps E s (check_field_init n loc st fs fname fval q)"
  unfolding check_field_init_def
  by (rule check_rules pure_bind checks_pair refl | assumption | simp only: type_steps_all type_steps_simple)+

lemma E_sema_make_fn_type [check_rules]: "E s q \<Longrightarrow> checks E s (sema_make_fn_type n fn q)"
  unfolding sema_make_fn_type_def
  by (rule check_rules pure_bind checks_pair refl | assumption | simp only: type_steps_all type_steps_simple
    | (split splits; intro conjI allI impI))+

text \<open>A run under another type of \<^verbatim>\<open>Self\<close>, or inside \<^verbatim>\<open>unsafe\<close>.\<close>

lemma self_then:
  assumes q: "E s q" and k: "\<And>t r. E s (r\<lparr>sm_self_type := sm_self_type q\<rparr>) \<Longrightarrow> checks E s (k t r)"
  shows "checks E s (Option.bind (sema_make_fn_type n fn (q\<lparr>sm_self_type := x\<rparr>)) (\<lambda>(t, r). k t r))"
proof -
  have run: "checks E (q\<lparr>sm_self_type := x\<rparr>) (sema_make_fn_type n fn (q\<lparr>sm_self_type := x\<rparr>))"
    by (rule E_sema_make_fn_type [OF E_refl])
  have "E s (r\<lparr>sm_self_type := sm_self_type q\<rparr>)"
    if "sema_make_fn_type n fn (q\<lparr>sm_self_type := x\<rparr>) = Some (t, r)" for t r
    using E_trans [OF q E_self [where s = q and x = x and q = r]] run that by (simp add: checks_def)
  then show ?thesis
    using k by (cases "sema_make_fn_type n fn (q\<lparr>sm_self_type := x\<rparr>)") (auto simp: checks_None)
qed

lemma E_check_receiver [check_rules]: "E s q \<Longrightarrow> checks E s (check_receiver n i loc mname recv q)"
  unfolding check_receiver_def Let_def
  by (rule self_then check_rules pure_bind checks_pair refl | assumption
    | simp only: type_steps_all type_steps_simple
    | (split stype_body.split list.split; intro conjI allI impI))+

lemma E_check_fallback [check_rules]: "E s q \<Longrightarrow> checks E s (check_fallback i loc fb succ b q)"
  unfolding check_fallback_def
  by (rule check_rules pure_bind checks_pair refl | assumption | simp only: type_steps_all type_steps_simple)+

subsection \<open>Statements\<close>

lemma E_check_return [check_rules]: "E s q \<Longrightarrow> steps E s (check_return i loc ret expected q)"
  unfolding check_return_def
  by (rule check_rules pure_bind checks_pair refl | assumption | simp only: type_steps_all type_steps_simple
    | (split splits; intro conjI allI impI))+

lemma E_check_condition [check_rules]: "E s q \<Longrightarrow> steps E s (check_condition c msg t q)"
  unfolding check_condition_def
  by (rule check_rules pure_bind checks_pair refl | assumption | simp only: type_steps_all type_steps_simple)+

lemma E_check_assign [check_rules]: "E s q \<Longrightarrow> steps E s (check_assign loc lhs lt rt q)"
  unfolding check_assign_def Let_def
  by (rule check_rules pure_bind checks_pair refl | assumption | simp only: type_steps_all type_steps_simple
    | (split splits; intro conjI allI impI))+

lemma E_check_errdefer [check_rules]: "E s q \<Longrightarrow> E s (check_errdefer loc q)"
  unfolding check_errdefer_def
  by (rule check_rules pure_bind checks_pair refl | assumption | simp only: type_steps_all type_steps_simple)+

lemma R_checks: "R s q \<Longrightarrow> checks E q m \<Longrightarrow> checks R s m"
  unfolding checks_def using E_R R_trans by blast

lemma R_bind:
  "R s q \<Longrightarrow> checks E q m \<Longrightarrow> (\<And>t r. R s r \<Longrightarrow> checks R s (k (t, r))) \<Longrightarrow>
     checks R s (Option.bind m k)"
proof -
  assume q: "R s q" "checks E q m" and k: "\<And>t r. R s r \<Longrightarrow> checks R s (k (t, r))"
  have "R s r" if "m = Some (t, r)" for t r
    using R_trans [OF q(1) E_R [of q r]] q(2) that by (simp add: checks_def)
  then show ?thesis
    using k by (cases m) (auto simp: checks_def)
qed

lemma E_var_type:
  "checks E q (case ty of None \<Rightarrow> Some (t, q) | Some te \<Rightarrow> do {
       (dt, s) \<leftarrow> sema_resolve_type n (Some te) q;
       ok \<leftarrow> (if ini = None then Some True else st_can_coerce (sm_types s) t dt);
       if ok then Some (dt, s)
       else do {
         dn \<leftarrow> st_name (sm_types s) dt;
         tn \<leftarrow> st_name (sm_types s) t;
         Some (dt, sema_report (n_loc node) (m_init name dn tn) s)
       }
     })"
  by (rule check_rules pure_bind checks_pair E_refl refl | assumption)+

lemma R_check_var_decl:
  assumes "R s q"
  shows "checks R s (check_var_decl n node kind name ty ini t q)"
  unfolding check_var_decl_def
proof (rule R_bind [OF assms E_var_type])
  fix dt r
  assume "R s r"
  then have "R s (snd (tt_do st_void (declare_in (sm_current_scope r) kind name (Some dt) (Some node) r)))"
    using R_trans R_declare [OF E_refl] E_R E_tt_do type_steps_all(1) by blast
  then show "checks R s (case (dt, r) of (dt, s) \<Rightarrow> Some (tt_do st_void
      (declare_in (sm_current_scope s) kind name (Some dt) (Some node) s)))"
    by (simp add: checks_def)
qed

subsection \<open>The recursive functions\<close>

definition checkers_ok :: "checkers \<Rightarrow> bool" where
  "checkers_ok C \<longleftrightarrow> (\<forall>s q e. E s q \<longrightarrow> checks E s (ck_expr C e q))
     \<and> (\<forall>s q b. E s q \<longrightarrow> checks E s (ck_block C b q))
     \<and> (\<forall>s q st. R s q \<longrightarrow> checks R s (ck_stmt C st q))"

lemma ck_expr_ok: "checkers_ok C \<Longrightarrow> E s q \<Longrightarrow> checks E s (ck_expr C e q)"
  by (simp add: checkers_ok_def)

lemma ck_block_ok: "checkers_ok C \<Longrightarrow> E s q \<Longrightarrow> checks E s (ck_block C b q)"
  by (simp add: checkers_ok_def)

lemma ck_stmt_ok: "checkers_ok C \<Longrightarrow> R s q \<Longrightarrow> checks R s (ck_stmt C st q)"
  by (simp add: checkers_ok_def)

lemma E_check_args [check_rules]:
  assumes C: "checkers_ok C"
  shows "E s q \<Longrightarrow> steps E s (check_args C k args params q)"
proof (induction args arbitrary: k params q)
  case (Cons a args)
  note rules = ck_expr_ok [OF C] Cons.IH check_rules
  show ?case unfolding check_args.simps
    by (insert Cons.prems; (rule rules | assumption)+)
qed (simp add: check_rules)

lemma E_check_elements [check_rules]:
  assumes C: "checkers_ok C"
  shows "E s q \<Longrightarrow> checks E s (check_elements C k elem es q)"
proof (induction es arbitrary: k elem q)
  case (Cons e es)
  note rules = ck_expr_ok [OF C] Cons.IH check_rules
  show ?case unfolding check_elements.simps
    by (insert Cons.prems; (rule rules | assumption)+)
qed (simp add: check_rules)

lemma E_check_one_init [check_rules]:
  "checkers_ok C \<Longrightarrow> E s q \<Longrightarrow> steps E s (check_one_init n C st fs f q)"
  unfolding check_one_init_def
  by (rule ck_expr_ok check_rules pure_bind refl | assumption | (split splits; intro conjI allI impI))+

lemma E_check_field_inits [check_rules]:
  assumes C: "checkers_ok C"
  shows "E s q \<Longrightarrow> steps E s (check_field_inits n C st fs inits q)"
proof (induction inits arbitrary: q)
  case (Cons f inits)
  note rules = E_check_one_init [OF C] Cons.IH check_rules
  show ?case unfolding check_field_inits.simps
    by (insert Cons.prems; (rule rules | assumption)+)
qed (simp add: check_rules)

lemma E_check_try_operand [check_rules]:
  "checkers_ok C \<Longrightarrow> E s q \<Longrightarrow> checks E s (check_try_operand C e q)"
  unfolding check_try_operand_def
  by (rule ck_expr_ok check_rules pure_bind refl | assumption | (split splits; intro conjI allI impI))+

text \<open>A block inside \<^verbatim>\<open>unsafe\<close>, and a run inside a scope of its own.\<close>

lemma unsafe_then:
  assumes C: "checkers_ok C" and q: "E s q"
    and k: "\<And>t r. E s (r\<lparr>sm_in_unsafe := sm_in_unsafe q\<rparr>) \<Longrightarrow> checks E s (k t r)"
  shows "checks E s (Option.bind (ck_block C b (q\<lparr>sm_in_unsafe := x\<rparr>)) (\<lambda>(t, r). k t r))"
proof -
  have "E s (r\<lparr>sm_in_unsafe := sm_in_unsafe q\<rparr>)" if "ck_block C b (q\<lparr>sm_in_unsafe := x\<rparr>) = Some (t, r)" for t r
    using E_trans [OF q E_unsafe [where s = q and b = x and q = r]]
      ck_block_ok [OF C E_refl [of "q\<lparr>sm_in_unsafe := x\<rparr>"], of b] that by (simp add: checks_def)
  then show ?thesis
    using k by (cases "ck_block C b (q\<lparr>sm_in_unsafe := x\<rparr>)") (auto simp: checks_None)
qed

lemma scope_left:
  assumes "E s q" "open_scope node q = (sc, q1)" "R (q1\<lparr>sm_current_scope := sc\<rparr>) r"
  shows "E s (r\<lparr>sm_current_scope := sm_current_scope q\<rparr>)"
  using assms E_scope E_trans by blast

lemma R_refl: "R s s"
  by (rule E_R [OF E_refl])

lemma declare_in_scope:
  "declare_in sc kind name ty decl (q\<lparr>sm_current_scope := x\<rparr>) = declare_in sc kind name ty decl q\<lparr>sm_current_scope := x\<rparr>"
  by (cases q) (simp add: declare_in_def Let_def case_prod_beta)

lemma scope_block_then:
  assumes C: "checkers_ok C" and q: "E s q"
    and k: "\<And>t r. E s (r\<lparr>sm_current_scope := sm_current_scope q\<rparr>) \<Longrightarrow> checks E s (k t r)"
  shows "checks E s (case open_scope node q of (sc, q1) \<Rightarrow>
     Option.bind (ck_block C b (declare_in sc kind name ty decl q1\<lparr>sm_current_scope := sc\<rparr>))
       (\<lambda>(t, r). k t r))"
proof -
  obtain sc q1 where q1: "open_scope node q = (sc, q1)" by fastforce
  let ?q = "declare_in sc kind name ty decl q1\<lparr>sm_current_scope := sc\<rparr>"
  have d: "R (q1\<lparr>sm_current_scope := sc\<rparr>) ?q"
    using R_declare [OF E_refl [of "q1\<lparr>sm_current_scope := sc\<rparr>"], of kind name ty decl]
    by (simp add: declare_in_scope)
  have "E s (r\<lparr>sm_current_scope := sm_current_scope q\<rparr>)" if "ck_block C b ?q = Some (t, r)" for t r
    using scope_left [OF q q1 R_trans [OF d E_R]] ck_block_ok [OF C E_refl [of ?q], of b] that
    by (simp add: checks_def)
  then show ?thesis
    using k q1 by (cases "ck_block C b ?q") (auto simp: checks_None)
qed

lemma E_check_identifier [check_rules]: "E s q \<Longrightarrow> checks E s (check_identifier i loc name q)"
  unfolding check_identifier_def Let_def
  by (rule check_rules pure_bind checks_pair refl | assumption | simp only: type_steps_all type_steps_simple)+

lemma any_pair: "(\<And>a b. x = (a, b) \<Longrightarrow> checks Q s (k a b)) \<Longrightarrow> checks Q s (case x of (a, b) \<Rightarrow> k a b)"
  by (cases x) simp

lemma E_check_node [check_rules]:
  "checkers_ok C \<Longrightarrow> E s q \<Longrightarrow> checks E s (check_node n C node q)"
  unfolding check_node_def Let_def
  by (rule unsafe_then scope_block_then ck_expr_ok check_rules pure_bind checks_pair refl | assumption
    | simp only: type_steps_all type_steps_simple type_steps_string
    | (split node_body.split expr_body.split stype_body.split sum.split; intro conjI allI impI)
    | rule any_pair)+

lemma E_sema_check_expr [check_rules]:
  "checkers_ok C \<Longrightarrow> E s q \<Longrightarrow> checks E s (sema_check_expr n C e q)"
  unfolding sema_check_expr_def
  by (rule check_rules checks_pair | assumption | simp only: type_steps_all)+

lemma R_check_stmts:
  assumes C: "checkers_ok C"
  shows "R s q \<Longrightarrow> checks R s (check_stmts C t sts q)"
proof (induction sts arbitrary: q t)
  case (Cons st sts)
  have "R s r" if "ck_stmt C st q = Some (t, r)" for t r
    using ck_stmt_ok [OF C Cons.prems, of st] that by (simp add: checks_def)
  then show ?case
    using Cons.IH by (cases "ck_stmt C st q") (auto simp: checks_None)
qed (simp add: checks_def)

lemma E_sema_check_block [check_rules]:
  assumes C: "checkers_ok C" and q: "E s q"
  shows "checks E s (sema_check_block C b q)"
proof -
  {
    fix node stmts trailing sc q1 t0 q2 t1 q3 t2 q4
    assume q1: "open_scope node q = (sc, q1)"
      and q2: "tt_do st_void (q1\<lparr>sm_current_scope := sc\<rparr>) = (t0, q2)"
      and q3: "check_stmts C t0 stmts q2 = Some (t1, q3)"
      and q4: "(if trailing = None then Some (t1, q3) else ck_expr C trailing q3) = Some (t2, q4)"
    let ?q = "q1\<lparr>sm_current_scope := sc\<rparr>"
    have "R ?q q2" using E_tt_do [of st_void ?q] q2 by (simp add: E_R)
    moreover have "R q2 q3" using R_check_stmts [OF C R_refl, of q2 t0 stmts] q3 by (simp add: checks_def)
    moreover have "R q3 q4"
      using q4 R_refl ck_expr_ok [OF C E_refl, of q3 trailing] E_R by (auto simp: checks_def split: if_splits)
    ultimately have "E s (q4\<lparr>sm_current_scope := sm_current_scope q\<rparr>)"
      using scope_left [OF q q1] R_trans by blast
  }
  note run = this
  show ?thesis
    unfolding sema_check_block_def Let_def
    using tt_do_after [OF q, of st_void]
    by (cases b; cases "block_members (the b)")
      (auto simp: checks_def bind_eq_Some_conv split: prod.splits split del: if_split intro: run)
qed

lemma checks_bind_iff: "checks Q s (Option.bind m k) \<longleftrightarrow> (\<forall>x. m = Some x \<longrightarrow> checks Q s (k x))"
  by (cases m) (auto simp: checks_def)

lemma checks_Some_iff: "checks Q s (Some x) \<longleftrightarrow> Q s (snd x)"
  by (simp add: checks_def)

lemma E_for:
  assumes C: "checkers_ok C" and q: "E s q"
  shows "checks E s (do {
     let prev = sm_current_scope q;
     let (sc, s) = open_scope (Some node) q;
     (_, s) \<leftarrow> ck_expr C iterable (s\<lparr>sm_current_scope := sc\<rparr>);
     (vt, s) \<leftarrow> (if ty = None then Some (tt_do (st_int True 64) s) else sema_resolve_type n ty s);
     (_, s) \<leftarrow> ck_block C body (declare_in sc SYM_VAR name (Some vt) (Some node) s);
     Some (tt_do st_void (s\<lparr>sm_current_scope := prev\<rparr>))
   })"
proof -
  {
    fix sc q1 t0 q2 t1 q3 t2 q4
    assume q1: "open_scope (Some node) q = (sc, q1)"
      and q2: "ck_expr C iterable (q1\<lparr>sm_current_scope := sc\<rparr>) = Some (t0, q2)"
      and q3: "(if ty = None then Some (tt_do (st_int True 64) q2) else sema_resolve_type n ty q2) = Some (t1, q3)"
      and q4: "ck_block C body (declare_in sc SYM_VAR name (Some t1) (Some node) q3) = Some (t2, q4)"
    let ?q = "q1\<lparr>sm_current_scope := sc\<rparr>"
    have "E ?q q2" using ck_expr_ok [OF C E_refl, of ?q iterable] q2 by (simp add: checks_def)
    moreover have "E q2 q3"
      using q3 E_tt_do [of "st_int True 64" q2] E_resolve_type(1) [OF E_refl, of q2 n ty]
      by (auto simp: checks_def split: if_splits)
    ultimately have d: "R ?q (declare_in sc SYM_VAR name (Some t1) (Some node) q3)"
      using R_declare [OF E_trans] by fastforce
    have "E (declare_in sc SYM_VAR name (Some t1) (Some node) q3) q4"
      using ck_block_ok [OF C E_refl, of "declare_in sc SYM_VAR name (Some t1) (Some node) q3" body] q4
      by (simp add: checks_def)
    then have "E s (q4\<lparr>sm_current_scope := sm_current_scope q\<rparr>)"
      using scope_left [OF q q1 R_trans [OF d E_R]] by blast
  }
  note run = this
  show ?thesis
    unfolding Let_def
    by (auto simp: checks_bind_iff checks_Some_iff intro!: tt_do_after [OF run]
      simp flip: split_paired_All split: prod.splits split del: if_split)
qed

lemma E_return:
  assumes C: "checkers_ok C" and q: "E s q"
  shows "checks E s (do {
     let s = q\<lparr>sm_fn_has_return := True\<rparr>;
     let errs_before = sm_error_count s;
     (ret, s) \<leftarrow> ck_expr C val s;
     let (expected, s) = (case sm_fn_return_type s of Some t \<Rightarrow> (t, s) | None \<Rightarrow> tt_do st_void s);
     s \<leftarrow> (if sm_error_count s = errs_before then check_return i loc ret expected s else Some s);
     Some (tt_do st_void s)
   })"
  unfolding Let_def
  by (insert C q; (rule ck_expr_ok check_rules pure_bind checks_pair refl | assumption
    | simp only: type_steps_all type_steps_simple)+)

lemma R_sema_check_stmt:
  assumes C: "checkers_ok C" and q: "R s q"
  shows "checks R s (sema_check_stmt n C node q)"
proof -
  have decl: "checks R s (do { (t, r) \<leftarrow> ck_expr C ini q; check_var_decl n node kind name ty ini t r })"
    for ini kind name ty
    by (rule R_bind [OF q ck_expr_ok [OF C E_refl]]) (simp add: R_check_var_decl)
  have other: "checks R s m" if "checks E q m" for m
    by (rule R_checks [OF q that])
  have q': "E q q" by (rule E_refl)
  show ?thesis
    unfolding sema_check_stmt_def Let_def
    apply (insert C q')
    apply ((split node_body.split decl_body.split stmt_body.split; intro conjI allI impI)
      | rule decl | (rule other,
        ((rule E_for [unfolded Let_def] E_return [unfolded Let_def] ck_expr_ok ck_block_ok check_rules
            pure_bind checks_pair refl
          | assumption | simp only: type_steps_all type_steps_simple)+) [1]))+
    done
qed

text \<open>All checking functions, at every depth.\<close>

theorem checkers_at_ok: "checkers_ok (checkers_at n)"
proof (induction n)
  case 0
  then show ?case by (simp add: checkers_ok_def checks_None)
next
  case (Suc n)
  then show ?case
    using E_sema_check_expr E_sema_check_block R_sema_check_stmt
    by (simp add: checkers_ok_def Let_def)
qed

end

section \<open>Relations that look at reports and types only\<close>

locale report_rules =
  fixes A :: "sema \<Rightarrow> sema \<Rightarrow> bool"
  assumes A_trans: "A s q \<Longrightarrow> A q r \<Longrightarrow> A s r"
    and A_type: "type_step (sm_types s) tt \<Longrightarrow> A s (s\<lparr>sm_types := tt\<rparr>)"
    and A_report: "A s (sema_report loc msg s)"
    and A_same: "sm_types q = sm_types s \<Longrightarrow> sm_diag q = sm_diag s \<Longrightarrow>
      sm_error_count q = sm_error_count s \<Longrightarrow> A s q"

sublocale report_rules < run: checker_rules A A
proof
  fix s q r node sc s1 b x
  show "A s s" by (rule A_same) simp_all
  show "A s q \<Longrightarrow> A q r \<Longrightarrow> A s r" by (rule A_trans)
  show "A s (q\<lparr>sm_current_scope := sm_current_scope s\<rparr>)"
    if "open_scope node s = (sc, s1)" "A (s1\<lparr>sm_current_scope := sc\<rparr>) q"
  proof -
    have "A s (s1\<lparr>sm_current_scope := sc\<rparr>)"
      using that(1) by (auto simp: open_scope_def case_prod_beta intro: A_same)
    moreover have "A q (q\<lparr>sm_current_scope := sm_current_scope s\<rparr>)" by (rule A_same) simp_all
    ultimately show ?thesis using that(2) A_trans by blast
  qed
  show "A s (q\<lparr>sm_self_type := sm_self_type s\<rparr>)" if "A (s\<lparr>sm_self_type := x\<rparr>) q"
    using A_trans [OF A_trans [OF _ that] A_same] A_same by simp
  show "A s (q\<lparr>sm_in_unsafe := sm_in_unsafe s\<rparr>)" if "A (s\<lparr>sm_in_unsafe := b\<rparr>) q"
    using A_trans [OF A_trans [OF _ that] A_same] A_same by simp
  show "A s (declare_in (sm_current_scope s) kind name ty decl q)" if "A s q" for kind name ty decl
    using A_trans [OF that A_same] by (simp add: declare_in_def Let_def case_prod_beta)
qed (auto intro: A_same A_type A_report)

context report_rules
begin

lemma A_set [check_rules]:
  "A s q \<Longrightarrow> A s (q\<lparr>sm_syms := st\<rparr>)" "A s q \<Longrightarrow> A s (q\<lparr>sm_current_scope := sc\<rparr>)"
  "A s q \<Longrightarrow> A s (q\<lparr>sm_fn := fn\<rparr>)" "A s q \<Longrightarrow> A s (q\<lparr>sm_fn_return_type := t\<rparr>)"
  "A s q \<Longrightarrow> A s (q\<lparr>sm_self_type := t\<rparr>)" "A s q \<Longrightarrow> A s (q\<lparr>sm_in_unsafe := b\<rparr>)"
  "A s q \<Longrightarrow> A s (q\<lparr>sm_fn_has_return := b\<rparr>)" "A s q \<Longrightarrow> A s (q\<lparr>sm_in_collect := b\<rparr>)"
  "A s q \<Longrightarrow> A s (q\<lparr>sm_methods := ms\<rparr>)"
  by (erule A_trans, rule A_same; simp)+

lemma A_declare_in [check_rules]: "A s q \<Longrightarrow> A s (declare_in sc kind name ty decl q)"
  by (simp add: declare_in_def Let_def case_prod_beta A_set)

lemma A_all_steps:
  "(\<And>x q. x \<in> set xs \<Longrightarrow> A s q \<Longrightarrow> steps A s (f x q)) \<Longrightarrow> A s q \<Longrightarrow> steps A s (all_steps f xs q)"
proof (induction xs arbitrary: q)
  case (Cons x xs)
  have "A s r" if "f x q = Some r" for r
    using Cons.prems(1) [of x q] Cons.prems(2) that by (simp add: steps_def)
  then show ?case
    using Cons.IH Cons.prems(1) by (cases "f x q") (auto simp: steps_def)
qed (simp add: steps_def)

lemma A_declare_generic_param [check_rules]:
  "A s q \<Longrightarrow> steps A s (declare_generic_param sc gp q)"
  unfolding declare_generic_param_def Let_def
  by (rule check_rules run.pure_bind run.checks_pair refl | assumption | simp only: type_steps_all type_steps_simple
    | (split run.splits; intro conjI allI impI))+

lemma A_declare_param [check_rules]: "A s q \<Longrightarrow> steps A s (declare_param n sc p q)"
  unfolding declare_param_def Let_def
  by (rule check_rules run.pure_bind run.checks_pair refl | assumption | simp only: type_steps_all type_steps_simple
    | (split run.splits; intro conjI allI impI))+

lemma A_check_body_type [check_rules]: "A s q \<Longrightarrow> steps A s (check_body_type body ret t q)"
  unfolding check_body_type_def
  by (rule check_rules run.pure_bind run.checks_pair refl | assumption | simp only: type_steps_all type_steps_simple)+

lemma A_check_fn_body:
  "checkers_at m = C \<Longrightarrow> A s q \<Longrightarrow> steps A s (sema_check_fn_body n C fn q)"
  unfolding sema_check_fn_body_def Let_def
  by (rule A_all_steps check_rules run.pure_bind run.checks_pair refl run.ck_block_ok | assumption
    | (erule subst, rule run.checkers_at_ok)
    | (split run.splits prod.split; intro conjI allI impI))+

lemma A_collect_import [check_rules]: "A s q \<Longrightarrow> steps A s (collect_import imp q)"
  unfolding collect_import_def Let_def
  by (rule A_all_steps check_rules run.pure_bind run.checks_pair refl | assumption
    | simp only: type_steps_all type_steps_simple | (split run.splits prod.split; intro conjI allI impI))+

lemma A_void_symbol [check_rules]: "A s q \<Longrightarrow> A s (snd (void_symbol name kind is_pub q))"
  using run.tt_do_after [of s q st_void] by (simp add: void_symbol_def case_prod_beta)

lemma A_symbol_of_decl [check_rules]: "A s q \<Longrightarrow> checks A s (symbol_of_decl n d q)"
  unfolding symbol_of_decl_def
  by (rule A_all_steps check_rules run.pure_bind run.checks_pair refl | assumption
    | simp only: type_steps_all type_steps_simple | (split run.splits prod.split; intro conjI allI impI))+

lemma A_collect_extend [check_rules]: "A s q \<Longrightarrow> steps A s (collect_extend loc target meths q)"
  unfolding collect_extend_def Let_def
  by (rule A_all_steps check_rules run.pure_bind run.checks_pair refl | assumption
    | simp only: type_steps_all type_steps_simple | (split run.splits prod.split; intro conjI allI impI))+

lemma A_collect_symbol [check_rules]: "A s q \<Longrightarrow> A s (collect_symbol loc d ds q)"
  by (simp add: collect_symbol_def Let_def case_prod_beta check_rules)

lemma A_collect_decl [check_rules]: "A s q \<Longrightarrow> steps A s (collect_decl n d q)"
  unfolding collect_decl_def
  by (rule A_all_steps check_rules run.pure_bind run.checks_pair refl | assumption
    | simp only: type_steps_all type_steps_simple | (split run.splits prod.split; intro conjI allI impI))+

lemma A_sema_collect_decls [check_rules]: "A s q \<Longrightarrow> steps A s (sema_collect_decls n module q)"
  unfolding sema_collect_decls_def Let_def
  by (rule A_all_steps check_rules run.pure_bind run.checks_pair refl | assumption
    | simp only: type_steps_all type_steps_simple | (split run.splits prod.split; intro conjI allI impI))+

lemma A_set_symbol_type [check_rules]: "A s q \<Longrightarrow> steps A s (set_symbol_type n name ty t q)"
  unfolding set_symbol_type_def Let_def
  by (rule A_all_steps check_rules run.pure_bind run.checks_pair refl | assumption
    | simp only: type_steps_all type_steps_simple | (split run.splits prod.split; intro conjI allI impI))+

lemma A_self_type_of [check_rules]: "A s q \<Longrightarrow> A s (snd (self_type_of y q))"
  by (auto simp: self_type_of_def run.tt_do_after split: option.split)

lemma A_resolve_global [check_rules]:
  "run.checkers_ok C \<Longrightarrow> A s q \<Longrightarrow> steps A s (resolve_global n C loc what name ty ini q)"
  unfolding resolve_global_def
  by (rule run.ck_expr_ok check_rules run.pure_bind refl | assumption)+

lemma A_resolve_extend [check_rules]:
  "checkers_at m = C \<Longrightarrow> A s q \<Longrightarrow> steps A s (resolve_extend n C target meths q)"
  unfolding resolve_extend_def Let_def
  by (rule A_all_steps A_check_fn_body check_rules run.pure_bind refl | assumption)+

lemma A_resolve_decl: "A s q \<Longrightarrow> steps A s (resolve_decl n (checkers_at m) d q)"
  unfolding resolve_decl_def
  by (rule A_check_fn_body check_rules run.checkers_at_ok refl | assumption
    | (split run.splits; intro conjI allI impI))+

lemma A_sema_resolve_bodies [check_rules]: "A s q \<Longrightarrow> steps A s (sema_resolve_bodies n module q)"
  unfolding sema_resolve_bodies_def
  by (rule A_all_steps A_resolve_decl check_rules | assumption
    | (split run.splits; intro conjI allI impI))+

lemma sema_run_rule: "sema_run n module s = Some q \<Longrightarrow> A s q"
proof -
  have "steps A s (sema_run n module s)"
    unfolding sema_run_def
    by (rule check_rules run.E_refl | assumption)+
  then show "sema_run n module s = Some q \<Longrightarrow> A s q" by (simp add: steps_def)
qed

end

end
