(* ===== verification/Sema_Laws.thy ===== *)
theory Sema_Laws
  imports Sema_Frame
begin

text \<open>
  What the semantic analysis keeps, as instances of the two interfaces of \<open>Sema_Frame\<close>: its own
  count of errors is that of the diagnostics, the type table only grows, and whatever is declared
  inside an expression or a block stays there.
\<close>

section \<open>Errors\<close>

text \<open>Only errors are added, and the count of the analysis grows by as many.\<close>

definition reported :: "sema \<Rightarrow> sema \<Rightarrow> bool" where
  "reported s q \<longleftrightarrow> (\<exists>ds. items (sm_diag q) = items (sm_diag s) @ ds \<and> (\<forall>d \<in> set ds. is_error d)
     \<and> sm_error_count q = sm_error_count s + length ds
     \<and> error_count (sm_diag q) = error_count (sm_diag s) + length ds
     \<and> warning_count (sm_diag q) = warning_count (sm_diag s)
     \<and> has_errors (sm_diag q) = (has_errors (sm_diag s) \<or> ds \<noteq> []))"

interpretation reported: report_rules reported
proof
  fix s q r tt loc msg
  show "reported s q \<Longrightarrow> reported q r \<Longrightarrow> reported s r"
    unfolding reported_def by (elim exE, rename_tac d e, rule_tac x = "d @ e" in exI) auto
  show "reported s (sema_report loc msg s)"
    by (simp add: reported_def sema_report_def diag_error_def is_error_def)
qed (auto simp: reported_def)

text \<open>
  C9. The analysis counts what it reports. Whatever the fuel and the tree, a run of \<^verbatim>\<open>sema_run\<close>
  that returns has appended to the diagnostics, removed none and added no warning: what is new are
  errors, exactly as many as its own error count and that of the engine have grown by, and the
  flag of the engine is set if there is one.
\<close>

theorem sema_run_counts:
  assumes "sema_run n module s = Some q"
  shows "\<exists>ds. items (sm_diag q) = items (sm_diag s) @ ds \<and> (\<forall>d \<in> set ds. is_error d)
    \<and> sm_error_count q = sm_error_count s + length ds
    \<and> error_count (sm_diag q) = error_count (sm_diag s) + length ds
    \<and> warning_count (sm_diag q) = warning_count (sm_diag s)
    \<and> has_errors (sm_diag q) = (has_errors (sm_diag s) \<or> ds \<noteq> [])"
  using reported.sema_run_rule [OF assms] by (simp add: reported_def)

section \<open>Types\<close>

definition table_grows :: "sema \<Rightarrow> sema \<Rightarrow> bool" where
  "table_grows s q \<longleftrightarrow> (length (tt_buckets (sm_types s)) = TYPE_TABLE_BUCKETS \<longrightarrow>
     length (tt_buckets (sm_types q)) = TYPE_TABLE_BUCKETS \<and> extends (sm_types s) (sm_types q))"

lemma type_step_extends:
  assumes "type_step tt tt'" "length (tt_buckets tt) = TYPE_TABLE_BUCKETS"
  shows "length (tt_buckets tt') = TYPE_TABLE_BUCKETS \<and> extends tt tt'"
proof -
  obtain b where "tt' = snd (st_simple b tt) \<or> tt' = snd (st_alloc b tt)"
    using assms(1) by (auto simp: type_step_def)
  then consider p where "st_simple b tt = (p, tt')" | "tt' = grown b 0 tt"
    by (metis grown_def prod.collapse snd_conv st_alloc_def)
  then show ?thesis
  proof cases
    case 1
    have "unat (bucket b tt) < length (tt_buckets tt)" using bucket_less assms(2) by simp
    from 1 this show ?thesis
      by (cases rule: st_simple_cases) (use assms(2) in \<open>auto simp: extends_def interned_linked\<close>)
  next
    case 2
    then show ?thesis using assms(2) by simp
  qed
qed

interpretation types: report_rules table_grows
proof
  fix s q r tt
  show "table_grows s q \<Longrightarrow> table_grows q r \<Longrightarrow> table_grows s r"
    unfolding table_grows_def using extends_trans by blast
  show "type_step (sm_types s) tt \<Longrightarrow> table_grows s (s\<lparr>sm_types := tt\<rparr>)"
    using type_step_extends by (simp add: table_grows_def)
qed (auto simp: table_grows_def sema_report_def)

text \<open>
  C11. A type pointer keeps its meaning. Whatever a run of \<^verbatim>\<open>sema_run\<close> does after a type was
  made, the pointer stays valid, the object it points to is not changed, and the type it stands for,
  through all pointers in it, is the same at the end: the annotations of the tree can be read by the
  code generator as they were written.
\<close>

theorem sema_run_keeps_types:
  assumes "sema_run n module s = Some q" "length (tt_buckets (sm_types s)) = TYPE_TABLE_BUCKETS"
    "t < length (tt_types (sm_types s))"
  shows "t < length (tt_types (sm_types q)) \<and> tbody q t = tbody s t
    \<and> denote (sm_types q) t = denote (sm_types s) t"
proof -
  have "extends (sm_types s) (sm_types q)"
    using types.sema_run_rule [OF assms(1)] assms(2) by (simp add: table_grows_def)
  then show ?thesis
    using extends_length extends_body extends_denote assms(3) by fastforce
qed

section \<open>Scopes\<close>

definition scope_ok :: "sema \<Rightarrow> bool" where
  "scope_ok s \<longleftrightarrow> symtab_ok (sm_syms s) \<and> sm_current_scope s < length (sy_scopes (sm_syms s))"

text \<open>
  The symbols and scopes of \<open>s\<close> are still there in \<open>q\<close>, and the chains of the scopes \<open>P\<close> too.
\<close>

definition keeps :: "(scopeptr \<Rightarrow> bool) \<Rightarrow> symtab \<Rightarrow> symtab \<Rightarrow> bool" where
  "keeps P st st' \<longleftrightarrow> length (sy_symbols st) \<le> length (sy_symbols st')
     \<and> length (sy_scopes st) \<le> length (sy_scopes st')
     \<and> (\<forall>p < length (sy_symbols st). sy_symbols st' ! p = sy_symbols st ! p)
     \<and> (\<forall>i < length (sy_scopes st). sc_parent (sy_scopes st' ! i) = sc_parent (sy_scopes st ! i)
          \<and> (P i \<longrightarrow> sc_buckets (sy_scopes st' ! i) = sc_buckets (sy_scopes st ! i)))"

definition same_place :: "sema \<Rightarrow> sema \<Rightarrow> bool" where
  "same_place s q \<longleftrightarrow> sm_current_scope q = sm_current_scope s \<and> sm_module_scope q = sm_module_scope s
     \<and> sm_self_type q = sm_self_type s \<and> sm_fn q = sm_fn s \<and> sm_in_unsafe q = sm_in_unsafe s
     \<and> sm_fn_return_type q = sm_fn_return_type s \<and> sm_methods q = sm_methods s"

definition contained :: "sema \<Rightarrow> sema \<Rightarrow> bool" where
  "contained s q \<longleftrightarrow> (scope_ok s \<longrightarrow> scope_ok q \<and> same_place s q \<and> keeps (\<lambda>_. True) (sm_syms s) (sm_syms q))"

definition declaring :: "sema \<Rightarrow> sema \<Rightarrow> bool" where
  "declaring s q \<longleftrightarrow> (scope_ok s \<longrightarrow> scope_ok q \<and> same_place s q
     \<and> keeps (\<lambda>i. i \<noteq> sm_current_scope s) (sm_syms s) (sm_syms q))"

lemma keeps_refl [simp]: "keeps P st st"
  by (simp add: keeps_def)

lemma keeps_trans: "keeps P a b \<Longrightarrow> keeps P b c \<Longrightarrow> keeps P a c"
  by (simp add: keeps_def)

lemma keeps_weaken: "keeps P a b \<Longrightarrow> (\<And>i. i < length (sy_scopes a) \<Longrightarrow> Q i \<Longrightarrow> P i) \<Longrightarrow> keeps Q a b"
  by (simp add: keeps_def)

lemma declare_in_simps [simp]:
  "sm_syms (declare_in sc kind name ty decl s) = declare_symbol sc name (kind, ty, decl) (sm_syms s)"
  "same_place (declare_in sc kind name ty decl s) q = same_place s q"
  "same_place s (declare_in sc kind name ty decl q) = same_place s q"
  by (simp_all add: declare_in_def declare_symbol_def case_prod_beta Let_def same_place_def)

lemma keeps_declare:
  assumes "s < length (sy_scopes st)"
  shows "keeps (\<lambda>i. i \<noteq> s) st (declare_symbol s name (kind, ty, decl) st)"
  using assms by (auto simp: declare_symbol_eq keeps_def Let_def nth_append nth_list_update)

lemma open_scope_facts:
  assumes "scope_ok s" "open_scope node s = (sc, q)"
  shows "sc = length (sy_scopes (sm_syms s))" "scope_ok (q\<lparr>sm_current_scope := sc\<rparr>)"
    "keeps (\<lambda>_. True) (sm_syms s) (sm_syms q)" "same_place s q"
proof -
  obtain st where st: "scope_new (Some (sm_current_scope s)) node (sm_syms s) = (sc, st)" and q: "q = s\<lparr>sm_syms := st\<rparr>"
    using assms(2) by (auto simp: open_scope_def split: prod.splits)
  have ok: "symtab_ok (sm_syms s)" "sm_current_scope s < length (sy_scopes (sm_syms s))"
    using assms(1) by (simp_all add: scope_ok_def)
  note new = scope_new_facts [OF ok st]
  show "sc = length (sy_scopes (sm_syms s))" "scope_ok (q\<lparr>sm_current_scope := sc\<rparr>)" "same_place s q"
    using new by (simp_all add: scope_ok_def q same_place_def)
  show "keeps (\<lambda>_. True) (sm_syms s) (sm_syms q)"
    using st ok(2) by (auto simp: q keeps_def scope_new_def Let_def nth_append nth_list_update)
qed

lemma scope_ok_declare: "scope_ok s \<Longrightarrow> scope_ok (declare_in (sm_current_scope s) kind name ty decl s)"
  using symtab_ok_declare [of "sm_syms s" "sm_current_scope s" name kind ty decl]
  by (simp add: scope_ok_def declare_symbol_eq Let_def) (simp add: declare_in_def Let_def case_prod_beta)

lemma same_place_trans: "same_place a b \<Longrightarrow> same_place b c \<Longrightarrow> same_place a c"
  by (simp add: same_place_def)

lemma declaring_trans:
  assumes "declaring s q" "declaring q r"
  shows "declaring s r"
  unfolding declaring_def
proof
  assume "scope_ok s"
  then have q: "scope_ok q" "same_place s q" "keeps (\<lambda>i. i \<noteq> sm_current_scope s) (sm_syms s) (sm_syms q)"
    using assms(1) by (simp_all add: declaring_def)
  have "sm_current_scope q = sm_current_scope s" using q(2) by (simp add: same_place_def)
  then have r: "scope_ok r" "same_place q r" "keeps (\<lambda>i. i \<noteq> sm_current_scope s) (sm_syms q) (sm_syms r)"
    using assms(2) q(1) by (simp_all add: declaring_def)
  show "scope_ok r \<and> same_place s r \<and> keeps (\<lambda>i. i \<noteq> sm_current_scope s) (sm_syms s) (sm_syms r)"
    using r(1) same_place_trans [OF q(2) r(2)] keeps_trans [OF q(3) r(3)] by simp
qed

interpretation scoped: checker_rules contained declaring
proof
  fix s q r node sc s1 b x
  show "contained s q \<Longrightarrow> contained q r \<Longrightarrow> contained s r"
    unfolding contained_def using keeps_trans same_place_trans by blast
  show "declaring s q \<Longrightarrow> declaring q r \<Longrightarrow> declaring s r" by (rule declaring_trans)
  show "contained s q \<Longrightarrow> declaring s q"
    unfolding contained_def declaring_def using keeps_weaken by blast
  show "contained s (q\<lparr>sm_self_type := sm_self_type s\<rparr>)" if "contained (s\<lparr>sm_self_type := x\<rparr>) q"
    using that by (auto simp: contained_def scope_ok_def same_place_def)
  show "contained s (q\<lparr>sm_in_unsafe := sm_in_unsafe s\<rparr>)" if "contained (s\<lparr>sm_in_unsafe := b\<rparr>) q"
    using that by (auto simp: contained_def scope_ok_def same_place_def)
  show "contained s (q\<lparr>sm_current_scope := sm_current_scope s\<rparr>)"
    if o': "open_scope node s = (sc, s1)" and run: "declaring (s1\<lparr>sm_current_scope := sc\<rparr>) q"
    unfolding contained_def
  proof
    assume ok: "scope_ok s"
    note new = open_scope_facts [OF ok o']
    have d: "scope_ok q" "same_place (s1\<lparr>sm_current_scope := sc\<rparr>) q"
        "keeps (\<lambda>i. i \<noteq> sc) (sm_syms s1) (sm_syms q)"
      using run new(2) by (simp_all add: declaring_def)
    have k: "keeps (\<lambda>_. True) (sm_syms s) (sm_syms q)"
      using keeps_trans [OF keeps_weaken [OF new(3)] d(3)] new(1) by (auto intro: keeps_weaken)
    then show "scope_ok (q\<lparr>sm_current_scope := sm_current_scope s\<rparr>)
        \<and> same_place s (q\<lparr>sm_current_scope := sm_current_scope s\<rparr>)
        \<and> keeps (\<lambda>_. True) (sm_syms s) (sm_syms (q\<lparr>sm_current_scope := sm_current_scope s\<rparr>))"
      using d(1,2) new(4) ok by (simp add: scope_ok_def same_place_def keeps_def)
  qed
  show "declaring s (declare_in (sm_current_scope s) kind name ty decl q)" if c: "contained s q" for kind name ty decl
    unfolding declaring_def
  proof
    assume ok: "scope_ok s"
    have q: "scope_ok q" "same_place s q" "keeps (\<lambda>_. True) (sm_syms s) (sm_syms q)"
      using c ok by (simp_all add: contained_def)
    have cur: "sm_current_scope q = sm_current_scope s" using q(2) by (simp add: same_place_def)
    have "keeps (\<lambda>i. i \<noteq> sm_current_scope s) (sm_syms q)
        (declare_symbol (sm_current_scope s) name (kind, ty, decl) (sm_syms q))"
      using keeps_declare q(1) cur by (simp add: scope_ok_def)
    then show "scope_ok (declare_in (sm_current_scope s) kind name ty decl q)
        \<and> same_place s (declare_in (sm_current_scope s) kind name ty decl q)
        \<and> keeps (\<lambda>i. i \<noteq> sm_current_scope s) (sm_syms s)
            (sm_syms (declare_in (sm_current_scope s) kind name ty decl q))"
      using q cur scope_ok_declare [OF q(1)] keeps_trans [OF keeps_weaken [OF q(3)]] by simp
  qed
qed (auto simp: contained_def scope_ok_def same_place_def sema_report_def)

lemma keeps_visible:
  assumes "symtab_ok st" "keeps (\<lambda>_. True) st st'" "i < length (sy_scopes st)"
  shows "visible st' (Some i) name = visible st (Some i) name"
  by (rule agree_visible [OF assms(1) _ assms(3)]) (use assms(2,3) in \<open>auto simp: keeps_def agree_def\<close>)

lemma checked_contained:
  assumes "ck_expr (checkers_at n) e s = Some (t, q) \<or> ck_block (checkers_at n) b s = Some (t, q)"
  shows "contained s q"
  using assms scoped.ck_expr_ok [OF scoped.checkers_at_ok [of n] scoped.E_refl [of s], of e]
    scoped.ck_block_ok [OF scoped.checkers_at_ok [of n] scoped.E_refl [of s], of b]
  by (auto simp: checks_def)

text \<open>
  C10. Expressions and blocks are closed. However deep the recursion and whatever is declared inside,
  after the analysis of an expression or of a block the current scope, the \<^verbatim>\<open>unsafe\<close> context and the
  type of \<^verbatim>\<open>Self\<close> are those from before, and every scope that existed shows every name as before.
\<close>

theorem checking_restores_scopes:
  assumes "scope_ok s"
    "ck_expr (checkers_at n) e s = Some (t, q) \<or> ck_block (checkers_at n) b s = Some (t, q)"
  shows "sm_current_scope q = sm_current_scope s \<and> sm_in_unsafe q = sm_in_unsafe s
    \<and> sm_self_type q = sm_self_type s \<and> scope_ok q
    \<and> (\<forall>i < length (sy_scopes (sm_syms s)). \<forall>name.
         visible (sm_syms q) (Some i) name = visible (sm_syms s) (Some i) name)"
proof -
  have "scope_ok q" "same_place s q" "keeps (\<lambda>_. True) (sm_syms s) (sm_syms q)"
    using checked_contained [OF assms(2)] assms(1) by (simp_all add: contained_def)
  then show ?thesis
    using keeps_visible assms(1) by (auto simp: same_place_def scope_ok_def)
qed

lemma visible_declare:
  assumes "scope_ok s"
  shows "visible (declare_symbol (sm_current_scope s) name (kind, ty, decl) (sm_syms s))
      (Some (sm_current_scope s)) name' =
    (if name' = name then Some (Some (kind, ty, decl))
     else visible (sm_syms s) (Some (sm_current_scope s)) name')"
proof -
  let ?c = "sm_current_scope s" and ?st = "sm_syms s"
  let ?st' = "declare_symbol ?c name (kind, ty, decl) ?st"
  have ok: "symtab_ok ?st" "?c < length (sy_scopes ?st)" using assms by (simp_all add: scope_ok_def)
  have parent: "sc_parent (sy_scopes ?st' ! ?c) = sc_parent (sy_scopes ?st ! ?c)"
    using ok(2) by (simp add: declare_symbol_eq Let_def)
  have "visible ?st' (sc_parent (sy_scopes ?st ! ?c)) name' = visible ?st (sc_parent (sy_scopes ?st ! ?c)) name'"
  proof (cases "sc_parent (sy_scopes ?st ! ?c)")
    case (Some p)
    then have p: "p < ?c" using ok by (auto simp: symtab_ok_def Let_def)
    then show ?thesis
      using agree_visible [OF ok(1) agree_declare [OF p ok(2)]] ok(2) Some by simp
  qed simp
  then show ?thesis
    by (simp add: visible_Some [of ?st'] visible_Some [of ?st] parent declared_declare [OF ok] split: option.split)
qed

text \<open>
  C15. A local \<^verbatim>\<open>let\<close> takes effect in its scope at once and only there. After it the name stands
  for the new variable, with the annotated type when there is an annotation and the type of the
  initializer otherwise, also when the block had declared that name before; every other name is
  unchanged in the current scope, and so is every name in the scopes around it.
\<close>

theorem local_declaration:
  assumes "scope_ok s" "n_body node = Decl (AST_VAR_DECL name is_pub is_comptime ty ini v)"
    "ck_stmt (checkers_at (Suc n)) node s = Some (t, q)"
  shows "\<exists>ini_type s1 T. ck_expr (checkers_at n) ini s = Some (ini_type, s1)
    \<and> (if ty = None then T = ini_type else \<exists>s2. sema_resolve_type n ty s1 = Some (T, s2))
    \<and> (\<forall>name'. visible (sm_syms q) (Some (sm_current_scope s)) name' =
         (if name' = name then Some (Some (SYM_VAR, Some T, Some node))
          else visible (sm_syms s) (Some (sm_current_scope s)) name'))
    \<and> (\<forall>i < sm_current_scope s. \<forall>name'.
         visible (sm_syms q) (Some i) name' = visible (sm_syms s) (Some i) name')"
proof -
  obtain it s1 where s1: "ck_expr (checkers_at n) ini s = Some (it, s1)"
    and decl: "check_var_decl n node SYM_VAR name ty ini it s1 = Some (t, q)"
    using assms(2,3) by (auto simp: Let_def sema_check_stmt_def bind_eq_Some_conv)
  let ?m = "(case ty of None \<Rightarrow> Some (it, s1) | Some te \<Rightarrow> do {
       (dt, s) \<leftarrow> sema_resolve_type n (Some te) s1;
       ok \<leftarrow> (if ini = None then Some True else st_can_coerce (sm_types s) it dt);
       if ok then Some (dt, s)
       else do {
         dn \<leftarrow> st_name (sm_types s) dt;
         tn \<leftarrow> st_name (sm_types s) it;
         Some (dt, sema_report (n_loc node) (m_init name dn tn) s)
       }
     })"
  obtain T s2 where m: "?m = Some (T, s2)"
    and q: "tt_do st_void (declare_in (sm_current_scope s2) SYM_VAR name (Some T) (Some node) s2) = (t, q)"
    using decl unfolding check_var_decl_def by (auto simp: bind_eq_Some_conv)
  have T: "if ty = None then T = it else \<exists>s2. sema_resolve_type n ty s1 = Some (T, s2)"
    using m by (auto simp: bind_eq_Some_conv split: option.splits if_splits)
  have "checks contained s1 ?m" by (rule scoped.E_var_type)
  then have "contained s1 s2" unfolding m by (simp add: checks_def)
  then have "contained s s2"
    using checked_contained [OF disjI1 [OF s1]] scoped.E_trans by blast
  then have s2: "scope_ok s2" "sm_current_scope s2 = sm_current_scope s" "keeps (\<lambda>_. True) (sm_syms s) (sm_syms s2)"
    using assms(1) by (simp_all add: contained_def same_place_def)
  have "sm_syms q = declare_symbol (sm_current_scope s2) name (SYM_VAR, Some T, Some node) (sm_syms s2)"
    using q by (auto simp: tt_do_def case_prod_beta)
  moreover have same: "visible (sm_syms s2) (Some i) name' = visible (sm_syms s) (Some i) name'"
    if "i \<le> sm_current_scope s" for i name'
    using keeps_visible [OF _ s2(3)] that assms(1) by (simp add: scope_ok_def)
  moreover have "visible (sm_syms q) (Some i) name' = visible (sm_syms s2) (Some i) name'"
    if "i < sm_current_scope s" for i name'
    using agree_visible [OF _ agree_declare] that s2(1,2) calculation(1) by (simp add: scope_ok_def)
  ultimately show ?thesis
    using s1 T visible_declare [OF s2(1)] s2(2)
    by (intro exI [of _ it] exI [of _ s1] exI [of _ T]) auto
qed

section \<open>Small runs\<close>

text \<open>Two structures of the same name, and a block that declares a variable.\<close>

definition demo_loc :: source_location where
  "demo_loc = loc_make ''a.raya'' 1 1 0"

definition demo_struct :: "nat \<Rightarrow> node" where
  "demo_struct i = Node i demo_loc (Decl (AST_STRUCT_DECL ''A'' False [] [] []))"

definition demo_unit :: node where
  "demo_unit = Node 3 demo_loc (Decl (AST_COMPILATION_UNIT ''m'' [] [demo_struct 1, demo_struct 2]))"

definition demo_let :: node where
  "demo_let = Node 5 demo_loc (Decl (AST_VAR_DECL ''x'' False False None
     (Some (Node 4 demo_loc (Expr (AST_INT_LITERAL 1)))) []))"

definition demo_block :: node where
  "demo_block = Node 6 demo_loc (Stmt (AST_BLOCK [demo_let] None))"

definition demo_sema :: sema where
  "demo_sema = sema_new (\<lambda>_. 0) None (diag_init False)"

lemma demo_scope_ok: "scope_ok demo_sema" "sm_current_scope demo_sema = 0"
    "visible (sm_syms demo_sema) (Some 0) ''x'' = Some None" "length (sy_scopes (sm_syms demo_sema)) = 1"
proof -
  have syms: "sm_syms demo_sema = snd (scope_new None None \<lparr>sy_symbols = [], sy_scopes = []\<rparr>)"
    by (simp add: demo_sema_def sema_new_def Let_def case_prod_beta)
  show cur: "sm_current_scope demo_sema = 0" by (simp add: demo_sema_def sema_new_def Let_def scope_new_def)
  show "scope_ok demo_sema" "length (sy_scopes (sm_syms demo_sema)) = 1"
    by (simp_all add: scope_ok_def cur syms scope_new_def symtab_ok_def)
  have "declared 0 (sm_syms demo_sema) ''x'' = None" by code_simp
  then show "visible (sm_syms demo_sema) (Some 0) ''x'' = Some None"
    by (simp add: visible_Some syms scope_new_def)
qed

lemmas demo_runs = numeral_3_eq_3 demo_block_def demo_let_def sema_check_block_def block_members_def sema_check_stmt_def
  sema_check_expr_def check_node_def check_var_decl_def Let_def case_prod_beta

lemma demo_run: "\<exists>q. sema_run 1 demo_unit demo_sema = Some q"
  by (simp add: sema_run_def sema_collect_decls_def sema_resolve_bodies_def collect_decl_def
    symbol_of_decl_def demo_unit_def demo_struct_def void_symbol_def resolve_decl_def Let_def case_prod_beta
    cong: if_cong)

theorem sema_run_counts_witness:
  "\<exists>q. sema_run 1 demo_unit demo_sema = Some q \<and> error_count (sm_diag q) = sm_error_count q"
proof -
  obtain q where q: "sema_run 1 demo_unit demo_sema = Some q"
    using demo_run by auto
  moreover have "sm_error_count demo_sema = 0" "error_count (sm_diag demo_sema) = 0"
    by (simp_all add: demo_sema_def sema_new_def Let_def case_prod_beta diag_init_def)
  ultimately show ?thesis using sema_run_counts [OF q(1)] by auto
qed

theorem sema_run_keeps_types_witness:
  "\<exists>q. sema_run 1 (demo_struct 1) (snd (tt_do st_void demo_sema)) = Some q \<and> tbody q 0 = ST_VOID"
proof -
  let ?s = "snd (tt_do st_void demo_sema)"
  obtain q where q: "sema_run 1 (demo_struct 1) ?s = Some q"
    by (simp add: sema_run_def sema_collect_decls_def sema_resolve_bodies_def demo_struct_def Let_def cong: if_cong)
  have "length (tt_buckets (sm_types ?s)) = TYPE_TABLE_BUCKETS" "0 < length (tt_types (sm_types ?s))"
    "tbody ?s 0 = ST_VOID"
    by code_simp+
  then show ?thesis using q sema_run_keeps_types [OF q, of 0] by auto
qed

theorem checking_restores_scopes_witness:
  "\<exists>t q. ck_block (checkers_at 3) (Some demo_block) demo_sema = Some (t, q)
     \<and> visible (sm_syms q) (Some 0) ''x'' = Some None"
proof -
  obtain t q where q: "ck_block (checkers_at 3) (Some demo_block) demo_sema = Some (t, q)"
    by (cases "ck_block (checkers_at 3) (Some demo_block) demo_sema") (auto simp: demo_runs)
  show ?thesis
    using checking_restores_scopes [OF demo_scope_ok(1) disjI2 [OF q]] q demo_scope_ok by auto
qed

theorem local_declaration_witness:
  "\<exists>t q T. ck_stmt (checkers_at 2) demo_let demo_sema = Some (t, q)
     \<and> visible (sm_syms q) (Some 0) ''x'' = Some (Some (SYM_VAR, Some T, Some demo_let))"
proof -
  obtain t q where q: "ck_stmt (checkers_at (Suc 1)) demo_let demo_sema = Some (t, q)"
    by (cases "ck_stmt (checkers_at (Suc 1)) demo_let demo_sema") (auto simp: demo_runs)
  have body: "n_body demo_let = Decl (AST_VAR_DECL ''x'' False False None
      (Some (Node 4 demo_loc (Expr (AST_INT_LITERAL 1)))) [])"
    by (simp add: demo_let_def)
  show ?thesis
    using local_declaration [OF demo_scope_ok(1) body q] q demo_scope_ok(2) by (auto simp: numeral_2_eq_2)
qed

end
