(* ===== verification/Sema_Types.thy ===== *)
theory Sema_Types
  imports Sema_Laws
begin

text \<open>
  The types of expressions. \<open>infer\<close> gives, for expressions built from literals, names, operators,
  calls, indexing and slicing, the tree of the type and the number of errors, from an environment of
  types alone: no store, no pointers, no tables, and with operator sets of its own. \<open>infer_checks\<close>
  relates it to the analysis. Casts, \<^verbatim>\<open>try\<close>, field accesses, literals of structures and arrays,
  method calls and blocks used as expressions are not covered by it.
\<close>

section \<open>The reference\<close>

definition is_int_ty :: "ty \<Rightarrow> bool" where
  "is_int_ty t \<longleftrightarrow> (case t of T_INT _ _ \<Rightarrow> True | _ \<Rightarrow> False)"

definition is_float_ty :: "ty \<Rightarrow> bool" where
  "is_float_ty t \<longleftrightarrow> (case t of T_FLOAT _ \<Rightarrow> True | _ \<Rightarrow> False)"

definition is_number_ty :: "ty \<Rightarrow> bool" where
  "is_number_ty t \<longleftrightarrow> is_int_ty t \<or> is_float_ty t"

definition fault :: "bool \<Rightarrow> nat" where
  "fault b = (if b then 1 else 0)"

definition arithmetic :: "token_kind list" where
  "arithmetic = [TOK_PLUS, TOK_MINUS, TOK_STAR, TOK_SLASH, TOK_PERCENT]"

definition comparisons :: "token_kind list" where
  "comparisons = [TOK_EQ, TOK_NE, TOK_LT, TOK_GT, TOK_LE, TOK_GE]"

definition bitwise :: "token_kind list" where
  "bitwise = [TOK_AMPERSAND, TOK_PIPE, TOK_CARET, TOK_SHL, TOK_SHR]"

definition binary_ty :: "token_kind \<Rightarrow> ty \<Rightarrow> ty \<Rightarrow> ty \<times> nat" where
  "binary_ty op l r =
    (if op \<in> set arithmetic
     then if is_number_ty l \<and> is_number_ty r
       then (if is_float_ty l \<or> is_float_ty r then T_FLOAT 64 else l, 0) else (T_VOID, 1)
     else if op \<in> set comparisons then (T_BOOL, 0)
     else if op = TOK_AND_AND \<or> op = TOK_OR_OR then (T_BOOL, fault (l \<noteq> T_BOOL \<or> r \<noteq> T_BOOL))
     else if op \<in> set bitwise then (l, fault (\<not> is_int_ty l \<or> \<not> is_int_ty r))
     else (l, 0))"

definition unary_ty :: "bool \<Rightarrow> token_kind \<Rightarrow> ty \<Rightarrow> ty \<times> nat" where
  "unary_ty is_unsafe op t =
    (if op = TOK_MINUS \<or> op = TOK_TILDE then (t, fault (\<not> is_number_ty t))
     else if op = TOK_BANG then (T_BOOL, fault (t \<noteq> T_BOOL))
     else if op = TOK_STAR
     then (case t of T_POINTER _ b \<Rightarrow> (b, fault (\<not> is_unsafe)) | T_REFERENCE _ b \<Rightarrow> (b, 0) | _ \<Rightarrow> (T_VOID, 1))
     else if op = TOK_AMPERSAND then (T_REFERENCE False t, 0)
     else (t, 0))"

definition element_ty :: "ty \<Rightarrow> ty" where
  "element_ty t = (case t of T_ARRAY _ b \<Rightarrow> b | T_SLICE _ b \<Rightarrow> b | _ \<Rightarrow> T_VOID)"

text \<open>The errors of the arguments of a call: those inside, and one for each that does not fit.\<close>

definition arg_faults :: "(ty \<times> nat) list \<Rightarrow> ty list \<Rightarrow> nat" where
  "arg_faults rs ps = sum_list (map2 (\<lambda>(t, k) p. k + fault (\<not> coerces t p)) rs ps)"

text \<open>A call with a wrong number of arguments is one error, and the arguments are not looked at.\<close>

definition call_ty :: "ty \<Rightarrow> (ty \<times> nat) list \<Rightarrow> ty \<times> nat" where
  "call_ty f rs =
    (case f of
       T_FUNCTION ps ret _ \<Rightarrow> (ret, if length rs \<noteq> length ps then 1 else arg_faults rs ps)
     | _ \<Rightarrow> (T_VOID, 1))"

text \<open>The last case is for the expressions that are not covered.\<close>

fun infer :: "(string_view \<Rightarrow> ty option) \<Rightarrow> bool \<Rightarrow> node option \<Rightarrow> ty \<times> nat" where
  "infer env u None = (T_VOID, 0)"
| "infer env u (Some (Node i loc b)) =
    (case b of
       Expr (AST_INT_LITERAL _) \<Rightarrow> (T_INT True 64, 0)
     | Expr (AST_FLOAT_LITERAL _) \<Rightarrow> (T_FLOAT 64, 0)
     | Expr (AST_STRING_LITERAL _) \<Rightarrow> (T_SLICE True (T_INT False 8), 0)
     | Expr (AST_CHAR_LITERAL _) \<Rightarrow> (T_INT False 8, 0)
     | Expr (AST_BOOL_LITERAL _) \<Rightarrow> (T_BOOL, 0)
     | Expr (AST_IDENTIFIER name) \<Rightarrow> (case env name of Some t \<Rightarrow> (t, 0) | None \<Rightarrow> (T_VOID, 1))
     | Expr (AST_BINARY_EXPR op left right) \<Rightarrow>
         let (l, a) = infer env u left; (r, b) = infer env u right; (t, c) = binary_ty op l r
         in (t, a + b + c)
     | Expr (AST_UNARY_EXPR op operand) \<Rightarrow>
         let (t, a) = infer env u operand; (t', c) = unary_ty u op t in (t', a + c)
     | Expr (AST_CALL_EXPR callee args) \<Rightarrow>
         let (f, a) = infer env u callee; (t, b) = call_ty f (map (\<lambda>e. infer env u (Some e)) args)
         in (t, a + b)
     | Expr (AST_INDEX_EXPR obj idx) \<Rightarrow>
         let (t, a) = infer env u obj; (_, b) = infer env u idx in (element_ty t, a + b)
     | Expr (AST_SLICE_EXPR obj lo hi) \<Rightarrow>
         let (_, a) = infer env u obj; (_, b) = infer env u lo; (_, c) = infer env u hi
         in (T_VOID, a + b + c)
     | Expr (AST_MATCH_ARM _ e) \<Rightarrow> infer env u e
     | _ \<Rightarrow> (T_VOID, 0))"

text \<open>The expressions it is for, of at most so many levels.\<close>

primrec plain :: "nat \<Rightarrow> node option \<Rightarrow> bool" where
  "plain 0 e = False"
| "plain (Suc d) e =
    (case e of
       None \<Rightarrow> True
     | Some nd \<Rightarrow> (case n_body nd of
         Expr (AST_INT_LITERAL _) \<Rightarrow> True
       | Expr (AST_FLOAT_LITERAL _) \<Rightarrow> True
       | Expr (AST_STRING_LITERAL _) \<Rightarrow> True
       | Expr (AST_CHAR_LITERAL _) \<Rightarrow> True
       | Expr (AST_BOOL_LITERAL _) \<Rightarrow> True
       | Expr AST_NULL_LITERAL \<Rightarrow> True
       | Expr AST_UNDEFINED_LITERAL \<Rightarrow> True
       | Expr (AST_IDENTIFIER _) \<Rightarrow> True
       | Expr (AST_BINARY_EXPR op left right) \<Rightarrow> plain d left \<and> plain d right
       | Expr (AST_UNARY_EXPR op operand) \<Rightarrow> plain d operand
       | Expr (AST_CALL_EXPR callee args) \<Rightarrow> plain d callee \<and> list_all (\<lambda>a. plain d (Some a)) args
       | Expr (AST_INDEX_EXPR obj idx) \<Rightarrow> plain d obj \<and> plain d idx
       | Expr (AST_SLICE_EXPR obj lo hi) \<Rightarrow> plain d obj \<and> plain d lo \<and> plain d hi
       | Expr (AST_MATCH_ARM _ e) \<Rightarrow> plain d e
       | _ \<Rightarrow> False))"

text \<open>
  The environment a state stands for: the type of the symbol a name is resolved to; a symbol without
  a type counts as void, and \<^verbatim>\<open>self\<close> is known only where there is a type of \<^verbatim>\<open>Self\<close>.
\<close>

definition env_of :: "sema \<Rightarrow> string_view \<Rightarrow> ty option" where
  "env_of s name =
    (if name = ''self'' \<and> sm_self_type s = None then None
     else case visible (sm_syms s) (Some (sm_current_scope s)) name of
        Some (Some (_, Some t, _)) \<Rightarrow> Some (denote (sm_types s) t)
      | Some (Some (_, None, _)) \<Rightarrow> Some T_VOID
      | _ \<Rightarrow> None)"

definition typed_state :: "sema \<Rightarrow> bool" where
  "typed_state s \<longleftrightarrow> scope_ok s \<and> tt_ok (sm_types s)
     \<and> (\<forall>p < length (sy_symbols (sm_syms s)). \<forall>t. sym_type (symbol_at s p) = Some t \<longrightarrow> canonical (sm_types s) t)"

section \<open>The relation to the analysis\<close>

text \<open>A check that gave the type \<open>T\<close> after \<open>k\<close> errors, and only added types and annotations.\<close>

definition gives :: "sema \<Rightarrow> sptr \<times> sema \<Rightarrow> ty \<times> nat \<Rightarrow> bool" where
  "gives s r x \<longleftrightarrow> (case (r, x) of ((t, q), (T, k)) \<Rightarrow>
     tt_ok (sm_types q) \<and> extends (sm_types s) (sm_types q) \<and> canonical (sm_types q) t
     \<and> denote (sm_types q) t = T \<and> sm_error_count q = sm_error_count s + k
     \<and> sm_syms q = sm_syms s \<and> sm_current_scope q = sm_current_scope s
     \<and> sm_self_type q = sm_self_type s \<and> sm_in_unsafe q = sm_in_unsafe s)"

lemma gives_tt_do:
  "type_result (sm_types s) (f (sm_types s)) T \<Longrightarrow> gives s (tt_do f s) (T, 0)"
  by (auto simp: gives_def type_result_def tt_do_def split: prod.splits)

lemma gives_typed_tt:
  "type_result (sm_types s) (f (sm_types s)) T \<Longrightarrow> gives s (typed_tt i f s) (T, 0)"
  by (auto simp: gives_def type_result_def tt_do_def typed_tt_def typed_def split: prod.splits)

lemma gives_typed:
  "tt_ok (sm_types s) \<Longrightarrow> canonical (sm_types s) t \<Longrightarrow> denote (sm_types s) t = T \<Longrightarrow>
     gives s (typed i t s) (T, 0)"
  by (simp add: gives_def typed_def)

lemma gives_report: "gives (sema_report loc msg s) r (T, k) \<Longrightarrow> gives s r (T, Suc k)"
  by (auto simp: gives_def sema_report_def)

lemma gives_error: "tt_ok (sm_types s) \<Longrightarrow> gives s (void_error i loc msg s) (T_VOID, 1)"
  using gives_typed_tt [of "sema_report loc msg s" st_void T_VOID i] constructor_results(1)
    gives_report [of loc msg s _ T_VOID 0]
  by (simp add: void_error_def sema_report_def)

lemma gives_trans:
  assumes "gives s (t, q) (T, j)" "gives q r (U, k)"
  shows "gives s r (U, j + k)"
  using assms by (auto simp: gives_def intro: extends_trans)

text \<open>Looking a name up always returns, and what it finds is a symbol.\<close>

lemma current_valid:
  assumes "symtab_ok st" "s < length (sy_scopes st)" "scope_lookup_current st s name = Some p"
  shows "p < length (sy_symbols st)"
proof -
  let ?sc = "sy_scopes st ! s"
  have len: "length (sc_buckets ?sc) = SCOPE_BUCKETS"
    and m: "\<forall>p \<in> set (concat (sc_buckets ?sc)). p < length (sy_symbols st)"
    using assms(1,2) by (auto simp: symtab_ok_def Let_def)
  have "p \<in> set (sc_buckets ?sc ! scope_bucket ?sc name)"
    using assms(3) by (auto simp: scope_lookup_current_def Let_def find_Some_iff)
  then show ?thesis
    using bucket_member [of "scope_bucket ?sc name"] scope_bucket_less [OF len] len m by auto
qed

lemma lookup_valid:
  assumes "symtab_ok st"
  shows "s < length (sy_scopes st) \<Longrightarrow>
    \<exists>r. scope_lookup st (Some s) name = Some r \<and> (\<forall>p. r = Some p \<longrightarrow> p < length (sy_symbols st))"
proof (induction s rule: less_induct)
  case (less s)
  show ?case
  proof (cases "scope_lookup_current st s name")
    case (Some p)
    then show ?thesis
      using current_valid [OF assms less.prems Some] by (subst scope_lookup.simps) simp
  next
    case None
    show ?thesis
    proof (cases "sc_parent (sy_scopes st ! s)")
      case (Some p)
      then have "p < s" using assms less.prems by (auto simp: symtab_ok_def Let_def)
      then show ?thesis
        using less.IH [of p] less.prems None Some by (subst scope_lookup.simps) simp
    qed (subst scope_lookup.simps, simp add: None scope_lookup.simps)
  qed
qed

lemma env_of_lookup:
  assumes "typed_state s"
  obtains r where "scope_lookup (sm_syms s) (Some (sm_current_scope s)) name = Some r"
    "env_of s name = (if name = ''self'' \<and> sm_self_type s = None then None
       else case r of None \<Rightarrow> None
         | Some p \<Rightarrow> (case sym_type (symbol_at s p) of Some t \<Rightarrow> Some (denote (sm_types s) t) | None \<Rightarrow> Some T_VOID))"
    "\<And>p t. r = Some p \<Longrightarrow> sym_type (symbol_at s p) = Some t \<Longrightarrow> canonical (sm_types s) t"
proof -
  have ok: "symtab_ok (sm_syms s)" "sm_current_scope s < length (sy_scopes (sm_syms s))"
    using assms by (simp_all add: typed_state_def scope_ok_def)
  obtain r where r: "scope_lookup (sm_syms s) (Some (sm_current_scope s)) name = Some r"
      "\<And>p. r = Some p \<Longrightarrow> p < length (sy_symbols (sm_syms s))"
    using lookup_valid [OF ok] by blast
  show thesis
    by (rule that [of r])
      (use r assms in \<open>auto simp: env_of_def visible_def symbol_value_def Let_def typed_state_def
        split: option.split\<close>)
qed

lemma gives_typed_state:
  assumes "typed_state s" "gives s (t, q) x"
  shows "typed_state q" "env_of q = env_of s"
proof -
  have q: "tt_ok (sm_types q)" "extends (sm_types s) (sm_types q)" "sm_syms q = sm_syms s"
    "sm_current_scope q = sm_current_scope s" "sm_self_type q = sm_self_type s"
    using assms(2) by (auto simp: gives_def split: prod.splits)
  have s: "tt_ok (sm_types s)" "scope_ok s" using assms(1) by (simp_all add: typed_state_def)
  note k = kept [OF s(1) q(2)]
  show tq: "typed_state q"
    using assms(1) q k by (auto simp: typed_state_def scope_ok_def)
  show "env_of q = env_of s"
  proof
    fix name
    obtain r where r: "scope_lookup (sm_syms s) (Some (sm_current_scope s)) name = Some r"
      "env_of s name = (if name = ''self'' \<and> sm_self_type s = None then None
         else case r of None \<Rightarrow> None
         | Some p \<Rightarrow> (case sym_type (symbol_at s p) of Some t \<Rightarrow> Some (denote (sm_types s) t) | None \<Rightarrow> Some T_VOID))"
      "\<And>p t. r = Some p \<Longrightarrow> sym_type (symbol_at s p) = Some t \<Longrightarrow> canonical (sm_types s) t"
      by (rule env_of_lookup [OF assms(1), of name]) blast
    obtain r' where "scope_lookup (sm_syms q) (Some (sm_current_scope q)) name = Some r'"
      "env_of q name = (if name = ''self'' \<and> sm_self_type q = None then None
         else case r' of None \<Rightarrow> None
         | Some p \<Rightarrow> (case sym_type (symbol_at q p) of Some t \<Rightarrow> Some (denote (sm_types q) t) | None \<Rightarrow> Some T_VOID))"
      by (rule env_of_lookup [OF tq, of name]) blast
    then show "env_of q name = env_of s name"
      using r q k by (auto split: option.split)
  qed
qed

lemma gives_identifier:
  assumes "typed_state s"
  shows "\<exists>t q. check_identifier i loc name s = Some (t, q) \<and>
    gives s (t, q) (case env_of s name of Some t \<Rightarrow> (t, 0) | None \<Rightarrow> (T_VOID, 1))"
proof -
  obtain r where r: "scope_lookup (sm_syms s) (Some (sm_current_scope s)) name = Some r"
      "env_of s name = (if name = ''self'' \<and> sm_self_type s = None then None
         else case r of None \<Rightarrow> None
         | Some p \<Rightarrow> (case sym_type (symbol_at s p) of Some t \<Rightarrow> Some (denote (sm_types s) t) | None \<Rightarrow> Some T_VOID))"
      "\<And>p t. r = Some p \<Longrightarrow> sym_type (symbol_at s p) = Some t \<Longrightarrow> canonical (sm_types s) t"
    by (rule env_of_lookup [OF assms, of name]) blast
  have ok: "tt_ok (sm_types s)" using assms by (simp add: typed_state_def)
  have note_sym: "gives s (t, q\<lparr>sm_sym_of := g\<rparr>) x = gives s (t, q) x" "gives (s\<lparr>sm_sym_of := g\<rparr>) y x = gives s y x" for t q g x y
    by (simp_all add: gives_def)
  show ?thesis
  proof (cases "env_of s name")
    case None
    then have "name = ''self'' \<and> sm_self_type s = None \<or> r = None" using r(2) by (auto split: option.splits if_splits)
    define msg where "msg = (if name = ''self'' \<and> sm_self_type s = None
      then quoted ''self'' @ '' can only be used inside methods''
      else ''use of undeclared identifier '' @ quoted name)"
    have "check_identifier i loc name s =
        (case void_error i loc msg s of (t, q) \<Rightarrow> Some (t, q\<lparr>sm_sym_of := (sm_sym_of q)(i := None)\<rparr>))"
      using r(1) \<open>_ \<or> r = None\<close> by (auto simp: check_identifier_def msg_def Let_def)
    then show ?thesis
      using gives_error [OF ok, of i loc msg] None by (auto simp: note_sym split: prod.splits)
  next
    case (Some T)
    then obtain p where p: "r = Some p" "\<not> (name = ''self'' \<and> sm_self_type s = None)"
        "T = (case sym_type (symbol_at s p) of Some t \<Rightarrow> denote (sm_types s) t | None \<Rightarrow> T_VOID)"
      using r(2) by (auto split: option.splits if_splits)
    let ?s = "s\<lparr>sm_sym_of := (sm_sym_of s)(i := Some p)\<rparr>"
    have c: "check_identifier i loc name s = Some (case sym_type (symbol_at s p) of
        Some t \<Rightarrow> typed i t ?s | None \<Rightarrow> typed_tt i st_void ?s)"
      using r(1) p(1,2) by (auto simp: check_identifier_def Let_def)
    have "gives ?s (case sym_type (symbol_at s p) of Some t \<Rightarrow> typed i t ?s | None \<Rightarrow> typed_tt i st_void ?s) (T, 0)"
      using p(1,3) r(3) ok constructor_results(1)
      by (auto intro!: gives_typed gives_typed_tt split: option.split)
    then show ?thesis
      using c Some by (cases "case sym_type (symbol_at s p) of Some t \<Rightarrow> typed i t ?s
        | None \<Rightarrow> typed_tt i st_void ?s") (simp add: note_sym)
  qed
qed

lemma body_ty:
  assumes "tt_ok tt" "canonical tt p"
  shows "is_int_body (body_of tt p) \<longleftrightarrow> is_int_ty (denote tt p)"
    "is_float_body (body_of tt p) \<longleftrightarrow> is_float_ty (denote tt p)"
    "is_bool_body (body_of tt p) \<longleftrightarrow> denote tt p = T_BOOL"
    "st_is_numeric tt p \<longleftrightarrow> is_number_ty (denote tt p)" "st_is_integer tt p \<longleftrightarrow> is_int_ty (denote tt p)"
  using denote_unfold [OF assms(1) canonical_valid [OF assms]]
  by (cases "body_of tt p"; simp add: denote_body_def body_tests is_bool_body_def is_int_ty_def
      is_float_ty_def is_number_ty_def st_is_numeric_def st_is_integer_def)+

lemma gives_if_report:
  assumes "gives s r (T, 0)" "gives (sema_report loc msg s) r' (T, 0)"
  shows "gives s (if b then r' else r) (T, fault b)"
  using assms gives_report by (auto simp: fault_def)

lemma report_simps [simp]:
  "sm_types (sema_report loc msg s) = sm_types s" "sm_in_unsafe (sema_report loc msg s) = sm_in_unsafe s"
  by (simp_all add: sema_report_def)

lemma operators:
  "op \<in> set arithmetic \<longleftrightarrow> is_arithmetic_op op" "op \<in> set comparisons \<longleftrightarrow> is_comparison_op op"
  "op \<in> set bitwise \<longleftrightarrow> is_bitwise_op op"
  by (auto simp: arithmetic_def comparisons_def bitwise_def is_arithmetic_op_def is_comparison_op_def
      is_bitwise_op_def)

lemma gives_binary:
  assumes "tt_ok (sm_types s)" "canonical (sm_types s) l" "canonical (sm_types s) r"
  shows "gives s (check_binary i loc op l r s) (binary_ty op (denote (sm_types s) l) (denote (sm_types s) r))"
proof -
  note b = body_ty [OF assms(1,2)] body_ty [OF assms(1,3)]
  have t: "gives s (typed i l s) (denote (sm_types s) l, 0)" "gives s (typed_tt i st_bool s) (T_BOOL, 0)"
      "gives s (typed_tt i (st_float 64) s) (T_FLOAT 64, 0)"
    using assms constructor_results [OF assms(1)] by (auto intro!: gives_typed gives_typed_tt)
  have r: "gives s (typed i l (sema_report loc msg s)) (denote (sm_types s) l, 1)"
      "gives s (typed_tt i st_bool (sema_report loc msg s)) (T_BOOL, 1)" for msg
    using assms constructor_results [OF assms(1)]
    by (auto intro!: gives_report [of loc msg] gives_typed gives_typed_tt)
  show ?thesis
    unfolding check_binary_def binary_ty_def operators b fault_def
    using t r gives_error [OF assms(1)] by (auto simp: b)
qed

lemma gives_unary:
  assumes "tt_ok (sm_types s)" "canonical (sm_types s) t"
  shows "gives s (check_unary i loc op t s) (unary_ty (sm_in_unsafe s) op (denote (sm_types s) t))"
proof -
  let ?tt = "sm_types s"
  note b = body_ty [OF assms]
  have c: "gives s (typed i t s) (denote ?tt t, 0)" "gives s (typed_tt i st_bool s) (T_BOOL, 0)"
      "gives s (typed_tt i (st_reference False t) s) (T_REFERENCE False (denote ?tt t), 0)"
    using assms constructor_results [OF assms(1)] by (auto intro!: gives_typed gives_typed_tt)
  have r: "gives s (typed i t (sema_report loc msg s)) (denote ?tt t, 1)"
      "gives s (typed_tt i st_bool (sema_report loc msg s)) (T_BOOL, 1)" for msg
    using assms constructor_results [OF assms(1)]
    by (auto intro!: gives_report [of loc msg] gives_typed gives_typed_tt)
  have star: "gives s (case tbody s t of
          ST_POINTER _ base \<Rightarrow> typed i base (if \<not> sm_in_unsafe s then sema_report loc m_raw_deref s else s)
        | ST_REFERENCE _ base \<Rightarrow> typed i base s
        | _ \<Rightarrow> void_error i loc ''cannot dereference non-pointer type'' s)
      (case denote ?tt t of T_POINTER _ b \<Rightarrow> (b, fault (\<not> sm_in_unsafe s)) | T_REFERENCE _ b \<Rightarrow> (b, 0) | _ \<Rightarrow> (T_VOID, 1))"
  proof -
    have can: "canonical ?tt c" if "c \<in> set (st_children (tbody s t))" for c
      using assms(2) that by (auto elim: canonicalE)
    have "gives s (typed i c s) (denote ?tt c, 0)"
        "gives s (typed i c (sema_report loc m_raw_deref s)) (denote ?tt c, 1)"
      if "c \<in> set (st_children (tbody s t))" for c
      using can [OF that] assms(1) by (auto intro!: gives_typed gives_report [of loc m_raw_deref])
    then show ?thesis
      using denote_unfold [OF assms(1) canonical_valid [OF assms]] gives_error [OF assms(1), of i loc]
      by (cases "tbody s t") (simp_all add: denote_body_def st_children_def fault_def)
  qed
  show ?thesis
  proof (cases "op = TOK_STAR")
    case True
    then show ?thesis using star by (simp only: check_unary_def unary_ty_def if_True if_False
        token_kind.distinct simp_thms)
  next
    case False
    then show ?thesis
      unfolding check_unary_def unary_ty_def using c r by (auto simp: b fault_def)
  qed
qed

lemma string_result:
  assumes "tt_ok tt"
  shows "type_result tt (st_string tt) (T_SLICE True (T_INT False 8))"
  unfolding st_string_def Let_def
  by (rule type_result_then [OF constructor_results(3) [OF assms]]) (rule constructor_results(7))

text \<open>The two operands of an operator, and what follows them.\<close>

lemma gives_operands:
  assumes "typed_state s" "gives s (l, q) (L, a)" "gives q (r, q') (R, b)"
  shows "canonical (sm_types q') l" "denote (sm_types q') l = L" "gives s (r, q') (R, a + b)"
proof -
  have "tt_ok (sm_types q)" "extends (sm_types q) (sm_types q')" "canonical (sm_types q) l" "denote (sm_types q) l = L"
    using assms(2,3) by (simp_all add: gives_def)
  then show "canonical (sm_types q') l" "denote (sm_types q') l = L"
    using kept [of "sm_types q" "sm_types q'"] by simp_all
  show "gives s (r, q') (R, a + b)" by (rule gives_trans [OF assms(2,3)])
qed

text \<open>Indexing, and the arguments of a call.\<close>

lemma gives_index:
  assumes "tt_ok (sm_types s)" "canonical (sm_types s) t"
  shows "gives s (check_index i t s) (element_ty (denote (sm_types s) t), 0)"
proof -
  have "gives s (typed i c s) (denote (sm_types s) c, 0)" if "c \<in> set (st_children (tbody s t))" for c
    using assms that by (auto elim: canonicalE intro!: gives_typed)
  moreover have "gives s (typed_tt i st_void s) (T_VOID, 0)"
    using constructor_results(1) [OF assms(1)] by (rule gives_typed_tt)
  ultimately show ?thesis
    using denote_unfold [OF assms(1) canonical_valid [OF assms]]
    by (cases "tbody s t") (simp_all add: check_index_def element_ty_def denote_body_def st_children_def)
qed

lemma gives_keep:
  assumes "tt_ok (sm_types s)" "gives s (t, q) (T, a)" "canonical (sm_types s) c"
  shows "canonical (sm_types q) c" "denote (sm_types q) c = denote (sm_types s) c"
    "gives s (c, q) (denote (sm_types s) c, a)"
proof -
  have e: "extends (sm_types s) (sm_types q)" using assms(2) by (simp add: gives_def)
  show c: "canonical (sm_types q) c" "denote (sm_types q) c = denote (sm_types s) c"
    using kept [OF assms(1) e] assms(3) by simp_all
  show "gives s (c, q) (denote (sm_types s) c, a)" using assms(2) c by (simp add: gives_def)
qed

lemma gives_argument:
  assumes "tt_ok (sm_types s)" "canonical (sm_types s) p" "canonical (sm_types s) a" "canonical (sm_types s) t"
  shows "\<exists>q. check_argument loc k p a s = Some q \<and>
    gives s (t, q) (denote (sm_types s) t, fault (\<not> coerces (denote (sm_types s) a) (denote (sm_types s) p)))"
  using assms
  by (auto simp: check_argument_def st_can_coerce_denote st_name_denote fault_def gives_def sema_report_def)

lemma gives_args:
  assumes "\<And>e s. typed_state s \<Longrightarrow> plain d e \<Longrightarrow>
    \<exists>t q. ck_expr C e s = Some (t, q) \<and> gives s (t, q) (infer (env_of s) (sm_in_unsafe s) e)"
  shows "typed_state s \<Longrightarrow> list_all (\<lambda>a. plain d (Some a)) args \<Longrightarrow> length args = length ps \<Longrightarrow>
    \<forall>p \<in> set ps. canonical (sm_types s) p \<Longrightarrow> canonical (sm_types s) t \<Longrightarrow>
    \<exists>q. check_args C k args ps s = Some q \<and> gives s (t, q) (denote (sm_types s) t,
      arg_faults (map (\<lambda>e. infer (env_of s) (sm_in_unsafe s) (Some e)) args) (map (denote (sm_types s)) ps))"
proof (induction args arbitrary: ps s k)
  case Nil
  then show ?case by (auto simp: gives_def arg_faults_def typed_state_def)
next
  case (Cons x args)
  then obtain p ps' where ps: "ps = p # ps'" "length args = length ps'" by (cases ps) auto
  have ok: "tt_ok (sm_types s)" using Cons.prems(1) by (simp add: typed_state_def)
  obtain T a where x: "infer (env_of s) (sm_in_unsafe s) (Some x) = (T, a)" by fastforce
  then obtain r q where r: "ck_expr C (Some x) s = Some (r, q)" "gives s (r, q) (T, a)"
    using assms [OF Cons.prems(1), of "Some x"] Cons.prems(2) by auto
  note q = gives_typed_state [OF Cons.prems(1) r(2)]
  have q': "tt_ok (sm_types q)" "canonical (sm_types q) r" "denote (sm_types q) r = T"
      "sm_in_unsafe q = sm_in_unsafe s" using r(2) by (simp_all add: gives_def)
  have p: "canonical (sm_types s) p" "\<forall>p \<in> set ps'. canonical (sm_types s) p" using Cons.prems(4) ps by auto
  note kt = gives_keep [OF ok r(2) Cons.prems(5)] and kp = gives_keep [OF ok r(2) p(1)]
  obtain q1 where q1: "check_argument (n_loc x) k p r q = Some q1"
      "gives q (t, q1) (denote (sm_types s) t, fault (\<not> coerces T (denote (sm_types s) p)))"
    using gives_argument [OF q'(1) kp(1) q'(2) kt(1)] unfolding q'(3) kp(2) kt(2) by blast
  have s1: "gives s (t, q1) (denote (sm_types s) t, a + fault (\<not> coerces T (denote (sm_types s) p)))"
    by (rule gives_trans [OF kt(3) q1(2)])
  note t1 = gives_typed_state [OF Cons.prems(1) s1]
  have u1: "sm_in_unsafe q1 = sm_in_unsafe s" using s1 by (simp add: gives_def)
  note k1 = gives_keep [OF ok s1]
  have ps1: "\<forall>p \<in> set ps'. canonical (sm_types q1) p"
      "map (denote (sm_types q1)) ps' = map (denote (sm_types s)) ps'" using p(2) k1 by auto
  obtain q2 where q2: "check_args C (Suc k) args ps' q1 = Some q2"
      "gives q1 (t, q2) (denote (sm_types s) t, arg_faults (map (\<lambda>e. infer (env_of s) (sm_in_unsafe s) (Some e)) args)
         (map (denote (sm_types s)) ps'))"
    using Cons.IH [OF t1(1) _ ps(2) ps1(1) k1(1) [OF Cons.prems(5)]] Cons.prems(2)
    unfolding t1(2) u1 ps1(2) k1(2) [OF Cons.prems(5)] by auto
  show ?case
    using r(1) q1(1) q2(1) gives_trans [OF s1 q2(2)] by (simp add: ps(1) x arg_faults_def add.assoc)
qed

lemma gives_call:
  assumes "\<And>e s. typed_state s \<Longrightarrow> plain d e \<Longrightarrow>
      \<exists>t q. ck_expr C e s = Some (t, q) \<and> gives s (t, q) (infer (env_of s) (sm_in_unsafe s) e)"
    and "typed_state s" "canonical (sm_types s) f" "list_all (\<lambda>a. plain d (Some a)) args"
  shows "\<exists>t q. (case tbody s f of
       ST_FUNCTION params ret _ \<Rightarrow>
         if length args \<noteq> length params
         then Some (typed i ret (sema_report loc (m_arg_count (length params) (length args)) s))
         else do {
           s \<leftarrow> check_args C 1 args params s;
           Some (typed i ret s)
         }
     | _ \<Rightarrow> Some (void_error i loc ''called object is not a function'' s)) = Some (t, q)
     \<and> gives s (t, q) (call_ty (denote (sm_types s) f) (map (\<lambda>e. infer (env_of s) (sm_in_unsafe s) (Some e)) args))"
proof -
  have ok: "tt_ok (sm_types s)" using assms(2) by (simp add: typed_state_def)
  have can: "canonical (sm_types s) c" if "c \<in> set (st_children (tbody s f))" for c
    using assms(3) that by (auto elim: canonicalE)
  note d = denote_unfold [OF ok canonical_valid [OF ok assms(3)]]
  have err: "\<exists>t q. void_error i loc m s = (t, q) \<and> gives s (t, q) (T_VOID, 1)" for m
    using gives_error [OF ok, of i loc m] by (cases "void_error i loc m s") simp
  show ?thesis
  proof (cases "tbody s f")
    case (ST_FUNCTION ps ret v)
    then have c: "canonical (sm_types s) ret" "\<forall>p \<in> set ps. canonical (sm_types s) p"
      using can by (auto simp: st_children_def)
    have "gives s (typed i ret (sema_report loc m s)) (denote (sm_types s) ret, 1)" for m
      using gives_report [of loc m s _ _ 0] gives_typed [of "sema_report loc m s"] ok c(1) by simp
    moreover have "\<exists>q. check_args C 1 args ps s = Some q \<and> gives s (ret, q) (denote (sm_types s) ret,
        arg_faults (map (\<lambda>e. infer (env_of s) (sm_in_unsafe s) (Some e)) args) (map (denote (sm_types s)) ps))"
      if "length args = length ps"
      by (rule gives_args [OF assms(1,2,4) that c(2,1)])
    ultimately show ?thesis
      using d by (auto simp: ST_FUNCTION denote_body_def call_ty_def typed_def gives_def)
  qed (use d err in \<open>simp_all add: denote_body_def call_ty_def\<close>)
qed

lemma plain_checks:
  "typed_state s \<Longrightarrow> plain d e \<Longrightarrow> d \<le> n \<Longrightarrow>
     \<exists>t q. ck_expr (checkers_at n) e s = Some (t, q) \<and> gives s (t, q) (infer (env_of s) (sm_in_unsafe s) e)"
proof (induction d arbitrary: n e s)
  case (Suc d)
  then obtain m where n: "n = Suc m" "d \<le> m" by (cases n) auto
  have ok: "tt_ok (sm_types s)" using Suc.prems(1) by (simp add: typed_state_def)
  note res = constructor_results [OF ok] string_result [OF ok]
  note IH = Suc.IH [OF _ _ n(2)]
  have leaf: "\<exists>t q. r = (t, q) \<and> gives s (t, q) x" if "gives s r x" for r x
    using that by (cases r) simp
  have after: "\<exists>r q' R c. ck_expr (checkers_at m) e q = Some (r, q') \<and> gives q (r, q') (R, c)
      \<and> infer (env_of s) (sm_in_unsafe s) e = (R, c)"
    if "typed_state s" "gives s (l, q) (L, a)" "plain d e" for e s l q L a
  proof -
    have "sm_in_unsafe q = sm_in_unsafe s" using that(2) by (simp add: gives_def)
    then show ?thesis
      using IH [OF gives_typed_state(1) [OF that(1,2)] that(3)] gives_typed_state(2) [OF that(1,2)]
      by (cases "infer (env_of s) (sm_in_unsafe s) e") auto
  qed
  have opt: "\<exists>q'. (if e = None then Some q else do { (_, s) \<leftarrow> ck_expr (checkers_at m) e q; Some s }) = Some q'
      \<and> gives s (l, q') (L, a + snd (infer (env_of s) (sm_in_unsafe s) e))"
    if "typed_state s" "gives s (l, q) (L, a)" "plain d e" for e s l q L a
  proof (cases e)
    case (Some y)
    note th = that
    obtain r q' R c where r: "ck_expr (checkers_at m) e q = Some (r, q')" "gives q (r, q') (R, c)"
        "infer (env_of s) (sm_in_unsafe s) e = (R, c)" using after [OF th] by blast
    have "canonical (sm_types q') l" "denote (sm_types q') l = L" "gives s (r, q') (R, a + c)"
      using gives_operands [OF th(1,2) r(2)] by simp_all
    then show ?thesis using r Some by (simp add: gives_def)
  qed (use that(2) in simp)
  show ?case
  proof (cases e)
    case None
    have "gives s (tt_do st_void s) (T_VOID, 0)" by (rule gives_tt_do [of s st_void, OF res(1)])
    then show ?thesis using leaf by (simp add: None n(1) sema_check_expr_def Let_def)
  next
    case (Some nd)
    obtain i loc b where nd: "nd = Node i loc b" by (cases nd)
    obtain x where x: "b = Expr x"
      using Suc.prems(2) by (simp add: Some nd split: node_body.splits)
    note unfold = Some nd x n(1) sema_check_expr_def check_node_def Let_def
    show ?thesis
    proof (cases x)
      case (AST_IDENTIFIER name)
      then show ?thesis
        using gives_identifier [OF Suc.prems(1), of i loc name] by (simp add: unfold cong: option.case_cong)
    next
      case (AST_BINARY_EXPR op left right)
      then have p: "plain d left" "plain d right" using Suc.prems(2) by (simp_all add: Some nd x)
      obtain l q L a where l: "ck_expr (checkers_at m) left s = Some (l, q)" "gives s (l, q) (L, a)"
          "infer (env_of s) (sm_in_unsafe s) left = (L, a)"
        using IH [OF Suc.prems(1) p(1)] by (metis surj_pair)
      note q = gives_typed_state [OF Suc.prems(1) l(2)]
      have u: "sm_in_unsafe q = sm_in_unsafe s" using l(2) by (simp add: gives_def)
      obtain R c where R: "infer (env_of s) (sm_in_unsafe s) right = (R, c)" by fastforce
      obtain r q' where r: "ck_expr (checkers_at m) right q = Some (r, q')" "gives q (r, q') (R, c)"
        using IH [OF q(1) p(2)] unfolding q(2) u R by blast
      note o' = gives_operands [OF Suc.prems(1) l(2) r(2)]
      have q': "tt_ok (sm_types q')" "canonical (sm_types q') r" "denote (sm_types q') r = R"
        using r(2) by (simp_all add: gives_def)
      have "gives s (check_binary i loc op l r q') (fst (binary_ty op L R), a + c + snd (binary_ty op L R))"
        using gives_binary [OF q'(1) o'(1) q'(2), of i loc op] unfolding o'(2) q'(3)
        by (intro gives_trans [OF o'(3)]) simp
      then show ?thesis
        using l r R leaf by (simp add: unfold AST_BINARY_EXPR case_prod_beta)
    next
      case (AST_UNARY_EXPR op operand)
      then have p: "plain d operand" using Suc.prems(2) by (simp add: Some nd x)
      obtain t q T a where t: "ck_expr (checkers_at m) operand s = Some (t, q)" "gives s (t, q) (T, a)"
          "infer (env_of s) (sm_in_unsafe s) operand = (T, a)"
        using IH [OF Suc.prems(1) p] by (metis surj_pair)
      have q: "tt_ok (sm_types q)" "canonical (sm_types q) t" "denote (sm_types q) t = T" "sm_in_unsafe q = sm_in_unsafe s"
        using t(2) by (simp_all add: gives_def)
      have "gives s (check_unary i loc op t q) (fst (unary_ty (sm_in_unsafe s) op T), a + snd (unary_ty (sm_in_unsafe s) op T))"
        using gives_unary [OF q(1,2), of i loc op] unfolding q(3,4)
        by (intro gives_trans [OF t(2)]) simp
      then show ?thesis
        using t leaf by (simp add: unfold AST_UNARY_EXPR case_prod_beta)
    next
      case (AST_MATCH_ARM pat e)
      then have p: "plain d e" using Suc.prems(2) by (simp add: Some nd x)
      obtain t q T a where t: "ck_expr (checkers_at m) e s = Some (t, q)" "gives s (t, q) (T, a)"
          "infer (env_of s) (sm_in_unsafe s) e = (T, a)"
        using IH [OF Suc.prems(1) p] by (metis surj_pair)
      then show ?thesis by (simp add: unfold AST_MATCH_ARM typed_def gives_def)
    next
      case (AST_INDEX_EXPR obj idx)
      then have p: "plain d obj" "plain d idx" using Suc.prems(2) by (simp_all add: Some nd x)
      obtain l q L a where l: "ck_expr (checkers_at m) obj s = Some (l, q)" "gives s (l, q) (L, a)"
          "infer (env_of s) (sm_in_unsafe s) obj = (L, a)"
        using IH [OF Suc.prems(1) p(1)] by (metis surj_pair)
      obtain r q' R c where r: "ck_expr (checkers_at m) idx q = Some (r, q')" "gives q (r, q') (R, c)"
          "infer (env_of s) (sm_in_unsafe s) idx = (R, c)"
        using after [OF Suc.prems(1) l(2) p(2)] by blast
      note o' = gives_operands [OF Suc.prems(1) l(2) r(2)]
      have "tt_ok (sm_types q')" using r(2) by (simp add: gives_def)
      then have "gives s (check_index i l q') (element_ty L, a + c + 0)"
        using gives_index [OF _ o'(1)] unfolding o'(2) by (intro gives_trans [OF o'(3)]) simp
      then show ?thesis
        using l r leaf by (simp add: unfold AST_INDEX_EXPR)
    next
      case (AST_SLICE_EXPR obj lo hi)
      then have p: "plain d obj" "plain d lo" "plain d hi" using Suc.prems(2) by (simp_all add: Some nd x)
      obtain l q L a where l: "ck_expr (checkers_at m) obj s = Some (l, q)" "gives s (l, q) (L, a)"
          "infer (env_of s) (sm_in_unsafe s) obj = (L, a)"
        using IH [OF Suc.prems(1) p(1)] by (metis surj_pair)
      obtain q1 where q1: "(if lo = None then Some q else do { (_, s) \<leftarrow> ck_expr (checkers_at m) lo q; Some s }) = Some q1"
          "gives s (l, q1) (L, a + snd (infer (env_of s) (sm_in_unsafe s) lo))"
        using opt [OF Suc.prems(1) l(2) p(2)] by blast
      obtain q2 where q2: "(if hi = None then Some q1 else do { (_, s) \<leftarrow> ck_expr (checkers_at m) hi q1; Some s }) = Some q2"
          "gives s (l, q2) (L, a + snd (infer (env_of s) (sm_in_unsafe s) lo) + snd (infer (env_of s) (sm_in_unsafe s) hi))"
        using opt [OF Suc.prems(1) q1(2) p(3)] by blast
      have "tt_ok (sm_types q2)" using q2(2) by (simp add: gives_def)
      then have "gives q2 (typed_tt i st_void q2) (T_VOID, 0)" using constructor_results(1) by (simp add: gives_typed_tt)
      then have "gives s (typed_tt i st_void q2)
          (T_VOID, a + snd (infer (env_of s) (sm_in_unsafe s) lo) + snd (infer (env_of s) (sm_in_unsafe s) hi))"
        using gives_trans [OF q2(2)] by (cases "typed_tt i st_void q2") fastforce
      then show ?thesis
        using l q1(1) q2(1) leaf by (simp add: unfold AST_SLICE_EXPR case_prod_beta)
    next
      case (AST_CALL_EXPR callee args)
      then have p: "plain d callee" "list_all (\<lambda>a. plain d (Some a)) args" using Suc.prems(2) by (simp_all add: Some nd x)
      obtain f q F a where f: "ck_expr (checkers_at m) callee s = Some (f, q)" "gives s (f, q) (F, a)"
          "infer (env_of s) (sm_in_unsafe s) callee = (F, a)"
        using IH [OF Suc.prems(1) p(1)] by (metis surj_pair)
      note q = gives_typed_state [OF Suc.prems(1) f(2)]
      have q': "canonical (sm_types q) f" "denote (sm_types q) f = F" "sm_in_unsafe q = sm_in_unsafe s"
        using f(2) by (simp_all add: gives_def)
      obtain T b where T: "call_ty F (map (\<lambda>e. infer (env_of s) (sm_in_unsafe s) (Some e)) args) = (T, b)" by fastforce
      show ?thesis
        using gives_call [OF IH q(1) q'(1) p(2), of i loc] f gives_trans [OF f(2)]
        unfolding q'(2,3) q(2) T by (fastforce simp: unfold AST_CALL_EXPR T)
    qed (use Suc.prems(2) res in \<open>auto simp: unfold intro!: leaf gives_typed_tt\<close>)
  qed
qed simp

text \<open>
  C5. The analysis of operator expressions and calls computes the types of the language. For an
  expression of literals, names, unary and binary operators, calls, indexing and slicing (and a match
  arm, which has the type of its value), analysed with enough fuel in a consistent state, it returns;
  the type it assigns, read as a tree, and the number of errors it reports, one of them for each
  argument that does not coerce to its parameter, are those the reference \<open>infer\<close> gives in the
  environment of the names in sight, also after an error inside the expression. Casts, \<^verbatim>\<open>try\<close>, field
  accesses, method calls, literals of arrays and structures and blocks are not part of this claim.
\<close>

theorem infer_checks:
  assumes "typed_state s" "plain d e" "d \<le> n"
  shows "\<exists>t q. ck_expr (checkers_at n) e s = Some (t, q)
    \<and> denote (sm_types q) t = fst (infer (env_of s) (sm_in_unsafe s) e)
    \<and> sm_error_count q = sm_error_count s + snd (infer (env_of s) (sm_in_unsafe s) e)
    \<and> typed_state q"
proof -
  obtain t q where q: "ck_expr (checkers_at n) e s = Some (t, q)"
      "gives s (t, q) (infer (env_of s) (sm_in_unsafe s) e)"
    using plain_checks [OF assms] by blast
  obtain T k where x: "infer (env_of s) (sm_in_unsafe s) e = (T, k)" by fastforce
  show ?thesis
    using q gives_typed_state(1) [OF assms(1) q(2)] x by (simp add: gives_def)
qed

definition demo_sum :: node where
  "demo_sum = Node 9 demo_loc (Expr (AST_BINARY_EXPR TOK_PLUS
     (Some (Node 7 demo_loc (Expr (AST_IDENTIFIER ''x'')))) (Some (Node 8 demo_loc (Expr (AST_INT_LITERAL 1))))))"

text \<open>The name is not declared: one error for it, and one for adding a number to nothing.\<close>

theorem infer_checks_witness:
  "\<exists>t q. ck_expr (checkers_at 2) (Some demo_sum) demo_sema = Some (t, q)
     \<and> denote (sm_types q) t = T_VOID \<and> sm_error_count q = 2"
proof -
  have ok: "typed_state demo_sema"
    using demo_scope_ok(1)
    by (simp add: typed_state_def demo_sema_def sema_new_def Let_def scope_new_def)
  have count: "sm_error_count demo_sema = 0"
    by (simp add: demo_sema_def sema_new_def Let_def scope_new_def)
  have plain: "plain 2 (Some demo_sum)" by (simp add: demo_sum_def numeral_2_eq_2)
  have env: "env_of demo_sema ''x'' = None"
    using demo_scope_ok(2,3) by (simp add: env_of_def)
  have "infer (env_of demo_sema) (sm_in_unsafe demo_sema) (Some demo_sum) = (T_VOID, 2)"
    by (simp add: demo_sum_def env binary_ty_def arithmetic_def is_number_ty_def is_int_ty_def is_float_ty_def)
  then show ?thesis
    using infer_checks [OF ok plain order_refl] unfolding count by (simp only: fst_conv snd_conv add_0) blast
qed

end
