(* ===== verification/Sema_Cases.thy ===== *)
theory Sema_Cases
  imports Sema_Types
begin

text \<open>
  Single behaviours of the semantic analysis: the table of methods as a second instance of
  \<open>keyed_table\<close>, what an \<^verbatim>\<open>extend\<close> block leaves in it, constant expressions as arithmetic modulo
  \<open>2 ^ 64\<close>, and inputs the parser accepts on which the analysis has no result.
\<close>

section \<open>Methods\<close>

definition methods_ok :: "method_entry list list \<Rightarrow> bool" where
  "methods_ok tbl \<longleftrightarrow> length tbl = METHOD_TABLE_BUCKETS"

lemma method_bucket_less: "method_bucket ty name < METHOD_TABLE_BUCKETS"
  by (simp add: method_bucket_def METHOD_TABLE_BUCKETS_def unat_mod)

lemma method_table_lookup_add:
  assumes "methods_ok tbl"
  shows "method_table_lookup (method_table_add ty name fn tbl) ty' name' =
    (if ty' = ty \<and> name' = name then Some fn else method_table_lookup tbl ty' name')"
proof -
  let ?e = "\<lparr>me_type_name = ty, me_method_name = name, me_fn_decl = fn\<rparr>"
  let ?P = "\<lambda>e. sv_eq (me_type_name e) ty' \<and> sv_eq (me_method_name e) name'"
  have "method_bucket ty name < length tbl"
    using assms method_bucket_less [of ty name] by (simp only: methods_ok_def)
  note found = find_chain_update [OF this, of ?P ?e "method_bucket ty' name'"]
  have same: "?P ?e \<longleftrightarrow> ty' = ty \<and> name' = name"
    unfolding sv_eq_iff method_entry.simps by blast
  have "find ?P (method_table_add ty name fn tbl ! method_bucket ty' name') =
      (if ty' = ty \<and> name' = name then Some ?e else find ?P (tbl ! method_bucket ty' name'))"
  proof (cases "ty' = ty \<and> name' = name")
    case True
    then show ?thesis using found by (simp add: method_table_add_def Let_def)
  next
    case False
    then have "\<not> ?P ?e" by (simp only: same not_False_eq_True)
    then show ?thesis
      unfolding method_table_add_def Let_def by (simp only: found False if_False simp_thms)
  qed
  then show ?thesis unfolding method_table_lookup_def by (simp only: if_distrib [of "map_option me_fn_decl"] option.map method_entry.simps)
qed

interpretation method_table: keyed_table "\<lambda>tbl (ty, name). method_table_lookup tbl ty name"
    "\<lambda>(ty, name). method_table_add ty name" methods_ok
proof
  fix tbl :: "method_entry list list" and k k' :: "string_view \<times> string_view" and fn
  assume ok: "methods_ok tbl"
  show "methods_ok ((case k of (ty, name) \<Rightarrow> method_table_add ty name) fn tbl)"
    using ok by (cases k) (simp add: methods_ok_def method_table_add_def Let_def)
  show "(case k' of (ty, name) \<Rightarrow> method_table_lookup ((case k of (ty, name) \<Rightarrow> method_table_add ty name) fn tbl) ty name)
      = (if k' = k then Some fn else case k' of (ty, name) \<Rightarrow> method_table_lookup tbl ty name)"
    using method_table_lookup_add [OF ok] by (cases k; cases k') auto
qed

definition method_entries :: "string_view \<Rightarrow> node list \<Rightarrow> ((string_view \<times> string_view) \<times> node) list" where
  "method_entries target meths = map (\<lambda>m. ((target, fn_decl_name m), m)) (filter is_fn_decl meths)"

lemma fold_method_entries:
  "fold (\<lambda>m. method_table_add target (fn_decl_name m) m) (filter is_fn_decl meths) tbl
     = method_table.insert_all (method_entries target meths) tbl"
  by (simp add: method_table.insert_all_def method_entries_def fold_map comp_def)

text \<open>
  C14. An \<^verbatim>\<open>extend\<close> block registers its methods, whether or not its target is a type. Afterwards a
  method of the target is found exactly when the block or an earlier one declares it; of several
  methods of one name in the block the last one is found, and none of them is reported; the methods
  of all other types are the same as before.
\<close>

theorem collect_extend_methods:
  assumes "methods_ok (sm_methods s)" "collect_extend loc target meths s = Some q"
  shows "method_table_lookup (sm_methods q) ty name =
    (if ty = target
     then case find (\<lambda>m. fn_decl_name m = name) (rev (filter is_fn_decl meths)) of
        Some m \<Rightarrow> Some m | None \<Rightarrow> method_table_lookup (sm_methods s) ty name
     else method_table_lookup (sm_methods s) ty name)
    \<and> sm_error_count q \<le> sm_error_count s + 1"
proof -
  have q: "sm_methods q = method_table.insert_all (method_entries target meths) (sm_methods s)"
    and e: "sm_error_count q \<le> sm_error_count s + 1"
    using assms(2) by (auto simp: collect_extend_def Let_def fold_method_entries sema_report_def
      bind_eq_Some_conv split: option.splits)
  have m: "map_of (map (\<lambda>m. ((target, fn_decl_name m), m)) ms) (ty, name) =
      (if ty = target then find (\<lambda>m. fn_decl_name m = name) ms else None)" for ms
    by (induction ms) auto
  have "method_table_lookup (sm_methods q) ty name =
      (case map_of (rev (method_entries target meths)) (ty, name) of
         Some m \<Rightarrow> Some m | None \<Rightarrow> method_table_lookup (sm_methods s) ty name)"
    using method_table.lookup_insert_all [OF assms(1), of "method_entries target meths" "(ty, name)"] q
    by (simp split: option.split)
  then show ?thesis using e by (simp add: method_entries_def rev_map m split: option.split)
qed

section \<open>Inputs without a result\<close>

lemma bind_None: "(\<And>x. m = Some x \<Longrightarrow> k x = None) \<Longrightarrow> Option.bind m k = None"
  by (cases m) auto

lemma check_if_node:
  assumes "n_body e = Stmt (AST_IF_STMT c (Some t) f)"
  shows "ck_block (checkers_at n) (Some e) s = None"
  by (cases n) (simp_all add: assms Let_def sema_check_block_def block_members_def)

text \<open>
  C25. The analysis has no defined result for an \<^verbatim>\<open>else if\<close>: the parser puts the inner \<^verbatim>\<open>if\<close> itself
  in the place of the second block, and the analysis reads the members of a block from it. For no
  fuel and no state does a result come out of a statement \<^verbatim>\<open>if c {..} else if d {..}\<close>, and so none
  of a block that holds one. When the inner \<^verbatim>\<open>if\<close> has no block, after a syntax error, it reads as an
  empty block: a scope is opened and left, the result is void, and neither its condition nor its
  \<^verbatim>\<open>else\<close> is analysed.
\<close>

theorem else_if_has_no_result:
  assumes "n_body node = Stmt (AST_IF_STMT cond then_block (Some e))" "n_body e = Stmt (AST_IF_STMT c (Some t) f)"
  shows "ck_stmt (checkers_at n) node s = None
    \<and> (node \<in> set stmts \<and> n_body b = Stmt (AST_BLOCK stmts trailing) \<longrightarrow>
         ck_block (checkers_at n) (Some b) s = None)
    \<and> (n_body e' = Stmt (AST_IF_STMT c' None f') \<longrightarrow>
         ck_block (checkers_at (Suc n)) (Some e') s =
           (let (sc, s1) = open_scope (Some e') s; (t, s2) = tt_do st_void (s1\<lparr>sm_current_scope := sc\<rparr>)
            in Some (t, s2\<lparr>sm_current_scope := sm_current_scope s\<rparr>)))"
proof (intro conjI)
  have none: "ck_stmt (checkers_at n) node s = None" for n s
    by (cases n) (auto simp: Let_def sema_check_stmt_def assms check_if_node [OF assms(2)] intro!: bind_None)
  then show "ck_stmt (checkers_at n) node s = None" .
  have "check_stmts (checkers_at m) l stmts s = None" if "node \<in> set stmts" for m l s
    using that by (induction stmts arbitrary: l s) (auto simp: none intro!: bind_None)
  then show "node \<in> set stmts \<and> n_body b = Stmt (AST_BLOCK stmts trailing) \<longrightarrow>
      ck_block (checkers_at n) (Some b) s = None"
    by (cases n) (auto simp: Let_def sema_check_block_def block_members_def split: prod.splits)
  show "n_body e' = Stmt (AST_IF_STMT c' None f') \<longrightarrow>
      ck_block (checkers_at (Suc n)) (Some e') s =
        (let (sc, s1) = open_scope (Some e') s; (t, s2) = tt_do st_void (s1\<lparr>sm_current_scope := sc\<rparr>)
         in Some (t, s2\<lparr>sm_current_scope := sm_current_scope s\<rparr>))"
    by (auto simp: sema_check_block_def block_members_def Let_def split: prod.splits)
qed

text \<open>Type names for numbers and truth values.\<close>

definition value_type_names :: "string_view list" where
  "value_type_names = [''bool'', ''isize'', ''usize'', ''i32'', ''i64'', ''u8'', ''f64'']"

lemma resolve_value_type:
  assumes "ty \<in> set value_type_names" "tt_ok (sm_types s)"
  shows "\<exists>f. resolve_named loc ty s = Some (tt_do f s) \<and> type_result (sm_types s) (f (sm_types s)) (type_of_name ty)
    \<and> \<not> coerces T_VOID (type_of_name ty)"
proof -
  have n: "name_number ''i32'' CHR ''i'' = Some 32" "name_number ''i64'' CHR ''i'' = Some 64"
    "name_number ''u8'' CHR ''i'' = Some 0" "name_number ''u8'' CHR ''u'' = Some 8"
    "name_number ''f64'' CHR ''i'' = Some 0" "name_number ''f64'' CHR ''u'' = Some 0"
    "name_number ''f64'' CHR ''f'' = Some 64"
    by code_simp+
  have t: "type_of_name ''bool'' = T_BOOL" "type_of_name ''isize'' = T_INT True 64"
    "type_of_name ''usize'' = T_INT False 64" "type_of_name ''i32'' = T_INT True 32"
    "type_of_name ''i64'' = T_INT True 64" "type_of_name ''u8'' = T_INT False 8"
    "type_of_name ''f64'' = T_FLOAT 64"
    by code_simp+
  have r: "resolve_named loc ''bool'' s = Some (tt_do st_bool s)"
    "resolve_named loc ''isize'' s = Some (tt_do (st_int True 64) s)"
    "resolve_named loc ''usize'' s = Some (tt_do (st_int False 64) s)"
    "resolve_named loc ''i32'' s = Some (tt_do (st_int True 32) s)"
    "resolve_named loc ''i64'' s = Some (tt_do (st_int True 64) s)"
    "resolve_named loc ''u8'' s = Some (tt_do (st_int False 8) s)"
    "resolve_named loc ''f64'' s = Some (tt_do (st_float 64) s)"
    by (simp_all add: resolve_named_def n is_int_width_def)
  have c: "\<not> coerces T_VOID T_BOOL" "\<not> coerces T_VOID (T_INT g k)" "\<not> coerces T_VOID (T_FLOAT k)" for g k
    by (simp_all add: derefs_to_def)
  note k = constructor_results(2-4) [OF assms(2)]
  consider "ty = ''bool''" | "ty = ''isize''" | "ty = ''usize''" | "ty = ''i32''" | "ty = ''i64''"
    | "ty = ''u8''" | "ty = ''f64''"
    using assms(1) unfolding value_type_names_def list.set insert_iff empty_iff
    by (elim disjE FalseE) (erule that)+
  then show ?thesis
  proof cases
    case 1
    show ?thesis unfolding 1 t by (intro exI [of _ st_bool] conjI r k c)
  next
    case 2
    show ?thesis unfolding 2 t by (intro exI [of _ "st_int True 64"] conjI r k c)
  next
    case 3
    show ?thesis unfolding 3 t by (intro exI [of _ "st_int False 64"] conjI r k c)
  next
    case 4
    show ?thesis unfolding 4 t by (intro exI [of _ "st_int True 32"] conjI r k c)
  next
    case 5
    show ?thesis unfolding 5 t by (intro exI [of _ "st_int True 64"] conjI r k c)
  next
    case 6
    show ?thesis unfolding 6 t by (intro exI [of _ "st_int False 8"] conjI r k c)
  next
    case 7
    show ?thesis unfolding 7 t by (intro exI [of _ "st_float 64"] conjI r k c)
  qed
qed

text \<open>
  Nor has it one for a function that returns a number or a truth value and has no body, as an
  \<^verbatim>\<open>extern\<close> declaration may be: the missing body counts as a block of type void, the mismatch is
  reported at the location of the body, and there is none to read it from.
\<close>

theorem missing_body_has_no_result:
  assumes "typed_state s" "ty \<in> set value_type_names"
    "n_body fn = Decl (AST_FN_DECL name a b c d e [] [] (Some (TYPE_NAMED loc ty args)) None attrs)"
  shows "sema_check_fn_body n (checkers_at m) fn s = None"
proof -
  obtain sc st where st: "scope_new (Some (sm_module_scope s)) (Some fn) (sm_syms s) = (sc, st)" by fastforce
  define s1 where "s1 = s\<lparr>sm_syms := st, sm_current_scope := sc, sm_fn := Some fn,
    sm_fn_has_return := False, sm_in_unsafe := c\<rparr>"
  have ok: "tt_ok (sm_types s1)" using assms(1) by (simp add: s1_def typed_state_def)
  obtain f where f: "resolve_named loc ty s1 = Some (tt_do f s1)"
      "type_result (sm_types s1) (f (sm_types s1)) (type_of_name ty)" "\<not> coerces T_VOID (type_of_name ty)"
    using resolve_value_type [OF assms(2) ok] by blast
  obtain t s2 where s2: "tt_do f s1 = (t, s2)" by fastforce
  let ?s = "s2\<lparr>sm_fn_return_type := Some t\<rparr>"
  have t: "tt_ok (sm_types s2)" "canonical (sm_types s2) t" "denote (sm_types s2) t = type_of_name ty"
      "\<not> sm_fn_has_return s2"
    using f(2) s2 by (auto simp: tt_do_def type_result_def s1_def split: prod.splits)
  obtain v s3 where s3: "tt_do st_void ?s = (v, s3)" by fastforce
  have v: "tt_ok (sm_types s3)" "extends (sm_types s2) (sm_types s3)" "canonical (sm_types s3) v"
      "denote (sm_types s3) v = T_VOID" "\<not> sm_fn_has_return s3"
    using constructor_results(1) [OF t(1)] s3 t(4) by (auto simp: tt_do_def type_result_def split: prod.splits)
  have t3: "canonical (sm_types s3) t" "denote (sm_types s3) t = type_of_name ty"
    using kept [OF t(1) v(2)] t(2,3) by simp_all
  have "st_can_coerce (sm_types s3) v t = Some False"
    using st_can_coerce_denote [OF v(1,3) t3(1)] f(3) v(4) t3(2) by simp
  moreover have "\<not> st_eq t v" using t3 v(4) f(3) by (auto simp: st_eq_def)
  moreover have "\<not> is_noreturn_body (tbody s3 v)"
    using denote_unfold [OF v(1) canonical_valid [OF v(1,3)]] v(4)
    by (auto simp: is_noreturn_body_def denote_body_def split: stype_body.splits)
  ultimately have none: "check_body_type None t v s3 = None"
    using v(5) by (simp add: check_body_type_def)
  have block: "ck_block (checkers_at m) None ?s = None \<or> ck_block (checkers_at m) None ?s = Some (v, s3)"
    using s3 by (cases m) (simp_all add: Let_def sema_check_block_def)
  have "sema_check_fn_body n (checkers_at m) fn s = do {
      (body_type, q) \<leftarrow> ck_block (checkers_at m) None ?s;
      q \<leftarrow> check_body_type None t body_type q;
      Some (q\<lparr>sm_current_scope := sm_current_scope s, sm_fn := sm_fn s, sm_self_type := sm_self_type s,
              sm_in_unsafe := sm_in_unsafe s, sm_fn_return_type := None\<rparr>)
    }"
    by (simp add: sema_check_fn_body_def assms(3) st Let_def f(1) s2 flip: s1_def)
  then show ?thesis using block none by (auto simp: Let_def)
qed

section \<open>Constant expressions\<close>

text \<open>
  The value of an expression of integer literals and operators over all integers; \<open>None\<close> for other
  expressions, where the smallest 64-bit integer would be negated, and where an operand of a
  division is negative or beyond 64 bits, or the divisor is 0. Then the depth of such an expression.
\<close>

definition exact_operator :: "token_kind \<Rightarrow> int \<Rightarrow> int \<Rightarrow> int option" where
  "exact_operator op l r =
    (if op = TOK_PLUS then Some (l + r) else if op = TOK_MINUS then Some (l - r)
     else if op = TOK_STAR then Some (l * r)
     else if 0 \<le> l \<and> l < 2 ^ 64 \<and> 0 < r \<and> r < 2 ^ 64
     then if op = TOK_SLASH then Some (l div r) else if op = TOK_PERCENT then Some (l mod r) else None
     else None)"

fun exact_value :: "node option \<Rightarrow> int option" where
  "exact_value None = None"
| "exact_value (Some (Node i loc b)) =
    (case b of
       Expr (AST_INT_LITERAL v) \<Rightarrow> Some (sint v)
     | Expr (AST_BINARY_EXPR op left right) \<Rightarrow> do {
         l \<leftarrow> exact_value left;
         r \<leftarrow> exact_value right;
         exact_operator op l r
       }
     | Expr (AST_UNARY_EXPR op operand) \<Rightarrow> do {
         v \<leftarrow> exact_value operand;
         if op = TOK_MINUS \<and> v mod 2 ^ 64 \<noteq> 2 ^ 63 then Some (- v) else None
       }
     | _ \<Rightarrow> None)"

fun const_depth :: "node option \<Rightarrow> nat" where
  "const_depth None = 1"
| "const_depth (Some (Node i loc b)) =
    (case b of
       Expr (AST_BINARY_EXPR op left right) \<Rightarrow> Suc (max (const_depth left) (const_depth right))
     | Expr (AST_UNARY_EXPR op operand) \<Rightarrow> Suc (const_depth operand)
     | _ \<Rightarrow> 1)"

lemma of_int_min: "(of_int v :: u64) = 2 ^ 63 \<longleftrightarrow> v mod 2 ^ 64 = 2 ^ 63"
proof -
  have "(of_int v :: u64) = 2 ^ 63 \<longleftrightarrow> (of_int v :: u64) = of_int (2 ^ 63)" by simp
  also have "\<dots> \<longleftrightarrow> v mod 2 ^ 64 = 2 ^ 63 mod 2 ^ 64"
    unfolding word_of_int_eq_iff by (simp add: take_bit_eq_mod)
  finally show ?thesis by simp
qed

lemma uint_residue: "uint (of_int v :: u64) = v mod 2 ^ 64"
  by (simp add: unsigned_of_int take_bit_eq_mod)

lemma unsigned_division:
  "(of_int l :: u64) div of_int r = of_int ((l mod 2 ^ 64) div (r mod 2 ^ 64))"
  "(of_int l :: u64) mod of_int r = of_int ((l mod 2 ^ 64) mod (r mod 2 ^ 64))"
  by (simp_all only: word_div_def word_mod_def uint_residue)

lemma eval_exact:
  assumes "exact_operator op l r = Some v"
  shows "eval_operator loc op (of_int l) (of_int r) s = (of_int v, s)"
proof (cases "op = TOK_SLASH \<or> op = TOK_PERCENT")
  case True
  then have r: "0 \<le> l" "l < 2 ^ 64" "0 < r" "r < 2 ^ 64" "v = (if op = TOK_SLASH then l div r else l mod r)"
    using assms by (auto simp: exact_operator_def split: if_splits)
  then have "(of_int r :: u64) \<noteq> 0" using uint_residue [of r] by auto
  then show ?thesis
    using True r unsigned_division [of l r] by (auto simp: eval_operator_def)
next
  case False
  then show ?thesis using assms by (auto simp: eval_operator_def exact_operator_def split: if_splits)
qed

text \<open>
  C20. Integer constants, as in array lengths, are evaluated in 64 bits. An expression of integer
  literals, addition, subtraction, multiplication, negation, and of division and remainder of
  operands from \<open>0\<close> to \<open>2 ^ 64 - 1\<close>, is evaluated with enough fuel to its exact value modulo
  \<open>2 ^ 64\<close>, and nothing is reported or declared; the negation of the smallest integer is left out,
  it is undefined. Other operands are divided as unsigned numbers, negative ones not exactly:
  \<open>(-4) / 2\<close> is \<open>2 ^ 63 - 2\<close>.
\<close>

theorem const_expr_modular:
  assumes "exact_value e = Some v" "const_depth e \<le> n"
  shows "sema_eval_const_expr n e s = Some (of_int v, s)
    \<and> (r mod 2 ^ 64 \<noteq> 0 \<longrightarrow>
         eval_operator loc TOK_SLASH (of_int l) (of_int r) s = (of_int ((l mod 2 ^ 64) div (r mod 2 ^ 64)), s)
         \<and> eval_operator loc TOK_PERCENT (of_int l) (of_int r) s = (of_int ((l mod 2 ^ 64) mod (r mod 2 ^ 64)), s))"
proof -
  have "sema_eval_const_expr n e s = Some (of_int v, s)"
    using assms
  proof (induction e arbitrary: v n rule: exact_value.induct)
    case (2 i loc b)
    obtain m where n: "n = Suc m" using 2(5) by (cases n) (auto split: node_body.splits expr_body.splits)
    obtain x where b: "b = Expr x" using 2(4) by (simp split: node_body.splits)
    show ?case
    proof (cases x)
      case (AST_BINARY_EXPR op left right)
      obtain l r where lr: "exact_value left = Some l" "exact_value right = Some r" "exact_operator op l r = Some v"
        using 2(4) by (auto simp: b AST_BINARY_EXPR bind_eq_Some_conv)
      have d: "const_depth left \<le> m" "const_depth right \<le> m"
        using 2(5) by (simp_all add: b AST_BINARY_EXPR n)
      show ?thesis
        using 2(1) [OF b AST_BINARY_EXPR lr(1) d(1)] 2(2) [OF b AST_BINARY_EXPR lr(1,2) d(2)] eval_exact [OF lr(3)]
        by (simp add: b AST_BINARY_EXPR n)
    next
      case (AST_UNARY_EXPR op operand)
      obtain w where w: "exact_value operand = Some w" "op = TOK_MINUS" "w mod 2 ^ 64 \<noteq> 2 ^ 63" "v = - w"
        using 2(4) by (auto simp: b AST_UNARY_EXPR bind_eq_Some_conv split: if_splits)
      have d: "const_depth operand \<le> m" using 2(5) by (simp add: b AST_UNARY_EXPR n)
      show ?thesis
        using 2(3) [OF b AST_UNARY_EXPR w(1) d] w of_int_min [of w] by (simp add: b AST_UNARY_EXPR n)
    qed (use 2(4) in \<open>auto simp: b n\<close>)
  qed simp
  moreover have "(of_int r :: u64) \<noteq> 0" if "r mod 2 ^ 64 \<noteq> 0" using uint_residue [of r] that by auto
  ultimately show ?thesis using unsigned_division [of l r] by (auto simp: eval_operator_def)
qed

text \<open>
  C40. The evaluation of constants that are defined by each other does not end. Where each of a set
  of names is looked up to a constant whose initializer is again one of these names, the evaluation
  of one of them is, after any number of calls, still that of a name of the set: no fuel gives a
  value, the C code calls itself until its stack is used up, and no cycle is reported.
\<close>

theorem const_cycle_never_ends:
  assumes "\<forall>name \<in> names. \<exists>y e name'. name' \<in> names
      \<and> scope_lookup (sm_syms s) (Some (sm_current_scope s)) name = Some (Some y)
      \<and> const_init (symbol_at s y) = Some (Some e) \<and> n_body e = Expr (AST_IDENTIFIER name')"
    "name \<in> names" "n_body e = Expr (AST_IDENTIFIER name)"
  shows "(\<exists>e' name'. name' \<in> names \<and> n_body e' = Expr (AST_IDENTIFIER name')
      \<and> (\<forall>n. sema_eval_const_expr (calls + n) (Some e) s = sema_eval_const_expr n (Some e') s))
    \<and> sema_eval_const_expr calls (Some e) s = None"
  using assms(2,3)
proof (induction calls arbitrary: e name)
  case 0
  then show ?case by auto
next
  case (Suc calls)
  obtain y e' name' where step: "name' \<in> names" "n_body e' = Expr (AST_IDENTIFIER name')"
      "scope_lookup (sm_syms s) (Some (sm_current_scope s)) name = Some (Some y)"
      "const_init (symbol_at s y) = Some (Some e')"
    using bspec [OF assms(1) Suc.prems(1)] by blast
  have "sema_eval_const_expr (Suc n) (Some e) s = sema_eval_const_expr n (Some e') s" for n
    using Suc.prems(2) step(3,4) by simp
  then show ?case using Suc.IH [OF step(1,2)] by simp
qed

section \<open>Small runs\<close>

definition demo_name :: "nat \<Rightarrow> string_view \<Rightarrow> node" where
  "demo_name i x = Node i demo_loc (Expr (AST_IDENTIFIER x))"

definition demo_fn :: "nat \<Rightarrow> type_expr option \<Rightarrow> node" where
  "demo_fn i ret = Node i demo_loc (Decl (AST_FN_DECL ''m'' False False False False [] [] [] ret None []))"

definition demo_const :: node where
  "demo_const = Node 21 demo_loc (Decl (AST_CONST_DECL ''A'' False False None (Some (demo_name 20 ''A'')) []))"

definition demo_if :: "nat \<Rightarrow> node option \<Rightarrow> node" where
  "demo_if i other = Node i demo_loc (Stmt (AST_IF_STMT (Some (demo_name 22 ''c'')) (Some demo_block) other))"

lemma demo_typed: "typed_state demo_sema"
  using demo_scope_ok(1) by (simp add: typed_state_def demo_sema_def sema_new_def Let_def scope_new_def)

theorem collect_extend_methods_witness:
  "\<exists>q. collect_extend demo_loc ''T'' [demo_fn 1 None, demo_fn 2 None] demo_sema = Some q
     \<and> method_table_lookup (sm_methods q) ''T'' ''m'' = Some (demo_fn 2 None)"
proof -
  have ok: "methods_ok (sm_methods demo_sema)"
    by (simp add: methods_ok_def demo_sema_def sema_new_def Let_def scope_new_def)
  have m: "sm_module_scope demo_sema = sm_current_scope demo_sema"
    by (simp add: demo_sema_def sema_new_def Let_def scope_new_def)
  have "\<exists>r. scope_lookup (sm_syms demo_sema) (Some (sm_module_scope demo_sema)) ''T'' = Some r"
    using lookup_valid [of "sm_syms demo_sema" "sm_current_scope demo_sema" "''T''"] demo_scope_ok(1) m
    by (auto simp: scope_ok_def)
  then obtain q where q: "collect_extend demo_loc ''T'' [demo_fn 1 None, demo_fn 2 None] demo_sema = Some q"
    by (auto simp: collect_extend_def Let_def)
  show ?thesis
    using collect_extend_methods [OF ok q, of "''T''" "''m''"] q
    by (simp add: demo_fn_def is_fn_decl_def fn_decl_name_def)
qed

theorem else_if_has_no_result_witness:
  "ck_stmt (checkers_at 5) (demo_if 24 (Some (demo_if 23 None))) demo_sema = None"
proof -
  have "n_body (demo_if 24 (Some (demo_if 23 None))) =
      Stmt (AST_IF_STMT (Some (demo_name 22 ''c'')) (Some demo_block) (Some (demo_if 23 None)))"
    "n_body (demo_if 23 None) = Stmt (AST_IF_STMT (Some (demo_name 22 ''c'')) (Some demo_block) None)"
    by (simp_all add: demo_if_def)
  from else_if_has_no_result [OF this] show ?thesis by blast
qed

theorem missing_body_has_no_result_witness:
  "sema_check_fn_body 9 (checkers_at 9) (demo_fn 1 (Some (TYPE_NAMED demo_loc ''i32'' []))) demo_sema = None"
proof -
  have "''i32'' \<in> set value_type_names" by (simp add: value_type_names_def)
  moreover have "n_body (demo_fn 1 (Some (TYPE_NAMED demo_loc ''i32'' []))) = Decl (AST_FN_DECL ''m'' False
      False False False [] [] [] (Some (TYPE_NAMED demo_loc ''i32'' [])) None [])"
    by (simp add: demo_fn_def)
  ultimately show ?thesis by (rule missing_body_has_no_result [OF demo_typed])
qed

theorem const_expr_modular_witness:
  "sema_eval_const_expr 2 (Some (Node 3 demo_loc (Expr (AST_BINARY_EXPR TOK_MINUS
     (Some (Node 1 demo_loc (Expr (AST_INT_LITERAL 2)))) (Some (Node 2 demo_loc (Expr (AST_INT_LITERAL 3))))))))
     demo_sema = Some (- 1, demo_sema)"
  (is "sema_eval_const_expr 2 ?e demo_sema = _")
proof -
  have "exact_value ?e = Some (- 1)" "const_depth ?e \<le> 2" by code_simp+
  from const_expr_modular [OF this, of demo_sema 2 demo_loc "- 4"] show ?thesis by simp
qed

theorem const_cycle_never_ends_witness:
  "\<exists>s. visible (sm_syms s) (Some (sm_current_scope s)) ''A'' = Some (Some (SYM_CONST, None, Some demo_const))
     \<and> sema_eval_const_expr 100 (Some (demo_name 20 ''A'')) s = None"
proof -
  define s where "s = declare_in (sm_current_scope demo_sema) SYM_CONST ''A'' None (Some demo_const) demo_sema"
  have cur: "sm_current_scope s = sm_current_scope demo_sema"
    by (simp add: s_def declare_in_def Let_def case_prod_beta)
  have v: "visible (sm_syms s) (Some (sm_current_scope s)) ''A'' = Some (Some (SYM_CONST, None, Some demo_const))"
    using visible_declare [OF demo_scope_ok(1)] cur by (simp add: s_def)
  then obtain y where y: "scope_lookup (sm_syms s) (Some (sm_current_scope s)) ''A'' = Some (Some y)"
      "sym_kind (symbol_at s y) = SYM_CONST" "sym_decl (symbol_at s y) = Some demo_const"
    by (auto simp: visible_def symbol_value_def Let_def)
  have "const_init (symbol_at s y) = Some (Some (demo_name 20 ''A''))"
    by (simp add: const_init_def y(2,3)) (simp add: demo_const_def)
  then have "\<forall>name \<in> {''A''}. \<exists>y e name'. name' \<in> {''A''}
      \<and> scope_lookup (sm_syms s) (Some (sm_current_scope s)) name = Some (Some y)
      \<and> const_init (symbol_at s y) = Some (Some e) \<and> n_body e = Expr (AST_IDENTIFIER name')"
    using y(1) by (auto simp: demo_name_def)
  from const_cycle_never_ends [OF this, of "''A''" "demo_name 20 ''A''" 100] v
  show ?thesis by (auto simp: demo_name_def)
qed

end
