(* ===== verification/Ast_Print.thy ===== *)
theory Ast_Print
  imports Ast_Build
begin

text \<open>
  The dump of the syntax tree, \<^verbatim>\<open>ast_print\<close> of \<^verbatim>\<open>src/ast.c\<close>, and the shorter listing
  \<^verbatim>\<open>test_parser\<close> of \<^verbatim>\<open>src/main.c\<close>, as the text they write. \<open>None\<close> stands for a read of
  a member the node does not have. The text of a float literal stands for its value, so what
  \<^verbatim>\<open>printf\<close> makes of the value with the format \<^verbatim>\<open>%g\<close> is the parameter \<open>show_g\<close>. The
  printers reach each other through the argument \<open>P\<close>; \<open>print_node_at n\<close> ties the knot \<open>n\<close> levels
  deep.
\<close>

section \<open>Text\<close>

definition cat :: "string option list \<Rightarrow> string option" where
  "cat parts = map_option concat (those parts)"

lemma cat_simps [simp]:
  "cat [] = Some []"
  "cat (None # parts) = None"
  "cat (Some s # parts) = map_option ((@) s) (cat parts)"
  by (auto simp: cat_def option.map_comp comp_def)

lemma cat_append [simp]:
  "cat (xs @ ys) = (case cat xs of None \<Rightarrow> None | Some s \<Rightarrow> map_option ((@) s) (cat ys))"
proof (induction xs)
  case (Cons x xs)
  then show ?case by (cases x; cases "cat ys") (auto split: option.splits)
qed (cases "cat ys"; simp)

definition ln :: "string \<Rightarrow> string" where
  "ln s = s @ [NL]"

definition flag :: "bool \<Rightarrow> string \<Rightarrow> string" where
  "flag b s = (if b then s else [])"

definition print_indent :: "nat \<Rightarrow> string" where
  "print_indent n = concat (replicate n ''  '')"

definition print_sv :: "string_view \<Rightarrow> string" where
  "print_sv sv = printf_prec (length sv) sv"

fun separated :: "string \<Rightarrow> 'a list \<Rightarrow> ('a \<Rightarrow> string option) \<Rightarrow> string option list" where
  "separated sep [] f = []"
| "separated sep [x] f = [f x]"
| "separated sep (x # y # xs) f = f x # Some sep # separated sep (y # xs) f"

type_synonym printer = "node option \<Rightarrow> nat \<Rightarrow> string option"

section \<open>Types and patterns\<close>

fun print_type :: "printer \<Rightarrow> type_expr option \<Rightarrow> string option"
  and print_types :: "printer \<Rightarrow> type_expr option list \<Rightarrow> string option" where
  "print_type P None = Some ''(TYPE null)''"
| "print_type P (Some (TYPE_NAMED _ name args)) =
     cat [Some (''(TYPE '' @ print_sv name @ flag (args \<noteq> []) '' ''), print_types P args, Some '')'']"
| "print_type P (Some (TYPE_REFERENCE _ child c)) =
     cat [Some (''(TYPE &'' @ flag c ''const ''), print_type P child, Some '')'']"
| "print_type P (Some (TYPE_POINTER _ child c)) =
     cat [Some (''(TYPE *'' @ flag c ''const ''), print_type P child, Some '')'']"
| "print_type P (Some (TYPE_SLICE _ child c)) =
     cat [Some (''(TYPE []'' @ flag c ''const ''), print_type P child, Some '')'']"
| "print_type P (Some (TYPE_ARRAY _ len elem)) =
     cat [Some ''(TYPE ['', if len = None then Some [] else P len 0, Some ''] '', print_type P elem,
       Some '')'']"
| "print_type P (Some (TYPE_OPTIONAL _ child)) =
     cat [Some ''(TYPE ? '', print_type P child, Some '')'']"
| "print_type P (Some (TYPE_ERROR_UNION _ err success)) =
     cat [Some ''(TYPE ! '', print_type P err, Some '' '', print_type P success, Some '')'']"
| "print_type P (Some (TYPE_FUNCTION _ params ret)) =
     cat [Some ''(TYPE fn('', print_types P params, Some '')'',
       if ret = None then Some [] else cat [Some '' -> '', print_type P ret], Some '')'']"
| "print_types P [] = Some []"
| "print_types P (t # ts) =
     cat [print_type P t, Some (flag (ts \<noteq> []) '' ''), print_types P ts]"

text \<open>The loop over the fields of a pattern counts the names and reads the patterns beside them.\<close>

fun print_pattern :: "printer \<Rightarrow> pattern option \<Rightarrow> string option"
  and print_field_patterns :: "printer \<Rightarrow> bool \<Rightarrow> string_view list \<Rightarrow> pattern list \<Rightarrow> string option"
where
  "print_pattern P None = Some ''(PATTERN null)''"
| "print_pattern P (Some (PATTERN_WILDCARD _)) = Some ''(PATTERN _)''"
| "print_pattern P (Some (PATTERN_LITERAL _ lit)) = cat [Some ''(PATTERN '', P lit 0, Some '')'']"
| "print_pattern P (Some (PATTERN_IDENTIFIER _ name)) = Some (''(PATTERN '' @ print_sv name @ '')'')"
| "print_pattern P (Some (PATTERN_ENUM_VARIANT _ name inner)) =
     cat [Some (''(PATTERN .'' @ print_sv name),
       if inner = None then Some [] else cat [Some '' '', print_pattern P inner], Some '')'']"
| "print_pattern P (Some (PATTERN_STRUCT_FIELD _ names pats)) =
     cat [Some ''(PATTERN .{'', print_field_patterns P False names pats, Some ''})'']"
| "print_field_patterns P later [] pats = Some []"
| "print_field_patterns P later (name # names) [] = None"
| "print_field_patterns P later (name # names) (p # pats) =
     cat [Some (flag later '', '' @ print_sv name @ '': ''), print_pattern P (Some p),
       print_field_patterns P True names pats]"

section \<open>Nodes\<close>

definition print_nodes :: "printer \<Rightarrow> nat \<Rightarrow> node list \<Rightarrow> string option list" where
  "print_nodes P k nodes = map (\<lambda>x. P (Some x) k) nodes"

definition print_close :: "nat \<Rightarrow> string option" where
  "print_close k = Some (print_indent k @ ln '')'')"

definition print_some :: "printer \<Rightarrow> nat \<Rightarrow> node option \<Rightarrow> string option" where
  "print_some P k x = (if x = None then Some [] else P x k)"

text \<open>A result type on a line of its own.\<close>

definition print_ret :: "printer \<Rightarrow> nat \<Rightarrow> type_expr option \<Rightarrow> string option" where
  "print_ret P k ret =
     (if ret = None then Some []
      else cat [Some (print_indent (k + 1) @ ''-> ''), print_type P ret, Some (ln [])])"

definition generic_name :: "node \<Rightarrow> string option" where
  "generic_name gp = (case n_body gp of
     Decl (AST_GENERIC_PARAM_DECL name _) \<Rightarrow> Some ('' '' @ print_sv name) | _ \<Rightarrow> None)"

definition print_var :: "printer \<Rightarrow> nat \<Rightarrow> string \<Rightarrow> bool \<Rightarrow> string_view \<Rightarrow> type_expr option \<Rightarrow>
    node option \<Rightarrow> string option" where
  "print_var P k head is_pub name ty ini =
     cat [Some (head @ flag is_pub '' pub'' @ '' '' @ print_sv name),
       if ty = None then Some [] else cat [Some '' : '', print_type P ty],
       Some (ln '' =''), P ini (k + 1), print_close k]"

definition decl_text :: "printer \<Rightarrow> nat \<Rightarrow> decl_body \<Rightarrow> string option" where
  "decl_text P k d = (case d of
     AST_COMPILATION_UNIT module_name imports decls \<Rightarrow>
       cat ([Some (ln (''(COMPILATION_UNIT''
           @ flag (module_name \<noteq> []) ('' module='' @ print_sv module_name)))]
         @ print_nodes P (k + 1) imports @ print_nodes P (k + 1) decls @ [print_close k])
   | AST_MODULE_DECL name \<Rightarrow> Some (ln (''(MODULE_DECL '' @ print_sv name @ '')''))
   | AST_IMPORT_DECL parts alias \<Rightarrow>
       cat ([Some ''(IMPORT_DECL ''] @ separated ''.'' parts (Some \<circ> print_sv)
         @ [Some (flag (alias \<noteq> []) ('' as '' @ print_sv alias)), Some (ln '')'')])
   | AST_FN_DECL name is_pub is_comptime _ _ _ generics params ret body _ \<Rightarrow>
       cat ([Some (''(FN_DECL'' @ flag is_pub '' pub'' @ flag is_comptime '' comptime'' @ '' ''
           @ print_sv name),
         if generics = [] then Some []
         else cat ([Some '' (GENERIC''] @ map generic_name generics @ [Some '')'']), Some (ln [])]
         @ print_nodes P (k + 1) params
         @ [print_ret P k ret,
            if body = None then Some (print_indent (k + 1) @ ln ''(EXTERN)'') else P body (k + 1),
            print_close k])
   | AST_STRUCT_DECL name is_pub _ fs _ \<Rightarrow>
       cat ([Some (ln (''(STRUCT_DECL'' @ flag is_pub '' pub'' @ '' '' @ print_sv name))]
         @ print_nodes P (k + 1) fs @ [print_close k])
   | AST_UNION_DECL name is_pub _ fs _ \<Rightarrow>
       cat ([Some (ln (''(UNION_DECL'' @ flag is_pub '' pub'' @ '' '' @ print_sv name))]
         @ print_nodes P (k + 1) fs @ [print_close k])
   | AST_ENUM_DECL name is_pub variants _ \<Rightarrow>
       cat ([Some (ln (''(ENUM_DECL'' @ flag is_pub '' pub'' @ '' '' @ print_sv name))]
         @ print_nodes P (k + 1) variants @ [print_close k])
   | AST_TRAITS_DECL name is_pub meths _ \<Rightarrow>
       cat ([Some (ln (''(TRAITS_DECL'' @ flag is_pub '' pub'' @ '' '' @ print_sv name))]
         @ print_nodes P (k + 1) meths @ [print_close k])
   | AST_EXTEND_DECL target _ traits meths _ \<Rightarrow>
       cat ([Some (''(EXTEND_DECL '' @ print_sv target @ flag (traits \<noteq> []) '' with '')]
         @ separated '', '' traits (Some \<circ> print_sv) @ [Some (ln [])]
         @ print_nodes P (k + 1) meths @ [print_close k])
   | AST_TYPE_ALIAS name is_pub ty _ \<Rightarrow>
       cat [Some (''(TYPE_ALIAS'' @ flag is_pub '' pub'' @ '' '' @ print_sv name @ '' = ''),
         print_type P ty, Some (ln '')'')]
   | AST_CONST_DECL name is_pub _ ty ini _ \<Rightarrow> print_var P k ''(CONST_DECL'' is_pub name ty ini
   | AST_VAR_DECL name is_pub _ ty ini _ \<Rightarrow> print_var P k ''(VAR_DECL'' is_pub name ty ini
   | AST_TEST_DECL name body _ \<Rightarrow>
       cat [Some (ln (''(TEST_DECL '' @ print_sv name)), P body (k + 1), print_close k]
   | AST_FIELD_DECL name is_pub ty dflt _ \<Rightarrow>
       cat [Some (''(FIELD_DECL'' @ flag is_pub '' pub'' @ '' '' @ print_sv name @ '' : ''),
         print_type P ty,
         if dflt = None then Some [] else cat [Some '' = '', P dflt 0], Some (ln '')'')]
   | AST_VARIANT_DECL name payload discriminant \<Rightarrow>
       cat [Some (''(VARIANT_DECL '' @ print_sv name),
         if payload = None then Some [] else cat [Some '' '', print_type P payload],
         if discriminant = None then Some [] else cat [Some '' = '', P discriminant 0],
         Some (ln '')'')]
   | AST_TRAIT_METHOD_DECL name is_pub params ret \<Rightarrow>
       cat ([Some (ln (''(TRAIT_METHOD_DECL'' @ flag is_pub '' pub'' @ '' '' @ print_sv name))]
         @ print_nodes P (k + 1) params @ [print_ret P k ret, print_close k])
   | AST_PARAM_DECL name ty dflt _ is_self \<Rightarrow>
       cat [Some (''(PARAM_DECL'' @ flag is_self '' self'' @ '' '' @ print_sv name),
         if ty = None then Some [] else cat [Some '' : '', print_type P ty],
         if dflt = None then Some [] else cat [Some '' = '', P dflt 0], Some (ln '')'')]
   | AST_GENERIC_PARAM_DECL name constraints \<Rightarrow>
       cat ([Some (''(GENERIC_PARAM_DECL '' @ print_sv name @ flag (constraints \<noteq> []) '' with '')]
         @ separated '', '' constraints (Some \<circ> print_sv) @ [Some (ln '')'')]))"

definition stmt_text :: "printer \<Rightarrow> nat \<Rightarrow> stmt_body \<Rightarrow> string option" where
  "stmt_text P k st = (case st of
     AST_BLOCK stmts trailing \<Rightarrow>
       cat ([Some (ln ''(BLOCK'')] @ print_nodes P (k + 1) stmts
         @ [if trailing = None then Some []
            else cat [Some (print_indent (k + 1) @ ln ''(TRAILING''), P trailing (k + 2),
              print_close (k + 1)],
            print_close k])
   | AST_EXPR_STMT e \<Rightarrow> cat [Some (ln ''(EXPR_STMT''), P e (k + 1), print_close k]
   | AST_RETURN_STMT val _ \<Rightarrow>
       cat [Some (ln ''(RETURN_STMT''), print_some P (k + 1) val, print_close k]
   | AST_IF_STMT condition then_block else_block \<Rightarrow>
       cat [Some (ln ''(IF_STMT''), P condition (k + 1), P then_block (k + 1),
         print_some P (k + 1) else_block, print_close k]
   | AST_WHILE_STMT condition body \<Rightarrow>
       cat [Some (ln ''(WHILE_STMT''), P condition (k + 1), P body (k + 1), print_close k]
   | AST_FOR_STMT name ty iterable body \<Rightarrow>
       cat [Some (''(FOR_STMT '' @ print_sv name @ '' : ''), print_type P ty, Some (ln '' in''),
         P iterable (k + 1), P body (k + 1), print_close k]
   | AST_DEFER_STMT e \<Rightarrow> cat [Some (ln ''(DEFER_STMT''), P e (k + 1), print_close k]
   | AST_ERRDEFER_STMT body \<Rightarrow> cat [Some (ln ''(ERRDEFER_STMT''), P body (k + 1), print_close k]
   | AST_BREAK_STMT \<Rightarrow> Some (ln ''(BREAK_STMT)'')
   | AST_CONTINUE_STMT \<Rightarrow> Some (ln ''(CONTINUE_STMT)'')
   | AST_MATCH_STMT e arms \<Rightarrow>
       cat ([Some (ln ''(MATCH_STMT''), P e (k + 1)] @ print_nodes P (k + 1) arms @ [print_close k])
   | AST_ASSIGN_STMT op lhs rhs \<Rightarrow>
       cat [Some (ln (''(ASSIGN_STMT '' @ token_kind_name op)), P lhs (k + 1), P rhs (k + 1),
         print_close k])"

definition expr_text :: "(string \<Rightarrow> string) \<Rightarrow> printer \<Rightarrow> nat \<Rightarrow> expr_body \<Rightarrow> string option" where
  "expr_text show_g P k e = (case e of
     AST_INT_LITERAL v \<Rightarrow> Some (ln (''(INT_LITERAL '' @ show_int (sint v) @ '')''))
   | AST_FLOAT_LITERAL x \<Rightarrow> Some (ln (''(FLOAT_LITERAL '' @ show_g x @ '')''))
   | AST_STRING_LITERAL v \<Rightarrow> Some (ln (''(STRING_LITERAL '' @ print_sv v @ '')''))
   | AST_CHAR_LITERAL v \<Rightarrow> Some (ln (''(CHAR_LITERAL '' @ print_sv v @ '')''))
   | AST_BOOL_LITERAL b \<Rightarrow> Some (ln (''(BOOL_LITERAL '' @ (if b then ''true'' else ''false'') @ '')''))
   | AST_NULL_LITERAL \<Rightarrow> Some (ln ''(NULL_LITERAL)'')
   | AST_UNDEFINED_LITERAL \<Rightarrow> Some (ln ''(UNDEFINED_LITERAL)'')
   | AST_IDENTIFIER name \<Rightarrow> Some (ln (''(IDENTIFIER '' @ print_sv name @ '')''))
   | AST_BINARY_EXPR op left right \<Rightarrow>
       cat [Some (ln (''(BINARY '' @ token_kind_name op)), P left (k + 1), P right (k + 1),
         print_close k]
   | AST_UNARY_EXPR op operand \<Rightarrow>
       cat [Some (ln (''(UNARY '' @ token_kind_name op)), P operand (k + 1), print_close k]
   | AST_CALL_EXPR callee args \<Rightarrow>
       cat ([Some (ln ''(CALL_EXPR''), P callee (k + 1)] @ print_nodes P (k + 1) args
         @ [print_close k])
   | AST_METHOD_CALL_EXPR receiver name args \<Rightarrow>
       cat ([Some (ln (''(METHOD_CALL_EXPR '' @ print_sv name)), P receiver (k + 1)]
         @ print_nodes P (k + 1) args @ [print_close k])
   | AST_FIELD_ACCESS_EXPR obj name \<Rightarrow>
       cat [Some (ln (''(FIELD_ACCESS_EXPR '' @ print_sv name)), P obj (k + 1), print_close k]
   | AST_INDEX_EXPR obj idx \<Rightarrow>
       cat [Some (ln ''(INDEX_EXPR''), P obj (k + 1), P idx (k + 1), print_close k]
   | AST_SLICE_EXPR obj lo hi \<Rightarrow>
       cat [Some (ln ''(SLICE_EXPR''), P obj (k + 1), P lo (k + 1), P hi (k + 1), print_close k]
   | AST_CAST_EXPR x ty \<Rightarrow>
       cat [Some (ln ''(CAST_EXPR''), P x (k + 1), Some (print_indent (k + 1)), print_type P ty,
         Some (ln []), print_close k]
   | AST_TRY_EXPR x \<Rightarrow> cat [Some (ln ''(TRY_EXPR''), P x (k + 1), print_close k]
   | AST_ERROR_CAPTURE_EXPR x err_name fallback \<Rightarrow>
       cat [Some (ln (''(ERROR_CAPTURE_EXPR '' @ print_sv err_name)), P x (k + 1),
         P fallback (k + 1), print_close k]
   | AST_UNSAFE_BLOCK_EXPR body \<Rightarrow>
       cat [Some (ln ''(UNSAFE_BLOCK_EXPR''), P body (k + 1), print_close k]
   | AST_ARRAY_LITERAL explicit len elems sentinel \<Rightarrow>
       cat ([Some (''(ARRAY_LITERAL'' @ flag sentinel '' sentinel'' @ '' ''),
         if len = None then Some [] else cat [P len 0, Some '' ''], print_type P explicit,
         Some (ln [])] @ print_nodes P (k + 1) elems @ [print_close k])
   | AST_STRUCT_LITERAL ty inits \<Rightarrow>
       cat ([Some ''(STRUCT_LITERAL '', print_type P ty, Some (ln [])]
         @ print_nodes P (k + 1) inits @ [print_close k])
   | AST_ARG_LIST args \<Rightarrow>
       cat ([Some (ln ''(ARG_LIST'')] @ print_nodes P (k + 1) args @ [print_close k])
   | AST_MATCH_ARM pat x \<Rightarrow>
       cat [Some ''(MATCH_ARM '', print_pattern P pat, Some (ln '' =>''), P x (k + 1),
         print_close k])"

definition print_node :: "(string \<Rightarrow> string) \<Rightarrow> printer \<Rightarrow> printer" where
  "print_node show_g P node k =
    (case node of
       None \<Rightarrow> Some (print_indent k @ ln ''(null)'')
     | Some nd \<Rightarrow>
         cat [Some (print_indent k),
           case n_body nd of
             Decl d \<Rightarrow> decl_text P k d
           | Stmt st \<Rightarrow> stmt_text P k st
           | Expr e \<Rightarrow> expr_text show_g P k e])"

primrec print_node_at :: "(string \<Rightarrow> string) \<Rightarrow> nat \<Rightarrow> printer" where
  "print_node_at show_g 0 = (\<lambda>_ _. None)"
| "print_node_at show_g (Suc n) = print_node show_g (print_node_at show_g n)"

definition ast_print :: "(string \<Rightarrow> string) \<Rightarrow> nat \<Rightarrow> node option \<Rightarrow> nat \<Rightarrow> string option" where
  "ast_print show_g n node k = print_node_at show_g n node k"

section \<open>The listing of kinds\<close>

definition ast_kind :: "node_body \<Rightarrow> nat" where
  "ast_kind b = (case b of
     Decl d \<Rightarrow> (case d of AST_COMPILATION_UNIT _ _ _ \<Rightarrow> 0 | AST_MODULE_DECL _ \<Rightarrow> 1
       | AST_IMPORT_DECL _ _ \<Rightarrow> 2 | AST_FN_DECL _ _ _ _ _ _ _ _ _ _ _ \<Rightarrow> 3
       | AST_STRUCT_DECL _ _ _ _ _ \<Rightarrow> 4 | AST_UNION_DECL _ _ _ _ _ \<Rightarrow> 5
       | AST_ENUM_DECL _ _ _ _ \<Rightarrow> 6 | AST_TRAITS_DECL _ _ _ _ \<Rightarrow> 7
       | AST_EXTEND_DECL _ _ _ _ _ \<Rightarrow> 8 | AST_TYPE_ALIAS _ _ _ _ \<Rightarrow> 9
       | AST_CONST_DECL _ _ _ _ _ _ \<Rightarrow> 10 | AST_VAR_DECL _ _ _ _ _ _ \<Rightarrow> 11
       | AST_TEST_DECL _ _ _ \<Rightarrow> 12 | AST_FIELD_DECL _ _ _ _ _ \<Rightarrow> 13
       | AST_VARIANT_DECL _ _ _ \<Rightarrow> 14 | AST_TRAIT_METHOD_DECL _ _ _ _ \<Rightarrow> 15
       | AST_PARAM_DECL _ _ _ _ _ \<Rightarrow> 16 | AST_GENERIC_PARAM_DECL _ _ \<Rightarrow> 17)
   | Stmt st \<Rightarrow> (case st of AST_BLOCK _ _ \<Rightarrow> 18 | AST_EXPR_STMT _ \<Rightarrow> 19 | AST_RETURN_STMT _ _ \<Rightarrow> 20
       | AST_IF_STMT _ _ _ \<Rightarrow> 21 | AST_WHILE_STMT _ _ \<Rightarrow> 22 | AST_FOR_STMT _ _ _ _ \<Rightarrow> 23
       | AST_DEFER_STMT _ \<Rightarrow> 24 | AST_ERRDEFER_STMT _ \<Rightarrow> 25 | AST_BREAK_STMT \<Rightarrow> 26
       | AST_CONTINUE_STMT \<Rightarrow> 27 | AST_MATCH_STMT _ _ \<Rightarrow> 28 | AST_ASSIGN_STMT _ _ _ \<Rightarrow> 29)
   | Expr e \<Rightarrow> (case e of AST_INT_LITERAL _ \<Rightarrow> 30 | AST_FLOAT_LITERAL _ \<Rightarrow> 31
       | AST_STRING_LITERAL _ \<Rightarrow> 32 | AST_CHAR_LITERAL _ \<Rightarrow> 33 | AST_BOOL_LITERAL _ \<Rightarrow> 34
       | AST_NULL_LITERAL \<Rightarrow> 35 | AST_UNDEFINED_LITERAL \<Rightarrow> 36 | AST_IDENTIFIER _ \<Rightarrow> 37
       | AST_BINARY_EXPR _ _ _ \<Rightarrow> 38 | AST_UNARY_EXPR _ _ \<Rightarrow> 39 | AST_CALL_EXPR _ _ \<Rightarrow> 40
       | AST_METHOD_CALL_EXPR _ _ _ \<Rightarrow> 41 | AST_FIELD_ACCESS_EXPR _ _ \<Rightarrow> 42
       | AST_INDEX_EXPR _ _ \<Rightarrow> 43 | AST_SLICE_EXPR _ _ _ \<Rightarrow> 44 | AST_CAST_EXPR _ _ \<Rightarrow> 45
       | AST_TRY_EXPR _ \<Rightarrow> 46 | AST_ERROR_CAPTURE_EXPR _ _ _ \<Rightarrow> 47 | AST_UNSAFE_BLOCK_EXPR _ \<Rightarrow> 48
       | AST_ARRAY_LITERAL _ _ _ _ \<Rightarrow> 49 | AST_STRUCT_LITERAL _ _ \<Rightarrow> 50 | AST_ARG_LIST _ \<Rightarrow> 51
       | AST_MATCH_ARM _ _ \<Rightarrow> 52))"

definition kind_names :: "string list" where
  "kind_names = [''COMPILATION_UNIT'', ''MODULE_DECL'', ''IMPORT_DECL'', ''FN_DECL'',
     ''STRUCT_DECL'', ''UNION_DECL'', ''ENUM_DECL'', ''TRAITS_DECL'',
     ''EXTEND_DECL'', ''TYPE_ALIAS'', ''CONST_DECL'', ''VAR_DECL'',
     ''TEST_DECL'', ''FIELD_DECL'', ''VARIANT_DECL'', ''TRAIT_METHOD_DECL'',
     ''PARAM_DECL'', ''GENERIC_PARAM_DECL'', ''BLOCK'', ''EXPR_STMT'',
     ''RETURN_STMT'', ''IF_STMT'', ''WHILE_STMT'', ''FOR_STMT'',
     ''DEFER_STMT'', ''ERRDEFER_STMT'', ''BREAK_STMT'', ''CONTINUE_STMT'',
     ''MATCH_STMT'', ''ASSIGN_STMT'', ''INT_LITERAL'', ''FLOAT_LITERAL'',
     ''STRING_LITERAL'', ''CHAR_LITERAL'', ''BOOL_LITERAL'', ''NULL_LITERAL'',
     ''UNDEFINED_LITERAL'', ''IDENTIFIER'', ''BINARY_EXPR'', ''UNARY_EXPR'',
     ''CALL_EXPR'', ''METHOD_CALL_EXPR'', ''FIELD_ACCESS_EXPR'', ''INDEX_EXPR'',
     ''SLICE_EXPR'', ''CAST_EXPR'', ''TRY_EXPR'', ''ERROR_CAPTURE_EXPR'',
     ''UNSAFE_BLOCK_EXPR'', ''ARRAY_LITERAL'', ''STRUCT_LITERAL'', ''ARG_LIST'',
     ''MATCH_ARM'']"

definition kind_name :: "node_body \<Rightarrow> string" where
  "kind_name b = (if ast_kind b < length kind_names then kind_names ! ast_kind b else ''UNKNOWN'')"

text \<open>The children the listing descends into; those that may be missing are skipped when they are.\<close>

definition listed_children :: "node_body \<Rightarrow> node option list" where
  "listed_children b = (case b of
     Decl d \<Rightarrow> (case d of
         AST_COMPILATION_UNIT _ imports decls \<Rightarrow> map Some imports @ map Some decls
       | AST_FN_DECL _ _ _ _ _ _ _ params _ body _ \<Rightarrow> map Some params @ [body]
       | AST_STRUCT_DECL _ _ _ fs _ \<Rightarrow> map Some fs
       | AST_UNION_DECL _ _ _ fs _ \<Rightarrow> map Some fs
       | AST_ENUM_DECL _ _ variants _ \<Rightarrow> map Some variants
       | AST_TRAITS_DECL _ _ meths _ \<Rightarrow> map Some meths
       | AST_EXTEND_DECL _ _ _ meths _ \<Rightarrow> map Some meths
       | _ \<Rightarrow> [])
   | Stmt st \<Rightarrow> (case st of
         AST_BLOCK stmts trailing \<Rightarrow> map Some stmts @ [trailing]
       | AST_IF_STMT _ then_block else_block \<Rightarrow> [then_block, else_block]
       | AST_WHILE_STMT _ body \<Rightarrow> [body]
       | AST_FOR_STMT _ _ _ body \<Rightarrow> [body]
       | AST_MATCH_STMT _ arms \<Rightarrow> map Some arms
       | _ \<Rightarrow> [])
   | Expr e \<Rightarrow> (case e of
         AST_CALL_EXPR _ args \<Rightarrow> map Some args
       | AST_METHOD_CALL_EXPR _ _ args \<Rightarrow> map Some args
       | AST_ARRAY_LITERAL _ _ elems _ \<Rightarrow> map Some elems
       | AST_STRUCT_LITERAL _ inits \<Rightarrow> map Some inits
       | _ \<Rightarrow> []))"

primrec test_parser :: "nat \<Rightarrow> node option \<Rightarrow> nat \<Rightarrow> string option" where
  "test_parser 0 node depth = None"
| "test_parser (Suc n) node depth =
    (case node of
       None \<Rightarrow> Some []
     | Some nd \<Rightarrow>
         cat (Some (print_indent depth @ ln (kind_name (n_body nd)))
           # map (\<lambda>c. test_parser n c (depth + 1)) (listed_children (n_body nd))))"

end
