(* ===== verification/Codegen.thy ===== *)
theory Codegen
  imports Sema Ast_Print
begin

text \<open>
  The C code generator of \<^verbatim>\<open>src/codegen_c.c\<close>. The text written to the file is
  \<open>cg_out\<close>. The types of nodes are those the semantic analysis left (\<open>cg_types\<close>, \<open>cg_type_of\<close>).
  The stack of deferred expressions has 64 levels of at most 32 expressions; \<open>cg_defer_depth\<close> is the
  index of the innermost open level, \<open>- 1\<close> for none. A function returns \<open>None\<close> where the C code
  has no result: it follows a null pointer, reads a member the node does not have, leaves one of
  its arrays, overflows an \<^verbatim>\<open>int\<close>, or does not end. Names are shorter than \<^verbatim>\<open>INT_MAX\<close> and hold no zero
  byte, so the format \<^verbatim>\<open>%.*s\<close> writes them whole. The functions that emit expressions, statements
  and blocks call each other through the record \<open>emitters\<close>.
\<close>

section \<open>State\<close>

definition MAX_DEFER_DEPTH :: nat where
  "MAX_DEFER_DEPTH = 64"

definition MAX_DEFERS_PER_BLOCK :: nat where
  "MAX_DEFERS_PER_BLOCK = 32"

record cgen =
  cg_out :: string
  cg_level :: nat
  cg_temp_counter :: nat
  cg_in_unsafe :: bool
  cg_defer_stack :: "node option list list"
  cg_defer_depth :: int
  cg_loop_defer_base :: "int list"
  cg_loop_depth :: nat
  cg_unit :: "node option"
  cg_types :: type_table
  cg_type_of :: "nat \<Rightarrow> sptr option"
  cg_show_g :: "string \<Rightarrow> string"

type_synonym emission = "cgen \<Rightarrow> cgen option"

definition emit :: "string \<Rightarrow> cgen \<Rightarrow> cgen" where
  "emit s cg = cg\<lparr>cg_out := cg_out cg @ s\<rparr>"

definition cg_indent :: "cgen \<Rightarrow> cgen" where
  "cg_indent cg = emit (concat (replicate (cg_level cg) ''    '')) cg"

definition level_in :: "cgen \<Rightarrow> cgen" where
  "level_in cg = cg\<lparr>cg_level := cg_level cg + 1\<rparr>"

definition level_out :: "cgen \<Rightarrow> cgen" where
  "level_out cg = cg\<lparr>cg_level := cg_level cg - 1\<rparr>"

primrec all_emits :: "('a \<Rightarrow> emission) \<Rightarrow> 'a list \<Rightarrow> emission" where
  "all_emits f [] cg = Some cg"
| "all_emits f (x # xs) cg = do { cg \<leftarrow> f x cg; all_emits f xs cg }"

definition cg_next_temp :: "cgen \<Rightarrow> nat \<times> cgen" where
  "cg_next_temp cg = (cg_temp_counter cg, cg\<lparr>cg_temp_counter := cg_temp_counter cg + 1\<rparr>)"

definition cg_sema_type :: "cgen \<Rightarrow> node \<Rightarrow> sptr option" where
  "cg_sema_type cg e = cg_type_of cg (n_id e)"

text \<open>The first method of that name in the \<^verbatim>\<open>extend\<close> blocks of the type, in the order of the unit.\<close>

fun find_method :: "node list \<Rightarrow> string_view \<Rightarrow> node option option" where
  "find_method [] name = Some None"
| "find_method (m # ms) name =
     (if is_fn_decl m then if sv_eq (fn_decl_name m) name then Some (Some m) else find_method ms name
      else None)"

fun find_extend :: "node list \<Rightarrow> string_view \<Rightarrow> string_view \<Rightarrow> node option option" where
  "find_extend [] ty name = Some None"
| "find_extend (d # ds) ty name =
     (case n_body d of
        Decl (AST_EXTEND_DECL target _ _ meths _) \<Rightarrow>
          if sv_eq target ty
          then do {
            m \<leftarrow> find_method meths name;
            case m of Some m \<Rightarrow> Some (Some m) | None \<Rightarrow> find_extend ds ty name
          }
          else find_extend ds ty name
      | _ \<Rightarrow> find_extend ds ty name)"

definition cg_find_method :: "cgen \<Rightarrow> string_view \<Rightarrow> string_view \<Rightarrow> node option option" where
  "cg_find_method cg ty name =
    (case cg_unit cg of
       None \<Rightarrow> Some None
     | Some u \<Rightarrow> (case n_body u of
         Decl (AST_COMPILATION_UNIT _ _ decls) \<Rightarrow> find_extend decls ty name
       | _ \<Rightarrow> None))"

section \<open>Types\<close>

text \<open>
  The C name of a named type. The letters \<^verbatim>\<open>i\<close>, \<^verbatim>\<open>u\<close> and \<^verbatim>\<open>f\<close> decide alone: what follows is
  read as a width, whether or not it is one.
\<close>

definition c_named :: "string_view \<Rightarrow> string option" where
  "c_named n =
    (let width = sv_to_int (sv_slice n 1 (length n)) in
     if sv_eq_cstr n ''void'' then Some ''void''
     else if sv_eq_cstr n ''bool'' then Some ''_Bool''
     else if sv_eq_cstr n ''isize'' then Some ''intptr_t''
     else if sv_eq_cstr n ''usize'' then Some ''uintptr_t''
     else if sv_eq_cstr n ''noreturn'' then Some ''void''
     else if length n > 1 \<and> n ! 0 = CHR ''i''
     then (case width of Inl _ \<Rightarrow> None | Inr b \<Rightarrow> Some (''int'' @ show_int b @ ''_t''))
     else if length n > 1 \<and> n ! 0 = CHR ''u''
     then (case width of Inl _ \<Rightarrow> None | Inr b \<Rightarrow> Some (''uint'' @ show_int b @ ''_t''))
     else if length n > 1 \<and> n ! 0 = CHR ''f''
     then (case width of Inl _ \<Rightarrow> None | Inr b \<Rightarrow> Some (if b = 32 then ''float'' else ''double''))
     else Some (''struct raya_'' @ n))"

definition c_pointer :: "bool \<Rightarrow> string \<Rightarrow> string" where
  "c_pointer is_const name = buf ((if is_const then ''*const '' else ''*'') @ name)"

text \<open>
  The declaration of a name of some type. An error union is read as a type with one child, which
  lies over its error type.
\<close>

fun cg_emit_type_expr :: "type_expr option \<Rightarrow> string \<Rightarrow> emission" where
  "cg_emit_type_expr None name cg = Some (emit (''void '' @ name) cg)"
| "cg_emit_type_expr (Some (TYPE_NAMED _ n _)) name cg =
     map_option (\<lambda>t. emit (t @ '' '' @ name) cg) (c_named n)"
| "cg_emit_type_expr (Some (TYPE_REFERENCE _ child c)) name cg =
     cg_emit_type_expr child (c_pointer c name) cg"
| "cg_emit_type_expr (Some (TYPE_POINTER _ child c)) name cg =
     cg_emit_type_expr child (c_pointer c name) cg"
| "cg_emit_type_expr (Some (TYPE_SLICE _ child c)) name cg =
     (if c
      then do {
        t \<leftarrow> child;
        Some (emit ((case t of
            TYPE_NAMED _ n _ \<Rightarrow> if sv_eq_cstr n ''u8'' then ''raya_Str '' else ''raya_Slice ''
          | _ \<Rightarrow> ''raya_Slice '') @ name) cg)
      }
      else Some (emit (''raya_Slice '' @ name) cg))"
| "cg_emit_type_expr (Some (TYPE_ARRAY _ _ elem)) name cg =
     cg_emit_type_expr elem (c_pointer False name) cg"
| "cg_emit_type_expr (Some (TYPE_FUNCTION _ _ _)) name cg =
     Some (emit (''/* fn ptr */ void* '' @ name) cg)"
| "cg_emit_type_expr (Some (TYPE_OPTIONAL _ child)) name cg =
     cg_emit_type_expr child (c_pointer False name) cg"
| "cg_emit_type_expr (Some (TYPE_ERROR_UNION _ err _)) name cg = cg_emit_type_expr err name cg"

definition c_int :: "bool \<Rightarrow> 8 word \<Rightarrow> string" where
  "c_int is_signed bits =
    (if is_signed
     then if bits = 8 then ''int8_t'' else if bits = 16 then ''int16_t''
       else if bits = 32 then ''int32_t'' else if bits = 64 then ''int64_t''
       else if bits = 128 then ''__int128'' else ''int64_t''
     else if bits = 8 then ''uint8_t'' else if bits = 16 then ''uint16_t''
       else if bits = 32 then ''uint32_t'' else if bits = 64 then ''uint64_t''
       else if bits = 128 then ''unsigned __int128'' else ''uint64_t'')"

partial_function (option) cg_emit_sema_type :: "sptr option \<Rightarrow> string \<Rightarrow> cgen \<Rightarrow> cgen option" where
  "cg_emit_sema_type ty name cg =
    (case ty of
       None \<Rightarrow> Some (emit (''void '' @ name) cg)
     | Some t \<Rightarrow>
      (case body_of (cg_types cg) t of
         ST_VOID \<Rightarrow> Some (emit (''void '' @ name) cg)
       | ST_BOOL \<Rightarrow> Some (emit (''_Bool '' @ name) cg)
       | ST_NORETURN \<Rightarrow> Some (emit (''void '' @ name) cg)
       | ST_INT is_signed bits \<Rightarrow> Some (emit (c_int is_signed bits @ '' '' @ name) cg)
       | ST_FLOAT bits \<Rightarrow> Some (emit ((if bits = 32 then ''float'' else ''double'') @ '' '' @ name) cg)
       | ST_POINTER c base \<Rightarrow> cg_emit_sema_type (Some base) (c_pointer c name) cg
       | ST_REFERENCE c base \<Rightarrow> cg_emit_sema_type (Some base) (c_pointer c name) cg
       | ST_SLICE c base \<Rightarrow>
           Some (emit ((if c \<and> body_of (cg_types cg) base = ST_INT False 8 then ''raya_Str ''
             else ''raya_Slice '') @ name) cg)
       | ST_ARRAY sz base \<Rightarrow>
           cg_emit_sema_type (Some base) (buf (name @ ''['' @ show_nat (unat sz) @ '']'')) cg
       | ST_FUNCTION _ _ _ \<Rightarrow> Some (emit (''/* fn ptr */ void* '' @ name) cg)
       | ST_STRUCT n _ _ _ \<Rightarrow> Some (emit (''struct raya_'' @ n @ '' '' @ name) cg)
       | ST_UNION n _ _ \<Rightarrow> Some (emit (''union raya_'' @ n @ '' '' @ name) cg)
       | ST_ENUM n _ _ \<Rightarrow> Some (emit (''enum raya_'' @ n @ '' '' @ name) cg)
       | ST_OPTIONAL base \<Rightarrow> cg_emit_sema_type (Some base) (c_pointer False name) cg
       | ST_ERROR_UNION _ err \<Rightarrow> cg_emit_sema_type (Some err) name cg
       | ST_TRAIT _ _ \<Rightarrow> do {
           s \<leftarrow> st_name (cg_types cg) t;
           Some (emit (''/* '' @ s @ '' */ void* '' @ name) cg)
         }
       | ST_GENERIC_PARAM _ _ \<Rightarrow> do {
           s \<leftarrow> st_name (cg_types cg) t;
           Some (emit (''/* '' @ s @ '' */ void* '' @ name) cg)
         }
       | ST_OPAQUE \<Rightarrow> do {
           s \<leftarrow> st_name (cg_types cg) t;
           Some (emit (''/* '' @ s @ '' */ void* '' @ name) cg)
         }))"

section \<open>Operators, names, literals\<close>

definition cg_assign_op :: "token_kind \<Rightarrow> string" where
  "cg_assign_op op =
    (if op = TOK_ASSIGN then ''=''
     else if op = TOK_PLUS_ASSIGN then ''+='' else if op = TOK_MINUS_ASSIGN then ''-=''
     else if op = TOK_STAR_ASSIGN then ''*='' else if op = TOK_SLASH_ASSIGN then ''/=''
     else if op = TOK_PERCENT_ASSIGN then ''%='' else if op = TOK_AND_ASSIGN then ''&=''
     else if op = TOK_OR_ASSIGN then ''|='' else if op = TOK_XOR_ASSIGN then ''^=''
     else if op = TOK_SHL_ASSIGN then ''<<='' else if op = TOK_SHR_ASSIGN then ''>>=''
     else ''='')"

definition cg_binary_op :: "token_kind \<Rightarrow> string" where
  "cg_binary_op op =
    (if op = TOK_PLUS then ''+'' else if op = TOK_MINUS then ''-''
     else if op = TOK_STAR then ''*'' else if op = TOK_SLASH then ''/''
     else if op = TOK_PERCENT then ''%'' else if op = TOK_EQ then ''==''
     else if op = TOK_NE then ''!='' else if op = TOK_LT then ''<''
     else if op = TOK_GT then ''>'' else if op = TOK_LE then ''<=''
     else if op = TOK_GE then ''>='' else if op = TOK_AND_AND then ''&&''
     else if op = TOK_OR_OR then ''||'' else if op = TOK_AMPERSAND then ''&''
     else if op = TOK_PIPE then ''|'' else if op = TOK_CARET then ''^''
     else if op = TOK_SHL then ''<<'' else if op = TOK_SHR then ''>>''
     else ''/* unknown op */'')"

definition cg_unary_op :: "token_kind \<Rightarrow> string" where
  "cg_unary_op op =
    (if op = TOK_MINUS then ''-'' else if op = TOK_TILDE then ''~''
     else if op = TOK_BANG then ''!'' else if op = TOK_STAR then ''*''
     else if op = TOK_AMPERSAND then ''&'' else ''/* unknown unary */'')"

fun cg_typeexpr_name :: "type_expr option \<Rightarrow> string_view" where
  "cg_typeexpr_name (Some (TYPE_REFERENCE _ child _)) = cg_typeexpr_name child"
| "cg_typeexpr_name (Some (TYPE_POINTER _ child _)) = cg_typeexpr_name child"
| "cg_typeexpr_name (Some (TYPE_OPTIONAL _ child)) = cg_typeexpr_name child"
| "cg_typeexpr_name (Some (TYPE_NAMED _ n _)) = n"
| "cg_typeexpr_name _ = sv_from_cstr (Some [])"

partial_function (option) cg_type_name :: "type_table \<Rightarrow> sptr option \<Rightarrow> string_view option" where
  "cg_type_name tt ty =
    (case ty of
       None \<Rightarrow> Some (sv_from_cstr (Some []))
     | Some t \<Rightarrow>
      (case body_of tt t of
         ST_STRUCT n _ _ _ \<Rightarrow> Some n
       | ST_UNION n _ _ \<Rightarrow> Some n
       | ST_ENUM n _ _ \<Rightarrow> Some n
       | ST_POINTER _ base \<Rightarrow> cg_type_name tt (Some base)
       | ST_REFERENCE _ base \<Rightarrow> cg_type_name tt (Some base)
       | _ \<Rightarrow> Some (sv_from_cstr (Some []))))"

definition cg_is_pointer_type :: "cgen \<Rightarrow> node \<Rightarrow> bool" where
  "cg_is_pointer_type cg obj =
    (case cg_sema_type cg obj of
       None \<Rightarrow> False
     | Some t \<Rightarrow> is_pointer_body (body_of (cg_types cg) t) \<or> is_reference_body (body_of (cg_types cg) t))"

definition c_escape :: "char \<Rightarrow> string" where
  "c_escape c =
    (if c = CHR 0x5C \<or> c = CHR 0x22 then [CHR 0x5C, c]
     else if c = NL then [CHR 0x5C, CHR ''n'']
     else if c = CHR 0x09 then [CHR 0x5C, CHR ''t'']
     else if c = CHR 0x00 then [CHR 0x5C, CHR ''0'']
     else [c])"

definition c_string :: "string_view \<Rightarrow> string" where
  "c_string s = ''(raya_Str){ .ptr = (uint8_t const*)'' @ [CHR 0x22] @ concat (map c_escape s)
     @ [CHR 0x22] @ '', .len = '' @ show_nat (length s) @ '' }''"

definition c_char :: "string_view \<Rightarrow> string" where
  "c_char s = show_nat (if length s > 0 then of_char (s ! 0) else 0)"

section \<open>Deferred expressions\<close>

record emitters =
  em_expr :: "node option \<Rightarrow> emission"
  em_stmt :: "node \<Rightarrow> emission"
  em_block :: "node option \<Rightarrow> bool \<Rightarrow> emission"

definition emit_deferred :: "emitters \<Rightarrow> node option \<Rightarrow> emission" where
  "emit_deferred E e cg = do {
     cg \<leftarrow> em_expr E e (cg_indent cg);
     Some (emit (ln '';'') cg)
   }"

definition cg_emit_defers :: "emitters \<Rightarrow> int \<Rightarrow> emission" where
  "cg_emit_defers E down_to cg =
     all_emits (\<lambda>d cg. all_emits (emit_deferred E) (rev (cg_defer_stack cg ! nat d)) cg)
       (rev [down_to..cg_defer_depth cg]) cg"

text \<open>A new level, empty; the deepest one is number 63.\<close>

definition push_level :: emission where
  "push_level cg =
    (let d = cg_defer_depth cg + 1 in
     if d < int MAX_DEFER_DEPTH
     then Some (cg\<lparr>cg_defer_depth := d, cg_defer_stack := (cg_defer_stack cg)[nat d := []]\<rparr>)
     else None)"

definition pop_level :: "cgen \<Rightarrow> cgen" where
  "pop_level cg = cg\<lparr>cg_defer_depth := cg_defer_depth cg - 1\<rparr>"

text \<open>Deferring outside of every block would write in front of the array; a full level drops it.\<close>

definition defer_expr :: "node option \<Rightarrow> emission" where
  "defer_expr e cg =
    (let d = cg_defer_depth cg in
     if d < 0 then None
     else if length (cg_defer_stack cg ! nat d) < MAX_DEFERS_PER_BLOCK
     then Some (cg\<lparr>cg_defer_stack :=
       (cg_defer_stack cg)[nat d := cg_defer_stack cg ! nat d @ [e]]\<rparr>)
     else Some cg)"

definition enter_loop :: emission where
  "enter_loop cg =
    (let k = cg_loop_depth cg + 1 in
     if k < MAX_DEFER_DEPTH
     then Some (cg\<lparr>cg_loop_depth := k,
       cg_loop_defer_base := (cg_loop_defer_base cg)[k := cg_defer_depth cg]\<rparr>)
     else None)"

definition leave_loop :: "cgen \<Rightarrow> cgen" where
  "leave_loop cg = cg\<lparr>cg_loop_depth := cg_loop_depth cg - 1\<rparr>"

definition emit_loop_defers :: "emitters \<Rightarrow> emission" where
  "emit_loop_defers E cg =
    (if cg_loop_depth cg > 0
     then cg_emit_defers E (cg_loop_defer_base cg ! cg_loop_depth cg + 1) cg else Some cg)"

section \<open>Blocks and statements\<close>

definition cg_emit_block :: "emitters \<Rightarrow> node option \<Rightarrow> bool \<Rightarrow> emission" where
  "cg_emit_block E block return_trailing cg =
    (case block of
       None \<Rightarrow> Some cg
     | Some nd \<Rightarrow>
         (case n_body nd of
            Stmt (AST_BLOCK stmts trailing) \<Rightarrow> do {
              cg \<leftarrow> push_level (level_in (emit (ln ''{'') cg));
              cg \<leftarrow> all_emits (em_stmt E) stmts cg;
              cg \<leftarrow> (if trailing = None then Some cg
                else do {
                  let cg = emit (flag return_trailing ''return '') (cg_indent cg);
                  cg \<leftarrow> em_expr E trailing cg;
                  Some (emit (ln '';'') cg)
                });
              cg \<leftarrow> cg_emit_defers E (cg_defer_depth cg) cg;
              Some (emit ''}'' (cg_indent (level_out (pop_level cg))))
            }
          | _ \<Rightarrow> None))"

definition emit_var_decl :: "emitters \<Rightarrow> string_view \<Rightarrow> type_expr option \<Rightarrow> node option \<Rightarrow> emission" where
  "emit_var_decl E name ty ini cg = do {
     cg \<leftarrow> (if ty \<noteq> None then cg_emit_type_expr ty (buf name) (cg_indent cg)
       else case Option.bind ini (cg_sema_type cg) of
         Some t \<Rightarrow> cg_emit_sema_type (Some t) (buf name) (cg_indent cg)
       | None \<Rightarrow> Some (emit (''/* inferred */ int '' @ name) (cg_indent cg)));
     cg \<leftarrow> (if ini = None then Some cg else em_expr E ini (emit '' = '' cg));
     Some (emit (ln '';'') cg)
   }"

definition emit_return :: "emitters \<Rightarrow> node option \<Rightarrow> emission" where
  "emit_return E val cg = do {
     cg \<leftarrow> cg_emit_defers E 0 (cg_indent cg);
     let cg = emit ''return'' cg;
     cg \<leftarrow> (if val = None then Some cg else em_expr E val (emit '' '' cg));
     Some (emit (ln '';'') cg)
   }"

definition is_if_stmt :: "node \<Rightarrow> bool" where
  "is_if_stmt nd \<longleftrightarrow> (case n_body nd of Stmt (AST_IF_STMT _ _ _) \<Rightarrow> True | _ \<Rightarrow> False)"

definition emit_if :: "emitters \<Rightarrow> node option \<Rightarrow> node option \<Rightarrow> node option \<Rightarrow> emission" where
  "emit_if E condition then_block else_block cg = do {
     cg \<leftarrow> em_expr E condition (emit ''if ('' (cg_indent cg));
     cg \<leftarrow> em_block E then_block False (emit '') '' cg);
     case else_block of
       None \<Rightarrow> Some (emit (ln []) cg)
     | Some e \<Rightarrow>
         if is_if_stmt e then em_stmt E e (emit '' else '' cg)
         else do {
           cg \<leftarrow> em_block E (Some e) False (emit '' else '' cg);
           Some (emit (ln []) cg)
         }
   }"

definition emit_loop_body :: "emitters \<Rightarrow> node option \<Rightarrow> emission" where
  "emit_loop_body E body cg = do {
     cg \<leftarrow> enter_loop cg;
     cg \<leftarrow> em_block E body False cg;
     Some (emit (ln []) (leave_loop cg))
   }"

definition emit_while :: "emitters \<Rightarrow> node option \<Rightarrow> node option \<Rightarrow> emission" where
  "emit_while E condition body cg = do {
     cg \<leftarrow> em_expr E condition (emit ''while ('' (cg_indent cg));
     emit_loop_body E body (emit '') '' cg)
   }"

text \<open>The bounds of a range; a binary expression of any operator is taken for one.\<close>

definition range_of :: "node \<Rightarrow> (node option \<times> node option) option" where
  "range_of iter =
    (case n_body iter of
       Expr (AST_SLICE_EXPR obj lo hi) \<Rightarrow> if obj = None then Some (lo, hi) else None
     | Expr (AST_BINARY_EXPR _ left right) \<Rightarrow> Some (left, right)
     | _ \<Rightarrow> None)"

definition emit_loop_var :: "string_view \<Rightarrow> type_expr option \<Rightarrow> string \<Rightarrow> emission" where
  "emit_loop_var name ty dflt cg =
     (if ty = None then Some (emit (dflt @ name) cg) else cg_emit_type_expr ty (buf name) cg)"

definition emit_bound :: "emitters \<Rightarrow> node option \<Rightarrow> emission" where
  "emit_bound E e cg = (if e = None then Some (emit ''0'' cg) else em_expr E e cg)"

definition emit_range_for :: "emitters \<Rightarrow> string_view \<Rightarrow> type_expr option \<Rightarrow> node option \<Rightarrow> node option \<Rightarrow>
    node option \<Rightarrow> emission" where
  "emit_range_for E name ty lo hi body cg = do {
     cg \<leftarrow> emit_loop_var name ty ''int64_t '' (emit ''for ('' cg);
     cg \<leftarrow> emit_bound E lo (emit '' = '' cg);
     cg \<leftarrow> emit_bound E hi (emit (''; '' @ name @ '' < '') cg);
     emit_loop_body E body (emit (''; '' @ name @ ''++) '') cg)
   }"

text \<open>
  The loop over a slice writes the statements of the body itself: it opens no level of deferred
  expressions and counts as no loop.
\<close>

definition emit_slice_for :: "emitters \<Rightarrow> string_view \<Rightarrow> type_expr option \<Rightarrow> node \<Rightarrow> node option \<Rightarrow>
    emission" where
  "emit_slice_for E name ty iter body cg = do {
     let (k, cg) = cg_next_temp cg;
     let tmp = show_nat k;
     let cg = cg_indent (level_in (emit (ln ''{'') cg));
     cg \<leftarrow> em_expr E (Some iter) (emit (''raya_Slice __iter_'' @ tmp @ '' = '') cg);
     let cg = cg_indent (emit (ln '';'') cg);
     let cg = emit (ln (''for (size_t __i_'' @ tmp @ '' = 0; __i_'' @ tmp @ '' < __iter_'' @ tmp
       @ ''.len; __i_'' @ tmp @ ''++) {'')) cg;
     cg \<leftarrow> emit_loop_var name ty ''/* elem */ int '' (cg_indent (level_in cg));
     let cg = emit (ln ('' = ((/* elem type */ void*)__iter_'' @ tmp @ ''.ptr)[__i_'' @ tmp @ ''];'')) cg;
     b \<leftarrow> body;
     (case n_body b of
        Stmt (AST_BLOCK stmts trailing) \<Rightarrow> do {
          cg \<leftarrow> all_emits (em_stmt E) stmts cg;
          cg \<leftarrow> (if trailing = None then Some cg
            else do { cg \<leftarrow> em_expr E trailing (cg_indent cg); Some (emit (ln '';'') cg) });
          let cg = emit (ln ''}'') (cg_indent (level_out cg));
          Some (emit (ln ''}'') (cg_indent (level_out cg)))
        }
      | _ \<Rightarrow> None)
   }"

definition emit_for :: "emitters \<Rightarrow> string_view \<Rightarrow> type_expr option \<Rightarrow> node option \<Rightarrow> node option \<Rightarrow>
    emission" where
  "emit_for E name ty iterable body cg = do {
     iter \<leftarrow> iterable;
     case range_of iter of
       Some (lo, hi) \<Rightarrow> emit_range_for E name ty lo hi body (cg_indent cg)
     | None \<Rightarrow> emit_slice_for E name ty iter body (cg_indent cg)
   }"

definition cg_emit_stmt :: "emitters \<Rightarrow> node \<Rightarrow> emission" where
  "cg_emit_stmt E nd cg =
    (case n_body nd of
       Decl (AST_VAR_DECL name _ _ ty ini _) \<Rightarrow> emit_var_decl E name ty ini cg
     | Decl (AST_CONST_DECL name _ _ ty ini _) \<Rightarrow> emit_var_decl E name ty ini cg
     | Stmt (AST_RETURN_STMT val _) \<Rightarrow> emit_return E val cg
     | Stmt (AST_EXPR_STMT e) \<Rightarrow> do {
         cg \<leftarrow> em_expr E e (cg_indent cg);
         Some (emit (ln '';'') cg)
       }
     | Stmt (AST_BLOCK _ _) \<Rightarrow> do {
         cg \<leftarrow> em_block E (Some nd) False (cg_indent cg);
         Some (emit (ln []) cg)
       }
     | Stmt (AST_IF_STMT condition then_block else_block) \<Rightarrow> emit_if E condition then_block else_block cg
     | Stmt (AST_WHILE_STMT condition body) \<Rightarrow> emit_while E condition body cg
     | Stmt (AST_FOR_STMT name ty iterable body) \<Rightarrow> emit_for E name ty iterable body cg
     | Stmt (AST_DEFER_STMT e) \<Rightarrow> defer_expr e cg
     | Stmt (AST_ERRDEFER_STMT _) \<Rightarrow> Some (emit (ln ''/* TODO: errdefer */'') (cg_indent cg))
     | Stmt AST_BREAK_STMT \<Rightarrow> do {
         cg \<leftarrow> emit_loop_defers E (cg_indent cg);
         Some (emit (ln ''break;'') cg)
       }
     | Stmt AST_CONTINUE_STMT \<Rightarrow> do {
         cg \<leftarrow> emit_loop_defers E (cg_indent cg);
         Some (emit (ln ''continue;'') cg)
       }
     | Stmt (AST_MATCH_STMT _ _) \<Rightarrow> Some (emit (ln ''/* TODO: match */'') (cg_indent cg))
     | Stmt (AST_ASSIGN_STMT op lhs rhs) \<Rightarrow> do {
         cg \<leftarrow> em_expr E lhs (cg_indent cg);
         cg \<leftarrow> em_expr E rhs (emit ('' '' @ cg_assign_op op @ '' '') cg);
         Some (emit (ln '';'') cg)
       }
     | _ \<Rightarrow> do {
         cg \<leftarrow> em_expr E (Some nd) (cg_indent cg);
         Some (emit (ln '';'') cg)
       })"

section \<open>Expressions\<close>

primrec emit_rest :: "emitters \<Rightarrow> node list \<Rightarrow> emission" where
  "emit_rest E [] cg = Some cg"
| "emit_rest E (e # es) cg = do {
     cg \<leftarrow> em_expr E (Some e) (emit '', '' cg);
     emit_rest E es cg
   }"

definition emit_list :: "emitters \<Rightarrow> node list \<Rightarrow> emission" where
  "emit_list E es cg =
    (case es of
       [] \<Rightarrow> Some cg
     | e # es \<Rightarrow> do { cg \<leftarrow> em_expr E (Some e) cg; emit_rest E es cg })"

definition is_ref_type :: "type_expr \<Rightarrow> bool" where
  "is_ref_type t \<longleftrightarrow>
     (case t of TYPE_REFERENCE _ _ _ \<Rightarrow> True | TYPE_POINTER _ _ _ \<Rightarrow> True | _ \<Rightarrow> False)"

text \<open>Whether the first parameter of a method is taken by reference.\<close>

definition needs_ref :: "node option \<Rightarrow> bool" where
  "needs_ref meth =
    (case meth of
       None \<Rightarrow> False
     | Some m \<Rightarrow> (case n_body m of
         Decl (AST_FN_DECL _ _ _ _ _ _ _ params _ _ _) \<Rightarrow>
           (case params of
              [] \<Rightarrow> False
            | p # _ \<Rightarrow> (case n_body p of
                Decl (AST_PARAM_DECL _ ty _ _ _) \<Rightarrow>
                  (case ty of None \<Rightarrow> False | Some t \<Rightarrow> is_ref_type t)
              | _ \<Rightarrow> False))
       | _ \<Rightarrow> False))"

definition emit_method_call :: "emitters \<Rightarrow> node option \<Rightarrow> string_view \<Rightarrow> node list \<Rightarrow> emission" where
  "emit_method_call E receiver name args cg = do {
     recv \<leftarrow> receiver;
     ty \<leftarrow> cg_type_name (cg_types cg) (cg_sema_type cg recv);
     let cg = emit (''raya_'' @ ty @ ''_'' @ name @ ''('') cg;
     m \<leftarrow> cg_find_method cg ty name;
     let cg = (if needs_ref m \<and> \<not> cg_is_pointer_type cg recv then emit ''&'' cg else cg);
     cg \<leftarrow> em_expr E (Some recv) cg;
     cg \<leftarrow> emit_rest E args cg;
     Some (emit '')'' cg)
   }"

definition is_slice_of :: "cgen \<Rightarrow> node \<Rightarrow> sptr option" where
  "is_slice_of cg e =
    (case cg_sema_type cg e of
       None \<Rightarrow> None
     | Some t \<Rightarrow> (case body_of (cg_types cg) t of ST_SLICE _ base \<Rightarrow> Some base | _ \<Rightarrow> None))"

definition emit_field_access :: "emitters \<Rightarrow> node option \<Rightarrow> string_view \<Rightarrow> emission" where
  "emit_field_access E obj name cg = do {
     ob \<leftarrow> obj;
     cg' \<leftarrow> em_expr E (Some ob) cg;
     Some (if is_slice_of cg ob \<noteq> None
       then emit (if sv_eq_cstr name ''ptr'' then ''.ptr''
                  else if sv_eq_cstr name ''len'' then ''.len'' else []) cg'
       else if cg_is_pointer_type cg' ob then emit (''->'' @ name) cg'
       else emit (''.'' @ name) cg')
   }"

definition emit_index :: "emitters \<Rightarrow> node option \<Rightarrow> node option \<Rightarrow> emission" where
  "emit_index E obj idx cg = do {
     ob \<leftarrow> obj;
     case is_slice_of cg ob of
       Some base \<Rightarrow> do {
         cg \<leftarrow> cg_emit_sema_type (Some base) [] (emit ''(('' cg);
         cg \<leftarrow> em_expr E (Some ob) (emit ''*)'' cg);
         cg \<leftarrow> em_expr E idx (emit ''.ptr)['' cg);
         Some (emit '']'' cg)
       }
     | None \<Rightarrow> do {
         cg \<leftarrow> em_expr E (Some ob) cg;
         cg \<leftarrow> em_expr E idx (emit ''['' cg);
         Some (emit '']'' cg)
       }
   }"

definition emit_slice :: "emitters \<Rightarrow> node option \<Rightarrow> node option \<Rightarrow> node option \<Rightarrow> emission" where
  "emit_slice E obj lo hi cg =
    (if obj = None then Some (emit ''/* range */ 0'' cg)
     else do {
       let cg = emit ''(raya_Slice){ .ptr = '' cg;
       cg \<leftarrow> (if lo = None then em_expr E obj cg
         else do {
           cg \<leftarrow> em_expr E obj (emit ''&('' cg);
           cg \<leftarrow> em_expr E lo (emit '')['' cg);
           Some (emit '']'' cg)
         });
       let cg = emit '', .len = '' cg;
       cg \<leftarrow> (if hi \<noteq> None \<and> lo \<noteq> None
         then do {
           cg \<leftarrow> em_expr E hi (emit ''('' cg);
           cg \<leftarrow> em_expr E lo (emit '' - '' cg);
           Some (emit '')'' cg)
         }
         else if hi \<noteq> None then em_expr E hi cg
         else Some (emit ''0'' cg));
       Some (emit '' }'' cg)
     })"

definition emit_array :: "emitters \<Rightarrow> node \<Rightarrow> node list \<Rightarrow> emission" where
  "emit_array E nd elems cg =
    (case is_slice_of cg nd of
       Some base \<Rightarrow> do {
         cg \<leftarrow> cg_emit_sema_type (Some base) [] (emit ''(raya_Slice){ .ptr = (void*)('' cg);
         cg \<leftarrow> emit_list E elems (emit ''[]){'' cg);
         Some (emit (''}, .len = '' @ show_nat (length elems) @ '' }'') cg)
       }
     | None \<Rightarrow> do {
         cg \<leftarrow> emit_list E elems (emit ''{'' cg);
         Some (emit ''}'' cg)
       })"

text \<open>The name on the left of an initializer, read from whatever node stands there.\<close>

definition init_name :: "node option \<Rightarrow> string_view option" where
  "init_name lhs = do {
     l \<leftarrow> lhs;
     case n_body l of Expr (AST_IDENTIFIER name) \<Rightarrow> Some name | _ \<Rightarrow> None
   }"

definition emit_field_init :: "emitters \<Rightarrow> node \<Rightarrow> emission" where
  "emit_field_init E f cg =
    (case n_body f of
       Stmt (AST_ASSIGN_STMT _ lhs rhs) \<Rightarrow> do {
         name \<leftarrow> init_name lhs;
         em_expr E rhs (emit (''.'' @ name @ '' = '') cg)
       }
     | _ \<Rightarrow> Some (emit ''/* field */ 0'' cg))"

primrec emit_field_inits :: "emitters \<Rightarrow> bool \<Rightarrow> node list \<Rightarrow> emission" where
  "emit_field_inits E later [] cg = Some cg"
| "emit_field_inits E later (f # fs) cg = do {
     cg \<leftarrow> emit_field_init E f (emit (flag later '', '') cg);
     emit_field_inits E True fs cg
   }"

definition emit_null :: "node \<Rightarrow> cgen \<Rightarrow> cgen" where
  "emit_null nd cg =
    (if cg_is_pointer_type cg nd \<or> is_slice_of cg nd \<noteq> None then emit ''((void*)0)'' cg
     else emit ''0'' cg)"

definition emit_expr_body :: "emitters \<Rightarrow> node \<Rightarrow> expr_body \<Rightarrow> emission" where
  "emit_expr_body E nd e cg =
    (case e of
       AST_INT_LITERAL v \<Rightarrow> Some (emit (show_int (sint v)) cg)
     | AST_FLOAT_LITERAL x \<Rightarrow> Some (emit (cg_show_g cg x) cg)
     | AST_STRING_LITERAL s \<Rightarrow> Some (emit (c_string s) cg)
     | AST_CHAR_LITERAL s \<Rightarrow> Some (emit (c_char s) cg)
     | AST_BOOL_LITERAL b \<Rightarrow> Some (emit (if b then ''true'' else ''false'') cg)
     | AST_NULL_LITERAL \<Rightarrow> Some (emit_null nd cg)
     | AST_UNDEFINED_LITERAL \<Rightarrow> Some (emit ''0'' cg)
     | AST_IDENTIFIER name \<Rightarrow> Some (emit name cg)
     | AST_BINARY_EXPR op left right \<Rightarrow> do {
         cg \<leftarrow> em_expr E left (emit ''('' cg);
         cg \<leftarrow> em_expr E right (emit ('' '' @ cg_binary_op op @ '' '') cg);
         Some (emit '')'' cg)
       }
     | AST_UNARY_EXPR op operand \<Rightarrow> do {
         cg \<leftarrow> em_expr E operand (emit (''('' @ cg_unary_op op) cg);
         Some (emit '')'' cg)
       }
     | AST_CALL_EXPR callee args \<Rightarrow> do {
         cg \<leftarrow> em_expr E callee cg;
         cg \<leftarrow> emit_list E args (emit ''('' cg);
         Some (emit '')'' cg)
       }
     | AST_METHOD_CALL_EXPR receiver name args \<Rightarrow> emit_method_call E receiver name args cg
     | AST_FIELD_ACCESS_EXPR obj name \<Rightarrow> emit_field_access E obj name cg
     | AST_INDEX_EXPR obj idx \<Rightarrow> emit_index E obj idx cg
     | AST_SLICE_EXPR obj lo hi \<Rightarrow> emit_slice E obj lo hi cg
     | AST_CAST_EXPR x ty \<Rightarrow> do {
         cg \<leftarrow> cg_emit_type_expr ty [] (emit ''('' cg);
         cg \<leftarrow> em_expr E x (emit '')('' cg);
         Some (emit '')'' cg)
       }
     | AST_TRY_EXPR x \<Rightarrow> em_expr E x cg
     | AST_ERROR_CAPTURE_EXPR x _ _ \<Rightarrow> em_expr E x cg
     | AST_UNSAFE_BLOCK_EXPR body \<Rightarrow> em_block E body False cg
     | AST_ARRAY_LITERAL _ _ elems _ \<Rightarrow> emit_array E nd elems cg
     | AST_STRUCT_LITERAL ty inits \<Rightarrow> do {
         cg \<leftarrow> emit_field_inits E False inits
           (emit (''(struct raya_'' @ cg_typeexpr_name ty @ ''){'') cg);
         Some (emit ''}'' cg)
       }
     | AST_MATCH_ARM _ _ \<Rightarrow> Some (emit ''/* match arm */ 0'' cg)
     | AST_ARG_LIST _ \<Rightarrow>
         Some (emit (''/* unhandled expr kind '' @ show_nat (ast_kind (n_body nd)) @ '' */ 0'') cg))"

definition cg_emit_expr :: "emitters \<Rightarrow> node option \<Rightarrow> emission" where
  "cg_emit_expr E expr cg =
    (case expr of
       None \<Rightarrow> Some cg
     | Some nd \<Rightarrow> (case n_body nd of
         Expr e \<Rightarrow> emit_expr_body E nd e cg
       | _ \<Rightarrow>
         Some (emit (''/* unhandled expr kind '' @ show_nat (ast_kind (n_body nd)) @ '' */ 0'') cg)))"

text \<open>Tying the knot.\<close>

primrec emitters_at :: "nat \<Rightarrow> emitters" where
  "emitters_at 0 =
     \<lparr>em_expr = (\<lambda>_ _. None), em_stmt = (\<lambda>_ _. None), em_block = (\<lambda>_ _ _. None)\<rparr>"
| "emitters_at (Suc n) =
     (let E = emitters_at n in
      \<lparr>em_expr = cg_emit_expr E, em_stmt = cg_emit_stmt E, em_block = cg_emit_block E\<rparr>)"

section \<open>Declarations\<close>

definition cg_fn_receiver_type :: "node list \<Rightarrow> string_view" where
  "cg_fn_receiver_type params =
    (case params of
       [] \<Rightarrow> sv_from_cstr (Some [])
     | p # _ \<Rightarrow> (case n_body p of
         Decl (AST_PARAM_DECL _ ty _ _ is_self) \<Rightarrow>
           if is_self then cg_typeexpr_name ty else sv_from_cstr (Some [])
       | _ \<Rightarrow> sv_from_cstr (Some [])))"

definition emit_field :: "node \<Rightarrow> emission" where
  "emit_field f cg = do {
     (name, ty) \<leftarrow> field_view f;
     ty \<leftarrow> ty;
     cg \<leftarrow> cg_emit_type_expr ty (buf name) (cg_indent cg);
     Some (emit (ln '';'') cg)
   }"

definition emit_fields :: "string \<Rightarrow> string_view \<Rightarrow> node list \<Rightarrow> emission" where
  "emit_fields what name fs cg = do {
     cg \<leftarrow> all_emits emit_field fs
       (level_in (emit (ln (''typedef '' @ what @ '' raya_'' @ name @ '' {'')) cg));
     Some (emit (ln (ln (''} raya_'' @ name @ '';''))) (level_out cg))
   }"

definition cg_emit_struct :: "string_view \<Rightarrow> node list \<Rightarrow> emission" where
  "cg_emit_struct name fs = emit_fields ''struct'' name fs"

definition cg_emit_union :: "string_view \<Rightarrow> node list \<Rightarrow> emission" where
  "cg_emit_union name fs = emit_fields ''union'' name fs"

primrec emit_variants :: "string_view \<Rightarrow> node list \<Rightarrow> emission" where
  "emit_variants name [] cg = Some cg"
| "emit_variants name (v # vs) cg =
    (case n_body v of
       Decl (AST_VARIANT_DECL vname _ _) \<Rightarrow>
         emit_variants name vs (emit (ln (''raya_'' @ name @ ''_'' @ vname @ flag (vs \<noteq> []) '',''))
           (cg_indent cg))
     | _ \<Rightarrow> None)"

definition cg_emit_enum :: "string_view \<Rightarrow> node list \<Rightarrow> emission" where
  "cg_emit_enum name variants cg = do {
     cg \<leftarrow> emit_variants name variants (level_in (emit (ln (''typedef enum raya_'' @ name @ '' {'')) cg));
     Some (emit (ln (ln (''} raya_'' @ name @ '';''))) (level_out cg))
   }"

primrec emit_params :: "bool \<Rightarrow> node list \<Rightarrow> emission" where
  "emit_params later [] cg = Some cg"
| "emit_params later (p # ps) cg =
    (case n_body p of
       Decl (AST_PARAM_DECL name ty _ _ _) \<Rightarrow> do {
         cg \<leftarrow> cg_emit_type_expr ty (buf name) (emit (flag later '', '') cg);
         emit_params True ps cg
       }
     | _ \<Rightarrow> None)"

text \<open>The head of a function up to the closing parenthesis.\<close>

definition emit_signature :: "string_view \<Rightarrow> node list \<Rightarrow> type_expr option \<Rightarrow> string_view \<Rightarrow> emission" where
  "emit_signature name params ret method_of cg = do {
     cg \<leftarrow> (if ret = None then Some (emit ''void'' cg) else cg_emit_type_expr ret [] cg);
     let receiver = (if length method_of > 0 then method_of else cg_fn_receiver_type params);
     let cg = (if length receiver > 0 then emit ('' raya_'' @ receiver @ ''_'' @ name) cg
       else emit ('' '' @ name) cg);
     cg \<leftarrow> emit_params False params (emit ''('' cg);
     Some (emit '')'' cg)
   }"

definition cg_emit_fn_forward :: "string_view \<Rightarrow> node \<Rightarrow> emission" where
  "cg_emit_fn_forward method_of fn cg =
    (case n_body fn of
       Decl (AST_FN_DECL name _ _ _ is_extern _ _ params ret _ _) \<Rightarrow> do {
         cg \<leftarrow> emit_signature name params ret method_of (emit (flag is_extern ''extern '') cg);
         Some (emit (ln '';'') cg)
       }
     | _ \<Rightarrow> None)"

definition cg_emit_fn_def :: "emitters \<Rightarrow> string_view \<Rightarrow> node \<Rightarrow> emission" where
  "cg_emit_fn_def E method_of fn cg =
    (case n_body fn of
       Decl (AST_FN_DECL name _ _ _ is_extern _ _ params ret body _) \<Rightarrow>
         if is_extern then Some cg
         else do {
           cg \<leftarrow> emit_signature name params ret method_of cg;
           let cg = emit '' '' cg;
           if body = None then Some (emit (ln (ln '';'')) cg)
           else do {
             cg \<leftarrow> em_block E body True cg;
             Some (emit (ln (ln [])) cg)
           }
         }
     | _ \<Rightarrow> None)"

definition emit_type_forward :: "node \<Rightarrow> emission" where
  "emit_type_forward d cg = Some
    (case n_body d of
       Decl (AST_STRUCT_DECL name _ _ _ _) \<Rightarrow> emit (ln (''struct raya_'' @ name @ '';'')) cg
     | Decl (AST_UNION_DECL name _ _ _ _) \<Rightarrow> emit (ln (''union raya_'' @ name @ '';'')) cg
     | Decl (AST_ENUM_DECL name _ _ _) \<Rightarrow> emit (ln (''enum raya_'' @ name @ '';'')) cg
     | _ \<Rightarrow> cg)"

text \<open>The fields of a union are read over its generic parameters, as in the analysis.\<close>

definition emit_type_def :: "node \<Rightarrow> emission" where
  "emit_type_def d cg =
    (case n_body d of
       Decl (AST_STRUCT_DECL name _ _ fs _) \<Rightarrow> cg_emit_struct name fs cg
     | Decl (AST_UNION_DECL name _ gps _ _) \<Rightarrow> cg_emit_union name gps cg
     | Decl (AST_ENUM_DECL name _ variants _) \<Rightarrow> cg_emit_enum name variants cg
     | _ \<Rightarrow> Some cg)"

text \<open>A function of the unit, or each method of an \<^verbatim>\<open>extend\<close> block.\<close>

definition emit_fns :: "(string_view \<Rightarrow> node \<Rightarrow> emission) \<Rightarrow> node \<Rightarrow> emission" where
  "emit_fns f d cg =
    (case n_body d of
       Decl (AST_FN_DECL _ _ _ _ _ _ _ _ _ _ _) \<Rightarrow> f (sv_from_cstr (Some [])) d cg
     | Decl (AST_EXTEND_DECL target _ _ meths _) \<Rightarrow> all_emits (f target) meths cg
     | _ \<Rightarrow> Some cg)"

definition prologue :: string where
  "prologue =
     ln ''/* Generated by rayac C transpile backend v0.1 */'' @ ln ''#include <stdint.h>''
     @ ln ''#include <stddef.h>'' @ ln ''#include <stdbool.h>'' @ ln ''#include <string.h>''
     @ ln (ln (''#include '' @ [CHR 0x22] @ ''raya_rt.h'' @ [CHR 0x22]))"

definition cg_emit_compilation_unit :: "emitters \<Rightarrow> node \<Rightarrow> emission" where
  "cg_emit_compilation_unit E u cg =
    (case n_body u of
       Decl (AST_COMPILATION_UNIT _ _ decls) \<Rightarrow> do {
         cg \<leftarrow> all_emits emit_type_forward decls (emit prologue cg);
         cg \<leftarrow> all_emits emit_type_def decls (emit (ln []) cg);
         cg \<leftarrow> all_emits (emit_fns cg_emit_fn_forward) decls cg;
         all_emits (emit_fns (cg_emit_fn_def E)) decls (emit (ln []) cg)
       }
     | _ \<Rightarrow> None)"

definition cgen_new :: "(string \<Rightarrow> string) \<Rightarrow> sema \<Rightarrow> node \<Rightarrow> cgen" where
  "cgen_new show_g s u =
     \<lparr>cg_out = [], cg_level = 0, cg_temp_counter = 0, cg_in_unsafe = False,
      cg_defer_stack = replicate MAX_DEFER_DEPTH [], cg_defer_depth = - 1,
      cg_loop_defer_base = replicate MAX_DEFER_DEPTH 0, cg_loop_depth = 0, cg_unit = Some u,
      cg_types = sm_types s, cg_type_of = sm_type_of s, cg_show_g = show_g\<rparr>"

definition codegen_c_emit :: "nat \<Rightarrow> (string \<Rightarrow> string) \<Rightarrow> sema \<Rightarrow> node \<Rightarrow> string option" where
  "codegen_c_emit n show_g s u =
     map_option cg_out (cg_emit_compilation_unit (emitters_at n) u (cgen_new show_g s u))"

end
