(* ===== verification/Codegen_Frame.thy ===== *)
theory Codegen_Frame
  imports Codegen
begin

text \<open>
  The discipline of the code generator: text is only appended, and indentation, levels of deferred
  expressions and loops are left as they were found. \<open>steady True\<close> is for expressions, types,
  blocks and declarations; \<open>steady False\<close> is for statements, which may in addition defer expressions
  on the innermost level. Every emitting function is shown to keep to it, for every fuel.
\<close>

definition steady :: "bool \<Rightarrow> cgen \<Rightarrow> cgen \<Rightarrow> bool" where
  "steady whole cg q \<longleftrightarrow> prefix (cg_out cg) (cg_out q) \<and> cg_level q = cg_level cg
     \<and> cg_defer_depth q = cg_defer_depth cg \<and> cg_loop_depth q = cg_loop_depth cg
     \<and> cg_unit q = cg_unit cg \<and> cg_types q = cg_types cg \<and> cg_type_of q = cg_type_of cg
     \<and> cg_show_g q = cg_show_g cg
     \<and> length (cg_defer_stack q) = length (cg_defer_stack cg)
     \<and> length (cg_loop_defer_base q) = length (cg_loop_defer_base cg)
     \<and> (\<forall>i \<le> cg_loop_depth cg. cg_loop_defer_base q ! i = cg_loop_defer_base cg ! i)
     \<and> (\<forall>d \<ge> 0. d < cg_defer_depth cg \<or> whole \<and> d = cg_defer_depth cg \<longrightarrow>
          cg_defer_stack q ! nat d = cg_defer_stack cg ! nat d)
     \<and> (cg_defer_depth cg \<ge> 0 \<longrightarrow>
          prefix (cg_defer_stack cg ! nat (cg_defer_depth cg)) (cg_defer_stack q ! nat (cg_defer_depth cg)))"

definition emits :: "bool \<Rightarrow> cgen \<Rightarrow> cgen option \<Rightarrow> bool" where
  "emits whole cg m \<longleftrightarrow> (\<forall>q. m = Some q \<longrightarrow> steady whole cg q)"

named_theorems steady_rules \<open>what keeps to the discipline\<close>

section \<open>Rules\<close>

lemma steady_refl: "steady b cg cg"
  by (simp add: steady_def)

lemma steady_trans: "steady b s q \<Longrightarrow> steady b q r \<Longrightarrow> steady b s r"
  unfolding steady_def by (auto intro: prefix_order.trans)

lemma steady_statement: "steady True s q \<Longrightarrow> steady b s q"
  by (cases b) (auto simp: steady_def)

lemma emits_Some [steady_rules]: "steady b s q \<Longrightarrow> emits b s (Some q)"
  by (simp add: emits_def)

lemma emits_None [steady_rules]: "emits b s None"
  by (simp add: emits_def)

lemma emits_bind [steady_rules]:
  "emits b s m \<Longrightarrow> (\<And>q. m = Some q \<Longrightarrow> steady b s q \<Longrightarrow> emits b s (k q)) \<Longrightarrow> emits b s (Option.bind m k)"
  by (cases m) (auto simp: emits_def)

lemma emits_pure: "(\<And>x. m = Some x \<Longrightarrow> emits b s (k x)) \<Longrightarrow> emits b s (Option.bind m k)"
  by (cases m) (auto simp: emits_def)

lemma emits_map_option [steady_rules]: "(\<And>x. m = Some x \<Longrightarrow> steady b s (f x)) \<Longrightarrow> emits b s (map_option f m)"
  by (auto simp: emits_def)

lemma steady_emit [steady_rules]: "steady b s q \<Longrightarrow> steady b s (emit x q)"
  by (simp add: steady_def emit_def)

lemma steady_indent [steady_rules]: "steady b s q \<Longrightarrow> steady b s (cg_indent q)"
  by (simp add: cg_indent_def steady_emit)

lemma steady_temp [steady_rules]: "steady b s q \<Longrightarrow> steady b s (q\<lparr>cg_temp_counter := k\<rparr>)"
  by (simp add: steady_def)

lemma emits_if [steady_rules]:
  "(c \<Longrightarrow> emits b s x) \<Longrightarrow> (\<not> c \<Longrightarrow> emits b s y) \<Longrightarrow> emits b s (if c then x else y)"
  "(c \<Longrightarrow> steady b s q) \<Longrightarrow> (\<not> c \<Longrightarrow> steady b s r) \<Longrightarrow> steady b s (if c then q else r)"
  by simp_all

lemma emits_option [steady_rules]:
  "(x = None \<Longrightarrow> emits b s m) \<Longrightarrow> (\<And>a. x = Some a \<Longrightarrow> emits b s (f a)) \<Longrightarrow>
     emits b s (case x of None \<Rightarrow> m | Some a \<Rightarrow> f a)"
  by (simp split: option.split)

lemma emits_pair [steady_rules]:
  "(\<And>x y. p = (x, y) \<Longrightarrow> emits b s (f x y)) \<Longrightarrow> emits b s (case p of (x, y) \<Rightarrow> f x y)"
  by (simp split: prod.split)

lemma emits_after: "emits b q m \<Longrightarrow> steady b s q \<Longrightarrow> emits b s m"
  using steady_trans by (auto simp: emits_def)

lemma steady_level: "steady b (level_in q) r \<Longrightarrow> steady b q (level_out r)"
  by (simp add: steady_def level_in_def level_out_def)

lemma emits_all_emits:
  "(\<And>x q. x \<in> set xs \<Longrightarrow> steady b s q \<Longrightarrow> emits b s (f x q)) \<Longrightarrow> steady b s q \<Longrightarrow>
     emits b s (all_emits f xs q)"
proof (induction xs arbitrary: q)
  case (Cons x xs)
  have "steady b s r" if "f x q = Some r" for r
    using Cons.prems(1) [of x q] Cons.prems(2) that by (simp add: emits_def)
  then show ?case using Cons.IH Cons.prems(1) by (cases "f x q") (auto simp: emits_def)
qed (simp add: emits_def)

lemmas body_splits = node_body.split expr_body.split stmt_body.split decl_body.split stype_body.split
  type_expr.split list.split

section \<open>Types and declarations\<close>

lemma emits_type_expr [steady_rules]: "steady b s q \<Longrightarrow> emits b s (cg_emit_type_expr ty name q)"
  by (induction ty name q rule: cg_emit_type_expr.induct)
    (auto simp: emits_def steady_emit bind_eq_Some_conv split: if_splits)

lemma sema_type_steady:
  assumes "cg_emit_sema_type ty name q = Some r"
  shows "steady b s q \<longrightarrow> steady b s r"
  by (rule cg_emit_sema_type.raw_induct [where P = "\<lambda>_ _ q r. steady b s q \<longrightarrow> steady b s r", OF _ assms])
    (auto split: option.splits stype_body.splits simp: steady_emit bind_eq_Some_conv)

lemma emits_sema_type [steady_rules]: "steady b s q \<Longrightarrow> emits b s (cg_emit_sema_type ty name q)"
  using sema_type_steady by (simp add: emits_def)

lemma emits_field [steady_rules]: "steady b s q \<Longrightarrow> emits b s (emit_field f q)"
  unfolding emit_field_def by (rule steady_rules emits_pure refl | assumption)+

lemma emits_level:
  assumes "steady b s q" "\<And>q. steady b s q \<Longrightarrow> emits b (level_in q) (m (level_in q))"
    "\<And>r. steady b s (level_out r) \<Longrightarrow> emits b s (k r)"
  shows "emits b s (Option.bind (m (level_in q)) k)"
proof (cases "m (level_in q)")
  case (Some r)
  then have "steady b (level_in q) r" using assms(2) [OF assms(1)] by (simp add: emits_def)
  then have "steady b s (level_out r)" by (rule steady_trans [OF assms(1) steady_level])
  then show ?thesis using assms(3) Some by simp
qed (simp add: emits_def)

lemma emits_fields [steady_rules]: "steady b s q \<Longrightarrow> emits b s (emit_fields what name fs q)"
  unfolding emit_fields_def
  by (rule emits_level emits_all_emits steady_rules steady_refl | assumption)+

lemma emits_struct [steady_rules]:
  "steady b s q \<Longrightarrow> emits b s (cg_emit_struct name fs q)" "steady b s q \<Longrightarrow> emits b s (cg_emit_union name fs q)"
  by (simp_all add: cg_emit_struct_def cg_emit_union_def emits_fields)

lemma emits_variants [steady_rules]: "steady b s q \<Longrightarrow> emits b s (emit_variants name vs q)"
proof (induction vs arbitrary: q)
  case (Cons v vs)
  note rules = steady_rules Cons.IH
  show ?case unfolding emit_variants.simps
    by (insert Cons.prems; (rule rules | assumption | (split node_body.split decl_body.split; intro conjI allI impI))+)
qed (simp add: emits_def)

lemma emits_enum [steady_rules]: "steady b s q \<Longrightarrow> emits b s (cg_emit_enum name vs q)"
  unfolding cg_emit_enum_def
  by (rule emits_level steady_rules steady_refl | assumption)+

lemma emits_params [steady_rules]: "steady b s q \<Longrightarrow> emits b s (emit_params later ps q)"
proof (induction ps arbitrary: later q)
  case (Cons p ps)
  note rules = steady_rules Cons.IH
  show ?case unfolding emit_params.simps
    by (insert Cons.prems; (rule rules | assumption | (split node_body.split decl_body.split; intro conjI allI impI))+)
qed (simp add: emits_def)

lemma emits_signature [steady_rules]: "steady b s q \<Longrightarrow> emits b s (emit_signature name params ret meth q)"
  unfolding emit_signature_def Let_def
  by (rule steady_rules | assumption)+

lemma emits_fn_forward [steady_rules]: "steady b s q \<Longrightarrow> emits b s (cg_emit_fn_forward meth fn q)"
  unfolding cg_emit_fn_forward_def
  by (rule steady_rules | assumption | (split node_body.split decl_body.split; intro conjI allI impI))+

lemma emits_type_forward [steady_rules]: "steady b s q \<Longrightarrow> emits b s (emit_type_forward d q)"
  unfolding emit_type_forward_def
  by (auto simp: emits_def steady_rules split: node_body.split decl_body.split)

lemma emits_type_def [steady_rules]: "steady b s q \<Longrightarrow> emits b s (emit_type_def d q)"
  unfolding emit_type_def_def
  by (rule steady_rules | assumption | (split node_body.split decl_body.split; intro conjI allI impI))+

section \<open>Expressions\<close>

definition emitters_ok :: "emitters \<Rightarrow> bool" where
  "emitters_ok E \<longleftrightarrow> (\<forall>b s q e. steady b s q \<longrightarrow> emits b s (em_expr E e q))
     \<and> (\<forall>b s q e r. steady b s q \<longrightarrow> emits b s (em_block E e r q))
     \<and> (\<forall>s q st. steady False s q \<longrightarrow> emits False s (em_stmt E st q))"

lemma em_ok [steady_rules]:
  "emitters_ok E \<Longrightarrow> steady b s q \<Longrightarrow> emits b s (em_expr E e q)"
  "emitters_ok E \<Longrightarrow> steady b s q \<Longrightarrow> emits b s (em_block E blk r q)"
  "emitters_ok E \<Longrightarrow> steady False s q \<Longrightarrow> emits False s (em_stmt E st q)"
  by (simp_all add: emitters_ok_def)

lemma emits_rest [steady_rules]:
  assumes "emitters_ok E"
  shows "steady b s q \<Longrightarrow> emits b s (emit_rest E es q)"
proof (induction es arbitrary: q)
  case (Cons e es)
  note rules = em_ok [OF assms] steady_rules Cons.IH
  show ?case unfolding emit_rest.simps
    by (insert Cons.prems; (rule rules | assumption)+)
qed (simp add: emits_def)

lemma emits_list [steady_rules]: "emitters_ok E \<Longrightarrow> steady b s q \<Longrightarrow> emits b s (emit_list E es q)"
  unfolding emit_list_def
  by (rule steady_rules | assumption | (split list.split; intro conjI allI impI))+

lemma emits_method_call [steady_rules]:
  "emitters_ok E \<Longrightarrow> steady b s q \<Longrightarrow> emits b s (emit_method_call E recv name args q)"
  unfolding emit_method_call_def Let_def
  by (rule steady_rules emits_pure | assumption)+

lemma emits_field_access [steady_rules]:
  "emitters_ok E \<Longrightarrow> steady b s q \<Longrightarrow> emits b s (emit_field_access E obj name q)"
  unfolding emit_field_access_def
  by (rule steady_rules emits_pure | assumption)+

lemma emits_index [steady_rules]: "emitters_ok E \<Longrightarrow> steady b s q \<Longrightarrow> emits b s (emit_index E obj idx q)"
  unfolding emit_index_def
  by (rule steady_rules emits_pure | assumption)+

lemma emits_slice [steady_rules]: "emitters_ok E \<Longrightarrow> steady b s q \<Longrightarrow> emits b s (emit_slice E obj lo hi q)"
  unfolding emit_slice_def Let_def
  by (rule steady_rules | assumption)+

lemma emits_array [steady_rules]: "emitters_ok E \<Longrightarrow> steady b s q \<Longrightarrow> emits b s (emit_array E nd elems q)"
  unfolding emit_array_def
  by (rule steady_rules | assumption)+

lemma emits_field_init [steady_rules]: "emitters_ok E \<Longrightarrow> steady b s q \<Longrightarrow> emits b s (emit_field_init E f q)"
  unfolding emit_field_init_def
  by (rule steady_rules emits_pure | assumption | (split node_body.split stmt_body.split; intro conjI allI impI))+

lemma emits_field_inits [steady_rules]:
  assumes "emitters_ok E"
  shows "steady b s q \<Longrightarrow> emits b s (emit_field_inits E later fs q)"
proof (induction fs arbitrary: later q)
  case (Cons f fs)
  note rules = emits_field_init [OF assms] steady_rules Cons.IH
  show ?case unfolding emit_field_inits.simps
    by (insert Cons.prems; (rule rules | assumption)+)
qed (simp add: emits_def)

lemma steady_null [steady_rules]: "steady b s q \<Longrightarrow> steady b s (emit_null nd q)"
  by (simp add: emit_null_def steady_emit)

lemma emits_expr_body [steady_rules]: "emitters_ok E \<Longrightarrow> steady b s q \<Longrightarrow> emits b s (emit_expr_body E nd e q)"
  unfolding emit_expr_body_def
  by (rule steady_rules | assumption | (split expr_body.split; intro conjI allI impI))+

lemma emits_expr [steady_rules]: "emitters_ok E \<Longrightarrow> steady b s q \<Longrightarrow> emits b s (cg_emit_expr E e q)"
  unfolding cg_emit_expr_def
  by (rule steady_rules | assumption | (split node_body.split; intro conjI allI impI))+

section \<open>Blocks and statements\<close>

lemma emits_deferred [steady_rules]: "emitters_ok E \<Longrightarrow> steady b s q \<Longrightarrow> emits b s (emit_deferred E e q)"
  unfolding emit_deferred_def
  by (rule steady_rules | assumption)+

lemma emits_defers [steady_rules]: "emitters_ok E \<Longrightarrow> steady b s q \<Longrightarrow> emits b s (cg_emit_defers E k q)"
  unfolding cg_emit_defers_def
  by (rule emits_all_emits steady_rules | assumption)+

lemma emits_loop_defers [steady_rules]: "emitters_ok E \<Longrightarrow> steady b s q \<Longrightarrow> emits b s (emit_loop_defers E q)"
  unfolding emit_loop_defers_def
  by (rule steady_rules | assumption)+

text \<open>What happens on a level, or in a loop, ends with it.\<close>

lemma level_left:
  assumes "push_level (level_in q) = Some p" "steady False p r"
  shows "steady True q (level_out (pop_level r))"
proof -
  have p: "p = (level_in q)\<lparr>cg_defer_depth := cg_defer_depth q + 1,
      cg_defer_stack := (cg_defer_stack q)[nat (cg_defer_depth q + 1) := []]\<rparr>"
    using assms(1) by (auto simp: push_level_def level_in_def Let_def split: if_splits)
  have "cg_defer_stack p ! nat d = cg_defer_stack q ! nat d" if "0 \<le> d" "d \<le> cg_defer_depth q" for d
    using that by (simp add: p)
  then show ?thesis
    using assms(2) by (auto simp: steady_def p level_in_def level_out_def pop_level_def)
qed

lemma loop_left:
  assumes "enter_loop q = Some p" "steady True p r"
  shows "steady True q (leave_loop r)"
  using assms by (auto simp: steady_def enter_loop_def leave_loop_def Let_def split: if_splits)

lemma emits_block [steady_rules]:
  assumes E: "emitters_ok E" and q: "steady b s q"
  shows "emits b s (cg_emit_block E block ret q)"
proof -
  {
    fix stmts trailing p r1 r2 r3
    assume p: "push_level (level_in (emit (ln ''{'') q)) = Some p"
      and r1: "all_emits (em_stmt E) stmts p = Some r1"
      and r2: "(if trailing = None then Some r1 else do {
          let cg = emit (flag ret ''return '') (cg_indent r1);
          cg \<leftarrow> em_expr E trailing cg;
          Some (emit (ln '';'') cg)
        }) = Some r2"
      and r3: "cg_emit_defers E (cg_defer_depth r2) r2 = Some r3"
    have "emits False p (all_emits (em_stmt E) stmts p)"
      by (insert E; (rule emits_all_emits steady_rules steady_refl | assumption)+)
    then have "steady False p r1" using r1 by (simp add: emits_def)
    moreover have "emits False r1 (if trailing = None then Some r1 else do {
          let cg = emit (flag ret ''return '') (cg_indent r1);
          cg \<leftarrow> em_expr E trailing cg;
          Some (emit (ln '';'') cg)
        })"
      unfolding Let_def by (insert E; (rule steady_rules steady_refl | assumption)+)
    then have "steady False r1 r2" unfolding r2 by (simp add: emits_def)
    moreover have "emits False r2 (cg_emit_defers E (cg_defer_depth r2) r2)"
      by (rule emits_defers [OF E steady_refl])
    then have "steady False r2 r3" using r3 by (simp add: emits_def)
    ultimately have "steady False p r3" using steady_trans by blast
    have "steady b s (level_out (pop_level r3))"
      by (rule steady_trans [OF steady_emit [OF q] steady_statement [OF level_left [OF p \<open>steady False p r3\<close>]]])
    then have "steady b s (emit ''}'' (cg_indent (level_out (pop_level r3))))"
      by (intro steady_emit steady_indent)
  }
  note run = this
  show ?thesis
  proof (cases block)
    case None
    then show ?thesis using q by (simp add: cg_emit_block_def emits_def)
  next
    case (Some nd)
    show ?thesis unfolding cg_emit_block_def Some emits_def
      by (auto simp: bind_eq_Some_conv simp del: Let_def split: node_body.splits stmt_body.splits
        split del: if_split intro: run)
  qed
qed

lemma emits_loop_body [steady_rules]:
  assumes "emitters_ok E" "steady b s q"
  shows "emits b s (emit_loop_body E body q)"
proof -
  have "steady b s (emit (ln []) (leave_loop r))" if "enter_loop q = Some p" "em_block E body False p = Some r" for p r
  proof -
    have "steady True p r" using em_ok(2) [OF assms(1) steady_refl, of True p body False] that(2) by (simp add: emits_def)
    then show ?thesis
      using steady_trans [OF assms(2) steady_statement [OF loop_left [OF that(1)]]] steady_emit by blast
  qed
  then show ?thesis by (auto simp: emit_loop_body_def emits_def bind_eq_Some_conv)
qed

lemma emits_var_decl [steady_rules]:
  "emitters_ok E \<Longrightarrow> steady b s q \<Longrightarrow> emits b s (emit_var_decl E name ty ini q)"
  unfolding emit_var_decl_def
  by (rule steady_rules | assumption)+

lemma emits_return [steady_rules]: "emitters_ok E \<Longrightarrow> steady b s q \<Longrightarrow> emits b s (emit_return E val q)"
  unfolding emit_return_def Let_def
  by (rule steady_rules | assumption)+

lemma emits_while [steady_rules]: "emitters_ok E \<Longrightarrow> steady b s q \<Longrightarrow> emits b s (emit_while E c body q)"
  unfolding emit_while_def
  by (rule steady_rules | assumption)+

lemma emits_loop_var [steady_rules]: "steady b s q \<Longrightarrow> emits b s (emit_loop_var name ty d q)"
  unfolding emit_loop_var_def
  by (rule steady_rules | assumption)+

lemma emits_bound [steady_rules]: "emitters_ok E \<Longrightarrow> steady b s q \<Longrightarrow> emits b s (emit_bound E e q)"
  unfolding emit_bound_def
  by (rule steady_rules | assumption)+

lemma emits_range_for [steady_rules]:
  "emitters_ok E \<Longrightarrow> steady b s q \<Longrightarrow> emits b s (emit_range_for E name ty lo hi body q)"
  unfolding emit_range_for_def
  by (rule steady_rules | assumption)+

lemma bindE:
  assumes "Option.bind m k = Some r"
  obtains x where "m = Some x" "k x = Some r"
  using assms by (cases m) auto

lemma blockE:
  assumes "(case n_body b of Stmt (AST_BLOCK stmts trailing) \<Rightarrow> f stmts trailing | _ \<Rightarrow> None) = Some r"
  obtains stmts trailing where "n_body b = Stmt (AST_BLOCK stmts trailing)" "f stmts trailing = Some r"
  using assms by (auto split: node_body.splits stmt_body.splits)

lemma emits_slice_for [steady_rules]:
  assumes E: "emitters_ok E" and q: "steady False s q"
  shows "emits False s (emit_slice_for E name ty iter body q)"
proof -
  note rules = steady_rules steady_refl
  {
    fix t r0 r1 r2 r3 r4 stmts trailing
    assume r0: "em_expr E (Some iter) (emit (''raya_Slice __iter_'' @ t @ '' = '')
          (cg_indent (level_in (emit (ln ''{'') (q\<lparr>cg_temp_counter := cg_temp_counter q + 1\<rparr>))))) = Some r0"
      and r1: "emit_loop_var name ty ''/* elem */ int '' (cg_indent (level_in (emit (ln (''for (size_t __i_'' @ t
          @ '' = 0; __i_'' @ t @ '' < __iter_'' @ t @ ''.len; __i_'' @ t @ ''++) {'')) (cg_indent (emit (ln '';'') r0))))) = Some r1"
      and r2: "all_emits (em_stmt E) stmts (emit (ln ('' = ((/* elem type */ void*)__iter_'' @ t @ ''.ptr)[__i_'' @ t @ ''];'')) r1) = Some r2"
      and r3: "(if trailing = None then Some r2
          else do { cg \<leftarrow> em_expr E trailing (cg_indent r2); Some (emit (ln '';'') cg) }) = Some r3"
    let ?a = "level_in (emit (ln ''{'') (q\<lparr>cg_temp_counter := cg_temp_counter q + 1\<rparr>))"
    let ?f = "ln (''for (size_t __i_'' @ t @ '' = 0; __i_'' @ t @ '' < __iter_'' @ t @ ''.len; __i_'' @ t @ ''++) {'')"
    let ?b = "level_in (emit ?f (cg_indent (emit (ln '';'') r0)))"
    have "emits False ?a (em_expr E (Some iter) (emit (''raya_Slice __iter_'' @ t @ '' = '') (cg_indent ?a)))"
      by (insert E; (rule rules | assumption)+)
    then have a: "steady False ?a (emit ?f (cg_indent (emit (ln '';'') r0)))"
      using r0 by (simp add: emits_def steady_rules)
    have "emits False ?b (emit_loop_var name ty ''/* elem */ int '' (cg_indent ?b))"
      by (rule rules | assumption)+
    then have "steady False ?b r1" using r1 by (simp add: emits_def)
    moreover have "emits False r1 (all_emits (em_stmt E) stmts (emit (ln ('' = ((/* elem type */ void*)__iter_'' @ t @ ''.ptr)[__i_'' @ t @ ''];'')) r1))"
      by (insert E; (rule emits_all_emits rules | assumption)+)
    then have "steady False r1 r2" using r2 by (simp add: emits_def)
    moreover have "emits False r2 (if trailing = None then Some r2
          else do { cg \<leftarrow> em_expr E trailing (cg_indent r2); Some (emit (ln '';'') cg) })"
      by (insert E; (rule rules | assumption)+)
    then have "steady False r2 r3" unfolding r3 by (simp add: emits_def)
    ultimately have "steady False ?b r3" using steady_trans by blast
    then have "steady False (emit ?f (cg_indent (emit (ln '';'') r0))) (level_out r3)" by (rule steady_level)
    then have "steady False ?a (emit (ln ''}'') (cg_indent (level_out r3)))"
      by (intro steady_emit steady_indent steady_trans [OF a])
    then have "steady False (emit (ln ''{'') (q\<lparr>cg_temp_counter := cg_temp_counter q + 1\<rparr>))
        (level_out (emit (ln ''}'') (cg_indent (level_out r3))))"
      by (rule steady_level)
    then have "steady False s (emit (ln ''}'') (cg_indent (level_out (emit (ln ''}'') (cg_indent (level_out r3))))))"
      by (intro steady_emit steady_indent steady_trans [OF steady_emit [OF steady_temp [OF q]]])
  }
  note run = this
  show ?thesis
    unfolding emits_def
  proof (intro allI impI)
    fix r
    assume "emit_slice_for E name ty iter body q = Some r"
    then show "steady False s r"
      unfolding emit_slice_for_def cg_next_temp_def Let_def prod.case
      apply (elim bindE blockE)
      apply (simp only: option.inject)
      apply (rotate_tac -1, erule subst)
      apply (rule run)
      apply assumption+
      done
  qed
qed

lemma emits_for [steady_rules]: "emitters_ok E \<Longrightarrow> steady False s q \<Longrightarrow> emits False s (emit_for E name ty iter body q)"
  unfolding emit_for_def
  by (rule steady_rules emits_pure | assumption)+

lemma emits_defer [steady_rules]: "steady False s q \<Longrightarrow> emits False s (defer_expr e q)"
proof -
  assume q: "steady False s q"
  have "steady False q r" if "defer_expr e q = Some r" for r
    using that by (cases "nat (cg_defer_depth q) < length (cg_defer_stack q)")
      (auto simp: defer_expr_def Let_def steady_def list_update_beyond split: if_splits)
  then show ?thesis using steady_trans [OF q] by (simp add: emits_def)
qed

lemma emits_if_stmt [steady_rules]:
  "emitters_ok E \<Longrightarrow> steady False s q \<Longrightarrow> emits False s (emit_if E c t f q)"
  unfolding emit_if_def
  by (rule steady_rules | assumption)+

lemma emits_stmt [steady_rules]: "emitters_ok E \<Longrightarrow> steady False s q \<Longrightarrow> emits False s (cg_emit_stmt E nd q)"
  unfolding cg_emit_stmt_def
  by (rule steady_rules | assumption
    | (split node_body.split decl_body.split stmt_body.split; intro conjI allI impI))+

theorem emitters_at_ok: "emitters_ok (emitters_at n)"
proof (induction n)
  case 0
  then show ?case by (simp add: emitters_ok_def emits_def)
next
  case (Suc n)
  then show ?case
    using emits_expr emits_block emits_stmt by (simp add: emitters_ok_def Let_def)
qed

end
