(* ===== verification/Codegen_Laws.thy ===== *)
theory Codegen_Laws
  imports Codegen_Frame Type_Laws
begin

text \<open>
  What the code generator promises and what it does not: balanced output, deferred expressions in
  reverse order and the bound on their number, the encoding of strings, and the agreement of the two
  functions that write C types.
\<close>

section \<open>Balance\<close>

text \<open>
  C7. The generator leaves everything as it found it. Whatever the fuel and the tree, emitting an
  expression or a block only appends to the output and ends at the indentation, the level of
  deferred expressions and the loop it began in; the deferred expressions of all open levels are
  the same as before, so what was deferred inside a block is gone with it.
\<close>

theorem emission_is_balanced:
  assumes "em_expr (emitters_at n) e cg = Some q \<or> em_block (emitters_at n) b ret cg = Some q"
  shows "prefix (cg_out cg) (cg_out q) \<and> cg_level q = cg_level cg
    \<and> cg_defer_depth q = cg_defer_depth cg \<and> cg_loop_depth q = cg_loop_depth cg
    \<and> (\<forall>d \<ge> 0. d \<le> cg_defer_depth cg \<longrightarrow> cg_defer_stack q ! nat d = cg_defer_stack cg ! nat d)"
proof -
  have "steady True cg q"
    using assms em_ok(1) [OF emitters_at_ok [of n] steady_refl [of True cg], of e]
      em_ok(2) [OF emitters_at_ok [of n] steady_refl [of True cg], of b ret]
    by (auto simp: emits_def)
  then show ?thesis by (simp add: steady_def le_less)
qed

section \<open>Deferred expressions\<close>

lemma all_emits_cong:
  assumes "\<And>x q. x \<in> set xs \<Longrightarrow> steady b s q \<Longrightarrow> f x q = g x q"
    "\<And>x q. x \<in> set xs \<Longrightarrow> steady b s q \<Longrightarrow> emits b s (g x q)" "steady b s q"
  shows "all_emits f xs q = all_emits g xs q"
  using assms
proof (induction xs arbitrary: q)
  case (Cons x xs)
  have "steady b s r" if "g x q = Some r" for r
    using Cons.prems(2) [of x q] Cons.prems(3) that by (simp add: emits_def)
  then show ?case
    using Cons.IH Cons.prems by (cases "g x q") simp_all
qed simp

lemma all_emits_concat: "all_emits (all_emits f) xss q = all_emits f (concat xss) q"
proof -
  have app: "all_emits f (xs @ ys) q = Option.bind (all_emits f xs q) (all_emits f ys)" for xs ys q
    by (induction xs arbitrary: q) auto
  show ?thesis by (induction xss arbitrary: q) (simp_all add: app cong: Option.bind_cong)
qed

lemma all_emits_map: "all_emits f (map h xs) q = all_emits (\<lambda>x. f (h x)) xs q"
  by (induction xs arbitrary: q) (simp_all cong: Option.bind_cong)

text \<open>The expressions deferred and not yet left, in the order they were deferred.\<close>

definition pending :: "cgen \<Rightarrow> node option list" where
  "pending cg = concat (take (nat (cg_defer_depth cg + 1)) (cg_defer_stack cg))"

lemma steady_stack:
  "steady True cg q \<Longrightarrow> 0 \<le> d \<Longrightarrow> d \<le> cg_defer_depth cg \<Longrightarrow> cg_defer_stack q ! nat d = cg_defer_stack cg ! nat d"
  by (cases "d = cg_defer_depth cg") (simp_all add: steady_def)

lemma defers_pending:
  assumes "- 1 \<le> cg_defer_depth cg" "cg_defer_depth cg < int (length (cg_defer_stack cg))"
  shows "cg_emit_defers (emitters_at n) 0 cg = all_emits (emit_deferred (emitters_at n)) (rev (pending cg)) cg"
proof -
  let ?E = "emitters_at n" and ?d = "cg_defer_depth cg"
  have "cg_emit_defers ?E 0 cg = all_emits (\<lambda>d. all_emits (emit_deferred ?E) (rev (cg_defer_stack cg ! nat d)))
      (rev [0..?d]) cg"
    unfolding cg_emit_defers_def
  proof (rule all_emits_cong [of _ True cg])
    fix d q
    assume d: "d \<in> set (rev [0..?d])" and q: "steady True cg q"
    then show "all_emits (emit_deferred ?E) (rev (cg_defer_stack q ! nat d)) q
        = all_emits (emit_deferred ?E) (rev (cg_defer_stack cg ! nat d)) q"
      using steady_stack [OF q] by simp
    show "emits True cg (all_emits (emit_deferred ?E) (rev (cg_defer_stack cg ! nat d)) q)"
      by (rule emits_all_emits [OF emits_deferred [OF emitters_at_ok] q])
  qed (rule steady_refl)
  also have "\<dots> = all_emits (all_emits (emit_deferred ?E)) (map (\<lambda>d. rev (cg_defer_stack cg ! nat d)) (rev [0..?d])) cg"
    by (simp add: all_emits_map)
  also have "\<dots> = all_emits (emit_deferred ?E) (rev (concat (map (\<lambda>d. cg_defer_stack cg ! nat d) [0..?d]))) cg"
    by (simp add: all_emits_concat rev_concat rev_map comp_def)
  also have "map (\<lambda>d. cg_defer_stack cg ! nat d) [0..?d] = take (nat (?d + 1)) (cg_defer_stack cg)"
    using assms by (intro nth_equalityI) (auto simp: min_def)
  finally show ?thesis by (simp add: pending_def)
qed

text \<open>
  C12. A \<^verbatim>\<open>return\<close> runs the deferred expressions of all open blocks, last deferred first, and then
  evaluates the value it returns. The text emitted for it is that of the pending expressions in
  exactly the reverse order of their deferral, over all blocks of the function, each as a statement,
  followed by \<^verbatim>\<open>return\<close> and the value.
\<close>

theorem return_runs_deferred:
  assumes "n_body nd = Stmt (AST_RETURN_STMT val f)" "- 1 \<le> cg_defer_depth cg"
    "cg_defer_depth cg < int (length (cg_defer_stack cg))"
  shows "em_stmt (emitters_at (Suc n)) nd cg = do {
     q \<leftarrow> all_emits (emit_deferred (emitters_at n)) (rev (pending cg)) (cg_indent cg);
     q \<leftarrow> (if val = None then Some (emit ''return'' q)
       else em_expr (emitters_at n) val (emit '' '' (emit ''return'' q)));
     Some (emit (ln '';'') q)
   }"
proof -
  have "pending (cg_indent cg) = pending cg" "cg_defer_depth (cg_indent cg) = cg_defer_depth cg"
      "cg_defer_stack (cg_indent cg) = cg_defer_stack cg"
    by (simp_all add: pending_def cg_indent_def emit_def)
  then show ?thesis
    using defers_pending [of "cg_indent cg" n] assms
    by (simp add: cg_emit_stmt_def emit_return_def Let_def)
qed

lemma em_Suc:
  "em_expr (emitters_at (Suc m)) = cg_emit_expr (emitters_at m)"
  "em_stmt (emitters_at (Suc m)) = cg_emit_stmt (emitters_at m)"
  "em_block (emitters_at (Suc m)) = cg_emit_block (emitters_at m)"
  by (simp_all add: Let_def)



definition top_level :: "cgen \<Rightarrow> node option list" where
  "top_level cg = cg_defer_stack cg ! nat (cg_defer_depth cg)"

text \<open>The innermost level of deferred expressions grew by the given ones, as far as there was room.\<close>

definition grew :: "node option list \<Rightarrow> cgen \<Rightarrow> cgen \<Rightarrow> bool" where
  "grew es cg q \<longleftrightarrow> cg_defer_depth q = cg_defer_depth cg \<and> length (cg_defer_stack q) = length (cg_defer_stack cg)
     \<and> top_level q = take MAX_DEFERS_PER_BLOCK (top_level cg @ es)"

definition roomy :: "cgen \<Rightarrow> bool" where
  "roomy cg \<longleftrightarrow> 0 \<le> cg_defer_depth cg \<and> nat (cg_defer_depth cg) < length (cg_defer_stack cg)
     \<and> length (top_level cg) \<le> MAX_DEFERS_PER_BLOCK"

lemma grew_trans: "grew es cg q \<Longrightarrow> grew fs q r \<Longrightarrow> grew (es @ fs) cg r"
  by (auto simp: grew_def min_def)


lemma steady_grew:
  assumes "roomy cg" "steady True cg q"
  shows "grew [] cg q"
proof -
  have "cg_defer_depth q = cg_defer_depth cg" "length (cg_defer_stack q) = length (cg_defer_stack cg)"
    using assms(2) by (simp_all only: steady_def)
  then show ?thesis
    using steady_stack [OF assms(2), of "cg_defer_depth cg"] assms(1) by (simp add: grew_def roomy_def top_level_def)
qed



text \<open>Steps that leave the levels alone, before and after.\<close>

lemma grew_step: "steady True cg q \<Longrightarrow> roomy cg \<Longrightarrow> grew es q r \<Longrightarrow> grew es cg r"
  using grew_trans [OF steady_grew] by fastforce


lemma level_simps [simp]:
  "cg_defer_depth (emit x cg) = cg_defer_depth cg" "cg_defer_stack (emit x cg) = cg_defer_stack cg"
  "cg_defer_depth (cg_indent cg) = cg_defer_depth cg" "cg_defer_stack (cg_indent cg) = cg_defer_stack cg"
  "cg_defer_depth (level_in cg) = cg_defer_depth cg" "cg_defer_stack (level_in cg) = cg_defer_stack cg"
  "cg_defer_depth (level_out cg) = cg_defer_depth cg" "cg_defer_stack (level_out cg) = cg_defer_stack cg"
  by (simp_all add: emit_def cg_indent_def level_in_def level_out_def)

lemma grew_simps [simp]:
  "grew es (emit x cg) q = grew es cg q" "grew es cg (emit x q) = grew es cg q"
  "grew es (cg_indent cg) q = grew es cg q" "grew es cg (cg_indent q) = grew es cg q"
  "grew es (level_in cg) q = grew es cg q" "grew es cg (level_out q) = grew es cg q"
  "grew es (cg\<lparr>cg_temp_counter := k\<rparr>) q = grew es cg q"
  by (simp_all add: grew_def top_level_def)










section \<open>Strings\<close>

text \<open>
  The bytes a C compiler reads from the characters between the quotes of a string literal under
  \<^verbatim>\<open>-std=c11\<close>: \<open>trigraphs\<close> is the replacement of the first translation phase, \<open>c_literal\<close> reads the
  simple escapes and the octal escapes of up to three digits. \<open>None\<close> is for what ends the literal or
  is no escape; a raw carriage return counts among the former, for it ends a line for some compilers.
\<close>

definition trigraph :: "char \<Rightarrow> char option" where
  "trigraph = map_of (zip [CHR ''='', CHR ''/'', CHR 0x27, CHR ''('', CHR '')'', CHR ''!'', CHR ''<'', CHR ''>'', CHR ''-'']
     [CHR ''#'', CHR 0x5C, CHR ''^'', CHR ''['', CHR '']'', CHR ''|'', CHR ''{'', CHR ''}'', CHR ''~''])"

fun trigraphs :: "string \<Rightarrow> string" where
  "trigraphs (a # b # c # cs) =
    (if a = CHR ''?'' \<and> b = CHR ''?'' \<and> trigraph c \<noteq> None then the (trigraph c) # trigraphs cs
     else a # trigraphs (b # c # cs))"
| "trigraphs cs = cs"

definition is_octal :: "char \<Rightarrow> bool" where
  "is_octal c \<longleftrightarrow> CHR ''0'' \<le> c \<and> c \<le> CHR ''7''"

definition octal_digits :: "string \<Rightarrow> string" where
  "octal_digits cs = takeWhile is_octal (take 3 cs)"

function c_literal :: "string \<Rightarrow> string option" where
  "c_literal [] = Some []"
| "c_literal (c # cs) =
    (if c = CHR 0x22 \<or> c = NL \<or> c = CR then None
     else if c \<noteq> CHR 0x5C then map_option ((#) c) (c_literal cs)
     else case cs of
        [] \<Rightarrow> None
      | e # rest \<Rightarrow>
          if e = CHR 0x5C \<or> e = CHR 0x22 then map_option ((#) e) (c_literal rest)
          else if e = CHR ''n'' then map_option ((#) NL) (c_literal rest)
          else if e = CHR ''t'' then map_option ((#) TAB) (c_literal rest)
          else if is_octal e
          then map_option ((#) (char_of (digits_val 8 (map digit_val (octal_digits cs)))))
            (c_literal (drop (length (octal_digits cs)) cs))
          else None)"
  by pat_completeness auto
termination
  by (relation "measure length") (auto simp: less_Suc_eq_le)

declare c_literal.simps(2) [simp del]

definition c_read :: "string \<Rightarrow> string option" where
  "c_read cs = c_literal (trigraphs cs)"

text \<open>No zero byte is followed by an octal digit.\<close>

fun zero_separate :: "string \<Rightarrow> bool" where
  "zero_separate (c # d # cs) \<longleftrightarrow> \<not> (c = NUL \<and> is_octal d) \<and> zero_separate (d # cs)"
| "zero_separate _ \<longleftrightarrow> True"

text \<open>No two question marks are followed by the last character of a trigraph.\<close>

fun trigraph_free :: "string \<Rightarrow> bool" where
  "trigraph_free (a # b # c # cs) \<longleftrightarrow>
     \<not> (a = CHR ''?'' \<and> b = CHR ''?'' \<and> trigraph c \<noteq> None) \<and> trigraph_free (b # c # cs)"
| "trigraph_free _ \<longleftrightarrow> True"

lemma escape_head:
  "is_octal (hd (c_escape c @ cs)) \<longleftrightarrow> is_octal c"
  by (auto simp: c_escape_def is_octal_def NL_def less_eq_char_def)

lemma octal_digits_zero:
  assumes "w = [] \<or> \<not> is_octal (hd w)"
  shows "octal_digits (CHR ''0'' # w) = ''0''"
  using assms by (cases w) (auto simp: octal_digits_def is_octal_def less_eq_char_def)

lemma c_literal_zero:
  assumes "w = [] \<or> \<not> is_octal (hd w)"
  shows "c_literal (CHR 0x5C # CHR ''0'' # w) = map_option ((#) NUL) (c_literal w)"
proof -
  have "(char_of (0 :: nat)) = CHR 0x00" by code_simp
  then show ?thesis using octal_digits_zero [OF assms]
    by (simp add: c_literal.simps(2) control_chars is_octal_def less_eq_char_def digits_val_def digit_val_def)
qed

lemma c_literal_escape: "c \<noteq> NUL \<Longrightarrow> c \<noteq> CR \<Longrightarrow> c_literal (c_escape c @ w) = map_option ((#) c) (c_literal w)"
  by (simp add: c_escape_def control_chars c_literal.simps(2) is_octal_def less_eq_char_def)

text \<open>Escaping makes no trigraph and keeps none apart.\<close>

lemma trigraphs_other: "a \<noteq> CHR ''?'' \<Longrightarrow> trigraphs (a # w) = a # trigraphs w"
  by (cases "a # w" rule: trigraphs.cases) simp_all

lemma escape_cases:
  obtains (raw) "c_escape c = [c]" "c \<noteq> CHR 0x5C"
  | (escaped) x where "c_escape c = [CHR 0x5C, x]" "x \<noteq> CHR ''?''" "c \<noteq> CHR ''?''"
  by (cases "c_escape c = [c]") (auto simp: c_escape_def control_chars split: if_splits)

lemma trigraphs_escape:
  "trigraph_free s \<Longrightarrow> trigraphs (concat (map c_escape s)) = concat (map c_escape s)"
proof (induction s)
  case (Cons c s)
  let ?w = "concat (map c_escape s)"
  have s: "trigraphs ?w = ?w" using Cons by (cases "c # s" rule: trigraph_free.cases) simp_all
  have t: "trigraph (CHR 0x5C) = None" by (simp add: trigraph_def)
  show ?case
  proof (cases "c = CHR ''?''")
    case True
    then have c: "c_escape c = [CHR ''?'']" by (simp add: c_escape_def control_chars)
    have "trigraphs (CHR ''?'' # ?w) = CHR ''?'' # trigraphs ?w"
    proof (cases s)
      case (Cons d s')
      show ?thesis
      proof (cases rule: escape_cases [of d])
        case raw
        show ?thesis
        proof (cases s')
          case (Cons e s'')
          then have "d \<noteq> CHR ''?'' \<or> trigraph e = None"
            using Cons.prems True \<open>s = d # s'\<close> by simp
          moreover have "\<exists>x y. c_escape e = x # y \<and> (x = e \<or> x = CHR 0x5C)"
            by (cases rule: escape_cases [of e]) simp_all
          ultimately show ?thesis using raw t \<open>s = d # s'\<close> Cons by auto
        qed (simp add: \<open>s = d # s'\<close> raw)
      next
        case (escaped x)
        then show ?thesis by (simp add: Cons)
      qed
    qed simp
    then show ?thesis using s by (simp add: c)
  next
    case False
    then show ?thesis
      by (cases rule: escape_cases [of c]) (use s in \<open>simp_all add: trigraphs_other\<close>)
  qed
qed simp

lemma c_literal_round:
  "zero_separate s \<Longrightarrow> CR \<notin> set s \<Longrightarrow> c_literal (concat (map c_escape s)) = Some s"
proof (induction s)
  case (Cons c s)
  have s: "c_literal (concat (map c_escape s)) = Some s"
    using Cons by (cases s) simp_all
  show ?case
  proof (cases "c = NUL")
    case True
    have "concat (map c_escape s) = [] \<or> \<not> is_octal (hd (concat (map c_escape s)))"
      using Cons.prems escape_head by (cases s) (auto simp: True)
    moreover have "c_escape NUL = [CHR 0x5C, CHR ''0'']" by (simp add: c_escape_def control_chars)
    ultimately show ?thesis using c_literal_zero s by (simp add: True)
  next
    case False
    then show ?thesis using s Cons.prems(2) c_literal_escape [of c] by auto
  qed
qed simp

text \<open>
  C21. The escapes of string literals are read back as the string, except where C reads them
  differently. What the generator writes between the quotes is read, by a C compiler that follows
  C11, as exactly the string, when in the string no zero byte is followed by an octal digit, no two
  question marks by a character that makes a trigraph, and there is no carriage return. The first
  two exceptions are needed: a zero byte is written as \<^verbatim>\<open>\0\<close>, so an octal digit behind it is read as
  part of the escape, and question marks are not escaped, so \<^verbatim>\<open>??!\<close> is read as \<^verbatim>\<open>|\<close>.
\<close>

theorem c_escape_roundtrip:
  assumes "zero_separate s" "trigraph_free s" "CR \<notin> set s"
  shows "c_read (concat (map c_escape s)) = Some s
    \<and> c_read (concat (map c_escape [NUL, CHR ''1''])) = Some [CHR 0x01]
    \<and> c_read (concat (map c_escape ''??!'')) = Some ''|''"
proof -
  have "c_read (concat (map c_escape s)) = Some s"
    using c_literal_round [OF assms(1,3)] trigraphs_escape [OF assms(2)] by (simp add: c_read_def)
  moreover have "c_read (concat (map c_escape [NUL, CHR ''1''])) = Some [CHR 0x01]"
    "c_read (concat (map c_escape ''??!'')) = Some ''|''"
    by code_simp+
  ultimately show ?thesis by simp
qed

section \<open>Types\<close>

text \<open>
  The type expressions on which the two functions that write C types agree: the fixed names below,
  names of declared types that do not start like a number type, and everything made of them but
  arrays, which one writes as pointers and the other as arrays.
\<close>

definition c_fixed_names :: "string_view list" where
  "c_fixed_names = [''void'', ''bool'', ''i8'', ''i16'', ''i32'', ''i64'', ''u8'', ''u16'', ''u32'', ''u64'', ''f32'', ''f64'']"

definition c_plain_name :: "string_view \<Rightarrow> bool" where
  "c_plain_name n \<longleftrightarrow> n \<notin> {''void'', ''bool'', ''isize'', ''usize'', ''noreturn''}
     \<and> (length n > 1 \<longrightarrow> n ! 0 \<notin> {CHR ''i'', CHR ''u'', CHR ''f''})"

definition c_same_name :: "string_view \<Rightarrow> bool" where
  "c_same_name n \<longleftrightarrow> n \<in> set c_fixed_names \<or> c_plain_name n"

fun c_same :: "type_expr option \<Rightarrow> bool" where
  "c_same None = True"
| "c_same (Some (TYPE_NAMED _ n _)) = c_same_name n"
| "c_same (Some (TYPE_REFERENCE _ t _)) = c_same t"
| "c_same (Some (TYPE_POINTER _ t _)) = c_same t"
| "c_same (Some (TYPE_SLICE _ t c)) = (c_same t \<and> t \<noteq> None)"
| "c_same (Some (TYPE_ARRAY _ _ _)) = False"
| "c_same (Some (TYPE_FUNCTION _ _ _)) = True"
| "c_same (Some (TYPE_OPTIONAL _ t)) = c_same t"
| "c_same (Some (TYPE_ERROR_UNION _ e _)) = c_same e"

text \<open>The C name of a scalar or a declared type, from the tree of the type.\<close>

definition c_scalar :: "ty \<Rightarrow> string option" where
  "c_scalar t = (case t of T_VOID \<Rightarrow> Some ''void'' | T_BOOL \<Rightarrow> Some ''_Bool'' | T_INT s b \<Rightarrow> Some (c_int s b)
     | T_FLOAT b \<Rightarrow> Some (if b = 32 then ''float'' else ''double'')
     | T_NAMED k n _ \<Rightarrow> if k = st_kind (ST_STRUCT [] [] [] None) then Some (''struct raya_'' @ n) else None
     | _ \<Rightarrow> None)"

lemma fixed_names:
  assumes "n \<in> set c_fixed_names"
  shows "c_named n = c_scalar (type_of_name n) \<and> c_named n \<noteq> None \<and> (type_of_name n = T_INT False 8 \<longleftrightarrow> n = ''u8'')"
proof -
  have "list_all (\<lambda>n. c_named n = c_scalar (type_of_name n) \<and> c_named n \<noteq> None
      \<and> (type_of_name n = T_INT False 8 \<longleftrightarrow> n = ''u8'')) c_fixed_names"
    by code_simp
  then show ?thesis unfolding list_all_iff using assms by blast
qed

lemma plain_names:
  assumes "c_plain_name n"
  shows "c_named n = Some (''struct raya_'' @ n)" "type_of_name n = T_NAMED (st_kind (ST_STRUCT [] [] [] None)) n 0"
proof -
  have n: "n \<noteq> ''void''" "n \<noteq> ''bool''" "n \<noteq> ''isize''" "n \<noteq> ''usize''" "n \<noteq> ''noreturn''"
      "(length n > 1 \<and> n ! 0 = CHR ''i'') = False" "(length n > 1 \<and> n ! 0 = CHR ''u'') = False"
      "(length n > 1 \<and> n ! 0 = CHR ''f'') = False"
    using assms by (auto simp: c_plain_name_def)
  have "named_body n = ST_STRUCT n [] [] None"
    unfolding named_body_def Let_def conj_assoc [symmetric] using n(1-5) by (simp only: n(6-8) simp_thms if_False)
  then show "type_of_name n = T_NAMED (st_kind (ST_STRUCT [] [] [] None)) n 0"
    by (simp add: type_of_name_def denote_body_def generic_arg_count_def st_kind_def)
  show "c_named n = Some (''struct raya_'' @ n)"
    unfolding c_named_def Let_def sv_eq_cstr_iff using n(1-5) by (simp only: n(6-8) simp_thms if_False)
qed

lemma same_name:
  assumes "c_same_name n"
  shows "c_named n = c_scalar (type_of_name n)" "c_named n \<noteq> None" "type_of_name n = T_INT False 8 \<longleftrightarrow> n = ''u8''"
proof -
  have "c_named n = c_scalar (type_of_name n) \<and> c_named n \<noteq> None \<and> (type_of_name n = T_INT False 8 \<longleftrightarrow> n = ''u8'')"
  proof (cases "n \<in> set c_fixed_names")
    case False
    then have "c_plain_name n" using assms by (simp add: c_same_name_def)
    moreover have "n \<noteq> ''u8''" using False by (auto simp: c_fixed_names_def)
    ultimately show ?thesis using plain_names [of n] by (simp add: c_scalar_def)
  qed (rule fixed_names)
  then show "c_named n = c_scalar (type_of_name n)" "c_named n \<noteq> None" "type_of_name n = T_INT False 8 \<longleftrightarrow> n = ''u8''"
    by blast+
qed

lemma same_u8:
  assumes "c_same (Some t)"
  shows "type_of (Some t) = T_INT False 8 \<longleftrightarrow> (\<exists>loc args. t = TYPE_NAMED loc ''u8'' args)"
  using assms same_name(3) by (cases t) auto

text \<open>What is written for a canonical type whose tree is known.\<close>

definition written :: "cgen \<Rightarrow> ty \<Rightarrow> (string \<Rightarrow> cgen option) \<Rightarrow> bool" where
  "written cg t w \<longleftrightarrow> (\<exists>q. canonical (cg_types cg) q \<and> denote (cg_types cg) q = t
     \<and> w = (\<lambda>name. cg_emit_sema_type (Some q) name cg))"

lemma writes_denoted:
  assumes "tt_ok (cg_types cg)" "canonical (cg_types cg) p" "denote (cg_types cg) p = t"
    "x = cg_emit_sema_type (Some p) name cg"
  shows "case t of
      T_POINTER c u \<Rightarrow> \<exists>w. written cg u w \<and> x = w (c_pointer c name)
    | T_REFERENCE c u \<Rightarrow> \<exists>w. written cg u w \<and> x = w (c_pointer c name)
    | T_OPTIONAL u \<Rightarrow> \<exists>w. written cg u w \<and> x = w (c_pointer False name)
    | T_ERROR_UNION _ u \<Rightarrow> \<exists>w. written cg u w \<and> x = w name
    | T_FUNCTION _ _ _ \<Rightarrow> x = Some (emit (''/* fn ptr */ void* '' @ name) cg)
    | T_SLICE c u \<Rightarrow> x =
        Some (emit ((if c \<and> u = T_INT False 8 then ''raya_Str '' else ''raya_Slice '') @ name) cg)
    | _ \<Rightarrow> \<forall>s. c_scalar t = Some s \<longrightarrow> x = Some (emit (s @ '' '' @ name) cg)"
proof -
  let ?tt = "cg_types cg"
  have t: "t = denote_body (denote ?tt) (body_of ?tt p)"
    using denote_unfold [OF assms(1) canonical_valid [OF assms(1,2)]] assms(3) by simp
  have child: "canonical ?tt q" if "q \<in> set (st_children (body_of ?tt p))" for q
    using assms(2) that by (auto elim: canonicalE)
  have u8: "denote ?tt q = T_INT False 8 \<longleftrightarrow> body_of ?tt q = ST_INT False 8" if "canonical ?tt q" for q
    using denote_unfold [OF assms(1) canonical_valid [OF assms(1) that]]
    by (cases "body_of ?tt q") (auto simp: denote_body_def)
  have w: "written cg (denote ?tt q) (\<lambda>name. cg_emit_sema_type (Some q) name cg)" if "canonical ?tt q" for q
    using that by (auto simp: written_def)
  note x = assms(4) [THEN trans, OF cg_emit_sema_type.simps, simplified]
  show ?thesis
    by (cases "body_of ?tt p")
      (use t child u8 w x in \<open>auto simp: denote_body_def c_scalar_def st_kind_def st_children_def\<close>)
qed

text \<open>
  C18. The two functions that write C types agree. For every type expression outside of arrays,
  \<^verbatim>\<open>isize\<close>, \<^verbatim>\<open>usize\<close> and \<^verbatim>\<open>i128\<close>, whose names are the fixed ones or do not begin like a number type,
  writing the expression itself and writing the type it was resolved to give the same declaration,
  for every declared name and nesting.
\<close>

theorem type_writers_agree:
  assumes "c_same te" "tt_ok (cg_types cg)" "canonical (cg_types cg) p" "denote (cg_types cg) p = type_of te"
  shows "cg_emit_type_expr te name cg = cg_emit_sema_type (Some p) name cg"
  using assms
proof (induction te name cg arbitrary: p rule: cg_emit_type_expr.induct)
  case (2 loc n args name cg)
  show ?case
    using writes_denoted [OF 2(2-4) refl, of name] same_name(1,2) [of n] 2(1)
    by (auto simp: c_scalar_def split: ty.splits if_splits)
next
  case (5 loc child c name cg)
  then show ?case
    using writes_denoted [OF 5(2-4) refl, of name] same_u8 
    by (cases child) (auto simp: sv_eq_cstr_iff split: type_expr.splits)
next
  case (1 name cg)
  then show ?case using writes_denoted [OF 1(2-4) refl, of name] by (simp add: c_scalar_def)
next
  case (3 loc child c name cg)
  then show ?case
    using writes_denoted [OF 3(3-5) refl, of name] by (auto simp: written_def intro: 3(1))
next
  case (4 loc child c name cg)
  then show ?case
    using writes_denoted [OF 4(3-5) refl, of name] by (auto simp: written_def intro: 4(1))
next
  case (7 loc ps r name cg)
  then show ?case using writes_denoted [OF 7(2-4) refl, of name] by simp
next
  case (8 loc child name cg)
  then show ?case
    using writes_denoted [OF 8(3-5) refl, of name] by (auto simp: written_def intro: 8(1))
next
  case (9 loc err s name cg)
  then show ?case
    using writes_denoted [OF 9(3-5) refl, of name] by (auto simp: written_def intro: 9(1))
qed simp

section \<open>Small runs\<close>

text \<open>A generator inside a function, with one open block that deferred the given expressions.\<close>

definition demo_cgen :: "node option list \<Rightarrow> cgen" where
  "demo_cgen es =
     \<lparr>cg_out = [], cg_level = 0, cg_temp_counter = 0, cg_in_unsafe = False,
      cg_defer_stack = (replicate MAX_DEFER_DEPTH [])[0 := es], cg_defer_depth = 0,
      cg_loop_defer_base = replicate MAX_DEFER_DEPTH 0, cg_loop_depth = 0, cg_unit = None,
      cg_types = demo_table, cg_type_of = (\<lambda>_. None), cg_show_g = id\<rparr>"

definition demo_node :: "node_body \<Rightarrow> node" where
  "demo_node b = Node 0 (loc_make [] 1 1 0) b"

definition demo_bool :: "bool \<Rightarrow> node option" where
  "demo_bool b = Some (demo_node (Expr (AST_BOOL_LITERAL b)))"

definition demo_return :: node where
  "demo_return = demo_node (Stmt (AST_RETURN_STMT None False))"

lemma demo_nodes [simp]:
  "n_body (demo_node b) = b" "demo_bool v = Some (demo_node (Expr (AST_BOOL_LITERAL v)))"
  "n_body demo_return = Stmt (AST_RETURN_STMT None False)"
  by (simp_all add: demo_node_def demo_bool_def demo_return_def)

lemma demo_cgen_sel [simp]:
  "cg_defer_depth (demo_cgen es) = 0" "cg_defer_stack (demo_cgen es) = es # replicate 63 []"
  "cg_level (demo_cgen es) = 0" "cg_out (demo_cgen es) = []" "cg_types (demo_cgen es) = demo_table"
  by (simp_all add: demo_cgen_def MAX_DEFER_DEPTH_def eval_nat_numeral)

lemma emit_demo_bool:
  "em_expr (emitters_at (Suc n)) (demo_bool b) cg = Some (emit (if b then ''true'' else ''false'') cg)"
  by (simp add: em_Suc cg_emit_expr_def emit_expr_body_def del: emitters_at.simps)

theorem emission_is_balanced_witness:
  "\<exists>q. em_expr (emitters_at 1) (demo_bool True) (demo_cgen []) = Some q \<and> cg_defer_depth q = 0"
proof -
  obtain q where "em_expr (emitters_at 1) (demo_bool True) (demo_cgen []) = Some q"
    using emit_demo_bool [of 0] by simp
  then show ?thesis using emission_is_balanced [of 1 "demo_bool True" "demo_cgen []" q] by simp
qed

theorem return_runs_deferred_witness:
  "map_option cg_out (em_stmt (emitters_at 2) demo_return (demo_cgen [demo_bool False, demo_bool True]))
     = Some (concat (map ln [''true;'', ''false;'', ''return;'']))"
  using return_runs_deferred [of demo_return None False "demo_cgen [demo_bool False, demo_bool True]" 1]
    emit_demo_bool [of 0]
  by (simp add: numeral_2_eq_2 pending_def emit_deferred_def cg_indent_def emit_def ln_def)




theorem c_escape_roundtrip_witness:
  "c_read (concat (map c_escape [CHR ''?'', CHR ''?'', CHR 0x22, CHR 0x00, NL])) = Some [CHR ''?'', CHR ''?'', CHR 0x22, CHR 0x00, NL]"
  by (rule c_escape_roundtrip [THEN conjunct1])
    (simp_all add: control_chars is_octal_def less_eq_char_def trigraph_def)

theorem type_writers_agree_witness:
  "\<exists>p cg. cg_emit_sema_type (Some p) ''x'' cg = Some (emit ''int32_t x'' cg)"
proof -
  obtain p tt where p: "st_from_ast (demo_type ''i32'') demo_table = (p, tt)" by fastforce
  have "tt_ok tt" "canonical tt p" "denote tt p = type_of (demo_type ''i32'')"
    using st_from_ast_result(1) [OF demo_table_ok, of "demo_type ''i32''"] p by (simp_all add: type_result_def)
  moreover have "c_same (demo_type ''i32'')" "c_named ''i32'' = Some ''int32_t''" by code_simp+
  ultimately show ?thesis
    using type_writers_agree [of "demo_type ''i32''" "demo_cgen []\<lparr>cg_types := tt\<rparr>" p "''x''"]
    by (auto simp: demo_type_def intro!: exI [of _ p] exI [of _ "demo_cgen []\<lparr>cg_types := tt\<rparr>"])
qed

end
