(* ===== verification/Runtime.thy ===== *)
theory Runtime
  imports Codegen
begin

text \<open>
  The runtime of the generated programs, \<^verbatim>\<open>src/raya_rt.c\<close>: what its functions write and whether the
  program goes on. \<^verbatim>\<open>raya_print\<close> writes the bytes of a string; \<^verbatim>\<open>raya_bounds_check\<close> ends the program
  with a message when the index is not below the length. The code generator emits no call of
  \<^verbatim>\<open>raya_bounds_check\<close>.
\<close>

record raya_Str =
  str_bytes :: string
  str_len :: u64

datatype run_step =
    Continues (written: string)
  | Aborts (message: string)

definition raya_panic :: "string \<Rightarrow> string \<Rightarrow> int \<Rightarrow> run_step" where
  "raya_panic msg file ln_no = Aborts (ln (''raya panic at '' @ file @ '':'' @ show_int ln_no @ '': '' @ msg))"

definition raya_bounds_check :: "u64 \<Rightarrow> u64 \<Rightarrow> string \<Rightarrow> int \<Rightarrow> run_step" where
  "raya_bounds_check idx len file ln_no =
    (if idx \<ge> len
     then raya_panic (take 255 (''index out of bounds: '' @ show_nat (unat idx) @ '' >= '' @ show_nat (unat len)))
       file ln_no
     else Continues [])"

definition raya_print :: "raya_Str \<Rightarrow> run_step" where
  "raya_print s = Continues (take (unat (str_len s)) (str_bytes s))"

text \<open>The check lets exactly the valid positions of an object with that many elements pass.\<close>

lemma bounds_check_passes:
  "raya_bounds_check idx (of_nat n) file ln_no = Continues [] \<longleftrightarrow> unat idx < n" if "n < 2 ^ 64"
proof -
  have "unat (of_nat n :: u64) = n" using that by (simp add: unsigned_of_nat take_bit_nat_eq_self)
  then show ?thesis
    by (simp add: raya_bounds_check_def raya_panic_def word_le_nat_alt not_le)
qed

end
