(* ===== verification/Tokenize.thy ===== *)
theory Tokenize
  imports Lexer
begin

text \<open>
  What the lexer delivers: the frame of every operation (the cursor moves forward, the line count
  stays exact, errors are only added), the position and the text of every token, the keyword and
  literal rules, the one-token lookahead, and the loop of \<^verbatim>\<open>src/main.c\<close> that collects
  the token array the parser reads.
\<close>

section \<open>The frame of the lexer's operations\<close>

definition starts_comment :: "lexer \<Rightarrow> bool" where
  "starts_comment l \<longleftrightarrow> lx_source l ! lx_pos l = CHR ''/'' \<and> lx_pos l + 1 < source_len l
     \<and> (lx_source l ! (lx_pos l + 1) = CHR ''/'' \<or> lx_source l ! (lx_pos l + 1) = CHR ''*'')"

abbreviation past_opening :: "lexer \<Rightarrow> lexer" where
  "past_opening l \<equiv> l\<lparr>lx_pos := lx_pos l + 2, lx_column := lx_column l + 2\<rparr>"

lemma whitespace_cases:
  obtains (stop) "lexer_skip_whitespace l = l"
      "lx_pos l < source_len l \<Longrightarrow> \<not> is_space (lx_source l ! lx_pos l) \<and> \<not> starts_comment l"
    | (space) "lx_pos l < source_len l" "is_space (lx_source l ! lx_pos l)"
        "lexer_skip_whitespace l = lexer_skip_whitespace (adv l)"
    | (line_comment) "lx_pos l < source_len l" "\<not> is_space (lx_source l ! lx_pos l)"
        "lx_source l ! lx_pos l = CHR ''/''" "lx_pos l + 1 < source_len l"
        "lx_source l ! (lx_pos l + 1) = CHR ''/''"
        "lexer_skip_whitespace l = lexer_skip_whitespace (skip_line_comment l)"
    | (block_comment) "lx_pos l < source_len l" "\<not> is_space (lx_source l ! lx_pos l)"
        "lx_source l ! lx_pos l = CHR ''/''" "lx_pos l + 1 < source_len l"
        "lx_source l ! (lx_pos l + 1) = CHR ''*''"
        "lexer_skip_whitespace l = lexer_skip_whitespace (skip_block_comment 1 (past_opening l))"
  using lexer_skip_whitespace.simps [of l]
  by (auto simp: Let_def starts_comment_def split: if_splits)

lemma moves_past_opening:
  assumes "lx_pos l + 1 < source_len l" "lx_source l ! lx_pos l = CHR ''/''"
    "lx_source l ! (lx_pos l + 1) = CHR ''*''"
  shows "moves l (past_opening l)"
  using assms by (auto simp: moves_def lx_ok_def line_ok_def NL_def)

lemma moves_whitespace [lexer_frame]: "moves l (lexer_skip_whitespace l)"
proof (induction l rule: lexer_skip_whitespace.induct)
  case (1 l)
  show ?case
  proof (cases rule: whitespace_cases [of l])
    case stop
    then show ?thesis by (simp add: moves_refl)
  next
    case space
    then have "moves (adv l) (lexer_skip_whitespace l)" using 1(1) by simp
    then show ?thesis using moves_adv moves_trans by blast
  next
    case line_comment
    then have "moves (skip_line_comment l) (lexer_skip_whitespace l)" using 1(2) by simp
    then show ?thesis using moves_line_comment moves_trans by blast
  next
    case block_comment
    then have "moves (skip_block_comment 1 (past_opening l)) (lexer_skip_whitespace l)"
      using 1(3) by simp
    then show ?thesis
      using moves_past_opening [OF block_comment(4,3,5)] moves_block_comment moves_trans by blast
  qed
qed

text \<open>White space and comments are skipped completely.\<close>

lemma whitespace_done:
  "lx_pos (lexer_skip_whitespace l) < source_len l \<Longrightarrow>
     \<not> is_space (lx_source l ! lx_pos (lexer_skip_whitespace l))
     \<and> \<not> starts_comment (lexer_skip_whitespace l)"
proof (induction l rule: lexer_skip_whitespace.induct)
  case (1 l)
  show ?case
  proof (cases rule: whitespace_cases [of l])
    case stop
    then show ?thesis using 1(4) by simp
  next
    case space
    then show ?thesis using 1(1,4) by simp
  next
    case line_comment
    then show ?thesis using 1(2,4) movesD(1) [OF moves_line_comment [of l]] by simp
  next
    case block_comment
    then show ?thesis
      using 1(3,4) movesD(1) [OF moves_block_comment [of "past_opening l" 1]] by simp
  qed
qed

lemma moves_if: "moves l x \<Longrightarrow> moves l y \<Longrightarrow> moves l (if b then x else y)"
  by simp

lemma moves_then_adv: "moves l l1 \<Longrightarrow> moves l (adv l1)"
  using moves_adv moves_trans by blast

lemma moves_then_error: "moves l l1 \<Longrightarrow> moves l (lexer_error l1 loc msg)"
  using moves_error moves_trans by blast

lemma moves_ident_chars [lexer_frame]: "moves l (lex_ident_chars l)"
proof (induction l rule: lex_ident_chars.induct)
  case (1 l)
  then show ?case
    using moves_adv [of l]
    by (subst lex_ident_chars.simps) (auto intro: moves_trans moves_refl)
qed

lemma moves_number_base [lexer_frame]: "moves l (snd (number_base c l))"
  by (auto simp: number_base_def Let_def moves_refl moves_adv)

lemma number_chars_cases:
  "lex_number_chars b f l = (f, l)
   \<or> (lx_pos l < source_len l
      \<and> (\<exists>f'. lex_number_chars b f l = lex_number_chars b f' (adv l)
            \<or> lex_number_chars b f l = lex_number_chars b f' (adv (adv l))))"
  unfolding lex_number_chars.simps [of b f l] Let_def by (simp split: if_split) blast

lemma moves_number_chars [lexer_frame]: "moves l (snd (lex_number_chars b f l))"
proof (induction "source_len l - lx_pos l" arbitrary: f l rule: less_induct)
  case less
  have 1: "moves (adv l) x \<Longrightarrow> moves l x" for x using moves_adv moves_trans by blast
  have 2: "moves (adv (adv l)) x \<Longrightarrow> moves l x" for x using moves_adv moves_trans by blast
  from number_chars_cases [of b f l] show ?case
    using less [of "adv l"] less [of "adv (adv l)"] movesD(4) [OF moves_adv [of "adv l"]]
    by (elim disjE conjE exE) (simp_all only: snd_conv moves_refl adv_source adv_pos if_True,
        auto intro: 1 2)
qed

lemma moves_string_chars [lexer_frame]: "moves l (lex_string_chars l)"
proof (induction l rule: lex_string_chars.induct)
  case (1 l)
  have one: "moves (adv l) x \<Longrightarrow> moves l x" for x using moves_adv moves_trans by blast
  have two: "moves (adv (adv l)) x \<Longrightarrow> moves l x" for x using moves_adv moves_trans by blast
  show ?case
    using 1 by (subst lex_string_chars.simps)
      (auto simp: Let_def moves_refl moves_error intro: one two)
qed

section \<open>Where a token stands and what it spells\<close>

text \<open>
  \<open>spells l (t, l')\<close>: the token \<open>t\<close> read from \<open>l\<close> to \<open>l'\<close> has the source between the two
  cursors as its text, is not empty, and is located at the line, the column and the offset of
  \<open>l\<close>.
\<close>

definition spells :: "lexer \<Rightarrow> token \<times> lexer \<Rightarrow> bool" where
  "spells l r \<longleftrightarrow> (let (t, l') = r in
     moves l l' \<and> lx_pos l < lx_pos l'
     \<and> tok_text t = take (lx_pos l' - lx_pos l) (drop (lx_pos l) (lx_source l))
     \<and> tok_loc t = loc_make (lx_filename l) (lx_line l) (lx_column l) (lx_pos l))"

lemma if_spells:
  "(b \<Longrightarrow> spells l x) \<Longrightarrow> (\<not> b \<Longrightarrow> spells l y) \<Longrightarrow> spells l (if b then x else y)"
  by simp

lemma spells_from_start:
  assumes "moves (adv l) l'" "lx_pos l < source_len l"
  shows "spells l (set_start (lx_line l) (lx_column l)
           (make_token l' k (lx_pos l) (lx_pos l' - lx_pos l)), l')"
proof -
  have "moves l l'" using assms(1) moves_adv moves_trans by blast
  moreover have "lx_pos l < lx_pos l'" using movesD(4) [OF assms(1)] assms(2) by simp
  ultimately show ?thesis
    using movesD [OF \<open>moves l l'\<close>]
    by (simp add: spells_def make_token_def set_start_def loc_make_def)
qed

lemma spells_value: "spells l (t, l') \<Longrightarrow> spells l (t\<lparr>tok_value := v\<rparr>, l')"
  by (simp add: spells_def)

lemma adv_column: "lx_pos l < source_len l \<Longrightarrow> lx_source l ! lx_pos l \<noteq> NL \<Longrightarrow>
    lx_column (adv l) = lx_column l + 1 \<and> lx_line (adv l) = lx_line l
    \<and> lx_filename (adv l) = lx_filename l"
  by (simp add: lexer_advance_char_def Let_def)

lemma peek_here: "lexer_peek_char l 0 \<noteq> NUL \<Longrightarrow>
    lx_pos l < source_len l \<and> lexer_peek_char l 0 = lx_source l ! lx_pos l"
  by (auto simp: lexer_peek_char_def split: if_splits)

lemma spells_op1:
  assumes "lx_pos l < source_len l" "lx_source l ! lx_pos l \<noteq> NL"
  shows "spells l (tok_here (adv l) k (lx_pos l) 1)"
  using assms moves_adv [of l] adv_column [OF assms]
  by (simp add: spells_def tok_here_def make_token_def)

lemma spells_op2:
  assumes "lx_pos l < source_len l" "lx_source l ! lx_pos l \<noteq> NL"
    "lexer_peek_char (adv l) 0 \<noteq> NUL" "lexer_peek_char (adv l) 0 \<noteq> NL"
  shows "spells l (tok_here (adv (adv l)) k (lx_pos l) 2)"
  using assms moves_trans [OF moves_adv [of l] moves_adv [of "adv l"]] adv_column [OF assms(1,2)]
    adv_column [of "adv l"] peek_here [of "adv l"]
  by (auto simp: spells_def tok_here_def make_token_def)

lemma spells_op3:
  assumes "lx_pos l < source_len l" "lx_source l ! lx_pos l \<noteq> NL"
    "lexer_peek_char (adv l) 0 \<noteq> NUL" "lexer_peek_char (adv l) 0 \<noteq> NL"
    "lexer_peek_char (adv (adv l)) 0 \<noteq> NUL" "lexer_peek_char (adv (adv l)) 0 \<noteq> NL"
  shows "spells l (tok_here (adv (adv (adv l))) k (lx_pos l) 3)"
  using assms
    moves_trans [OF moves_trans [OF moves_adv [of l] moves_adv [of "adv l"]] moves_adv]
    adv_column [OF assms(1,2)] adv_column [of "adv l"] adv_column [of "adv (adv l)"]
    peek_here [of "adv l"] peek_here [of "adv (adv l)"]
  by (auto simp: spells_def tok_here_def make_token_def)

lemma spells_op_error:
  assumes "lx_pos l < source_len l" "lx_source l ! lx_pos l \<noteq> NL"
  shows "spells l (tok_here (lexer_error (adv l) loc msg) k (lx_pos l) 1)"
  using assms moves_trans [OF moves_adv [of l] moves_error] adv_column [OF assms]
  by (simp add: spells_def tok_here_def make_token_def lexer_error_def)

lemma operator_spells:
  assumes "lx_pos l < source_len l" "lx_source l ! lx_pos l \<noteq> NL"
  shows "spells l (lex_operator c (lx_pos l) (lx_column l) (adv l))"
  unfolding lex_operator_def Let_def
  by (intro if_spells spells_op1 spells_op_error assms)
    (simp_all add: spells_op3 [OF assms] spells_op2 [OF assms] NUL_def NL_def)

lemma lex_token_spells:
  assumes "lx_pos l < source_len l" "lx_source l ! lx_pos l \<noteq> NL"
  shows "spells l (lex_token l)"
proof -
  note start = spells_from_start [OF _ assms(1)]
  have ident: "spells l (lex_identifier (lx_pos l) (lx_line l) (lx_column l) (adv l))"
    unfolding lex_identifier_def Let_def by (rule start) (rule moves_ident_chars)
  have num: "spells l (lex_number c (lx_pos l) (lx_line l) (lx_column l) (adv l))" for c
  proof -
    obtain b l1 where b: "number_base c (adv l) = (b, l1)" by fastforce
    obtain f l2 where f: "lex_number_chars b False l1 = (f, l2)" by fastforce
    have "moves (adv l) l2"
      using moves_number_base [of "adv l" c] moves_number_chars [of l1 b False] b f moves_trans
      by (metis snd_conv)
    from start [OF this] show ?thesis
      by (simp add: lex_number_def b f Let_def spells_value)
  qed
  have str: "spells l (lex_string (lx_pos l) (lx_line l) (lx_column l) (adv l))"
    unfolding lex_string_def Let_def
    by (intro start moves_if moves_then_adv moves_string_chars)
  have chr: "spells l (lex_char (lx_pos l) (lx_line l) (lx_column l) (adv l))"
    unfolding lex_char_def Let_def
    by (intro start moves_if moves_then_adv moves_then_error moves_refl)
  show ?thesis
    using ident num str chr operator_spells [OF assms]
    by (simp add: lex_token_def Let_def case_prod_beta)
qed

section \<open>The remaining text\<close>

definition rest :: "lexer \<Rightarrow> string" where
  "rest l = drop (lx_pos l) (lx_source l)"

lemma rest_Nil [simp]: "rest l = [] \<longleftrightarrow> source_len l \<le> lx_pos l"
  by (simp add: rest_def)

lemma rest_empty: "source_len l \<le> lx_pos l \<Longrightarrow> rest l = []"
  by simp

lemma rest_Cons:
  assumes "rest l = c # s"
  shows "lx_pos l < source_len l" "lx_source l ! lx_pos l = c" "rest (adv l) = s"
    "fst (lexer_advance_char l) = c"
proof -
  show "lx_pos l < source_len l" using assms rest_Nil [of l] by force
  then show "lx_source l ! lx_pos l = c" "rest (adv l) = s"
    using assms Cons_nth_drop_Suc [of "lx_pos l" "lx_source l"] by (simp_all add: rest_def)
  then show "fst (lexer_advance_char l) = c"
    using \<open>lx_pos l < source_len l\<close> by (simp add: lexer_advance_char_def Let_def)
qed

lemma rest_not_Nil:
  "lx_pos l < source_len l \<Longrightarrow> rest l = lx_source l ! lx_pos l # rest (adv l)"
  by (simp add: rest_def Cons_nth_drop_Suc)

lemma rest_second:
  assumes "rest l = c # d # s"
  shows "lx_pos l + 1 < source_len l" "lx_source l ! (lx_pos l + 1) = d"
proof -
  have 1: "rest (adv l) = d # s" using rest_Cons(3) [OF assms] .
  show "lx_pos l + 1 < source_len l" "lx_source l ! (lx_pos l + 1) = d"
    using rest_Cons(1,2) [OF 1] rest_Cons(1) [OF assms] by simp_all
qed

lemma rest_prefix:
  assumes "moves l l'" "rest l = w @ rest l'" "lx_pos l \<le> source_len l"
  shows "take (lx_pos l' - lx_pos l) (drop (lx_pos l) (lx_source l)) = w"
proof -
  have src: "lx_source l' = lx_source l" and pos: "lx_pos l \<le> lx_pos l'"
    using movesD [OF assms(1)] by auto
  have "length (rest l) = length w + length (rest l')" using assms(2) by simp
  then show ?thesis
    using assms(2,3) src pos
    by (cases "lx_pos l' \<le> source_len l") (auto simp: rest_def)
qed

subsection \<open>White space and comments\<close>

text \<open>
  The reference: what is left of a text after its leading white space and comments.
  \<open>comment_rest d s\<close> is the text after a block comment of which \<open>d\<close> levels are open; it gives up
  behind the opening of a level past 16.
\<close>

fun comment_rest :: "nat \<Rightarrow> string \<Rightarrow> string" where
  "comment_rest d [] = []"
| "comment_rest d [c] = (if d = 0 then [c] else [])"
| "comment_rest d (c # c' # s) =
     (if d = 0 then c # c' # s
      else if c = CHR ''/'' \<and> c' = CHR ''*''
      then (if d + 1 > 16 then s else comment_rest (d + 1) s)
      else if c = CHR ''*'' \<and> c' = CHR ''/'' then comment_rest (d - 1) s
      else comment_rest d (c' # s))"

lemma comment_rest_0 [simp]: "comment_rest 0 s = s"
  by (cases "(0::nat, s)" rule: comment_rest.cases) auto

lemma comment_rest_length: "length (comment_rest d s) \<le> length s"
  by (induction d s rule: comment_rest.induct) auto

function blank_rest :: "string \<Rightarrow> string" where
  "blank_rest [] = []"
| "blank_rest (c # s) =
     (if is_space c then blank_rest s
      else if c = CHR ''/'' \<and> s \<noteq> [] \<and> hd s = CHR ''/''
      then blank_rest (dropWhile (\<lambda>c. c \<noteq> NL) s)
      else if c = CHR ''/'' \<and> s \<noteq> [] \<and> hd s = CHR ''*'' then blank_rest (comment_rest 1 (tl s))
      else c # s)"
  by pat_completeness auto
termination
  using comment_rest_length
  by (relation "measure length") (auto simp: less_Suc_eq_le length_dropWhile_le
      intro!: order_trans [OF comment_rest_length])

declare blank_rest.simps(2) [simp del]

lemma rest_line_comment: "rest (skip_line_comment l) = dropWhile (\<lambda>c. c \<noteq> NL) (rest l)"
proof (induction l rule: skip_line_comment.induct)
  case (1 l)
  show ?case
  proof (cases "rest l")
    case Nil
    then show ?thesis by (subst skip_line_comment.simps) (auto simp: rest_empty)
  next
    case (Cons c s)
    then show ?thesis
      using 1 rest_Cons [OF Cons]
      by (subst skip_line_comment.simps) (auto simp: rest_def)
  qed
qed

lemma rest_block_step:
  assumes "rest l = c # s" "block_comment_step d l = (d', l')" "d > 0"
  shows "d' > 16 \<or> comment_rest d' (rest l') = comment_rest d (rest l)"
    "d' > 16 \<and> d \<le> 16 \<Longrightarrow> comment_rest d (rest l) = rest l'"
proof -
  have hd: "lx_pos l < source_len l" "lx_source l ! lx_pos l = c" using rest_Cons [OF assms(1)] by auto
  have tl: "drop (Suc (lx_pos l)) (lx_source l) = s" using rest_Cons(3) [OF assms(1)] hd
    by (simp add: rest_def)
  have tl2: "drop (Suc (Suc (lx_pos l))) (lx_source l) = tl s"
    using tl by (metis drop_Suc tl_drop)
  have "(Suc (lx_pos l) < source_len l) = (s \<noteq> [])" using tl by auto
  moreover have "s \<noteq> [] \<Longrightarrow> lx_source l ! Suc (lx_pos l) = hd s"
    using tl by (metis hd_drop_conv_nth drop_all leI)
  ultimately show "d' > 16 \<or> comment_rest d' (rest l') = comment_rest d (rest l)"
    "d' > 16 \<and> d \<le> 16 \<Longrightarrow> comment_rest d (rest l) = rest l'"
    using assms hd tl tl2
    by (cases s; auto simp: block_comment_step_def Let_def rest_def split: if_splits)+
qed

lemma rest_block_comment: "d \<le> 16 \<Longrightarrow> rest (skip_block_comment d l) = comment_rest d (rest l)"
proof (induction d l rule: skip_block_comment.induct)
  case (1 d l)
  show ?case
  proof (cases "rest l = [] \<or> d = 0")
    case True
    then show ?thesis by (subst skip_block_comment.simps) (auto simp: rest_empty)
  next
    case False
    then obtain c s where cs: "rest l = c # s" by (cases "rest l") auto
    obtain d' l' where step: "block_comment_step d l = (d', l')" by fastforce
    have c: "lx_pos l < source_len l \<and> d > 0" using False cs rest_Cons(1) by blast
    show ?thesis
      using 1(1) [OF c refl step [symmetric]] 1(2) rest_block_step [OF cs step] c step
      by (auto simp: skip_block_comment.simps [of d l] lexer_error_def rest_def)
  qed
qed

lemma rest_whitespace: "rest (lexer_skip_whitespace l) = blank_rest (rest l)"
proof (induction l rule: lexer_skip_whitespace.induct)
  case (1 l)
  show ?case
  proof (cases rule: whitespace_cases [of l])
    case stop
    show ?thesis
    proof (cases "rest l")
      case (Cons c s)
      then have c: "lx_source l ! lx_pos l = c" "lx_pos l < source_len l" using rest_Cons by auto
      have "s \<noteq> [] \<Longrightarrow> lx_pos l + 1 < source_len l \<and> lx_source l ! (lx_pos l + 1) = hd s"
        using rest_second [of l c "hd s" "tl s"] Cons by simp
      then show ?thesis
        using stop Cons c by (auto simp: blank_rest.simps starts_comment_def)
    qed (use stop in \<open>simp add: rest_empty\<close>)
  next
    case space
    then have "rest (lexer_skip_whitespace l) = blank_rest (rest (adv l))" using 1(1) by simp
    then show ?thesis using space rest_not_Nil [of l] by (simp add: blank_rest.simps)
  next
    case line_comment
    then have "rest (lexer_skip_whitespace l) = blank_rest (rest (skip_line_comment l))"
      using 1(2) by simp
    moreover have "rest l = CHR ''/'' # CHR ''/'' # rest (adv (adv l))"
      using line_comment rest_not_Nil [of l] rest_not_Nil [of "adv l"] by simp
    ultimately show ?thesis
      using line_comment(2,3) by (simp add: blank_rest.simps(2) rest_line_comment NL_def)
  next
    case block_comment
    then have "rest (lexer_skip_whitespace l)
        = blank_rest (rest (skip_block_comment 1 (past_opening l)))"
      using 1(3) by simp
    moreover have "rest l = CHR ''/'' # CHR ''*'' # rest (past_opening l)"
      using block_comment rest_not_Nil [of l] rest_not_Nil [of "adv l"] by (simp add: rest_def)
    ultimately show ?thesis
      using block_comment(2,3) by (simp add: blank_rest.simps(2) rest_block_comment)
  qed
qed

section \<open>The next token\<close>

lemma lookup_keyword_map:
  "lookup_keyword_in ks s = (case map_of ks s of Some k \<Rightarrow> k | None \<Rightarrow> TOK_IDENTIFIER)"
  by (induction ks s rule: lookup_keyword_in.induct) auto

lemma lookup_keyword_not_eof: "lookup_keyword s \<noteq> TOK_EOF"
proof -
  have "lookup_keyword s \<in> insert TOK_IDENTIFIER (snd ` set keyword_table)"
    unfolding lookup_keyword_def lookup_keyword_map
    by (auto split: option.splits dest: map_of_SomeD intro: rev_image_eqI)
  then show ?thesis by (auto simp: keyword_table_def)
qed

lemma operator_not_eof: "tok_kind (fst (lex_operator c start start_col l)) \<noteq> TOK_EOF"
proof -
  have here: "tok_kind (fst (tok_here l' k s n)) = k" for l' k s n
    by (simp add: tok_here_def make_token_def)
  have split: "(b \<Longrightarrow> tok_kind (fst x) \<noteq> TOK_EOF) \<Longrightarrow> (\<not> b \<Longrightarrow> tok_kind (fst y) \<noteq> TOK_EOF)
      \<Longrightarrow> tok_kind (fst (if b then x else y)) \<noteq> TOK_EOF" for b x and y :: "token \<times> lexer"
    by simp
  show ?thesis
    unfolding lex_operator_def Let_def by (intro split) (simp_all add: here)
qed

lemma lex_token_not_eof: "tok_kind (fst (lex_token l)) \<noteq> TOK_EOF"
  by (simp add: lex_token_def lex_identifier_def lex_number_def lex_string_def lex_char_def Let_def
      set_start_def make_token_def case_prod_beta lookup_keyword_not_eof operator_not_eof)

text \<open>
  \<open>token_at src t\<close>: the token \<open>t\<close> is a piece of the source at its offset, and its line is the
  line of that offset.
\<close>

definition token_at :: "string \<Rightarrow> token \<Rightarrow> bool" where
  "token_at src t \<longleftrightarrow>
     (let s = offset (tok_loc t); n = length (tok_text t) in
        s + n \<le> length src \<and> tok_text t = take n (drop s src)
        \<and> line (tok_loc t) = 1 + newlines_upto src s)"

lemma lexer_next_fresh:
  assumes "lx_current l = None"
  defines "l1 \<equiv> lexer_skip_whitespace l"
  shows "lexer_next l = (if lx_pos l1 \<ge> source_len l1
           then (make_token l1 TOK_EOF (source_len l1) 0, l1) else lex_token l1)"
    "lx_pos l1 < source_len l1 \<Longrightarrow> spells l1 (lex_token l1)"
proof -
  show "lexer_next l = (if lx_pos l1 \<ge> source_len l1
           then (make_token l1 TOK_EOF (source_len l1) 0, l1) else lex_token l1)"
    using assms by (simp add: lexer_next_def Let_def)
  assume a: "lx_pos l1 < source_len l1"
  then have "\<not> is_space (lx_source l1 ! lx_pos l1)"
    using whitespace_done [of l] movesD(1) [OF moves_whitespace [of l]] by (simp add: l1_def)
  then show "spells l1 (lex_token l1)"
    using a lex_token_spells by (metis is_space_def)
qed

lemma lexer_next_moves:
  "lx_current l = None \<Longrightarrow> moves l (snd (lexer_next l))"
  using lexer_next_fresh [of l] moves_whitespace [of l] moves_trans
  by (auto simp: spells_def)

lemma lexer_next_token:
  assumes "lx_ok l" "lx_current l = None" "lexer_next l = (t, l')"
  shows "lx_ok l' \<and> lx_current l' = None \<and> lx_source l' = lx_source l
    \<and> token_at (lx_source l) t
    \<and> drop (offset (tok_loc t)) (lx_source l) = blank_rest (rest l)
    \<and> lx_pos l' = offset (tok_loc t) + length (tok_text t)
    \<and> (tok_kind t = TOK_EOF \<longleftrightarrow> blank_rest (rest l) = [])
    \<and> (tok_kind t = TOK_EOF \<longleftrightarrow> tok_text t = [])"
proof -
  let ?l1 = "lexer_skip_whitespace l"
  note nxt = lexer_next_fresh [OF assms(2)]
  have m: "moves l ?l1" by (rule moves_whitespace)
  have ok1: "lx_ok ?l1" "lx_source ?l1 = lx_source l" "lx_current ?l1 = None"
    using movesD [OF m] assms(1,2) by auto
  have r: "rest ?l1 = blank_rest (rest l)" by (rule rest_whitespace)
  show ?thesis
  proof (cases "lx_pos ?l1 \<ge> source_len ?l1")
    case True
    then have "t = make_token ?l1 TOK_EOF (source_len ?l1) 0" "l' = ?l1"
      using nxt(1) assms(3) by auto
    then show ?thesis
      using True ok1 r rest_empty [OF True]
      by (simp add: make_token_def token_at_def lx_ok_def line_ok_def)
  next
    case False
    then have tl: "lex_token ?l1 = (t, l')" using nxt(1) assms(3) by simp
    then have sp: "spells ?l1 (t, l')" using nxt(2) False by simp
    then have "moves ?l1 l'" by (simp add: spells_def)
    note l' = movesD [OF this] and sp = sp [unfolded spells_def prod.case Let_def]
    have "lx_ok l'" using l'(6) ok1(1) .
    have "lx_ok l'" using l'(6) ok1(1) .
    then have len: "length (tok_text t) = lx_pos l' - lx_pos ?l1"
      using sp l'(1) by (simp add: lx_ok_def min_absorb2 diff_le_mono)
    have loc: "offset (tok_loc t) = lx_pos ?l1" "line (tok_loc t) = lx_line ?l1"
      using sp by simp_all
    have "tok_text t = take (length (tok_text t)) (drop (lx_pos ?l1) (lx_source l))"
      unfolding len using sp ok1(2) by simp
    moreover have "lx_pos ?l1 + length (tok_text t) = lx_pos l'" using len l'(4) by simp
    moreover have "lx_pos l' \<le> source_len l" using \<open>lx_ok l'\<close> l'(1) ok1(2) by (simp add: lx_ok_def)
    moreover have "lx_line ?l1 = 1 + newlines_upto (lx_source l) (lx_pos ?l1)"
      using ok1 by (simp add: lx_ok_def line_ok_def)
    ultimately have at: "token_at (lx_source l) t" and pos: "lx_pos l' = lx_pos ?l1 + length (tok_text t)"
      by (simp_all only: token_at_def Let_def loc simp_thms)
    have "tok_text t \<noteq> []" using len sp by auto
    moreover have "tok_kind t \<noteq> TOK_EOF" using lex_token_not_eof [of ?l1] tl by simp
    moreover have "blank_rest (rest l) \<noteq> []" using False r rest_Nil [of ?l1] by simp
    moreover have "drop (lx_pos ?l1) (lx_source l) = blank_rest (rest l)"
      using r ok1(2) by (simp add: rest_def)
    ultimately show ?thesis using at pos loc \<open>lx_ok l'\<close> l'(1,3) ok1(2,3) by simp
  qed
qed

text \<open>
  C13. Every token is a piece of the source. From a state between two tokens the lexer skips to the
  first byte that is neither white space nor inside a comment, and returns the bytes from there to
  its new position: the text is that slice, the line is one more than the number of line feeds
  before it, at least one byte is consumed, and \<open>TOK_EOF\<close> is returned exactly when nothing is
  left. The result state is again one between two tokens with an exact line count.
\<close>

theorem lexer_next_located:
  assumes "lx_ok l" "lx_current l = None" "lexer_next l = (t, l')"
  shows "lx_ok l' \<and> lx_current l' = None \<and> lx_source l' = lx_source l
    \<and> token_at (lx_source l) t
    \<and> drop (offset (tok_loc t)) (lx_source l) = blank_rest (rest l)
    \<and> lx_pos l' = offset (tok_loc t) + length (tok_text t)
    \<and> (tok_kind t = TOK_EOF \<longleftrightarrow> blank_rest (rest l) = [])
    \<and> (tok_kind t = TOK_EOF \<longleftrightarrow> tok_text t = [])"
  using lexer_next_token [OF assms] .

abbreviation demo_lexer :: "string \<Rightarrow> lexer" where
  "demo_lexer s \<equiv> lexer_init s ''demo.raya'' (diag_init False)"

theorem lexer_next_located_witness:
  "\<exists>t l'. lexer_next (demo_lexer ''x '') = (t, l')
     \<and> token_at ''x '' t \<and> lx_pos l' = offset (tok_loc t) + length (tok_text t)"
proof -
  let ?l = "demo_lexer ''x ''"
  have ok: "lx_ok ?l" "lx_current ?l = None" "lx_source ?l = ''x ''"
    by (simp_all add: lexer_init_def lx_ok_def line_ok_def diag_ok_def diag_init_def)
  obtain t l' where n: "lexer_next ?l = (t, l')" by fastforce
  from lexer_next_located [OF ok(1,2) n] show ?thesis using n ok(3) by auto
qed

section \<open>Keywords, identifiers and numbers\<close>

text \<open>
  The keywords as the table of token names spells them: the kinds in front of the literals, and the
  three literals that are words.
\<close>

definition named_keywords :: "(string \<times> token_kind) list" where
  "named_keywords =
     (''true'', TOK_TRUE) # (''false'', TOK_FALSE) # (''null'', TOK_NULL)
     # map (\<lambda>k. (token_kind_name k, k)) (takeWhile (\<lambda>k. k \<noteq> TOK_INT_LITERAL) all_token_kinds)"

text \<open>
  C27. The keyword table of the lexer and the table of token names of its header agree. A word is a
  keyword if and only if it is the name of one of the kinds in front of the literals, or
  \<^verbatim>\<open>true\<close>, \<^verbatim>\<open>false\<close> or \<^verbatim>\<open>null\<close>, and it is then of that kind; every other word is an
  identifier. Different keywords have different kinds.
\<close>

theorem lookup_keyword_correct:
  "lookup_keyword w = (case map_of named_keywords w of Some k \<Rightarrow> k | None \<Rightarrow> TOK_IDENTIFIER)
   \<and> inj_on lookup_keyword {w. lookup_keyword w \<noteq> TOK_IDENTIFIER}"
proof -
  have "set keyword_table = set named_keywords" "distinct (map fst keyword_table)"
      "distinct (map fst named_keywords)"
    by code_simp+
  then have eq: "map_of keyword_table = map_of named_keywords" by (simp add: map_of_inject_set)
  have kinds: "distinct (map snd keyword_table)" "TOK_IDENTIFIER \<notin> snd ` set keyword_table"
    by code_simp+
  have "inj_on snd (set keyword_table)" using kinds(1) by (simp add: distinct_map)
  moreover have "(w, lookup_keyword w) \<in> set keyword_table" if "lookup_keyword w \<noteq> TOK_IDENTIFIER" for w
    using that by (auto simp: lookup_keyword_def lookup_keyword_map split: option.splits dest: map_of_SomeD)
  ultimately have "w = w'"
    if "lookup_keyword w \<noteq> TOK_IDENTIFIER" "lookup_keyword w = lookup_keyword w'" for w w'
    using that by (metis inj_onD prod.inject snd_conv)
  then have "inj_on lookup_keyword {w. lookup_keyword w \<noteq> TOK_IDENTIFIER}" by (auto intro: inj_onI)
  then show ?thesis by (simp add: eq [symmetric] lookup_keyword_def lookup_keyword_map)
qed

theorem lookup_keyword_correct_witness:
  "lookup_keyword ''while'' = TOK_WHILE \<and> lookup_keyword ''whiles'' = TOK_IDENTIFIER"
proof -
  have "map_of named_keywords ''while'' = Some TOK_WHILE" "map_of named_keywords ''whiles'' = None"
    by code_simp+
  then show ?thesis using lookup_keyword_correct by simp
qed

definition stops_ident :: "string \<Rightarrow> bool" where
  "stops_ident s \<longleftrightarrow> s = [] \<or> \<not> is_ident_char (hd s)"

lemma ident_chars_rest:
  "rest l = w @ r \<Longrightarrow> \<forall>c \<in> set w. is_ident_char c \<Longrightarrow> stops_ident r \<Longrightarrow>
     rest (lex_ident_chars l) = r"
proof (induction w arbitrary: l)
  case Nil
  have "lex_ident_chars l = l"
    using Nil rest_not_Nil [of l]
    by (subst lex_ident_chars.simps) (auto simp: stops_ident_def)
  then show ?case using Nil by simp
next
  case (Cons c w)
  then have "rest l = c # (w @ r)" by simp
  note l = rest_Cons [OF this]
  show ?case using Cons l by (subst lex_ident_chars.simps) auto
qed

lemma spells_text:
  assumes "spells l (t, l')" "rest l = w @ rest l'" "lx_pos l \<le> source_len l"
  shows "tok_text t = w"
  using assms rest_prefix [of l l' w] by (simp add: spells_def)

text \<open>
  C26. Maximal munch of words: at an identifier \<open>w\<close> that is followed by the end of the text or by
  a byte no identifier contains, the lexer returns exactly \<open>w\<close>, as a keyword if it is one and as
  an identifier otherwise, and goes on behind it.
\<close>

theorem lex_identifier_munch:
  assumes "rest l = w @ r" "w \<noteq> []" "is_ident_start (hd w)" "\<forall>c \<in> set w. is_ident_char c"
    "stops_ident r" "lex_token l = (t, l')"
  shows "tok_text t = w \<and> tok_kind t = lookup_keyword w \<and> rest l' = r"
proof -
  obtain c w' where w: "w = c # w'" using assms(2) by (cases w) auto
  have "rest l = c # (w' @ r)" using assms(1) w by simp
  note l = rest_Cons [OF this]
  have nl: "lx_source l ! lx_pos l \<noteq> NL" using l(2) assms(3) w by (auto simp: is_ident_start_def NL_def)
  have tok: "lex_token l = lex_identifier (lx_pos l) (lx_line l) (lx_column l) (adv l)"
    using l(4) assms(3) w by (simp add: lex_token_def Let_def case_prod_beta)
  then have l': "l' = lex_ident_chars (adv l)" using assms(6) by (simp add: lex_identifier_def Let_def)
  have r: "rest l' = r" using ident_chars_rest [of "adv l" w' r] l(3) assms(4,5) w l' by simp
  have "spells l (t, l')" using lex_token_spells [OF l(1) nl] assms(6) by simp
  then have tx: "tok_text t = w" using spells_text r assms(1) l(1) by simp
  moreover have "tok_kind t = lookup_keyword (tok_text t)"
    using tok assms(6) by (auto simp: lex_identifier_def Let_def set_start_def make_token_def)
  ultimately show ?thesis using r by simp
qed

theorem lex_identifier_munch_witness:
  "tok_kind (fst (lex_token (demo_lexer ''forx(''))) = TOK_IDENTIFIER
   \<and> tok_kind (fst (lex_token (demo_lexer ''for(''))) = TOK_FOR"
proof -
  have "rest (demo_lexer s) = s" for s by (simp add: lexer_init_def rest_def)
  moreover have "lookup_keyword ''forx'' = TOK_IDENTIFIER" "lookup_keyword ''for'' = TOK_FOR"
    by (simp_all add: lookup_keyword_def keyword_table_def)
  ultimately show ?thesis
    using lex_identifier_munch [of "demo_lexer ''forx(''" "''forx''" "''(''", OF _ _ _ _ _ prod.collapse [symmetric]]
      lex_identifier_munch [of "demo_lexer ''for(''" "''for''" "''(''", OF _ _ _ _ _ prod.collapse [symmetric]]
    by (simp add: is_ident_start_def is_ident_char_def stops_ident_def)
qed

lemma lex_token_number:
  assumes "rest l = (c # w) @ r" "is_digit c" "number_base c (adv l) = (b, l2)"
    "lex_number_chars b False l2 = (False, l3)" "rest l3 = r" "lex_token l = (t, l')"
  shows "tok_kind t = TOK_INT_LITERAL" "tok_text t = c # w"
    "tok_value t = Int_Value (strtoll b (c # w))" "rest l' = r"
proof -
  have "rest l = c # (w @ r)" using assms(1) by simp
  note l = rest_Cons [OF this]
  have "\<not> is_ident_start c" using assms(2) by (auto simp: is_digit_def is_ident_start_def less_eq_char_def)
  then have tok: "lex_token l = lex_number c (lx_pos l) (lx_line l) (lx_column l) (adv l)"
    using l(4) assms(2) by (simp add: lex_token_def Let_def case_prod_beta)
  then have l': "l' = l3" and kind: "tok_kind t = TOK_INT_LITERAL"
    and val: "tok_value t = Int_Value (strtoll b (tok_text t))"
    using assms(3,4,6)
    by (auto simp: lex_number_def Let_def set_start_def make_token_def)
  have "\<not> is_digit NL" by code_simp
  then have "lx_source l ! lx_pos l \<noteq> NL" using l(2) assms(2) by metis
  from lex_token_spells [OF l(1) this] have "spells l (t, l')" using assms(6) by simp
  then show tx: "tok_text t = c # w"
    using spells_text [of l t l' "c # w"] assms(1,5) l' l(1) by simp
  show "tok_kind t = TOK_INT_LITERAL" by (rule kind)
  show "tok_value t = Int_Value (strtoll b (c # w))" using val tx by simp
  show "rest l' = r" using assms(5) l' by simp
qed

definition is_base_digit :: "nat \<Rightarrow> char \<Rightarrow> bool" where
  "is_base_digit b c \<longleftrightarrow> (if b = 16 then is_hex_digit c else is_digit c)"

text \<open>The text behind a number: it goes on neither with a digit nor with a fraction or exponent.\<close>

definition stops_number :: "nat \<Rightarrow> string \<Rightarrow> bool" where
  "stops_number b s \<longleftrightarrow> s = [] \<or> (\<not> is_base_digit b (hd s)
     \<and> (b = 10 \<longrightarrow> hd s \<noteq> CHR ''.'' \<and> hd s \<noteq> CHR ''e'' \<and> hd s \<noteq> CHR ''E''))"

lemma number_chars_rest:
  "rest l = w @ r \<Longrightarrow> \<forall>c \<in> set w. is_base_digit b c \<Longrightarrow> stops_number b r \<Longrightarrow>
     \<exists>l'. lex_number_chars b False l = (False, l') \<and> rest l' = r"
proof (induction w arbitrary: l)
  case Nil
  have "lex_number_chars b False l = (False, l)"
  proof (cases r)
    case (Cons d s)
    then have "rest l = d # s" using Nil by simp
    moreover have "\<not> is_hex_digit CHR ''.''" by code_simp
    ultimately show ?thesis using Nil(3) Cons rest_Cons(1,2) [of l d s]
      by (subst lex_number_chars.simps)
        (auto simp: stops_number_def is_base_digit_def Let_def split: if_splits)
  qed (use Nil in \<open>subst lex_number_chars.simps, simp\<close>)
  then show ?case using Nil by simp
next
  case (Cons c w)
  then have "rest l = c # (w @ r)" by simp
  note l = rest_Cons [OF this]
  have "lex_number_chars b False l = lex_number_chars b False (adv l)"
    using l Cons(3) by (subst lex_number_chars.simps) (auto simp: is_base_digit_def Let_def)
  then show ?case using Cons l by auto
qed

lemma digits_prefix_all:
  "\<forall>c \<in> set w. (case char_digit c of Some d \<Rightarrow> d < b | None \<Rightarrow> False) \<Longrightarrow>
     digits_prefix b w = map (\<lambda>c. the (char_digit c)) w"
  by (induction w) (auto split: option.splits)

lemma is_digit_dec: "is_digit c \<longleftrightarrow> is_dec c"
  by (auto simp: is_digit_def is_dec_def)

lemma digits_prefix_dec: "\<forall>c \<in> set w. is_dec c \<Longrightarrow> digits_prefix 10 w = map digit_val w"
  by (subst digits_prefix_all) (auto simp: char_digit_def is_digit_dec digit_val_less)

text \<open>
  C28. Decimal literals round trip: the digits of \<open>n\<close> lex to one integer literal with that text and
  the value \<open>n\<close>, cut off at the largest value of a \<^verbatim>\<open>long long\<close>.
\<close>

theorem lex_decimal_literal:
  assumes "rest l = show_nat n @ r" "stops_number 10 r"
    "n = 0 \<Longrightarrow> r = [] \<or> hd r \<notin> set ''xXoObB''" "lex_token l = (t, l')"
  shows "tok_kind t = TOK_INT_LITERAL \<and> tok_text t = show_nat n
    \<and> tok_value t = Int_Value (of_int (min llong_max (int n))) \<and> rest l' = r"
proof -
  obtain c w where w: "show_nat n = c # w" by (cases "show_nat n") auto
  have dec: "\<forall>c \<in> set (show_nat n). is_dec c" by (rule show_nat_digits)
  have l: "rest l = c # (w @ r)" using assms(1) w by simp
  have no_prefix: "number_base c (adv l) = (10, adv l)"
  proof (cases "w @ r")
    case Nil
    then show ?thesis using rest_Cons(3) [OF l] by (simp add: number_base_def)
  next
    case (Cons d s)
    then have d: "rest (adv l) = d # s" using rest_Cons(3) [OF l] by simp
    have "c = CHR ''0'' \<Longrightarrow> d \<notin> set ''xXoObB''"
    proof (cases w)
      case Nil
      assume "c = CHR ''0''"
      then have "n = 0" using digits_val_show_nat [of n] w Nil by (simp add: digits_val_def digit_val_def)
      then show ?thesis using assms(3) Cons Nil by auto
    next
      case (Cons d' w')
      then have "d = d'" "is_dec d" using \<open>w @ r = d # s\<close> dec w by auto
      then show ?thesis by (auto simp: is_dec_def less_eq_char_def)
    qed
    then show ?thesis using rest_Cons(1,2) [OF d] by (auto simp: number_base_def Let_def)
  qed
  have "rest (adv l) = w @ r" "\<forall>c \<in> set w. is_base_digit 10 c"
    using rest_Cons(3) [OF l] dec w by (auto simp: is_base_digit_def is_digit_dec)
  from number_chars_rest [OF this assms(2)] obtain l3 where
    l3: "lex_number_chars 10 False (adv l) = (False, l3)" "rest l3 = r" by blast
  have "is_digit c" using dec w by (simp add: is_digit_dec)
  from lex_token_number [OF _ this no_prefix l3 assms(4)] assms(1) w
  have "tok_kind t = TOK_INT_LITERAL" "tok_text t = show_nat n"
    "tok_value t = Int_Value (strtoll 10 (show_nat n))" "rest l' = r" by auto
  moreover have "strtoll 10 (show_nat n) = of_int (min llong_max (int n))"
    using digits_prefix_dec [OF dec] digits_val_show_nat [of n]
    by (simp add: strtoll_def skip_base_prefix_def)
  ultimately show ?thesis by simp
qed

theorem lex_decimal_literal_witness:
  "tok_value (fst (lex_token (demo_lexer ''407;''))) = Int_Value 407"
proof -
  have "rest (demo_lexer s) = s" for s by (simp add: lexer_init_def rest_def)
  moreover have "show_nat 407 = ''407''" by code_simp
  ultimately show ?thesis
    using lex_decimal_literal [of "demo_lexer ''407;''" 407 "'';''", OF _ _ _ prod.collapse [symmetric]]
    by (simp add: stops_number_def is_base_digit_def is_digit_def llong_max_def)
qed

lemma number_base_prefixed:
  assumes "rest l1 = p # s" "(p, b) \<in> set [(CHR ''x'', 16), (CHR ''X'', 16), (CHR ''o'', 8),
    (CHR ''O'', 8), (CHR ''b'', 2), (CHR ''B'', 2)]"
  shows "number_base CHR ''0'' l1 = (b, adv l1)"
  using rest_Cons(1,2) [OF assms(1)] assms(2) by (auto simp: number_base_def Let_def)

lemma lex_token_prefixed:
  assumes "rest l = CHR ''0'' # p # ds @ r" "(p, b) \<in> set [(CHR ''x'', 16), (CHR ''X'', 16),
      (CHR ''o'', 8), (CHR ''O'', 8), (CHR ''b'', 2), (CHR ''B'', 2)]"
    "\<forall>c \<in> set ds. is_base_digit b c" "stops_number b r" "lex_token l = (t, l')"
  shows "tok_kind t = TOK_INT_LITERAL" "tok_text t = CHR ''0'' # p # ds"
    "tok_value t = Int_Value (strtoll b (CHR ''0'' # p # ds))" "rest l' = r"
proof -
  have 1: "rest (adv l) = p # ds @ r" using rest_Cons(3) [OF assms(1)] by simp
  have 2: "rest (adv (adv l)) = ds @ r" using rest_Cons(3) [OF 1] by simp
  obtain l3 where l3: "lex_number_chars b False (adv (adv l)) = (False, l3)" "rest l3 = r"
    using number_chars_rest [OF 2 assms(3,4)] by blast
  have z: "is_digit CHR ''0''" by code_simp
  show "tok_kind t = TOK_INT_LITERAL" "tok_text t = CHR ''0'' # p # ds"
    "tok_value t = Int_Value (strtoll b (CHR ''0'' # p # ds))" "rest l' = r"
    using lex_token_number [OF _ z number_base_prefixed [OF 1 assms(2)] l3 assms(5)] assms(1)
    by simp_all
qed

definition hex_val :: "char \<Rightarrow> nat" where
  "hex_val c = (if is_digit c then digit_val c
     else if c \<ge> CHR ''a'' then of_char c - 87 else of_char c - 55)"

lemma digits_prefix_hex:
  "\<forall>c \<in> set w. is_hex_digit c \<Longrightarrow> digits_prefix 16 w = map hex_val w"
proof (subst digits_prefix_all)
  assume w: "\<forall>c \<in> set w. is_hex_digit c"
  have d: "is_hex_digit c \<Longrightarrow> char_digit c = Some (hex_val c) \<and> hex_val c < 16" for c
    using digit_val_less [of c] is_digit_dec [of c]
    by (auto simp: is_hex_digit_def char_digit_def hex_val_def less_eq_char_def)
  show "\<forall>c \<in> set w. (case char_digit c of None \<Rightarrow> False | Some d \<Rightarrow> d < 16)"
    "map (\<lambda>c. the (char_digit c)) w = map hex_val w"
    using w d by auto
qed

text \<open>
  C29. Hexadecimal literals have the value their digits denote, cut off at the largest value of a
  \<^verbatim>\<open>long long\<close>.
\<close>

theorem lex_hex_literal:
  assumes "rest l = CHR ''0'' # p # ds @ r" "p \<in> set ''xX''" "ds \<noteq> []"
    "\<forall>c \<in> set ds. is_hex_digit c" "stops_number 16 r" "lex_token l = (t, l')"
  shows "tok_kind t = TOK_INT_LITERAL \<and> tok_text t = CHR ''0'' # p # ds
    \<and> tok_value t = Int_Value (of_int (min llong_max (int (digits_val 16 (map hex_val ds)))))
    \<and> rest l' = r"
proof -
  obtain c ds' where ds: "ds = c # ds'" using assms(3) by (cases ds) auto
  have "(p, 16) \<in> set [(CHR ''x'', 16), (CHR ''X'', 16),
      (CHR ''o'', 8), (CHR ''O'', 8), (CHR ''b'', 2), (CHR ''B'', 2 :: nat)]"
    using assms(2) by auto
  note tok = lex_token_prefixed [OF assms(1) this _ assms(5,6)]
  have "skip_base_prefix 16 (CHR ''0'' # p # ds) = ds"
    using assms(2,4) ds by (auto simp: skip_base_prefix_def)
  then show ?thesis
    using tok assms(4) digits_prefix_hex [OF assms(4)] by (simp add: strtoll_def is_base_digit_def)
qed

theorem lex_hex_literal_witness:
  "tok_value (fst (lex_token (demo_lexer ''0xFf;''))) = Int_Value 255"
proof -
  have "rest (demo_lexer s) = s" for s by (simp add: lexer_init_def rest_def)
  moreover have "hex_val CHR ''F'' = 15" "hex_val CHR ''f'' = 15" "is_hex_digit CHR ''F''"
    "is_hex_digit CHR ''f''" "\<not> is_hex_digit CHR '';''" by code_simp+
  ultimately show ?thesis
    using lex_hex_literal [of "demo_lexer ''0xFf;''" "CHR ''x''" "''Ff''" "'';''",
        OF _ _ _ _ _ prod.collapse [symmetric]]
    by (simp add: stops_number_def is_base_digit_def llong_max_def digits_val_def)
qed

text \<open>
  C30. Octal and binary literals all have the value 0: the text handed to \<^verbatim>\<open>strtoll\<close> still
  carries the prefix \<open>0o\<close> or \<open>0b\<close>, which no base below 25 (12 for \<open>b\<close>) reads as digits. The
  literal itself is read to its end.
\<close>

theorem lex_octal_binary_zero:
  assumes "rest l = CHR ''0'' # p # ds @ r"
    "(p, b) \<in> set [(CHR ''o'', 8), (CHR ''O'', 8), (CHR ''b'', 2), (CHR ''B'', 2)]"
    "\<forall>c \<in> set ds. is_digit c" "stops_number b r" "lex_token l = (t, l')"
  shows "tok_kind t = TOK_INT_LITERAL \<and> tok_text t = CHR ''0'' # p # ds
    \<and> tok_value t = Int_Value 0 \<and> rest l' = r"
proof -
  have "(p, b) \<in> set [(CHR ''x'', 16), (CHR ''X'', 16), (CHR ''o'', 8), (CHR ''O'', 8),
      (CHR ''b'', 2), (CHR ''B'', 2)]" using assms(2) by auto
  note tok = lex_token_prefixed [OF assms(1) this _ assms(4,5)]
  have "char_digit CHR ''0'' = Some 0" "char_digit CHR ''o'' = Some 24"
    "char_digit CHR ''O'' = Some 24" "char_digit CHR ''b'' = Some 11"
    "char_digit CHR ''B'' = Some 11" by code_simp+
  then have "strtoll b (CHR ''0'' # p # ds) = 0"
    using assms(2) by (auto simp: strtoll_def skip_base_prefix_def digits_val_def llong_max_def)
  then show ?thesis using tok assms(2,3) by (auto simp: is_base_digit_def)
qed

theorem lex_octal_binary_zero_witness:
  "tok_value (fst (lex_token (demo_lexer ''0b101''))) = Int_Value 0"
proof -
  have "rest (demo_lexer s) = s" for s by (simp add: lexer_init_def rest_def)
  moreover have "is_digit CHR ''0''" "is_digit CHR ''1''" by code_simp+
  ultimately show ?thesis
    using lex_octal_binary_zero [of "demo_lexer ''0b101''" "CHR ''b''" "''101''" "[]" 2,
        OF _ _ _ _ prod.collapse [symmetric]]
    by (simp add: stops_number_def)
qed

section \<open>Lookahead\<close>

text \<open>
  C31. One token of lookahead: peeking does not change what is read next, peeking twice is peeking
  once, and \<^verbatim>\<open>lexer_advance\<close> leaves the lexer where reading the token would.
\<close>

theorem lexer_peek_laws:
  "fst (lexer_peek l) = fst (lexer_next l)
   \<and> lexer_next (snd (lexer_peek l)) = lexer_next l
   \<and> lexer_peek (snd (lexer_peek l)) = lexer_peek l
   \<and> lexer_advance l = snd (lexer_next l)"
proof (cases "lx_current l")
  case None
  obtain t l1 where n: "lexer_next l = (t, l1)" by fastforce
  have "lx_current l1 = None" using lexer_next_moves [OF None] None n by (simp add: moves_def)
  then have "l1\<lparr>lx_current := None\<rparr> = l1" by simp
  then show ?thesis
    using None n by (simp add: lexer_peek_def lexer_advance_def lexer_next_def [of "l1\<lparr>lx_current := Some t\<rparr>"])
next
  case (Some t)
  then show ?thesis by (simp add: lexer_peek_def lexer_advance_def lexer_next_def)
qed

section \<open>The token array\<close>

text \<open>
  The loop in \<^verbatim>\<open>main\<close> of \<^verbatim>\<open>src/main.c\<close>: tokens are appended to a growing array until
  \<open>TOK_EOF\<close>; then a rewritten end token is appended. The array is its capacity with the list of its
  elements; \<^verbatim>\<open>realloc\<close> is taken to succeed, as the code takes it.
\<close>

definition push_token :: "nat \<times> token list \<Rightarrow> token \<Rightarrow> nat \<times> token list" where
  "push_token arr t = (case arr of (token_cap, tokens) \<Rightarrow>
     (if length tokens \<ge> token_cap then (if token_cap \<noteq> 0 then token_cap * 2 else 256)
      else token_cap, tokens @ [t]))"

definition pending :: "lexer \<Rightarrow> nat" where
  "pending l = (if lx_current l = None then 0 else 1)"

lemma lexer_next_progress:
  assumes "lexer_next l = (t, l')" "tok_kind t \<noteq> TOK_EOF"
  shows "source_len l' - lx_pos l' + pending l' < source_len l - lx_pos l + pending l"
proof (cases "lx_current l")
  case None
  let ?l1 = "lexer_skip_whitespace l"
  have m: "moves l ?l1" by (rule moves_whitespace)
  have "lx_pos ?l1 < source_len ?l1" "lex_token ?l1 = (t, l')"
    using lexer_next_fresh(1) [OF None] assms
    by (auto simp: make_token_def split: if_splits)
  moreover from this have "spells ?l1 (t, l')" using lexer_next_fresh(2) [OF None] by simp
  ultimately show ?thesis
    using movesD [OF m] None by (auto simp: spells_def moves_def pending_def)
next
  case (Some t')
  then show ?thesis using assms(1) by (auto simp: lexer_next_def pending_def)
qed

function collect_tokens :: "lexer \<Rightarrow> nat \<times> token list \<Rightarrow> (token \<times> lexer) \<times> (nat \<times> token list)"
where
  "collect_tokens l arr =
     (let (t, l') = lexer_next l in
      if tok_kind t \<noteq> TOK_EOF then collect_tokens l' (push_token arr t) else ((t, l'), arr))"
  by pat_completeness auto
termination
  by (relation "measure (\<lambda>(l, arr). source_len l - lx_pos l + pending l)")
    (auto dest: lexer_next_progress [OF sym])

declare collect_tokens.simps [simp del]

definition eof_token :: "lexer \<Rightarrow> token \<Rightarrow> token" where
  "eof_token l t = t\<lparr>tok_kind := TOK_EOF, tok_text := [],
     tok_loc := loc_make (lx_filename l) 1 1 (source_len l)\<rparr>"

definition tokenize :: "string \<Rightarrow> string \<Rightarrow> diag_engine \<Rightarrow> token list \<times> nat \<times> lexer" where
  "tokenize source fname diag =
     (let l = lexer_init source fname diag;
          ((t, l'), arr) = collect_tokens l (0, []);
          (token_cap, tokens) = push_token arr (eof_token l t)
      in (tokens, token_cap, l'))"

text \<open>The tokens follow one another in the source from offset \<open>i\<close> on.\<close>

fun token_chain :: "string \<Rightarrow> nat \<Rightarrow> token list \<Rightarrow> bool" where
  "token_chain src i [] \<longleftrightarrow> blank_rest (drop i src) = []"
| "token_chain src i (t # ts) \<longleftrightarrow>
     tok_kind t \<noteq> TOK_EOF \<and> tok_text t \<noteq> [] \<and> token_at src t
     \<and> drop (offset (tok_loc t)) src = blank_rest (drop i src)
     \<and> token_chain src (offset (tok_loc t) + length (tok_text t)) ts"

lemma collect_tokens_chain:
  assumes "lx_ok l" "lx_current l = None" "collect_tokens l (cap, ts) = ((t, l'), arr)"
  shows "\<exists>ts'. snd arr = ts @ ts' \<and> token_chain (lx_source l) (lx_pos l) ts' \<and> lx_ok l'
    \<and> (length ts \<le> cap \<longrightarrow> length (snd arr) \<le> fst arr) \<and> tok_kind t = TOK_EOF"
  using assms
proof (induction l "(cap, ts)" arbitrary: cap ts rule: collect_tokens.induct)
  case (1 l)
  obtain t1 l1 where n: "lexer_next l = (t1, l1)" by fastforce
  note at = lexer_next_token [OF 1(2,3) n]
  show ?case
  proof (cases "tok_kind t1 = TOK_EOF")
    case True
    then have "l' = l1" "t = t1" "arr = (cap, ts)" using 1(4) n
      by (auto simp: collect_tokens.simps [of l])
    then show ?thesis using at True by (simp add: rest_def)
  next
    case False
    obtain cap1 where p: "push_token (cap, ts) t1 = (cap1, ts @ [t1])"
      "length ts \<le> cap \<longrightarrow> length (ts @ [t1]) \<le> cap1"
      by (cases "length ts \<ge> cap") (auto simp: push_token_def)
    have "collect_tokens l1 (cap1, ts @ [t1]) = ((t, l'), arr)"
      using 1(4) n False p by (simp add: collect_tokens.simps [of l])
    from 1(1) [OF refl n [symmetric] False p(1) _ _ this] at
    obtain ts' where "snd arr = (ts @ [t1]) @ ts'" "token_chain (lx_source l1) (lx_pos l1) ts'"
      "lx_ok l'" "length (ts @ [t1]) \<le> cap1 \<longrightarrow> length (snd arr) \<le> fst arr" "tok_kind t = TOK_EOF"
      by auto
    then show ?thesis
      using at False p(2) by (intro exI [of _ "t1 # ts'"]) (auto simp: rest_def)
  qed
qed

lemma blank_rest_length: "length (blank_rest s) \<le> length s"
proof (induction s rule: blank_rest.induct)
  case (2 c s)
  have "length (dropWhile (\<lambda>c. c \<noteq> NL) s) \<le> length s" "length (comment_rest 1 (tl s)) \<le> length s"
    using length_dropWhile_le comment_rest_length [of 1 "tl s"] by (auto intro: order_trans)
  then show ?case using 2 by (auto simp: blank_rest.simps(2))
qed simp

lemma token_chain_length: "token_chain src i ts \<Longrightarrow> i \<le> length src \<Longrightarrow> length ts \<le> length src - i"
proof (induction src i ts rule: token_chain.induct)
  case (2 src i t ts)
  let ?o = "offset (tok_loc t)" and ?n = "length (tok_text t)"
  have o: "?o + ?n \<le> length src" "?n > 0" using 2(2) by (auto simp: token_at_def Let_def)
  have "length (drop ?o src) \<le> length (drop i src)" using 2(2) blank_rest_length [of "drop i src"] by simp
  then have "i \<le> ?o" using o 2(3) by simp
  moreover have "length ts \<le> length src - (?o + ?n)" using 2 o by simp
  ultimately show ?case using o by (cases ?n) simp_all
qed simp

text \<open>
  C3. The token array. For every source the loop ends with an array that fits its capacity: first
  the tokens of the source, each a non-empty piece of it that starts where the white space and
  comments behind the one before end, none of them \<open>TOK_EOF\<close>, with nothing but white space and
  comments behind the last one; then one empty \<open>TOK_EOF\<close> token at the end of the source. There are
  at most as many tokens as bytes, plus one.
\<close>

theorem tokenize_complete:
  "case tokenize source fname (diag_init tty) of (tokens, token_cap, l') \<Rightarrow>
     tokens \<noteq> [] \<and> length tokens \<le> token_cap \<and> length tokens \<le> length source + 1
     \<and> token_chain source 0 (butlast tokens)
     \<and> tok_kind (last tokens) = TOK_EOF \<and> tok_text (last tokens) = []
     \<and> offset (tok_loc (last tokens)) = length source \<and> diag_ok (lx_diag l')"
proof -
  let ?l = "lexer_init source fname (diag_init tty)"
  have ok: "lx_ok ?l" "lx_current ?l = None" "lx_source ?l = source" "lx_pos ?l = 0"
    by (simp_all add: lexer_init_def lx_ok_def line_ok_def)
  obtain t l' cap ts where c: "collect_tokens ?l (0, []) = ((t, l'), (cap, ts))"
    by (metis prod.collapse)
  from collect_tokens_chain [OF ok(1,2) c] ok
  have ts: "token_chain source 0 ts" "lx_ok l'" "length ts \<le> cap" by auto
  then have "length ts \<le> length source" using token_chain_length [of source 0 ts] by simp
  then show ?thesis
    using c ts ok by (auto simp: tokenize_def push_token_def eof_token_def Let_def lx_ok_def Suc_le_eq)
qed

end
