(* ===== verification/Driver.thy ===== *)
theory Driver
  imports Codegen Tokenize Parse_Decl
begin

text \<open>
  The driver, \<^verbatim>\<open>src/main.c\<close>: the options, the dumps and the composition of lexer, parser,
  semantic analysis and code generator. What the operating system decides is the record \<open>world\<close>:
  whether the error stream is a terminal, how an opened file behaves, whether the C file can be opened, the
  status of the C compiler, the addresses the arena hands out in each run of the analysis and the
  memory it finds there, and the format \<^verbatim>\<open>%g\<close>. The outcome is what the process writes to its
  two streams and to the C file, and its exit status; \<open>n\<close> is the fuel of every phase.
\<close>

section \<open>World and outcome\<close>

text \<open>
  An opened file: what \<^verbatim>\<open>fseek\<close>, \<^verbatim>\<open>ftell\<close> and \<^verbatim>\<open>malloc\<close> answer, the bytes \<^verbatim>\<open>fread\<close> can deliver, and
  whether the stream is in error afterwards.
\<close>

record file_io =
  io_seek_end :: bool
  io_tell :: int
  io_seek_set :: bool
  io_malloc :: bool
  io_bytes :: string
  io_ferror :: bool

record world =
  w_isatty :: bool
  w_file :: "string \<Rightarrow> file_io option"
  w_can_write :: "string \<Rightarrow> bool"
  w_system :: "string \<Rightarrow> int"
  w_addr :: "nat \<Rightarrow> sptr \<Rightarrow> u64"
  w_junk :: "nat \<Rightarrow> sptr option"
  w_show_g :: "string \<Rightarrow> string"

record outcome =
  oc_stdout :: string
  oc_stderr :: string
  oc_file :: "(string \<times> string) option"
  oc_status :: int

definition RAYA_VERSION :: string where
  "RAYA_VERSION = ''0.8.0''"

record options =
  g_dump_tokens :: bool
  g_dump_ast :: bool
  g_expand :: bool
  g_test_lexer :: bool
  g_test_parser :: bool
  g_check :: bool
  g_test_sema :: bool
  g_build :: bool

definition no_options :: options where
  "no_options = \<lparr>g_dump_tokens = False, g_dump_ast = False, g_expand = False, g_test_lexer = False,
     g_test_parser = False, g_check = False, g_test_sema = False, g_build = False\<rparr>"

definition finished :: "string \<Rightarrow> string \<Rightarrow> int \<Rightarrow> outcome" where
  "finished out err status = \<lparr>oc_stdout = out, oc_stderr = err, oc_file = None, oc_status = status\<rparr>"

section \<open>Options\<close>

definition print_usage :: "string \<Rightarrow> string" where
  "print_usage prog =
     ln (''Raya compiler '' @ RAYA_VERSION) @ ln (''Usage: '' @ prog @ '' [options] <file.raya>'')
     @ ln [] @ ln ''Options:''
     @ ln ''  --dump-tokens    Print all tokens after lexing''
     @ ln ''  --dump-ast       Print AST after parsing''
     @ ln ''  --expand         Print expanded source after comptime''
     @ ln ''  --test-lexer     Output token kinds only (for tests)''
     @ ln ''  --test-parser    Output AST kinds only (for tests)''
     @ ln ''  --check          Run semantic analysis''
     @ ln ''  --test-sema      Output sema errors only (for tests)''
     @ ln ''  --build          Compile to executable''
     @ ln ''  -h, --help       Show this help''
     @ ln ''  -v, --version    Show version''"

text \<open>The loop over the arguments: the outcome when the process ends in it, else options and file.\<close>

fun parse_args :: "string \<Rightarrow> string list \<Rightarrow> options \<Rightarrow> string option \<Rightarrow> outcome + options \<times> string option"
where
  "parse_args prog [] o' file = Inr (o', file)"
| "parse_args prog (a # as) o' file =
    (if a = ''--dump-tokens'' then parse_args prog as (o'\<lparr>g_dump_tokens := True\<rparr>) file
     else if a = ''--dump-ast'' then parse_args prog as (o'\<lparr>g_dump_ast := True\<rparr>) file
     else if a = ''--expand'' then parse_args prog as (o'\<lparr>g_expand := True\<rparr>) file
     else if a = ''--test-lexer'' then parse_args prog as (o'\<lparr>g_test_lexer := True\<rparr>) file
     else if a = ''--test-parser'' then parse_args prog as (o'\<lparr>g_test_parser := True\<rparr>) file
     else if a = ''--check'' then parse_args prog as (o'\<lparr>g_check := True\<rparr>) file
     else if a = ''--test-sema'' then parse_args prog as (o'\<lparr>g_test_sema := True\<rparr>) file
     else if a = ''--build'' then parse_args prog as (o'\<lparr>g_build := True\<rparr>) file
     else if a = ''-h'' \<or> a = ''--help'' then Inl (finished [] (print_usage prog) 0)
     else if a = ''-v'' \<or> a = ''--version''
     then Inl (finished (ln (''Raya compiler '' @ RAYA_VERSION)) [] 0)
     else if a \<noteq> [] \<and> hd a = CHR ''-''
     then Inl (finished [] (ln (''error: unknown option '' @ quoted a) @ print_usage prog) 1)
     else if file \<noteq> None then Inl (finished [] (ln ''error: multiple input files not supported'') 1)
     else parse_args prog as o' (Some a))"

definition has_suffix :: "string \<Rightarrow> string \<Rightarrow> bool" where
  "has_suffix s suf \<longleftrightarrow> length s \<ge> length suf \<and> drop (length s - length suf) s = suf"

definition extension_warning :: "string \<Rightarrow> string" where
  "extension_warning file =
     (if has_suffix file ''.raya'' then []
      else ln ''warning: input file does not have .raya extension'')"

definition m_cannot_open :: "string \<Rightarrow> string" where
  "m_cannot_open path = ln (''error: cannot open file '' @ quoted path)"

section \<open>Reading a file\<close>

definition m_seek :: "string \<Rightarrow> string" where
  "m_seek path = ln (''error: failed to seek file '' @ quoted path)"

definition m_tell :: "string \<Rightarrow> string" where
  "m_tell path = ln (''error: failed to determine size of '' @ quoted path)"

definition m_memory :: string where
  "m_memory = ln ''error: out of memory''"

definition m_read :: "string \<Rightarrow> string" where
  "m_read path = ln (''error: failed to read '' @ quoted path)"

text \<open>The message printed, or the bytes read; \<^verbatim>\<open>out_len\<close> is their number.\<close>

definition read_file :: "(string \<Rightarrow> file_io option) \<Rightarrow> string \<Rightarrow> string + string" where
  "read_file files path =
    (case files path of
       None \<Rightarrow> Inl (m_cannot_open path)
     | Some f \<Rightarrow>
         if \<not> io_seek_end f then Inl (m_seek path)
         else if io_tell f < 0 then Inl (m_tell path)
         else if \<not> io_seek_set f then Inl (m_seek path)
         else if \<not> io_malloc f then Inl m_memory
         else let len = nat (io_tell f); buf = take len (io_bytes f) in
           if length buf \<noteq> len \<and> io_ferror f then Inl (m_read path) else Inr buf)"

section \<open>Dumps\<close>

function test_lexer :: "lexer \<Rightarrow> string \<times> lexer" where
  "test_lexer l =
     (let (t, l') = lexer_next l in
      if tok_kind t \<noteq> TOK_EOF
      then let (out, l'') = test_lexer l' in (ln (token_kind_name (tok_kind t)) @ out, l'')
      else ([], l'))"
  by pat_completeness auto
termination
  by (relation "measure (\<lambda>l. source_len l - lx_pos l + pending l)")
    (auto dest: lexer_next_progress [OF sym])

declare test_lexer.simps [simp del]

definition pad :: "nat \<Rightarrow> string \<Rightarrow> string" where
  "pad n s = s @ replicate (n - length s) CHR '' ''"

definition token_line :: "token \<Rightarrow> string" where
  "token_line t = ln (pad 20 (token_kind_name (tok_kind t)) @ '' '' @ pad 30 (printf_prec (length (tok_text t)) (tok_text t)) @ '' ''
     @ filename (tok_loc t) @ '':'' @ show_nat (line (tok_loc t)) @ '':''
     @ show_nat (column (tok_loc t)))"

text \<open>At most 10001 tokens are listed.\<close>

function dump_loop :: "lexer \<Rightarrow> nat \<Rightarrow> string \<times> nat \<times> lexer" where
  "dump_loop l count =
     (let (t, l') = lexer_next l in
      if tok_kind t = TOK_EOF then ([], count, l')
      else if count + 1 > 10000
      then (token_line t @ ln ''... (truncated after 10000 tokens)'', count + 1, l')
      else let (out, total, l'') = dump_loop l' (count + 1) in (token_line t @ out, total, l''))"
  by pat_completeness auto
termination
  by (relation "measure (\<lambda>(l, _). source_len l - lx_pos l + pending l)")
    (auto dest: lexer_next_progress [OF sym])

declare dump_loop.simps [simp del]

definition dump_tokens :: "lexer \<Rightarrow> string \<times> lexer" where
  "dump_tokens l =
    (let (out, total, l') = dump_loop l 0 in
     (ln ''=== TOKENS ==='' @ ln (pad 20 ''KIND'' @ '' '' @ pad 30 ''TEXT'' @ '' LOCATION'')
        @ ln (pad 20 ''----'' @ '' '' @ pad 30 ''----'' @ '' --------'') @ out
        @ ln [] @ ln (''Total: '' @ show_nat total @ '' tokens''), l'))"

section \<open>Phases\<close>

text \<open>Tokens and tree of a source; the node count of the arena starts at zero.\<close>

definition front_end :: "nat \<Rightarrow> string \<Rightarrow> string \<Rightarrow> diag_engine \<Rightarrow> (node \<times> parser \<times> diag_engine) option" where
  "front_end n source file dg = do {
     let (tokens, _, l) = tokenize source file dg;
     (ast, p) \<leftarrow> parser_parse n (parser_init tokens 0);
     Some (ast, p, lx_diag l)
   }"

definition analyse :: "world \<Rightarrow> nat \<Rightarrow> nat \<Rightarrow> node \<Rightarrow> diag_engine \<Rightarrow> sema option" where
  "analyse w k n ast dg = sema_run n ast (sema_new (w_addr w k) (w_junk w k) dg)"

definition sema_report_text :: "diag_engine \<Rightarrow> string" where
  "sema_report_text dg =
    (if error_count dg = 0 then ln ''ok''
     else concat (map (\<lambda>d. ln (dg_message d)) (filter is_error (items dg))))"

definition c_path :: "string \<Rightarrow> string" where
  "c_path file = take 1023 (file @ ''.c'')"

definition bin_path :: "string \<Rightarrow> string" where
  "bin_path file =
    (let b = take 1023 file in
     if length b > 5 \<and> has_suffix b ''.raya'' then take (length b - 5) b else b)"

definition cc_command :: "string \<Rightarrow> string" where
  "cc_command file = take 2047 (''cc -O2 -std=c11 -Isrc '' @ c_path file @ '' src/raya_rt.c -o ''
     @ bin_path file)"

text \<open>The build: only the errors of the diagnostics stop it.\<close>

definition build :: "world \<Rightarrow> nat \<Rightarrow> string \<Rightarrow> string \<Rightarrow> node \<Rightarrow> diag_engine \<Rightarrow> outcome option" where
  "build w n source file ast dg = do {
     s \<leftarrow> analyse w 1 n ast dg;
     let dg = sm_diag s;
     if error_count dg > 0
     then Some (finished [] (diag_print_all (w_isatty w) dg source @ diag_print_summary (w_isatty w) dg) 1)
     else if \<not> w_can_write w (c_path file)
     then Some (finished [] (ln (''error: could not write '' @ c_path file)) 1)
     else do {
       c \<leftarrow> codegen_c_emit n (w_show_g w) s ast;
       let out = ln (''Generated: '' @ c_path file) @ ln (''Running: '' @ cc_command file);
       Some (if w_system w (cc_command file) \<noteq> 0
         then \<lparr>oc_stdout = out, oc_stderr = ln ''error: C compilation failed'',
               oc_file = Some (c_path file, c), oc_status = 1\<rparr>
         else \<lparr>oc_stdout = out @ ln (''Built: '' @ bin_path file), oc_stderr = [],
               oc_file = Some (c_path file, c), oc_status = 0\<rparr>)
     }
   }"

text \<open>The end of a run without \<^verbatim>\<open>--build\<close>: the listing asked for, the report, the status.\<close>

definition report :: "world \<Rightarrow> nat \<Rightarrow> options \<Rightarrow> string \<Rightarrow> string \<Rightarrow> node \<Rightarrow> parser \<Rightarrow> diag_engine \<Rightarrow>
    outcome option" where
  "report w n opts source file ast p dg = do {
     out \<leftarrow> (if g_test_parser opts then test_parser n (Some ast) 0
       else if g_dump_ast opts
       then cat [Some (ln (ln (''Raya compiler '' @ RAYA_VERSION @ '' '' @ map char_of [226 :: nat, 128, 148]
           @ '' AST dump for '' @ quoted file))), ast_print (w_show_g w) n (Some ast) 0]
       else Some []);
     Some (finished out
       ((if error_count dg > 0 \<or> warning_count dg > 0 then diag_print_all (w_isatty w) dg source else [])
          @ diag_print_summary (w_isatty w) dg)
       (if has_errors dg \<or> p_had_error p then 1 else 0))
   }"

definition preceded :: "string \<Rightarrow> string \<Rightarrow> outcome \<Rightarrow> outcome" where
  "preceded out err oc = oc\<lparr>oc_stdout := out @ oc_stdout oc, oc_stderr := err @ oc_stderr oc\<rparr>"

definition compile :: "world \<Rightarrow> nat \<Rightarrow> options \<Rightarrow> string \<Rightarrow> string \<Rightarrow> diag_engine \<Rightarrow> outcome option" where
  "compile w n opts source file dg = do {
     (ast, p, dg) \<leftarrow> front_end n source file dg;
     oc \<leftarrow> (if g_test_sema opts
       then do {
         s \<leftarrow> analyse w 0 n ast dg;
         Some (finished (sema_report_text (sm_diag s)) []
           (if error_count (sm_diag s) > 0 then 1 else 0))
       }
       else do {
         dg \<leftarrow> (if g_check opts then map_option sm_diag (analyse w 0 n ast dg) else Some dg);
         if g_build opts then build w n source file ast dg else report w n opts source file ast p dg
       });
     Some (preceded [] (p_stderr p) oc)
   }"

definition run_file :: "world \<Rightarrow> nat \<Rightarrow> options \<Rightarrow> string \<Rightarrow> string \<Rightarrow> outcome option" where
  "run_file w n opts file source =
    (let dg = diag_init (w_isatty w);
         l = lexer_init source file dg in
     if g_test_lexer opts
     then let (out, l) = test_lexer l in
       Some (finished out [] (if has_errors (lx_diag l) then 1 else 0))
     else if g_dump_tokens opts
     then let (out, l) = dump_tokens l;
              head = ln (ln (''Raya compiler '' @ RAYA_VERSION @ '' '' @ map char_of [226 :: nat, 128, 148]
                @ '' compiling '' @ quoted file @ '' ('' @ show_nat (length source) @ '' bytes)'')) in
       map_option (preceded (head @ out) []) (compile w n opts source file (lx_diag l))
     else compile w n opts source file dg)"

definition main :: "world \<Rightarrow> nat \<Rightarrow> string list \<Rightarrow> outcome option" where
  "main w n argv =
    (case parse_args (hd argv) (tl argv) no_options None of
       Inl oc \<Rightarrow> Some oc
     | Inr (opts, None) \<Rightarrow>
         Some (finished [] (ln ''error: no input file'' @ print_usage (hd argv)) 1)
     | Inr (opts, Some file) \<Rightarrow>
         (case read_file (w_file w) file of
            Inl message \<Rightarrow> Some (finished [] (extension_warning file @ message) 1)
          | Inr source \<Rightarrow>
              map_option (preceded [] (extension_warning file)) (run_file w n opts file source)))"

end
