(* ===== verification/Driver_Laws.thy ===== *)
theory Driver_Laws
  imports Driver Parser_Frame Sema_Laws
begin

text \<open>
  What the exit status of the compiler says: the composition of the token array, the parser, the
  analysis and the report in \<^verbatim>\<open>main\<close>, from the invariants of the parts.
\<close>

section \<open>The parts\<close>

lemma tokenize_ok:
  assumes "tokenize source file dg = (tokens, cap, l)" "diag_ok dg"
  shows "diag_ok (lx_diag l) \<and> tokens \<noteq> [] \<and> tok_kind (last tokens) = TOK_EOF"
proof -
  let ?l = "lexer_init source file dg"
  have ok: "lx_ok ?l" "lx_current ?l = None"
    using assms(2) by (simp_all add: lexer_init_def lx_ok_def line_ok_def)
  obtain t l' arr where c: "collect_tokens ?l (0, []) = ((t, l'), arr)" by (metis prod.collapse)
  show ?thesis
    using collect_tokens_chain [OF ok c [unfolded prod.collapse]] c assms(1)
    by (auto simp: tokenize_def Let_def push_token_def eof_token_def lx_ok_def split: prod.splits if_splits)
qed

lemma front_end_ok:
  assumes "front_end n source file dg = Some (ast, p, dg')" "diag_ok dg"
  shows "diag_ok dg' \<and> (p_had_error p \<longleftrightarrow> p_stderr p \<noteq> [])"
proof -
  obtain tokens cap l where t: "tokenize source file dg = (tokens, cap, l)" by (metis prod.collapse)
  then have p: "parser_parse n (parser_init tokens 0) = Some (ast, p)" "dg' = lx_diag l"
    using assms(1) by (auto simp: front_end_def bind_eq_Some_conv)
  have "steps_to (parser_init tokens 0) p"
    using cursor.runs_parse [where n = n, OF cursor.R_refl [of "parser_init tokens 0"]] p(1) by (simp add: runs_def)
  moreover have "parser_ok (parser_init tokens 0)"
    using tokenize_ok [OF t assms(2)] by (simp add: parser_ok_def parser_init_def)
  ultimately show ?thesis
    using tokenize_ok [OF t assms(2)] p(2) by (simp add: steps_to_def parser_ok_def)
qed

text \<open>The counts the status is computed from.\<close>

definition counted :: "diag_engine \<Rightarrow> bool" where
  "counted dg \<longleftrightarrow> error_count dg = length (filter is_error (items dg)) \<and> (has_errors dg \<longleftrightarrow> error_count dg > 0)"

lemma analyse_ok:
  assumes "analyse w k n ast dg = Some s" "counted dg"
  shows "prefix (items dg) (items (sm_diag s)) \<and> counted (sm_diag s)"
proof -
  have d: "sm_diag (sema_new (w_addr w k) (w_junk w k) dg) = dg"
    by (simp add: sema_new_def Let_def case_prod_beta)
  obtain ds where "items (sm_diag s) = items dg @ ds" "\<forall>d \<in> set ds. is_error d"
      "error_count (sm_diag s) = error_count dg + length ds"
      "has_errors (sm_diag s) = (has_errors dg \<or> ds \<noteq> [])"
    using reported.sema_run_rule [OF assms(1) [unfolded analyse_def]] d by (auto simp: reported_def)
  then show ?thesis using assms(2) by (auto simp: counted_def)
qed

section \<open>Status\<close>

text \<open>The diagnostics after the runs of the analysis that the options ask for.\<close>

definition diagnosed :: "world \<Rightarrow> nat \<Rightarrow> options \<Rightarrow> node \<Rightarrow> diag_engine \<Rightarrow> diag_engine option" where
  "diagnosed w n opts ast dg =
    (if g_test_sema opts then map_option sm_diag (analyse w 0 n ast dg)
     else do {
       dg \<leftarrow> (if g_check opts then map_option sm_diag (analyse w 0 n ast dg) else Some dg);
       if g_build opts then map_option sm_diag (analyse w 1 n ast dg) else Some dg
     })"

lemma diagnosed_ok:
  assumes "diagnosed w n opts ast dg = Some q" "counted dg"
  shows "prefix (items dg) (items q) \<and> counted q"
  using assms
  by (auto simp: diagnosed_def bind_eq_Some_conv split: if_splits
      dest: analyse_ok intro: prefix_order.trans)

lemma no_errors: "counted q \<Longrightarrow> error_count q = 0 \<longleftrightarrow> (\<forall>d \<in> set (items q). \<not> is_error d)"
  by (simp add: counted_def filter_empty_conv)

lemma preceded_sel [simp]: "oc_status (preceded a b oc) = oc_status oc"
    "oc_stderr (preceded a b oc) = b @ oc_stderr oc" "oc_file (preceded a b oc) = oc_file oc"
  by (simp_all add: preceded_def)

lemma finished_sel [simp]: "oc_status (finished a b k) = k" "oc_stderr (finished a b k) = b"
    "oc_file (finished a b k) = None"
  by (simp_all add: finished_def)

lemma build_outcome:
  assumes "build w n source file ast dg = Some oc"
  shows "\<exists>s. analyse w 1 n ast dg = Some s \<and> oc_status oc \<in> {0, 1}
    \<and> (oc_status oc = 0 \<longleftrightarrow> error_count (sm_diag s) = 0 \<and> w_can_write w (c_path file) \<and> w_system w (cc_command file) = 0)
    \<and> (oc_file oc \<noteq> None \<longleftrightarrow> w_can_write w (c_path file) \<and> error_count (sm_diag s) = 0)"
proof -
  obtain s where s: "analyse w 1 n ast dg = Some s"
    using assms by (auto simp: build_def bind_eq_Some_conv)
  show ?thesis
  proof (cases "error_count (sm_diag s) > 0 \<or> \<not> w_can_write w (c_path file)")
    case True
    then show ?thesis using assms s by (auto simp: build_def Let_def split: if_splits)
  next
    case False
    then show ?thesis
      using assms s by (cases "w_system w (cc_command file) = 0") (auto simp: build_def Let_def bind_eq_Some_conv)
  qed
qed

lemma report_outcome:
  assumes "report w n opts source file ast p dg = Some oc"
  shows "oc_status oc = (if has_errors dg \<or> p_had_error p then 1 else 0) \<and> oc_file oc = None"
  using assms by (auto simp: report_def bind_eq_Some_conv)

text \<open>
  C4. The exit status of a run. Whatever the options, when lexer, parser, analysis and code
  generator return, every diagnostic of the lexer is still recorded in front of those of the analysis,
  and the status is 0 or 1. It is 0 if and only if no error is recorded and, without \<^verbatim>\<open>--build\<close> and
  \<^verbatim>\<open>--test-sema\<close>, the parser reported nothing; with \<^verbatim>\<open>--build\<close>, the C file could be opened and the
  C compiler succeeded. So a source with syntax errors is built and run through the C compiler, with
  the status 0, when the analysis finds nothing in what was left of it. A C file is written if and
  only if a build passed the analysis and could open it.
\<close>

theorem exit_status:
  assumes "compile w n opts source file dg = Some oc" "diag_ok dg"
  shows "\<exists>ast p dg1 q. front_end n source file dg = Some (ast, p, dg1)
    \<and> diagnosed w n opts ast dg1 = Some q \<and> prefix (items dg1) (items q)
    \<and> oc_status oc \<in> {0, 1}
    \<and> (oc_status oc = 0 \<longleftrightarrow> (\<forall>d \<in> set (items q). \<not> is_error d)
         \<and> (if g_test_sema opts then True
            else if g_build opts then w_can_write w (c_path file) \<and> w_system w (cc_command file) = 0
            else p_stderr p = []))
    \<and> (oc_file oc \<noteq> None \<longleftrightarrow> g_build opts \<and> \<not> g_test_sema opts \<and> w_can_write w (c_path file)
         \<and> (\<forall>d \<in> set (items q). \<not> is_error d))"
proof -
  obtain ast p dg1 where f: "front_end n source file dg = Some (ast, p, dg1)"
    using assms(1) by (auto simp: compile_def bind_eq_Some_conv)
  have ok: "counted dg1" "p_had_error p \<longleftrightarrow> p_stderr p \<noteq> []"
    using front_end_ok [OF f assms(2)] by (auto simp: counted_def diag_ok_def)
  have *: "\<exists>q. diagnosed w n opts ast dg1 = Some q \<and> oc_status oc \<in> {0, 1}
    \<and> (oc_status oc = 0 \<longleftrightarrow> error_count q = 0
         \<and> (if g_test_sema opts then True
            else if g_build opts then w_can_write w (c_path file) \<and> w_system w (cc_command file) = 0
            else p_stderr p = []))
    \<and> (oc_file oc \<noteq> None \<longleftrightarrow> g_build opts \<and> \<not> g_test_sema opts \<and> w_can_write w (c_path file) \<and> error_count q = 0)"
  proof (cases "g_test_sema opts")
    case True
    then show ?thesis
      using assms(1) f by (auto simp: compile_def diagnosed_def bind_eq_Some_conv)
  next
    case False
    then obtain dg2 oc2 where d: "(if g_check opts then map_option sm_diag (analyse w 0 n ast dg1) else Some dg1) = Some dg2"
        "(if g_build opts then build w n source file ast dg2 else report w n opts source file ast p dg2) = Some oc2"
        "oc = preceded [] (p_stderr p) oc2"
      using assms(1) f by (auto simp: compile_def bind_eq_Some_conv)
    show ?thesis
    proof (cases "g_build opts")
      case True
      then have b: "build w n source file ast dg2 = Some oc2" using d(2) by simp
      from build_outcome [OF b] show ?thesis
        using True d(1,3) False by (auto simp: diagnosed_def)
    next
      case nb: False
      then have "diagnosed w n opts ast dg1 = Some dg2" using d(1) False by (simp add: diagnosed_def)
      moreover from diagnosed_ok [OF this ok(1)] have "has_errors dg2 \<longleftrightarrow> error_count dg2 > 0" by (simp add: counted_def)
      ultimately show ?thesis using report_outcome [where oc = oc2 and dg = dg2] d nb ok(2) False by simp
    qed
  qed
  then obtain q where q: "diagnosed w n opts ast dg1 = Some q" by (elim exE conjE)
  have "prefix (items dg1) (items q)" "counted q" using diagnosed_ok [OF q ok(1)] by simp_all
  from * [unfolded q option.inject ex_simps simp_thms no_errors [OF this(2)]] f q this(1) show ?thesis
    by (intro exI conjI) (simp_all only: no_errors [OF \<open>counted q\<close>] simp_thms option.inject)
qed

text \<open>The empty file, without options, when the lexer has already recorded nothing.\<close>

definition demo_world :: world where
  "demo_world = \<lparr>w_isatty = False, w_file = (\<lambda>_. None), w_can_write = (\<lambda>_. False), w_system = (\<lambda>_. 0),
     w_addr = (\<lambda>_ _. 0), w_junk = (\<lambda>_. None), w_show_g = id\<rparr>"

lemma demo_front_end: "case front_end 2 [] ''a.raya'' (diag_init False) of
    None \<Rightarrow> False | Some (_, p, _) \<Rightarrow> p_stderr p = []"
  by code_simp

theorem exit_status_witness:
  "\<exists>oc. compile demo_world 2 no_options [] ''a.raya'' (diag_init False) = Some oc \<and> oc_status oc \<in> {0, 1}"
proof -
  obtain oc where oc: "compile demo_world 2 no_options [] ''a.raya'' (diag_init False) = Some oc"
    using demo_front_end by (auto simp: compile_def no_options_def report_def split: option.splits prod.splits)
  from exit_status [OF oc] show ?thesis using oc by auto
qed

end
