(* ===== verification/Spec2Isabelle.thy ===== *)
theory Spec2Isabelle
  imports Arena Parser_Termination Parser_Precedence Sema_Cases Codegen_Laws Runtime Driver_Laws
begin

text \<open>
  Verification of rayac, the compiler from Raya to C (\<^verbatim>\<open>src/*.c\<close>, \<^verbatim>\<open>src/*.h\<close> of the
  repository's directory \<^verbatim>\<open>src\<close>).

  \<^bold>\<open>The program.\<close> \<^verbatim>\<open>main\<close> reads the options and one file, collects the tokens of the lexer in
  an array, parses it to a syntax tree whose nodes live in an arena, runs the semantic analysis
  (\<^verbatim>\<open>--check\<close>, \<^verbatim>\<open>--test-sema\<close>, \<^verbatim>\<open>--build\<close>), which annotates the nodes with interned types and
  reports to the diagnostic engine, and for \<^verbatim>\<open>--build\<close> writes C from the annotated tree and calls
  the C compiler. Lexer and analysis report to the diagnostic engine, the parser to the error stream.

  \<^bold>\<open>Theories, in the order of the code, and what they model.\<close>
  \<^item> \<^verbatim>\<open>Raya_Prelude\<close>: C scalar types, the ways an execution can end without a result, decimal output,
    the lemma collections.
  \<^item> \<^verbatim>\<open>Arena\<close> (\<^verbatim>\<open>arena.c\<close>): the chain of chunks with 64-bit sizes that wrap, and its memory.
  \<^item> \<^verbatim>\<open>String_View\<close> (\<^verbatim>\<open>string_view.h\<close>), \<^verbatim>\<open>Diag\<close> (\<^verbatim>\<open>source_loc.h\<close>, \<^verbatim>\<open>diag.c\<close>): views, locations, the
    growing array of diagnostics, its counters, the printed report.
  \<^item> \<^verbatim>\<open>Token\<close>, \<^verbatim>\<open>Lexer\<close> (\<^verbatim>\<open>lexer.h\<close>, \<^verbatim>\<open>lexer.c\<close>): the record \<open>lexer\<close> has the fields of the C struct; one
    definition per C function. \<^verbatim>\<open>Tokenize\<close> adds the loop of \<^verbatim>\<open>main\<close> that fills the array.
  \<^item> \<^verbatim>\<open>Ast\<close>, \<^verbatim>\<open>Ast_List\<close>, \<^verbatim>\<open>Ast_Build\<close>, \<^verbatim>\<open>Ast_Print\<close> (\<^verbatim>\<open>ast.h\<close>, \<^verbatim>\<open>ast.c\<close>, \<^verbatim>\<open>test_parser\<close> of \<^verbatim>\<open>main.c\<close>): the tree
    as datatypes with the constructors of the C enumerations, the growing arrays, the creating and
    extending functions, the dumps. Nodes carry a number, the order of their allocation.
  \<^item> \<^verbatim>\<open>Parser\<close>, \<^verbatim>\<open>Parse_Decl\<close>, \<^verbatim>\<open>Parse_Messages\<close> (\<^verbatim>\<open>parser.c\<close>): every parsing function as a function of the
    record \<open>parser\<close>. The mutual recursion runs through the record \<open>parsers\<close> of the functions that are
    called back; \<open>parsers_at n\<close> is that record with fuel \<open>n\<close>.
  \<^item> \<^verbatim>\<open>Types\<close> (\<^verbatim>\<open>type.c\<close>), \<^verbatim>\<open>Symbols\<close> (\<^verbatim>\<open>symbol.c\<close>): objects in stores, pointers as positions, hash chains
    as lists; the addresses that the hash of a type depends on are a parameter.
  \<^item> \<^verbatim>\<open>Sema\<close> (\<^verbatim>\<open>sema.c\<close>): both passes, one definition per function and per large case; the annotations
    of the tree are the map \<open>sm_type_of\<close> from node numbers to types; \<open>checkers_at n\<close> ties the recursion.
  \<^item> \<^verbatim>\<open>Codegen\<close> (\<^verbatim>\<open>codegen_c.c\<close>): every emitting function as a function of the record \<open>cgen\<close>, whose
    \<open>cg_out\<close> is the text written so far; \<open>emitters_at n\<close> ties the recursion.
  \<^item> \<^verbatim>\<open>Driver\<close> (\<^verbatim>\<open>main.c\<close>): options, \<^verbatim>\<open>read_file\<close>, dumps, the composition of the phases, output and exit
    status; the operating system is the record \<open>world\<close>. \<^verbatim>\<open>Runtime\<close> (\<^verbatim>\<open>raya_rt.c\<close>): what the functions
    linked to the generated program write.

  \<^bold>\<open>What is proved.\<close>
  \<^item> Memory: allocations are aligned, in bounds and pairwise disjoint; copies and \<^verbatim>\<open>realloc\<close> keep
    their bytes; after a reset every block is empty and used again; growing arrays implement list
    append; the one unchecked sum.
  \<^item> Lexer (\<^verbatim>\<open>Tokenize\<close>): the token array is the source cut at white space and comments, every token is
    a slice of it with its exact line; words, numbers, lookahead.
  \<^item> Parser: \<^verbatim>\<open>Parser_Facts\<close> shows that more fuel never changes a result, by a calculus with one rule
    per construct; \<^verbatim>\<open>Parser_Frame\<close> has the locale \<open>parser_rules\<close> of relations every parsing function
    respects, interpreted for the cursor and the error report; \<^verbatim>\<open>Parser_Termination\<close> shows with rules
    that follow a run that fuel four times the number of tokens is enough for every array without
    \<^verbatim>\<open>match\<close>, and that the loop over match arms can stand still for ever; \<^verbatim>\<open>Parser_Precedence\<close> has a
    grammar of operator expressions with a table of operator levels of its own, and shows that the
    tokens of an expression, with the parentheses it needs, are parsed back as its tree.
  \<^item> Types (\<^verbatim>\<open>Type_Facts\<close>, \<^verbatim>\<open>Type_Laws\<close>): the table's pointers denote trees (\<open>denote\<close>), equal trees have
    one pointer, and coercion and resolution are functions of the trees.
  \<^item> Scopes (\<^verbatim>\<open>Symbols\<close>): the locale \<open>keyed_table\<close>, a map that newer entries hide, is interpreted for
    scopes and in \<^verbatim>\<open>Sema_Cases\<close> for the method table.
  \<^item> Analysis: \<^verbatim>\<open>Sema_Frame\<close> shows once that every function of \<^verbatim>\<open>sema.c\<close> stays inside any pair of
    relations that satisfies the locale \<open>checker_rules\<close> (\<open>report_rules\<close> when the two coincide).
    \<^verbatim>\<open>Sema_Laws\<close> interprets them: errors are counted, types keep their meaning, expressions and blocks
    leave the scopes as they were. \<^verbatim>\<open>Sema_Types\<close> compares the analysis of operator expressions, calls,
    indexing and slicing with the reference typing \<open>infer\<close> on trees. \<^verbatim>\<open>Sema_Cases\<close> has methods, constants and the inputs with no result.
  \<^item> Code generator: \<^verbatim>\<open>Codegen_Frame\<close> shows that every emitting function only appends and restores levels
    (\<open>steady\<close>); \<^verbatim>\<open>Codegen_Laws\<close> has what is emitted for \<^verbatim>\<open>return\<close> and for a block with its deferred expressions,
    their bound, string escapes read by a model of the C lexer (trigraphs included), and the
    agreement of the two functions that write C types.
  \<^item> Driver (\<^verbatim>\<open>Driver_Laws\<close>): the exit status and the C file as a function of what was reported.

  \<^bold>\<open>Fuel and missing results.\<close> Recursion that is not structural in the data of the model takes fuel.
  For the parser four times the number of tokens is enough, as proved. The analysis and the generator
  recurse on the tree; \<open>infer_checks\<close> and \<open>const_expr_modular\<close> give the fuel that is enough for
  expressions, the depth of the tree. \<open>None\<close> stands for a run that needs more fuel and for one
  without a defined result: reading a union member that was not written, a null pointer, signed
  overflow, an index past an array. Where the members of a union variant that was not written are
  defined nevertheless the model reads them: \<open>block_members\<close> has what an if node without a then
  block looks like as a block. That no fuel gives a result is stated as such for \<^verbatim>\<open>else if\<close>, for
  constants defined by each other and for match arms. A \<^verbatim>\<open>return\<close> in a deferred \<^verbatim>\<open>unsafe\<close> block has none either: it emits the deferred
  expressions again, one level deeper, until the 64 levels are used up; the code then writes past
  the end of its stack, where the model has \<open>None\<close>.

  \<^bold>\<open>Parameters.\<close> \<^verbatim>\<open>malloc\<close> and the addresses it returns, the terminal test, files, the C compiler, the
  uninitialised field \<^verbatim>\<open>current_fn_return_type\<close>, and the format \<^verbatim>\<open>%g\<close>. A float literal is the text
  \<^verbatim>\<open>strtod\<close> reads it from. The format \<^verbatim>\<open>%.*s\<close> is modelled, with its end at a zero byte, where it is
  given bytes of the source or of a literal; names and types are made of identifiers, which have none.

  \<^bold>\<open>Not modelled.\<close> The test harness under \<^verbatim>\<open>src/tests\<close> and the checked-in generated C files; the freeing
  of memory at the end of the process; the eight rotating buffers of \<^verbatim>\<open>st_name\<close> (a name is its text);
  the arena behind the trees, types and symbols, which are values and stores of their own: an
  allocation there is assumed to succeed.
\<close>

end
